(* ===== verification/Prelude.thy ===== *)
theory Prelude
  imports Main "HOL-Library.Word" "HOL-Library.Char_ord" "HOL-Library.List_Lexorder"
    "HOL-Library.Sublist"
begin

text \<open>
  Shared vocabulary of the development: the machine integers, the string operations of the
  Rust standard library that the program uses, and the generic list lemmas of the component
  proofs.

  A Rust \<open>String\<close> is a \<open>string\<close>, the list of its bytes.  \<open>to_lowercase\<close>, \<open>trim\<close> and
  \<open>is_numeric\<close> act on ASCII here; on text outside ASCII Rust also folds the Unicode letters
  and spaces, which this model leaves alone.  An \<open>i64\<close> is an \<open>int\<close> with the two's-complement
  wrap-around of the release build written out (\<open>wrap64\<close>) wherever the code's arithmetic can
  leave the range; \<open>usize\<close> and \<open>u64\<close> are \<open>nat\<close>, with saturation or bounds written out.
\<close>

named_theorems str_simps \<open>equations of the string operations, for evaluating them on literals\<close>

subsection \<open>Machine integers\<close>

type_synonym i64 = int
type_synonym i32 = int
type_synonym f64_bits = "64 word"

definition i64_max :: int where "i64_max = 9223372036854775807"
definition i64_min :: int where "i64_min = - 9223372036854775808"
definition u64_max :: nat where "u64_max = 18446744073709551615"
definition u32_max :: nat where "u32_max = 4294967295"
definition u128_max :: nat where "u128_max = 340282366920938463463374607431768211455"

text \<open>Two's-complement wrap-around to 64 bits, and the operations of \<open>i64\<close> built on it.\<close>

definition wrap64 :: "int \<Rightarrow> i64" where
  "wrap64 x = (x + 9223372036854775808) mod 18446744073709551616 - 9223372036854775808"

definition i64_mul :: "i64 \<Rightarrow> i64 \<Rightarrow> i64" where "i64_mul a b = wrap64 (a * b)"
definition i64_sub :: "i64 \<Rightarrow> i64 \<Rightarrow> i64" where "i64_sub a b = wrap64 (a - b)"
definition i64_neg :: "i64 \<Rightarrow> i64" where "i64_neg a = wrap64 (- a)"
definition i64_abs :: "i64 \<Rightarrow> i64" where "i64_abs a = (if a < 0 then i64_neg a else a)"

definition in_i64 :: "int \<Rightarrow> bool" where
  "in_i64 x \<longleftrightarrow> i64_min \<le> x \<and> x \<le> i64_max"

lemma wrap64_id: "in_i64 x \<Longrightarrow> wrap64 x = x"
  by (simp add: in_i64_def wrap64_def i64_min_def i64_max_def)

lemma wrap64_in_i64: "in_i64 (wrap64 x)"
  by (simp add: in_i64_def wrap64_def i64_min_def i64_max_def)

definition sat_sub :: "nat \<Rightarrow> nat \<Rightarrow> nat" where
  "sat_sub a b = a - b"  \<comment> \<open>\<open>saturating_sub\<close> on an unsigned integer\<close>

definition sat_add64 :: "nat \<Rightarrow> nat \<Rightarrow> nat" where
  "sat_add64 a b = min (a + b) u64_max"

definition sat_mul64 :: "nat \<Rightarrow> nat \<Rightarrow> nat" where
  "sat_mul64 a b = min (a * b) u64_max"

subsection \<open>Characters\<close>

definition lower_char :: "char \<Rightarrow> char" where
  "lower_char c =
     (let n = (of_char c :: nat) in if 65 \<le> n \<and> n \<le> 90 then char_of (n + 32) else c)"

definition upper_char :: "char \<Rightarrow> char" where
  "upper_char c =
     (let n = (of_char c :: nat) in if 97 \<le> n \<and> n \<le> 122 then char_of (n - 32) else c)"

definition is_ws :: "char \<Rightarrow> bool" where
  "is_ws c = (let n = (of_char c :: nat) in n = 32 \<or> (9 \<le> n \<and> n \<le> 13))"

definition is_digit :: "char \<Rightarrow> bool" where
  "is_digit c = (let n = (of_char c :: nat) in 48 \<le> n \<and> n \<le> 57)"

definition digit_val :: "char \<Rightarrow> nat" where
  "digit_val c = (of_char c :: nat) - 48"

definition is_hexdigit :: "char \<Rightarrow> bool" where
  "is_hexdigit c = (let n = (of_char c :: nat)
     in (48 \<le> n \<and> n \<le> 57) \<or> (65 \<le> n \<and> n \<le> 70) \<or> (97 \<le> n \<and> n \<le> 102))"

subsection \<open>String operations\<close>

definition to_lower :: "string \<Rightarrow> string" where
  "to_lower s = map lower_char s"

definition to_upper :: "string \<Rightarrow> string" where
  "to_upper s = map upper_char s"

definition trim_start :: "string \<Rightarrow> string" where
  "trim_start s = dropWhile is_ws s"

definition trim_end_of :: "char \<Rightarrow> string \<Rightarrow> string" where
  "trim_end_of c s = rev (dropWhile (\<lambda>x. x = c) (rev s))"

definition trim :: "string \<Rightarrow> string" where
  "trim s = rev (dropWhile is_ws (rev (dropWhile is_ws s)))"

definition eq_ignore_case :: "string \<Rightarrow> string \<Rightarrow> bool" where
  "eq_ignore_case a b \<longleftrightarrow> to_lower a = to_lower b"

fun strip_prefix :: "string \<Rightarrow> string \<Rightarrow> string option" where
  "strip_prefix s [] = Some s"
| "strip_prefix [] (p # ps) = None"
| "strip_prefix (c # cs) (p # ps) = (if c = p then strip_prefix cs ps else None)"

definition starts_with :: "string \<Rightarrow> string \<Rightarrow> bool" where
  "starts_with s p \<longleftrightarrow> strip_prefix s p \<noteq> None"

definition ends_with :: "string \<Rightarrow> string \<Rightarrow> bool" where
  "ends_with s p \<longleftrightarrow> starts_with (rev s) (rev p)"

definition strip_suffix :: "string \<Rightarrow> string \<Rightarrow> string option" where
  "strip_suffix s p = map_option rev (strip_prefix (rev s) (rev p))"

fun contains :: "string \<Rightarrow> string \<Rightarrow> bool" where
  "contains [] p = (p = [])"
| "contains (c # cs) p = (starts_with (c # cs) p \<or> contains cs p)"

text \<open>\<open>str::find\<close>: the byte offset of the first occurrence.\<close>

fun find_str :: "string \<Rightarrow> string \<Rightarrow> nat option" where
  "find_str [] p = (if p = [] then Some 0 else None)"
| "find_str (c # cs) p =
     (if starts_with (c # cs) p then Some 0 else map_option Suc (find_str cs p))"

text \<open>\<open>str::split(char)\<close> always yields at least one piece.\<close>

fun split_on :: "char \<Rightarrow> string \<Rightarrow> string list" where
  "split_on d [] = [[]]"
| "split_on d (c # cs) =
     (if c = d then [] # split_on d cs
      else (case split_on d cs of [] \<Rightarrow> [[c]] | w # ws \<Rightarrow> (c # w) # ws))"

text \<open>\<open>str::split(&str)\<close> of a non-empty pattern.\<close>

fun split_str_go :: "nat \<Rightarrow> string \<Rightarrow> string \<Rightarrow> string \<Rightarrow> string list" where
  "split_str_go skip acc [] pat = [rev acc]"
| "split_str_go (Suc k) acc (c # cs) pat = split_str_go k acc cs pat"
| "split_str_go 0 acc (c # cs) pat =
     (if starts_with (c # cs) pat then rev acc # split_str_go (length pat - 1) [] cs pat
      else split_str_go 0 (c # acc) cs pat)"

definition split_str :: "string \<Rightarrow> string \<Rightarrow> string list" where
  "split_str pat s = split_str_go 0 [] s pat"

fun split_once :: "char \<Rightarrow> string \<Rightarrow> (string \<times> string) option" where
  "split_once d [] = None"
| "split_once d (c # cs) =
     (if c = d then Some ([], cs)
      else map_option (\<lambda>(a, b). (c # a, b)) (split_once d cs))"

fun join :: "string \<Rightarrow> string list \<Rightarrow> string" where
  "join sep [] = []"
| "join sep [w] = w"
| "join sep (w # ws) = w @ sep @ join sep ws"

text \<open>\<open>str::replace\<close> of a non-empty pattern, left to right and without overlap.\<close>

fun replace_go :: "nat \<Rightarrow> string \<Rightarrow> string \<Rightarrow> string \<Rightarrow> string" where
  "replace_go skip [] pat r = []"
| "replace_go (Suc k) (c # cs) pat r = replace_go k cs pat r"
| "replace_go 0 (c # cs) pat r =
     (if starts_with (c # cs) pat then r @ replace_go (length pat - 1) cs pat r
      else c # replace_go 0 cs pat r)"

definition replace_str :: "string \<Rightarrow> string \<Rightarrow> string \<Rightarrow> string" where
  "replace_str s pat r = replace_go 0 s pat r"

text \<open>\<open>str::replacen(pat, r, 1)\<close>.\<close>

fun replace_first :: "string \<Rightarrow> string \<Rightarrow> string \<Rightarrow> string" where
  "replace_first [] pat r = []"
| "replace_first (c # cs) pat r =
     (case strip_prefix (c # cs) pat of
        Some rest \<Rightarrow> r @ rest
      | None \<Rightarrow> c # replace_first cs pat r)"

subsection \<open>Laws of the string operations\<close>

lemma strip_prefix_Some: "strip_prefix s p = Some r \<longleftrightarrow> s = p @ r"
  by (induction s p rule: strip_prefix.induct) auto

lemma starts_with_prefix: "starts_with s p \<longleftrightarrow> prefix p s"
  by (auto simp: starts_with_def strip_prefix_Some prefix_def)

lemma starts_with_append [simp]: "starts_with (p @ r) p"
  by (simp add: starts_with_prefix)

lemma starts_with_code [code]:
  "starts_with s [] = True"
  "starts_with [] (p # ps) = False"
  "starts_with (c # cs) (p # ps) = (c = p \<and> starts_with cs ps)"
  by (simp_all add: starts_with_def)

lemma ends_with_suffix: "ends_with s p \<longleftrightarrow> suffix p s"
  by (simp add: ends_with_def starts_with_prefix suffix_to_prefix)

lemma contains_sublist: "contains s p \<longleftrightarrow> sublist p s"
proof (induction s)
  case (Cons c cs)
  then show ?case
    by (auto simp: starts_with_prefix sublist_Cons_right)
qed auto

lemma contains_append_left: "contains s p \<Longrightarrow> contains (r @ s) p"
  by (auto simp: contains_sublist sublist_append)

lemma contains_append_right: "contains s p \<Longrightarrow> contains (s @ r) p"
  by (auto simp: contains_sublist sublist_append)

lemma contains_self [simp]: "contains (a @ p @ b) p"
  by (auto simp: contains_sublist)

lemma find_str_None: "find_str s p = None \<longleftrightarrow> \<not> contains s p"
  by (induction s) auto

lemma find_str_Some:
  "find_str s p = Some i \<Longrightarrow> i + length p \<le> length s \<and> starts_with (drop i s) p"
proof (induction s arbitrary: i)
  case (Cons c cs)
  then show ?case
    by (auto simp: starts_with_prefix prefix_length_le split: if_splits)
      (use prefix_length_le in fastforce)
qed (auto simp: starts_with_prefix split: if_splits)

lemma split_on_not_Nil [simp]: "split_on d s \<noteq> []"
  by (induction s) (auto split: list.splits)

lemma split_on_no_sep: "w \<in> set (split_on d s) \<Longrightarrow> d \<notin> set w"
proof (induction s arbitrary: w)
  case (Cons c cs)
  then show ?case by (auto split: if_splits list.splits)
qed simp

lemma join_split_on [simp]: "join [d] (split_on d s) = s"
proof (induction s)
  case (Cons c cs)
  show ?case
  proof (cases "split_on d cs")
    case Nil then show ?thesis by simp
  next
    case (Cons w ws)
    then show ?thesis using Cons.IH by (cases ws) auto
  qed
qed simp

lemma split_once_Some: "split_once d s = Some (a, b) \<Longrightarrow> s = a @ d # b \<and> d \<notin> set a"
  by (induction s arbitrary: a b) (auto split: if_splits)

lemma split_once_append [simp]: "d \<notin> set a \<Longrightarrow> split_once d (a @ d # b) = Some (a, b)"
  by (induction a) auto

lemma split_on_word: "d \<notin> set w \<Longrightarrow> split_on d w = [w]"
  by (induction w) auto

lemma split_on_cons: "d \<notin> set w \<Longrightarrow> split_on d (w @ d # s) = w # split_on d s"
  by (induction w) auto

lemma split_on_join:
  "ws \<noteq> [] \<Longrightarrow> (\<And>w. w \<in> set ws \<Longrightarrow> d \<notin> set w) \<Longrightarrow> split_on d (join [d] ws) = ws"
proof (induction ws rule: induct_list012)
  case (2 w)
  then show ?case by (simp add: split_on_word)
next
  case (3 w w' ws)
  have "split_on d (join [d] (w' # ws)) = w' # ws"
    using "3.IH"(2) "3.prems"(2) by simp
  with "3.prems"(2) show ?case by (simp add: split_on_cons)
qed simp

lemma split_on_append_word:
  "d \<notin> set x \<Longrightarrow> split_on d (p @ x) = butlast (split_on d p) @ [last (split_on d p) @ x]"
proof (induction p)
  case (Cons c cs)
  obtain w ws where "split_on d cs = w # ws" by (cases "split_on d cs") simp_all
  with Cons show ?case by (cases ws) auto
qed (simp add: split_on_word)

lemma split_on_append_sep: "split_on d (p @ d # x) = split_on d p @ split_on d x"
proof (induction p)
  case (Cons c cs)
  obtain w ws where "split_on d cs = w # ws" by (cases "split_on d cs") simp_all
  with Cons show ?case by auto
qed simp

lemma last_split_on_append:
  "d \<notin> set x \<Longrightarrow> last (split_on d (p @ x)) = last (split_on d p) @ x"
  by (simp add: split_on_append_word)

lemma last_split_on_sep: "d \<notin> set x \<Longrightarrow> last (split_on d (p @ d # x)) = x"
  by (simp add: split_on_append_sep split_on_word)

lemma join_inject:
  assumes "join [d] xs = join [d] ys" "xs \<noteq> []" "ys \<noteq> []"
    "\<And>w. w \<in> set xs \<union> set ys \<Longrightarrow> d \<notin> set w"
  shows "xs = ys"
proof -
  have "split_on d (join [d] xs) = xs"
    by (rule split_on_join) (use assms(2,4) in blast)+
  moreover have "split_on d (join [d] ys) = ys"
    by (rule split_on_join) (use assms(3,4) in blast)+
  ultimately show ?thesis using assms(1) by metis
qed

lemma split_once_None: "split_once d s = None \<longleftrightarrow> d \<notin> set s"
  by (induction s) auto

lemma to_lower_idem [simp]: "to_lower (to_lower s) = to_lower s"
proof -
  have "lower_char (lower_char c) = lower_char c" for c
    by (cases "65 \<le> (of_char c :: nat) \<and> (of_char c :: nat) \<le> 90")
      (auto simp: lower_char_def Let_def)
  then show ?thesis by (simp add: to_lower_def)
qed

lemma length_to_lower [simp]: "length (to_lower s) = length s"
  by (simp add: to_lower_def)

lemma to_lower_append [simp]: "to_lower (a @ b) = to_lower a @ to_lower b"
  by (simp add: to_lower_def)

lemma replace_go_skip: "length xs = k \<Longrightarrow> replace_go k (xs @ s) pat r = replace_go 0 s pat r"
  by (induction xs arbitrary: k) auto

lemma replace_str_match:
  "pat \<noteq> [] \<Longrightarrow> replace_str (pat @ s) pat r = r @ replace_str s pat r"
  by (cases pat) (auto simp: replace_str_def replace_go_skip starts_with_prefix)

lemma replace_str_word:
  "pat \<noteq> [] \<Longrightarrow> hd pat \<notin> set w \<Longrightarrow> replace_str (w @ s) pat r = w @ replace_str s pat r"
  by (induction w) (auto simp: replace_str_def starts_with_prefix prefix_Cons neq_Nil_conv)

lemma replace_str_Nil [simp]: "replace_str [] pat r = []"
  by (simp add: replace_str_def)

subsection \<open>Numbers in text\<close>

text \<open>\<open>Display\<close> of an unsigned integer, and \<open>str::parse\<close> of the integer types: an optional
  sign, at least one digit, nothing else, and the value within the type's range.\<close>

fun show_nat :: "nat \<Rightarrow> string" where
  "show_nat n =
     (if n < 10 then [char_of (n + 48)] else show_nat (n div 10) @ [char_of (n mod 10 + 48)])"

declare show_nat.simps [simp del]

definition show_int :: "int \<Rightarrow> string" where
  "show_int i = (if i < 0 then CHR ''-'' # show_nat (nat (- i)) else show_nat (nat i))"

definition parse_digits :: "string \<Rightarrow> nat option" where
  "parse_digits s = (if s \<noteq> [] \<and> list_all is_digit s
     then Some (foldl (\<lambda>n c. 10 * n + digit_val c) 0 s) else None)"

definition parse_uint :: "nat \<Rightarrow> string \<Rightarrow> nat option" where
  "parse_uint mx s =
     (case parse_digits (case s of c # cs \<Rightarrow> (if c = CHR ''+'' then cs else s) | [] \<Rightarrow> []) of
        Some n \<Rightarrow> (if n \<le> mx then Some n else None)
      | None \<Rightarrow> None)"

definition parse_int :: "int \<Rightarrow> int \<Rightarrow> string \<Rightarrow> int option" where
  "parse_int lo hi s =
     (case s of
        [] \<Rightarrow> None
      | c # cs \<Rightarrow>
          (case (if c = CHR ''-'' then map_option (\<lambda>n. - int n) (parse_digits cs)
                 else if c = CHR ''+'' then map_option int (parse_digits cs)
                 else map_option int (parse_digits s)) of
             Some i \<Rightarrow> (if lo \<le> i \<and> i \<le> hi then Some i else None)
           | None \<Rightarrow> None))"

definition parse_i64 :: "string \<Rightarrow> i64 option" where
  "parse_i64 s = parse_int i64_min i64_max s"

definition parse_i32 :: "string \<Rightarrow> i32 option" where
  "parse_i32 s = parse_int (- 2147483648) 2147483647 s"

definition parse_usize :: "string \<Rightarrow> nat option" where
  "parse_usize s = parse_uint u64_max s"

lemma digit_char:
  assumes "n < 10"
  shows "is_digit (char_of (n + 48 :: nat))" and "digit_val (char_of (n + 48 :: nat)) = n"
  using assms by (auto simp: is_digit_def digit_val_def Let_def)

lemma foldl_digits_append:
  "foldl (\<lambda>n c. 10 * n + digit_val c) m (a @ [c]) =
   10 * foldl (\<lambda>n c. 10 * n + digit_val c) m a + digit_val c"
  by simp

lemma show_nat_digits: "show_nat n \<noteq> [] \<and> list_all is_digit (show_nat n)"
proof (induction n rule: show_nat.induct)
  case (1 n)
  show ?case
  proof (cases "n < 10")
    case True
    then show ?thesis by (subst (1 2) show_nat.simps) (simp add: digit_char)
  next
    case False
    with 1 show ?thesis by (subst (1 2) show_nat.simps) (simp add: digit_char)
  qed
qed

lemma parse_digits_show_nat [simp]: "parse_digits (show_nat n) = Some n"
proof -
  have "foldl (\<lambda>n c. 10 * n + digit_val c) 0 (show_nat n) = n"
  proof (induction n rule: show_nat.induct)
    case (1 n)
    show ?case
    proof (cases "n < 10")
      case True
      then show ?thesis by (subst show_nat.simps) (simp add: digit_char)
    next
      case False
      with 1 show ?thesis by (subst show_nat.simps) (simp add: digit_char)
    qed
  qed
  with show_nat_digits [of n] show ?thesis by (simp add: parse_digits_def)
qed

lemma show_nat_no_sign: "\<exists>c cs. show_nat n = c # cs \<and> c \<noteq> CHR ''-'' \<and> c \<noteq> CHR ''+''"
proof -
  obtain c cs where s: "show_nat n = c # cs"
    using show_nat_digits [of n] by (cases "show_nat n") auto
  with show_nat_digits [of n] have "is_digit c" by simp
  then have "c \<noteq> CHR ''-'' \<and> c \<noteq> CHR ''+''"
    by (auto simp: is_digit_def Let_def)
  with s show ?thesis by blast
qed

lemma show_nat_char: "c \<in> set (show_nat n) \<Longrightarrow> is_digit c"
  using show_nat_digits [of n] by (auto simp: list_all_iff)

lemma parse_uint_show_nat: "n \<le> mx \<Longrightarrow> parse_uint mx (show_nat n) = Some n"
proof -
  assume n: "n \<le> mx"
  obtain c cs where s: "show_nat n = c # cs" and c: "c \<noteq> CHR ''+''"
    using show_nat_no_sign [of n] by blast
  then have "parse_digits (c # cs) = Some n" using parse_digits_show_nat [of n] by simp
  with n s c show ?thesis by (simp add: parse_uint_def)
qed

lemma parse_usize_show_nat [simp]: "n \<le> u64_max \<Longrightarrow> parse_usize (show_nat n) = Some n"
  by (simp add: parse_usize_def parse_uint_show_nat)

lemma parse_int_show_int:
  assumes "lo \<le> i" "i \<le> hi"
  shows "parse_int lo hi (show_int i) = Some i"
proof (cases "i < 0")
  case True
  with assms show ?thesis by (simp add: parse_int_def show_int_def)
next
  case False
  obtain c cs where s: "show_nat (nat i) = c # cs" and c: "c \<noteq> CHR ''-''" "c \<noteq> CHR ''+''"
    using show_nat_no_sign [of "nat i"] by blast
  then have "parse_digits (c # cs) = Some (nat i)" using parse_digits_show_nat [of "nat i"] by simp
  with False assms s c show ?thesis by (simp add: parse_int_def show_int_def)
qed

lemma parse_i64_show_int: "in_i64 i \<Longrightarrow> parse_i64 (show_int i) = Some i"
  by (simp add: parse_i64_def parse_int_show_int in_i64_def)

lemma parse_i64_range: "parse_i64 s = Some i \<Longrightarrow> in_i64 i"
  by (auto simp: parse_i64_def parse_int_def in_i64_def split: list.splits option.splits if_splits)

lemmas str_eval =
  lower_char_def upper_char_def is_ws_def is_digit_def digit_val_def is_hexdigit_def to_lower_def
  to_upper_def trim_def trim_start_def eq_ignore_case_def starts_with_code ends_with_def
  strip_suffix_def replace_str_def split_str_def parse_digits_def parse_int_def parse_uint_def parse_usize_def
  parse_i64_def parse_i32_def show_int_def show_nat.simps
declare str_eval [str_simps]

subsection \<open>Lists and options\<close>

text \<open>\<open>Iterator::position\<close>.\<close>

fun position :: "('a \<Rightarrow> bool) \<Rightarrow> 'a list \<Rightarrow> nat option" where
  "position P [] = None"
| "position P (x # xs) = (if P x then Some 0 else map_option Suc (position P xs))"

text \<open>\<open>Iterator::min_by_key\<close> returns the first of several minimal elements.\<close>

fun min_by_key :: "('a \<Rightarrow> 'k::linorder) \<Rightarrow> 'a list \<Rightarrow> 'a option" where
  "min_by_key f [] = None"
| "min_by_key f (x # xs) =
     (case min_by_key f xs of
        None \<Rightarrow> Some x
      | Some y \<Rightarrow> (if f x \<le> f y then Some x else Some y))"

definition nth_opt :: "'a list \<Rightarrow> nat \<Rightarrow> 'a option" where
  "nth_opt xs i = (if i < length xs then Some (xs ! i) else None)"

definition first_opt :: "'a list \<Rightarrow> 'a option" where
  "first_opt xs = (case xs of [] \<Rightarrow> None | x # _ \<Rightarrow> Some x)"

text \<open>\<open>itertools::interleave\<close>: alternate, then the rest of the longer one.\<close>

function interleave :: "'a list \<Rightarrow> 'a list \<Rightarrow> 'a list" where
  "interleave [] ys = ys"
| "interleave (x # xs) ys = x # interleave ys xs"
  by pat_completeness auto
termination
  by (relation "measure (\<lambda>(xs, ys). length xs + length ys)") auto

definition opt_or :: "'a option \<Rightarrow> 'a option \<Rightarrow> 'a option" where
  "opt_or a b = (case a of Some x \<Rightarrow> Some x | None \<Rightarrow> b)"

definition unwrap_or :: "'a option \<Rightarrow> 'a \<Rightarrow> 'a" where
  "unwrap_or a d = (case a of Some x \<Rightarrow> x | None \<Rightarrow> d)"

lemma unwrap_or_simps [simp]: "unwrap_or None d = d" "unwrap_or (Some x) d = x"
  by (simp_all add: unwrap_or_def)

lemma opt_or_simps [simp]: "opt_or None b = b" "opt_or (Some x) b = Some x"
  by (simp_all add: opt_or_def)

lemma first_opt_simps [simp]: "first_opt [] = None" "first_opt (x # xs) = Some x"
  by (simp_all add: first_opt_def)

lemma position_Some: "position P xs = Some i \<Longrightarrow> i < length xs \<and> P (xs ! i) \<and> (\<forall>j < i. \<not> P (xs ! j))"
proof (induction xs arbitrary: i)
  case (Cons x xs)
  then show ?case
    by (auto split: if_splits simp: less_Suc_eq_0_disj)
qed simp

lemma position_None: "position P xs = None \<longleftrightarrow> (\<forall>x \<in> set xs. \<not> P x)"
  by (induction xs) auto

lemma min_by_key_None: "min_by_key f xs = None \<longleftrightarrow> xs = []"
  by (cases xs) (auto split: option.splits)

lemma min_by_key_in: "min_by_key f xs = Some m \<Longrightarrow> m \<in> set xs"
  by (induction xs arbitrary: m) (auto split: option.splits if_splits)

lemma min_by_key_le: "min_by_key f xs = Some m \<Longrightarrow> x \<in> set xs \<Longrightarrow> f m \<le> f x"
proof (induction xs arbitrary: m)
  case (Cons y ys)
  then show ?case
    by (cases "min_by_key f ys")
      (auto split: if_splits intro: order_trans dest: less_imp_le simp: not_le min_by_key_None)
qed simp

lemma set_interleave [simp]: "set (interleave xs ys) = set xs \<union> set ys"
  by (induction xs ys rule: interleave.induct) auto

lemma length_interleave [simp]: "length (interleave xs ys) = length xs + length ys"
  by (induction xs ys rule: interleave.induct) auto

lemma map_filter_ext:
  "(\<And>x. x \<in> set xs \<Longrightarrow> f x = g x) \<Longrightarrow> List.map_filter f xs = List.map_filter g xs"
  by (induction xs) (auto simp: List.map_filter_simps split: option.splits)

lemma find_SomeD: "find P xs = Some x \<Longrightarrow> x \<in> set xs \<and> P x"
  by (induction xs) (auto split: if_splits)

lemma nth_opt_Some: "nth_opt xs i = Some x \<longleftrightarrow> i < length xs \<and> x = xs ! i"
  by (auto simp: nth_opt_def)

end
