(* ===== verification/Models.thy ===== *)
theory Models
  imports Prelude
begin

text \<open>
  The data model of \<open>src/models.rs\<close>: media versions with their parts and streams, metadata
  items, the media container, and the accessors the transforms are written with.  Every struct
  keeps all of its fields in the source's order; a field name gets the struct's prefix because
  record fields share one name space.  \<open>SpecialBool\<close> is \<open>bool\<close> (its serialisation is not
  modelled) and an \<open>f64\<close> is kept as its 64 bits, since no code computes with one.

  \<open>MetaData\<close> is recursive (\<open>metadata\<close>, \<open>directory\<close> and \<open>video\<close> hold items again), so it is a
  datatype over the record \<open>md_attrs\<close> of its other fields and those three lists.
\<close>

named_theorems model_simps \<open>equations of the accessors of items and containers\<close>

subsection \<open>Media versions\<close>

record stream =
  s_id :: i64
  s_stream_type :: "i64 option"
  s_default :: "bool option"
  s_codec :: "string option"
  s_index :: "i64 option"
  s_bitrate :: "i64 option"
  s_language :: "string option"
  s_language_tag :: "string option"
  s_language_code :: "string option"
  s_doviblcompat_id :: "i64 option"
  s_doviblpresent :: "bool option"
  s_dovielpresent :: "bool option"
  s_dovilevel :: "i64 option"
  s_dovipresent :: "bool option"
  s_doviprofile :: "i64 option"
  s_dovirpupresent :: "bool option"
  s_doviversion :: "string option"
  s_bit_depth :: "i64 option"
  s_chroma_location :: "string option"
  s_chroma_subsampling :: "string option"
  s_coded_height :: "i64 option"
  s_coded_width :: "i64 option"
  s_color_primaries :: "string option"
  s_color_range :: "string option"
  s_color_space :: "string option"
  s_color_trc :: "string option"
  s_frame_rate :: "f64_bits option"
  s_height :: "i64 option"
  s_level :: "i64 option"
  s_original :: "bool option"
  s_profile :: "string option"
  s_ref_frames :: "i64 option"
  s_width :: "i64 option"
  s_display_title :: "string option"
  s_extended_display_title :: "string option"
  s_has_scaling_matrix :: "bool option"
  s_scan_type :: "string option"
  s_selected :: "bool option"
  s_channels :: "i64 option"
  s_audio_channel_layout :: "string option"
  s_sampling_rate :: "i64 option"
  s_forced :: "bool option"
  s_title :: "string option"
  s_hearing_impaired :: "bool option"
  s_decision :: "string option"

record media_part =
  p_id :: i64
  p_key :: "string option"
  p_duration :: "i64 option"
  p_file :: "string option"
  p_size :: "i64 option"
  p_container :: "string option"
  p_video_profile :: "string option"
  p_protocol :: "string option"
  p_optimized_for_streaming :: "bool option"
  p_selected :: "bool option"
  p_streams :: "stream list"

record media =
  m_id :: i64
  m_duration :: "i64 option"
  m_bitrate :: "i64 option"
  m_audio_channels :: "i64 option"
  m_audio_codec :: "string option"
  m_video_codec :: "string option"
  m_video_resolution :: "string option"
  m_height :: "i64 option"
  m_width :: "i64 option"
  m_part_count :: "i32 option"
  m_channel_art :: "string option"
  m_video_profile :: "string option"
  m_video_frame_rate :: "string option"
  m_container :: "string option"
  m_protocol :: "string option"
  m_optimized_for_streaming :: "bool option"
  m_selected :: "bool option"
  m_parts :: "media_part list"

text \<open>\<open>Media::default()\<close>, \<open>MediaPart::default()\<close> and \<open>Stream::default()\<close>.\<close>

definition default_stream :: stream where
  "default_stream = \<lparr>
    s_id = 0, s_stream_type = None, s_default = None, s_codec = None, s_index = None,
    s_bitrate = None, s_language = None, s_language_tag = None, s_language_code = None,
    s_doviblcompat_id = None, s_doviblpresent = None, s_dovielpresent = None, s_dovilevel = None,
    s_dovipresent = None, s_doviprofile = None, s_dovirpupresent = None, s_doviversion = None,
    s_bit_depth = None, s_chroma_location = None, s_chroma_subsampling = None,
    s_coded_height = None, s_coded_width = None, s_color_primaries = None, s_color_range = None,
    s_color_space = None, s_color_trc = None, s_frame_rate = None, s_height = None,
    s_level = None, s_original = None, s_profile = None, s_ref_frames = None, s_width = None,
    s_display_title = None, s_extended_display_title = None, s_has_scaling_matrix = None,
    s_scan_type = None, s_selected = None, s_channels = None, s_audio_channel_layout = None,
    s_sampling_rate = None, s_forced = None, s_title = None, s_hearing_impaired = None,
    s_decision = None \<rparr>"

definition default_part :: media_part where
  "default_part = \<lparr>
    p_id = 0, p_key = None, p_duration = None, p_file = None, p_size = None, p_container = None,
    p_video_profile = None, p_protocol = None, p_optimized_for_streaming = None,
    p_selected = None, p_streams = [] \<rparr>"

definition default_media :: media where
  "default_media = \<lparr>
    m_id = 0, m_duration = None, m_bitrate = None, m_audio_channels = None, m_audio_codec = None,
    m_video_codec = None, m_video_resolution = None, m_height = None, m_width = None,
    m_part_count = None, m_channel_art = None, m_video_profile = None, m_video_frame_rate = None,
    m_container = None, m_protocol = None, m_optimized_for_streaming = None, m_selected = None,
    m_parts = [] \<rparr>"

subsection \<open>Items\<close>

record image =
  img_alt :: "string option"
  img_type :: string
  img_url :: string

record label =
  lb_id :: i64
  lb_tag :: string
  lb_filter :: string

record tag =
  tag_tag :: string

record guid =
  guid_id :: string

record context_images =
  ci_images :: "image list"

record display_field =
  df_type :: "string option"
  df_fields :: "string list"

record display_image =
  di_type :: "string option"
  di_image_type :: "string option"

record meta_type =
  mt_type :: "string option"
  mt_active :: "bool option"
  mt_title :: "string option"

record meta =
  meta_display_fields :: "display_field list"
  meta_display_images :: "display_image list"
  meta_type :: "meta_type option"

record md_attrs =
  md_rating_key :: "string option"
  md_key :: "string option"
  md_guid :: "string option"
  md_primary_guid :: "string option"
  md_title :: string
  md_slug :: "string option"
  md_tagline :: "string option"
  md_thumb :: "string option"
  md_theme :: "string option"
  md_composite :: "string option"
  md_playlist_type :: "string option"
  md_banner :: "string option"
  md_icon :: "string option"
  md_view_group :: "string option"
  md_added_at :: "i64 option"
  md_updated_at :: "i64 option"
  md_last_viewed_at :: "i64 option"
  md_included_at :: "i64 option"
  md_duration :: "i64 option"
  md_view_mode :: "i32 option"
  md_art :: "string option"
  md_index :: "i32 option"
  md_subtype :: "string option"
  md_studio :: "string option"
  md_content_rating :: "string option"
  md_rating :: "f64_bits option"
  md_audience_rating :: "f64_bits option"
  md_view_offset :: "i64 option"
  md_primary_extra_key :: "string option"
  md_chapter_source :: "string option"
  md_rating_image :: "string option"
  md_audiance_rating_image :: "string option"
  md_parent_year :: "i32 option"
  md_parent_index :: "i32 option"
  md_parent_guid :: "string option"
  md_parent_studio :: "string option"
  md_parent_key :: "string option"
  md_parent_rating_key :: "string option"
  md_parent_title :: "string option"
  md_parent_art :: "string option"
  md_parent_thumb :: "string option"
  md_grandparent_rating_key :: "string option"
  md_grandparent_key :: "string option"
  md_grandparent_guid :: "string option"
  md_grandparent_title :: "string option"
  md_grandparent_thumb :: "string option"
  md_grandparent_art :: "string option"
  md_library_section_id :: "i64 option"
  md_library_section_title :: "string option"
  md_library_section_key :: "string option"
  md_type :: string
  md_summary :: "string option"
  md_year :: "i32 option"
  md_promoted :: "bool option"
  md_skip_details :: "bool option"
  md_placeholder :: "bool option"
  md_context :: "string option"
  md_hub_key :: "string option"
  md_hub_identifier :: "string option"
  md_size :: "i32 option"
  md_more :: "bool option"
  md_style :: "string option"
  md_meta :: "meta option"
  md_child_count :: "string option"
  md_skip_children :: "bool option"
  md_leaf_count :: "i32 option"
  md_viewed_leaf_count :: "i32 option"
  md_view_count :: "i32 option"
  md_labels :: "label list"
  md_originally_available_at :: "string option"
  md_media :: "media list"
  md_guids :: "guid list"
  md_user_state :: "bool option"
  md_images :: "image list"
  md_context_images :: "context_images option"
  md_extra_type :: "i32 option"
  md_play_queue_item_id :: "i64 option"
  md_collections :: "tag list"
  md_countries :: "tag list"
  md_directors :: "tag list"
  md_genres :: "tag list"

datatype metadata =
  MetaData (attrs: md_attrs) (metadata: "metadata list") (directory: "metadata list")
    (video: "metadata list")

definition default_attrs :: md_attrs where
  "default_attrs = \<lparr>
    md_rating_key = None, md_key = None, md_guid = None, md_primary_guid = None, md_title = [],
    md_slug = None, md_tagline = None, md_thumb = None, md_theme = None, md_composite = None,
    md_playlist_type = None, md_banner = None, md_icon = None, md_view_group = None,
    md_added_at = None, md_updated_at = None, md_last_viewed_at = None, md_included_at = None,
    md_duration = None, md_view_mode = None, md_art = None, md_index = None, md_subtype = None,
    md_studio = None, md_content_rating = None, md_rating = None, md_audience_rating = None,
    md_view_offset = None, md_primary_extra_key = None, md_chapter_source = None,
    md_rating_image = None, md_audiance_rating_image = None, md_parent_year = None,
    md_parent_index = None, md_parent_guid = None, md_parent_studio = None, md_parent_key = None,
    md_parent_rating_key = None, md_parent_title = None, md_parent_art = None,
    md_parent_thumb = None, md_grandparent_rating_key = None, md_grandparent_key = None,
    md_grandparent_guid = None, md_grandparent_title = None, md_grandparent_thumb = None,
    md_grandparent_art = None, md_library_section_id = None, md_library_section_title = None,
    md_library_section_key = None, md_type = [], md_summary = None, md_year = None,
    md_promoted = None, md_skip_details = None, md_placeholder = None, md_context = None,
    md_hub_key = None, md_hub_identifier = None, md_size = None, md_more = None, md_style = None,
    md_meta = None, md_child_count = None, md_skip_children = None, md_leaf_count = None,
    md_viewed_leaf_count = None, md_view_count = None, md_labels = [],
    md_originally_available_at = None, md_media = [], md_guids = [], md_user_state = None,
    md_images = [], md_context_images = None, md_extra_type = None, md_play_queue_item_id = None,
    md_collections = [], md_countries = [], md_directors = [], md_genres = [] \<rparr>"

subsection \<open>Containers\<close>

record media_container =
  mc_size :: "i64 option"
  mc_total_size :: "i32 option"
  mc_offset :: "i32 option"
  mc_allow_sync :: "bool option"
  mc_identifier :: "string option"
  mc_library_section_id :: "i64 option"
  mc_library_section_title :: "string option"
  mc_library_section_uuid :: "string option"
  mc_hub :: "metadata list"
  mc_metadata :: "metadata list"
  mc_video :: "metadata list"
  mc_directory :: "metadata list"
  mc_play_queue_id :: "i64 option"
  mc_play_queue_selected_item_id :: "i64 option"
  mc_play_queue_selected_item_offset :: "i32 option"
  mc_play_queue_selected_metadata_item_id :: "string option"
  mc_play_queue_shuffled :: "bool option"
  mc_play_queue_source_uri :: "string option"
  mc_play_queue_total_count :: "i32 option"
  mc_play_queue_version :: "i32 option"
  mc_media_tag_prefix :: "string option"
  mc_media_tag_version :: "i64 option"
  mc_direct_play_decision_code :: "i64 option"
  mc_direct_play_decision_text :: "string option"
  mc_general_decision_code :: "i64 option"
  mc_general_decision_text :: "string option"
  mc_resource_session :: "string option"
  mc_transcode_decision_code :: "i64 option"
  mc_transcode_decision_text :: "string option"
  mc_meta :: "meta option"

definition default_container :: media_container where
  "default_container = \<lparr>
    mc_size = None, mc_total_size = None, mc_offset = None, mc_allow_sync = None,
    mc_identifier = None, mc_library_section_id = None, mc_library_section_title = None,
    mc_library_section_uuid = None, mc_hub = [], mc_metadata = [], mc_video = [],
    mc_directory = [], mc_play_queue_id = None, mc_play_queue_selected_item_id = None,
    mc_play_queue_selected_item_offset = None, mc_play_queue_selected_metadata_item_id = None,
    mc_play_queue_shuffled = None, mc_play_queue_source_uri = None,
    mc_play_queue_total_count = None, mc_play_queue_version = None, mc_media_tag_prefix = None,
    mc_media_tag_version = None, mc_direct_play_decision_code = None,
    mc_direct_play_decision_text = None, mc_general_decision_code = None,
    mc_general_decision_text = None, mc_resource_session = None,
    mc_transcode_decision_code = None, mc_transcode_decision_text = None, mc_meta = None \<rparr>"

subsection \<open>The methods of \<open>MetaData\<close>\<close>

text \<open>\<open>children_mut\<close> hands out a reference to one of the child lists.  The model has the list
  it refers to (\<open>children_mut\<close>) and the item after a write through it (\<open>update_children\<close>).\<close>

fun children_mut :: "metadata \<Rightarrow> metadata list" where
  "children_mut (MetaData a m d v) =
     (if m \<noteq> [] then m else if v \<noteq> [] then v else if d \<noteq> [] then d else m)"

fun update_children :: "(metadata list \<Rightarrow> metadata list) \<Rightarrow> metadata \<Rightarrow> metadata" where
  "update_children f (MetaData a m d v) =
     (if m \<noteq> [] then MetaData a (f m) d v
      else if v \<noteq> [] then MetaData a m d (f v)
      else if d \<noteq> [] then MetaData a m (f d) v
      else MetaData a (f m) d v)"

fun children :: "metadata \<Rightarrow> metadata list" where
  "children (MetaData a m d v) =
     (if m \<noteq> [] then m else if d \<noteq> [] then d else if v \<noteq> [] then v else [])"

text \<open>\<open>set_children\<close> writes the list that \<open>children\<close> reads; with no children at all the value
  is dropped and only \<open>size\<close> changes.\<close>

fun set_children :: "metadata list \<Rightarrow> metadata \<Rightarrow> metadata" where
  "set_children xs (MetaData a m d v) =
     (let a' = a\<lparr>md_size := Some (min (int (length xs)) 2147483647)\<rparr>
      in if m \<noteq> [] then MetaData a' xs d v
         else if d \<noteq> [] then MetaData a' m xs v
         else if v \<noteq> [] then MetaData a' m d xs
         else MetaData a' m d v)"

fun map_attrs :: "(md_attrs \<Rightarrow> md_attrs) \<Rightarrow> metadata \<Rightarrow> metadata" where
  "map_attrs f (MetaData a m d v) = MetaData (f a) m d v"

definition is_hub :: "metadata \<Rightarrow> bool" where
  "is_hub it \<longleftrightarrow> md_hub_identifier (attrs it) \<noteq> None"

definition is_playlist :: "metadata \<Rightarrow> bool" where
  "is_playlist it = (case md_context (attrs it) of
     Some c \<Rightarrow> starts_with c ''hub.home.playlists'' | None \<Rightarrow> False)"

definition is_media :: "metadata \<Rightarrow> bool" where
  "is_media it \<longleftrightarrow>
     \<not> is_hub it \<and> (md_type (attrs it) = ''movie'' \<or> md_type (attrs it) = ''show'')"

definition is_collection_hub :: "metadata \<Rightarrow> bool" where
  "is_collection_hub it \<longleftrightarrow>
     is_hub it \<and> (case md_context (attrs it) of
       Some c \<Rightarrow> starts_with c ''hub.custom.collection'' | None \<Rightarrow> False)"

definition has_label :: "string \<Rightarrow> metadata \<Rightarrow> bool" where
  "has_label name it \<longleftrightarrow>
     list_ex (\<lambda>l. to_lower (lb_tag l) = to_lower name) (md_labels (attrs it))"

fun label_value_in :: "string \<Rightarrow> label list \<Rightarrow> string option" where
  "label_value_in search [] = None"
| "label_value_in search (l # ls) =
     (if starts_with (to_lower (lb_tag l)) search then Some (drop (length search) (lb_tag l))
      else label_value_in search ls)"

definition get_label_value :: "string \<Rightarrow> metadata \<Rightarrow> string option" where
  "get_label_value pre it =
     label_value_in (to_lower (pre @ ''::'')) (md_labels (attrs it))"

definition is_watched :: "metadata \<Rightarrow> bool" where
  "is_watched it =
     (let a = attrs it in
      (if md_leaf_count a = None \<and> md_view_count a \<noteq> None \<and> unwrap_or (md_view_count a) 0 > 0
       then True
       else (case md_viewed_leaf_count a of
               Some n \<Rightarrow> unwrap_or (md_leaf_count a) 0 = n
             | None \<Rightarrow> False)))"

subsection \<open>The methods of \<open>MediaContainer\<close>\<close>

definition mc_is_hub :: "media_container \<Rightarrow> bool" where
  "mc_is_hub c \<longleftrightarrow> mc_hub c \<noteq> []"

definition mc_is_section_hub :: "media_container \<Rightarrow> bool" where
  "mc_is_section_hub c \<longleftrightarrow> mc_is_hub c \<and> mc_library_section_id c \<noteq> None"

definition mc_set_type :: "string \<Rightarrow> media_container \<Rightarrow> media_container" where
  "mc_set_type t c = c\<lparr>mc_hub := map (map_attrs (\<lambda>a. a\<lparr>md_type := t\<rparr>)) (mc_hub c)\<rparr>"

definition mc_children :: "media_container \<Rightarrow> metadata list" where
  "mc_children c =
     (if mc_metadata c \<noteq> [] then mc_metadata c else if mc_hub c \<noteq> [] then mc_hub c
      else if mc_video c \<noteq> [] then mc_video c else if mc_directory c \<noteq> [] then mc_directory c
      else [])"

definition mc_children_mut :: "media_container \<Rightarrow> metadata list" where
  "mc_children_mut c =
     (if mc_metadata c \<noteq> [] then mc_metadata c else if mc_hub c \<noteq> [] then mc_hub c
      else if mc_video c \<noteq> [] then mc_video c else if mc_directory c \<noteq> [] then mc_directory c
      else mc_metadata c)"

definition mc_update_children ::
  "(metadata list \<Rightarrow> metadata list) \<Rightarrow> media_container \<Rightarrow> media_container" where
  "mc_update_children f c =
     (if mc_metadata c \<noteq> [] then c\<lparr>mc_metadata := f (mc_metadata c)\<rparr>
      else if mc_hub c \<noteq> [] then c\<lparr>mc_hub := f (mc_hub c)\<rparr>
      else if mc_video c \<noteq> [] then c\<lparr>mc_video := f (mc_video c)\<rparr>
      else if mc_directory c \<noteq> [] then c\<lparr>mc_directory := f (mc_directory c)\<rparr>
      else c\<lparr>mc_metadata := f (mc_metadata c)\<rparr>)"

definition mc_set_children :: "metadata list \<Rightarrow> media_container \<Rightarrow> media_container" where
  "mc_set_children xs c =
     (let c' = (if mc_metadata c \<noteq> [] then c\<lparr>mc_metadata := xs\<rparr>
                else if mc_hub c \<noteq> [] then c\<lparr>mc_hub := xs\<rparr>
                else if mc_video c \<noteq> [] then c\<lparr>mc_video := xs\<rparr>
                else if mc_directory c \<noteq> [] then c\<lparr>mc_directory := xs\<rparr>
                else c)
      in c'\<lparr>mc_size := Some (int (length xs))\<rparr>)"

definition mc_set_children_mut :: "metadata list \<Rightarrow> media_container \<Rightarrow> media_container" where
  "mc_set_children_mut xs c =
     (let c' = (if mc_metadata c \<noteq> [] then c\<lparr>mc_metadata := xs\<rparr>
                else if mc_hub c \<noteq> [] then c\<lparr>mc_hub := xs\<rparr>
                else if mc_video c \<noteq> [] then c\<lparr>mc_video := xs\<rparr>
                else if mc_directory c \<noteq> [] then c\<lparr>mc_directory := xs\<rparr>
                else c)
      in c'\<lparr>mc_size := Some (int (length xs))\<rparr>)"

subsection \<open>Laws of the accessors\<close>

lemma attrs_map_attrs [simp]: "attrs (map_attrs f it) = f (attrs it)"
  by (cases it) simp

lemma map_attrs_lists [simp]:
  "metadata (map_attrs f it) = metadata it"
  "directory (map_attrs f it) = directory it"
  "video (map_attrs f it) = video it"
  "children (map_attrs f it) = children it"
  "children_mut (map_attrs f it) = children_mut it"
  by (cases it; simp)+

lemma attrs_update_children [simp]: "attrs (update_children f it) = attrs it"
  by (cases it) simp

lemma mc_children_mut_eq: "mc_children_mut c = mc_children c"
  by (simp add: mc_children_mut_def mc_children_def)

lemma mc_set_children_mut_eq: "mc_set_children_mut = mc_set_children"
  by (simp add: fun_eq_iff mc_set_children_mut_def mc_set_children_def)

lemma children_set_children:
  "children it \<noteq> [] \<Longrightarrow> xs \<noteq> [] \<Longrightarrow> children (set_children xs it) = xs"
  by (cases it) (auto simp: Let_def split: if_splits)

lemma set_children_dropped:
  "children it = [] \<Longrightarrow> children (set_children xs it) = []"
  by (cases it) (auto simp: Let_def split: if_splits)

text \<open>\<open>children\<close> and \<open>children_mut\<close> agree unless an item has no \<open>metadata\<close> but both
  \<open>directory\<close> and \<open>video\<close>: the two methods rank those lists differently.\<close>

lemma children_mut_agree:
  "metadata it \<noteq> [] \<or> directory it = [] \<or> video it = [] \<Longrightarrow> children_mut it = children it"
  by (cases it) auto

lemma children_mut_differ:
  "metadata it = [] \<Longrightarrow> directory it \<noteq> [] \<Longrightarrow> video it \<noteq> [] \<Longrightarrow>
   children_mut it = video it \<and> children it = directory it"
  by (cases it) auto

lemma update_children_id [simp]: "update_children (\<lambda>xs. xs) it = it"
  by (cases it) simp

lemma mc_update_children_id [simp]: "mc_update_children (\<lambda>xs. xs) c = c"
  by (simp add: mc_update_children_def)

lemma mc_update_children_cases:
  "mc_children (mc_update_children f c) = f (mc_children c)
   \<or> (mc_children c \<noteq> [] \<and> f (mc_children c) = [])"
  by (auto simp: mc_update_children_def mc_children_def)

lemma mc_size_update_children [simp]: "mc_size (mc_update_children f c) = mc_size c"
  by (simp add: mc_update_children_def)

lemma mc_size_set_children [simp]: "mc_size (mc_set_children xs c) = Some (int (length xs))"
  by (simp add: mc_set_children_def Let_def)

lemma mc_children_set_children:
  "mc_children c \<noteq> [] \<Longrightarrow> xs \<noteq> [] \<Longrightarrow> mc_children (mc_set_children xs c) = xs"
  by (auto simp: mc_set_children_def mc_children_def Let_def split: if_splits)

subsection \<open>Deserialisers of request and configuration values\<close>

text \<open>\<open>bool_from_int\<close>: a \<open>u8\<close> that must be zero or one.\<close>

definition bool_from_int :: "nat \<Rightarrow> string + bool" where
  "bool_from_int n =
     (if n = 0 then Inr False else if n = 1 then Inr True else Inl ''zero or one'')"

fun parse_all :: "(string \<Rightarrow> 'a option) \<Rightarrow> string list \<Rightarrow> string + 'a list" where
  "parse_all f [] = Inr []"
| "parse_all f (w # ws) =
     (case f w of
        None \<Rightarrow> Inl w
      | Some x \<Rightarrow> (case parse_all f ws of Inl e \<Rightarrow> Inl e | Inr xs \<Rightarrow> Inr (x # xs)))"

definition deserialize_comma_seperated_number ::
  "string option \<Rightarrow> string + i32 list option" where
  "deserialize_comma_seperated_number v =
     (case v of
        None \<Rightarrow> Inr None
      | Some s \<Rightarrow>
          (if s = [] then Inr None
           else (case parse_all (\<lambda>w. parse_i32 (trim w)) (split_on CHR '','' s) of
                   Inl e \<Rightarrow> Inl e
                 | Inr xs \<Rightarrow> Inr (Some xs))))"

definition deserialize_comma_seperated_string :: "string option \<Rightarrow> string list option" where
  "deserialize_comma_seperated_string v = map_option (split_on CHR '','') v"

record resolution =
  res_height :: i64
  res_width :: i64

definition parse_resolution_part :: "string \<Rightarrow> resolution option" where
  "parse_resolution_part part =
     (case split_on CHR ''x'' part of
        w # h # _ \<Rightarrow>
          (case (parse_i64 w, parse_i64 h) of
             (Some w', Some h') \<Rightarrow> Some \<lparr>res_height = h', res_width = w'\<rparr>
           | _ \<Rightarrow> None)
      | _ \<Rightarrow> None)"

definition deserialize_screen_resolution :: "string option \<Rightarrow> resolution list" where
  "deserialize_screen_resolution v =
     (case v of
        None \<Rightarrow> []
      | Some s \<Rightarrow>
          (let cleaned = filter (\<lambda>c. is_digit c \<or> c = CHR ''x'' \<or> c = CHR '','') s
           in List.map_filter parse_resolution_part
                (filter (\<lambda>p. p \<noteq> []) (split_on CHR '','' cleaned))))"

lemma parse_all_Inr:
  "parse_all f ws = Inr xs \<Longrightarrow> length xs = length ws \<and> (\<forall>i < length ws. f (ws ! i) = Some (xs ! i))"
proof (induction ws arbitrary: xs)
  case (Cons w ws)
  then show ?case
    by (auto split: option.splits sum.splits simp: nth_Cons split: nat.splits)
qed simp

lemma comma_string_roundtrip:
  "deserialize_comma_seperated_string (Some s) = Some ws \<Longrightarrow> join '','' ws = s"
  by (auto simp: deserialize_comma_seperated_string_def)

lemma comma_string_empty: "deserialize_comma_seperated_string (Some []) = Some [[]]"
  by (simp add: deserialize_comma_seperated_string_def)

subsection \<open>Booleans of Plex and other wrappers\<close>

text \<open>\<open>SpecialBool\<close> is written as 0 or 1 in XML and as a boolean elsewhere.  \<open>anything\<close> is
  \<open>serde_aux\<close>'s reading of a value as a boolean; its failure is unwrapped, so it is a panic.\<close>

datatype 'a unwrapped = Value 'a | Panic

definition special_bool_display :: "bool \<Rightarrow> string" where
  "special_bool_display b = (if b then ''true'' else ''false'')"

definition special_bool_xml :: "bool \<Rightarrow> string" where
  "special_bool_xml b = show_int (if b then 1 else 0)"

definition special_bool_read :: "('j \<Rightarrow> bool option) \<Rightarrow> 'j \<Rightarrow> bool unwrapped" where
  "special_bool_read anything v = (case anything v of Some b \<Rightarrow> Value b | None \<Rightarrow> Panic)"

text \<open>\<open>number\<close> is \<open>serde_aux\<close>'s reading of an optional number, which may fail; \<open>from_number\<close> its reading of a
  number or a text as a text.\<close>

definition deserialize_option_number_from_string :: "('j \<Rightarrow> i64 option option) \<Rightarrow> 'j \<Rightarrow> i64 option" where
  "deserialize_option_number_from_string number v =
     (case number v of Some r \<Rightarrow> r | None \<Rightarrow> None)"

definition deserialize_option_string_from_number ::
  "('j \<Rightarrow> string option) \<Rightarrow> 'j \<Rightarrow> string option option" where
  "deserialize_option_string_from_number from_number v = map_option Some (from_number v)"

definition optional_int_from_str :: "string \<Rightarrow> string + i64 option" where
  "optional_int_from_str val =
     (case parse_i64 val of Some i \<Rightarrow> Inr (Some i) | None \<Rightarrow> Inl ''failed to parse integer'')"

definition display_media :: "media \<Rightarrow> string" where
  "display_media m =
     unwrap_or (m_video_resolution m) [] @ '' - '' @ unwrap_or (m_video_codec m) [] @ '' - ''
       @ unwrap_or (m_audio_codec m) []"

definition container_is_hub :: "media_container \<Rightarrow> bool" where
  "container_is_hub c \<longleftrightarrow> mc_hub c \<noteq> []"

definition container_is_section_hub :: "media_container \<Rightarrow> bool" where
  "container_is_section_hub c \<longleftrightarrow> container_is_hub c \<and> mc_library_section_id c \<noteq> None"

text \<open>What is written to XML is read back by any reading that knows 0 and 1.\<close>

lemma special_bool_texts: "special_bool_xml True = ''1''" "special_bool_xml False = ''0''"
  by code_simp+

lemma special_bool_xml_read:
  assumes "anything ''0'' = Some False" "anything ''1'' = Some True"
  shows "special_bool_read anything (special_bool_xml b) = Value b"
  using assms by (cases b) (simp_all add: special_bool_read_def special_bool_texts)

lemma special_bool_panics: "special_bool_read anything v = Panic \<longleftrightarrow> anything v = None"
  by (simp add: special_bool_read_def split: option.splits)

text \<open>The client's platform, with the names of the enum; anything else is \<open>Generic\<close>.\<close>

datatype platform = Android | Ios | TvOS | Safari | Chrome | Roku | Web | Generic

datatype style = Hero | Shelf

definition style_name :: "style \<Rightarrow> string" where
  "style_name s = (case s of Hero \<Rightarrow> ''Hero'' | Shelf \<Rightarrow> ''Shelf'')"

subsection \<open>The request context\<close>

record plex_context =
  cx_content_directory_id :: "(string list) option"
  cx_pinned_content_directory_id :: "(string list) option"
  cx_platform :: "platform option"
  cx_username :: "string option"
  cx_path :: "string option"
  cx_screen_resolution :: "resolution list"
  cx_screen_resolution_original :: "string option"
  cx_client_capabilities :: "string option"
  cx_product :: "string option"
  cx_version :: "string option"
  cx_count :: "i32 option"
  cx_client_identifier :: "string option"
  cx_session_id :: "string option"
  cx_session_identifier :: "string option"
  cx_playback_session_id :: "string option"
  cx_playback_id :: "string option"
  cx_token :: "string option"
  cx_platform_version :: "string option"
  cx_features :: "string option"
  cx_model :: "string option"
  cx_device :: "string option"
  cx_device_name :: "string option"
  cx_drm :: "string option"
  cx_text_format :: "string option"
  cx_provider_version :: "string option"
  cx_container_size :: "i32 option"
  cx_container_start :: "i32 option"
  cx_http_pipeline :: "string option"
  cx_include_collections :: bool
  cx_include_advanced :: bool
  cx_real_ip :: "string option"
  cx_forwarded_for :: "string option"
  cx_forwarded_proto :: "string option"
  cx_forwarded_host :: "string option"
  cx_forwarded_port :: "string option"
  cx_exclude_all_leaves :: bool
  cx_exclude_continue_watching :: bool
  cx_host :: "string option"
  cx_size :: "string option"
  cx_width :: "i32 option"
  cx_height :: "i32 option"
  cx_quality :: "i32 option"
  cx_url :: "string option"

definition default_context :: plex_context where
  "default_context = \<lparr>
    cx_content_directory_id = None, cx_pinned_content_directory_id = None, cx_platform = None,
    cx_username = None, cx_path = None, cx_screen_resolution = [],
    cx_screen_resolution_original = None, cx_client_capabilities = None, cx_product = None,
    cx_version = None, cx_count = None, cx_client_identifier = None, cx_session_id = None,
    cx_session_identifier = None, cx_playback_session_id = None, cx_playback_id = None,
    cx_token = None, cx_platform_version = None, cx_features = None, cx_model = None,
    cx_device = None, cx_device_name = None, cx_drm = None, cx_text_format = None,
    cx_provider_version = None, cx_container_size = None, cx_container_start = None,
    cx_http_pipeline = None, cx_include_collections = False, cx_include_advanced = False,
    cx_real_ip = None, cx_forwarded_for = None, cx_forwarded_proto = None,
    cx_forwarded_host = None, cx_forwarded_port = None, cx_exclude_all_leaves = False,
    cx_exclude_continue_watching = False, cx_host = None, cx_size = None, cx_width = None,
    cx_height = None, cx_quality = None, cx_url = None \<rparr>"

end
