(* ===== verification/Transform.thy ===== *)
theory Transform
  imports Models
begin

text \<open>
  \<open>src/transform/mod.rs\<close>: a transform is what its three methods do to an item or a container, and
  the builder applies transforms in order.

  The trait object is the record \<open>transform\<close> of the three methods, with the client and the
  request context already applied.  \<open>apply_to\<close> walks the list that \<open>children_mut\<close> hands out by
  index, and reads it afresh at every step: when a removal empties the active list, the walk goes
  on in the container's next list, which the model keeps.
\<close>

subsection \<open>Transforms\<close>

record transform =
  tf_item :: "metadata \<Rightarrow> metadata"
  tf_container :: "media_container \<Rightarrow> media_container"
  tf_filter :: "metadata \<Rightarrow> bool"

definition identity_transform :: transform where
  "identity_transform = \<lparr>tf_item = (\<lambda>x. x), tf_container = (\<lambda>c. c), tf_filter = (\<lambda>_. True)\<rparr>"

definition remove_nth :: "nat \<Rightarrow> 'a list \<Rightarrow> 'a list" where
  "remove_nth i xs = take i xs @ drop (Suc i) xs"

definition item_total :: "media_container \<Rightarrow> nat" where
  "item_total c =
     length (mc_metadata c) + length (mc_hub c) + length (mc_video c) + length (mc_directory c)"

lemma length_remove_nth: "i < length xs \<Longrightarrow> length (remove_nth i xs) = length xs - 1"
  by (simp add: remove_nth_def)

lemma item_total_update:
  assumes "length (f (mc_children_mut c)) = n" "mc_children_mut c \<noteq> []"
  shows "item_total (mc_update_children f c) + length (mc_children_mut c) = item_total c + n"
  using assms by (auto simp: item_total_def mc_update_children_def mc_children_mut_def)

lemma children_le_total: "length (mc_children_mut c) \<le> item_total c"
  by (auto simp: item_total_def mc_children_mut_def)

function apply_items :: "transform \<Rightarrow> nat \<Rightarrow> media_container \<Rightarrow> media_container" where
  "apply_items t i c =
     (if i < length (mc_children_mut c)
      then (if \<not> tf_filter t (mc_children_mut c ! i)
            then apply_items t i (mc_update_children (remove_nth i) c)
            else apply_items t (Suc i)
                   (mc_update_children (\<lambda>xs. xs[i := tf_item t (xs ! i)]) c))
      else c)"
  by pat_completeness auto
termination
proof (relation "measure (\<lambda>(_, i, c). item_total c - i)", goal_cases)
  case 1
  then show ?case by simp
next
  case (2 t i c)
  then have "mc_children_mut c \<noteq> []" by auto
  with 2 item_total_update [of "remove_nth i" c] length_remove_nth [of i "mc_children_mut c"]
    children_le_total [of c]
  show ?case by simp
next
  case (3 t i c)
  then have "mc_children_mut c \<noteq> []" by auto
  with 3 item_total_update [of "\<lambda>xs. xs[i := tf_item t (xs ! i)]" c] children_le_total [of c]
  show ?case by simp
qed

declare apply_items.simps [simp del]

definition fix_size :: "media_container \<Rightarrow> media_container" where
  "fix_size c =
     (if mc_size c \<noteq> None
      then c\<lparr>mc_size := Some (min (int (length (mc_children_mut c))) i64_max)\<rparr> else c)"

definition apply_one :: "transform \<Rightarrow> media_container \<Rightarrow> media_container" where
  "apply_one t c = tf_container t (apply_items t 0 c)"

definition apply_to :: "transform list \<Rightarrow> media_container \<Rightarrow> media_container" where
  "apply_to ts c = fix_size (foldl (\<lambda>c t. apply_one t c) c ts)"

definition apply_to_old :: "transform list \<Rightarrow> media_container \<Rightarrow> media_container" where
  "apply_to_old ts c =
     fix_size (foldl (\<lambda>c t. tf_container t (mc_update_children (map (tf_item t)) c)) c ts)"

text \<open>The builder; the client and the request context are applied to its transforms already, and its
  \<open>mix\<close> flag is never set.\<close>

record transform_builder =
  tb_mix :: bool
  tb_transforms :: "transform list"

definition new_builder :: transform_builder where
  "new_builder = \<lparr>tb_mix = False, tb_transforms = []\<rparr>"

definition with_transform :: "transform \<Rightarrow> transform_builder \<Rightarrow> transform_builder" where
  "with_transform t b = b\<lparr>tb_transforms := tb_transforms b @ [t]\<rparr>"

lemma builder_keeps_order: "tb_transforms (fold with_transform ts b) = tb_transforms b @ ts"
  by (induction ts arbitrary: b) (simp_all add: with_transform_def)

lemma built_pipeline:
  "apply_to (tb_transforms (fold with_transform ts new_builder)) c = apply_to ts c"
  by (simp add: builder_keeps_order new_builder_def)

subsection \<open>Hero rows\<close>

definition hero_meta :: meta where
  "hero_meta =
     \<lparr>meta_display_fields =
        [\<lparr>df_type = Some ''movie'', df_fields = [''title'', ''originallyAvailableAt'']\<rparr>,
         \<lparr>df_type = Some ''show'', df_fields = [''title'', ''childCount'']\<rparr>,
         \<lparr>df_type = Some ''clip'', df_fields = [''title'', ''originallyAvailableAt'']\<rparr>,
         \<lparr>df_type = Some ''mixed'', df_fields = [''title'', ''originallyAvailableAt'']\<rparr>],
      meta_display_images =
        [\<lparr>di_type = Some ''hero'', di_image_type = Some ''coverArt''\<rparr>,
         \<lparr>di_type = Some ''mixed'', di_image_type = Some ''coverArt''\<rparr>,
         \<lparr>di_type = Some ''clip'', di_image_type = Some ''coverArt''\<rparr>,
         \<lparr>di_type = Some ''movie'', di_image_type = Some ''coverArt''\<rparr>,
         \<lparr>di_type = Some ''show'', di_image_type = Some ''coverArt''\<rparr>],
      meta_type = None\<rparr>"

subsection \<open>What the walk does\<close>

text \<open>On a container whose items are all in one list, the walk filters and then maps.\<close>

definition single_list :: "media_container \<Rightarrow> bool" where
  "single_list c \<longleftrightarrow> item_total c = length (mc_children_mut c)"

lemma single_list_update:
  assumes "single_list c" "mc_children_mut c \<noteq> []"
  shows "mc_children_mut (mc_update_children f c) = f (mc_children_mut c)"
    and "single_list (mc_update_children f c)"
  using assms
  by (auto simp: single_list_def item_total_def mc_update_children_def mc_children_mut_def
      split: if_splits)

lemma walk_single:
  assumes "single_list c" "i \<le> length (mc_children_mut c)"
  shows "mc_children_mut (apply_items t i c)
       = take i (mc_children_mut c)
         @ map (tf_item t) (filter (tf_filter t) (drop i (mc_children_mut c)))
    \<and> single_list (apply_items t i c)"
  using assms
proof (induction t i c rule: apply_items.induct)
  case (1 t i c)
  let ?xs = "mc_children_mut c"
  show ?case
  proof (cases "i < length ?xs")
    case False
    with "1.prems" show ?thesis by (subst (1 2) apply_items.simps) simp
  next
    case True
    then have ne: "?xs \<noteq> []" by auto
    have split: "drop i ?xs = ?xs ! i # drop (Suc i) ?xs"
      using True by (simp add: Cons_nth_drop_Suc)
    show ?thesis
    proof (cases "tf_filter t (?xs ! i)")
      case False
      let ?c = "mc_update_children (remove_nth i) c"
      note upd = single_list_update [OF "1.prems"(1) ne, of "remove_nth i"]
      have step: "apply_items t i c = apply_items t i ?c"
        using True False by (subst apply_items.simps) simp
      have len: "i \<le> length (mc_children_mut ?c)"
        using True upd(1) by (simp add: remove_nth_def)
      from "1.IH"(1) [OF True False upd(2) len] show ?thesis
        unfolding step upd(1) using True False split by (simp add: remove_nth_def)
    next
      case keep: True
      let ?f = "\<lambda>xs. xs[i := tf_item t (xs ! i)]"
      let ?c = "mc_update_children ?f c"
      note upd = single_list_update [OF "1.prems"(1) ne, of ?f]
      have step: "apply_items t i c = apply_items t (Suc i) ?c"
        using True keep by (subst apply_items.simps) simp
      have len: "Suc i \<le> length (mc_children_mut ?c)" using True upd(1) by simp
      have "\<not> \<not> tf_filter t (?xs ! i)" using keep by simp
      from "1.IH"(2) [OF True this upd(2) len] show ?thesis
        unfolding step upd(1) using True keep split by (simp add: take_Suc_conv_app_nth)
    qed
  qed
qed

lemma apply_items_single:
  "single_list c \<Longrightarrow>
   mc_children_mut (apply_items t 0 c) = map (tf_item t) (filter (tf_filter t) (mc_children_mut c))"
  using walk_single [of c 0 t] by simp

lemma fix_size_children [simp]: "mc_children_mut (fix_size c) = mc_children_mut c"
  by (simp add: fix_size_def mc_children_mut_def)

lemma fix_size_size:
  "mc_size c \<noteq> None \<Longrightarrow> length (mc_children_mut c) \<le> nat i64_max \<Longrightarrow>
   mc_size (fix_size c) = Some (int (length (mc_children_mut c)))"
  by (simp add: fix_size_def i64_max_def min_def)

subsection \<open>The interface of a transform that adds no media\<close>

text \<open>All media versions in an item and below it, and in a container.\<close>

primrec all_media :: "metadata \<Rightarrow> media list" where
  "all_media (MetaData a m d v) =
     md_media a @ concat (map all_media m) @ concat (map all_media d) @ concat (map all_media v)"

definition container_items :: "media_container \<Rightarrow> metadata list" where
  "container_items c = mc_metadata c @ mc_hub c @ mc_video c @ mc_directory c"

definition items_media :: "metadata list \<Rightarrow> media set" where
  "items_media xs = (\<Union>x \<in> set xs. set (all_media x))"

definition container_media :: "media_container \<Rightarrow> media set" where
  "container_media c = items_media (container_items c)"

lemma items_media_simps [simp]:
  "items_media [] = {}" "items_media (x # xs) = set (all_media x) \<union> items_media xs"
  "items_media (xs @ ys) = items_media xs \<union> items_media ys"
  by (auto simp: items_media_def)

lemma items_media_mono: "set xs \<subseteq> set ys \<Longrightarrow> items_media xs \<subseteq> items_media ys"
  by (auto simp: items_media_def)

lemma all_media_eq:
  "set (all_media it) = set (md_media (attrs it)) \<union> items_media (metadata it)
     \<union> items_media (directory it) \<union> items_media (video it)"
  by (cases it) (auto simp: items_media_def)

lemma container_media_children_mut: "items_media (mc_children_mut c) \<subseteq> container_media c"
  by (auto simp: container_media_def container_items_def mc_children_mut_def)

lemma container_media_update:
  assumes "items_media (f (mc_children_mut c)) \<subseteq> items_media (mc_children_mut c)"
  shows "container_media (mc_update_children f c) \<subseteq> container_media c"
  using assms
  by (auto simp: container_media_def container_items_def mc_update_children_def mc_children_mut_def
      split: if_splits)

lemma container_media_fix_size [simp]: "container_media (fix_size c) = container_media c"
  by (simp add: fix_size_def container_media_def container_items_def)

lemma container_media_set_children:
  "container_media (mc_set_children xs c) \<subseteq> container_media c \<union> items_media xs"
  by (auto simp: container_media_def container_items_def mc_set_children_def Let_def)

lemma items_media_remove: "items_media (remove_nth i xs) \<subseteq> items_media xs"
  by (rule items_media_mono) (auto simp: remove_nth_def dest: in_set_takeD in_set_dropD)

lemma items_media_update_nth:
  assumes "i < length xs" "set (all_media y) \<subseteq> set (all_media (xs ! i))"
  shows "items_media (xs[i := y]) \<subseteq> items_media xs"
proof -
  have "set (xs[i := y]) \<subseteq> insert y (set xs)" by (rule set_update_subset_insert)
  with assms nth_mem [OF assms(1)] show ?thesis by (fastforce simp: items_media_def)
qed

lemma walk_media:
  assumes "\<And>it. set (all_media (tf_item t it)) \<subseteq> set (all_media it)"
  shows "container_media (apply_items t i c) \<subseteq> container_media c"
  using assms
proof (induction t i c rule: apply_items.induct)
  case (1 t i c)
  consider "\<not> i < length (mc_children_mut c)"
    | "i < length (mc_children_mut c)" "\<not> tf_filter t (mc_children_mut c ! i)"
    | "i < length (mc_children_mut c)" "\<not> \<not> tf_filter t (mc_children_mut c ! i)" by blast
  then show ?case
  proof cases
    case 1
    then show ?thesis by (subst apply_items.simps) simp
  next
    case 2
    then have step: "apply_items t i c = apply_items t i (mc_update_children (remove_nth i) c)"
      by (subst apply_items.simps) simp
    show ?thesis
      unfolding step
      by (rule subset_trans [OF "1.IH"(1) [OF 2 "1.prems"]
            container_media_update [where f = "remove_nth i", OF items_media_remove]])
  next
    case 3
    let ?f = "\<lambda>xs. xs[i := tf_item t (xs ! i)]"
    from 3 have step: "apply_items t i c = apply_items t (Suc i) (mc_update_children ?f c)"
      by (subst apply_items.simps) simp
    show ?thesis
      unfolding step
      by (rule subset_trans [OF "1.IH"(2) [OF 3 "1.prems"]
            container_media_update [where f = ?f, OF items_media_update_nth [OF 3(1) "1.prems"]]])
  qed
qed

locale media_safe =
  fixes t :: transform
  assumes safe_item: "set (all_media (tf_item t it)) \<subseteq> set (all_media it)"
    and safe_container: "container_media (tf_container t c) \<subseteq> container_media c"
begin

lemma safe_apply: "container_media (apply_one t c) \<subseteq> container_media c"
  unfolding apply_one_def
  by (rule subset_trans [OF safe_container walk_media [OF safe_item]])

end

lemma safe_foldl:
  assumes "\<And>t. t \<in> set ts \<Longrightarrow> media_safe t"
  shows "container_media (foldl (\<lambda>c t. apply_one t c) c ts) \<subseteq> container_media c"
  using assms
proof (induction ts arbitrary: c)
  case (Cons t ts)
  have "container_media (apply_one t c) \<subseteq> container_media c"
    by (rule media_safe.safe_apply) (simp add: Cons.prems)
  with Cons.IH [of "apply_one t c"] Cons.prems show ?case by auto
qed simp

lemma safe_apply_to:
  "(\<And>t. t \<in> set ts \<Longrightarrow> media_safe t) \<Longrightarrow> container_media (apply_to ts c) \<subseteq> container_media c"
  by (simp add: apply_to_def safe_foldl)

interpretation identity: media_safe identity_transform
  by unfold_locales (simp_all add: identity_transform_def)

end
