(* ===== verification/Resolution_Policy.thy ===== *)
theory Resolution_Policy
  imports Models
begin

text \<open>
  \<open>src/resolution_policy.rs\<close>: resolution limits and their order, parsing of limits and of the
  configured rules, the policy of an identity, the classification of a media version, and the
  choice of the best permitted version.  \<open>resolution_limit\<close> is an instance of \<open>linorder\<close>, as
  the derived \<open>Ord\<close> makes the Rust enum.
\<close>

named_theorems policy_simps \<open>equations of the policy decisions\<close>

subsection \<open>Limits\<close>

datatype resolution_limit = P480 | P720 | P1080 | P2160 | Unlimited

fun limit_rank :: "resolution_limit \<Rightarrow> nat" where
  "limit_rank P480 = 0"
| "limit_rank P720 = 1"
| "limit_rank P1080 = 2"
| "limit_rank P2160 = 3"
| "limit_rank Unlimited = 4"

lemma limit_rank_inject: "limit_rank a = limit_rank b \<longleftrightarrow> a = b"
  by (cases a; cases b) simp_all

instantiation resolution_limit :: linorder
begin

definition less_eq_resolution_limit :: "resolution_limit \<Rightarrow> resolution_limit \<Rightarrow> bool" where
  "a \<le> b \<longleftrightarrow> limit_rank a \<le> limit_rank b"

definition less_resolution_limit :: "resolution_limit \<Rightarrow> resolution_limit \<Rightarrow> bool" where
  "a < b \<longleftrightarrow> limit_rank a < limit_rank b"

instance
  by standard
    (auto simp: less_eq_resolution_limit_def less_resolution_limit_def limit_rank_inject)

end

lemmas limit_order = less_eq_resolution_limit_def less_resolution_limit_def

lemma limit_le_Unlimited [simp]: "l \<le> Unlimited"
  by (cases l) (simp_all add: limit_order)

lemma Unlimited_le [simp]: "Unlimited \<le> l \<longleftrightarrow> l = Unlimited"
  by (cases l) (simp_all add: limit_order)

definition limit_parse :: "string \<Rightarrow> resolution_limit option" where
  "limit_parse s =
     (let t = to_lower (trim s) in
      if t = ''480'' then Some P480
      else if t = ''720'' then Some P720
      else if t = ''1080'' \<or> t = ''2k'' then Some P1080
      else if t = ''4k'' \<or> t = ''2160'' then Some P2160
      else if t = ''unlimited'' \<or> t = '''' then Some Unlimited
      else None)"

definition limit_is_unrestricted :: "resolution_limit \<Rightarrow> bool" where
  "limit_is_unrestricted l \<longleftrightarrow> l = Unlimited"

subsection \<open>Configured rules\<close>

record policy_entry =
  pe_username :: "string option"
  pe_uuid :: "string option"
  pe_max_resolution :: resolution_limit
  pe_max_bitrate :: "i64 option"
  pe_visible_collections :: "string list"

record raw_policy_entry =
  raw_username :: "string option"
  raw_uuid :: "string option"
  raw_max_resolution :: string
  raw_max_bitrate :: "i64 option"
  raw_visible_collections :: "string list"

text \<open>The JSON value of the setting.  Parsing JSON text is \<open>serde_json\<close>'s; it enters as the
  function that reads the rules out of a string.  Only the distinctions the code makes are kept:
  a string (environment variables), or a value already structured (configuration files).\<close>

datatype raw_setting = SettingString string | SettingValue "string + raw_policy_entry list"

fun collect_entries :: "raw_policy_entry list \<Rightarrow> string + policy_entry list" where
  "collect_entries [] = Inr []"
| "collect_entries (e # es) =
     (if raw_username e = None \<and> raw_uuid e = None then collect_entries es
      else (case limit_parse (raw_max_resolution e) of
              None \<Rightarrow> Inl (raw_max_resolution e)
            | Some l \<Rightarrow>
                (case collect_entries es of
                   Inl err \<Rightarrow> Inl err
                 | Inr out \<Rightarrow>
                     Inr (\<lparr>pe_username = raw_username e, pe_uuid = raw_uuid e,
                           pe_max_resolution = l, pe_max_bitrate = raw_max_bitrate e,
                           pe_visible_collections = raw_visible_collections e\<rparr> # out))))"

definition deserialize_user_resolution_policies ::
  "(string \<Rightarrow> string + raw_policy_entry list) \<Rightarrow> raw_setting \<Rightarrow> string + policy_entry list" where
  "deserialize_user_resolution_policies json v =
     (case (case v of
              SettingString s \<Rightarrow> (if trim s = [] then Inr [] else json s)
            | SettingValue r \<Rightarrow> r) of
        Inl e \<Rightarrow> Inl e
      | Inr raw \<Rightarrow> collect_entries raw)"

subsection \<open>Identities and policies\<close>

record user_identity =
  ui_id :: i64
  ui_uuid :: string
  ui_username :: string

datatype identity_source =
  VerifiedPlex | SharedResource | SharedServer | TokenFingerprint | LegacyClientIdentifier
| UsernameFallback

definition identity_source_str :: "identity_source \<Rightarrow> string" where
  "identity_source_str s = (case s of
     VerifiedPlex \<Rightarrow> ''verified_plex''
   | SharedResource \<Rightarrow> ''shared_resource''
   | SharedServer \<Rightarrow> ''shared_server''
   | TokenFingerprint \<Rightarrow> ''token_fingerprint''
   | LegacyClientIdentifier \<Rightarrow> ''legacy_client_identifier''
   | UsernameFallback \<Rightarrow> ''username_fallback'')"

record resolved_identity =
  ri_identity :: user_identity
  ri_source :: identity_source

record resolution_policy =
  rp_limit :: resolution_limit
  rp_max_bitrate :: "i64 option"
  rp_hidden_collections :: "string list"

definition policy_unrestricted :: resolution_policy where
  "policy_unrestricted =
     \<lparr>rp_limit = Unlimited, rp_max_bitrate = None, rp_hidden_collections = []\<rparr>"

definition is_unrestricted :: "resolution_policy \<Rightarrow> bool" where
  "is_unrestricted p \<longleftrightarrow> limit_is_unrestricted (rp_limit p)"

definition matching_entry :: "policy_entry list \<Rightarrow> user_identity \<Rightarrow> policy_entry option" where
  "matching_entry policies i =
     opt_or (find (\<lambda>p. pe_uuid p = Some (ui_uuid i)) policies)
            (find (\<lambda>p. pe_username p = Some (ui_username i)) policies)"

definition resolve_policy ::
  "policy_entry list \<Rightarrow> resolution_limit \<Rightarrow> string list \<Rightarrow> user_identity \<Rightarrow> resolution_policy" where
  "resolve_policy policies default_limit default_hidden i =
     (let matched = matching_entry policies i;
          visible = (case matched of Some p \<Rightarrow> pe_visible_collections p | None \<Rightarrow> [])
      in \<lparr>rp_limit = (case matched of Some p \<Rightarrow> pe_max_resolution p | None \<Rightarrow> default_limit),
          rp_max_bitrate = (case matched of Some p \<Rightarrow> pe_max_bitrate p | None \<Rightarrow> None),
          rp_hidden_collections = filter (\<lambda>t. t \<notin> set visible) default_hidden\<rparr>)"

subsection \<open>Classification\<close>

definition classify_dimensions :: "i64 option \<Rightarrow> i64 option \<Rightarrow> resolution_limit option" where
  "classify_dimensions width height =
     (case (width, height) of
        (Some w, Some h) \<Rightarrow>
          (if \<not> (w > 0 \<and> h > 0) then None
           else if w > 4096 \<or> h > 2160 then None
           else if w > 1920 \<or> h > 1080 then Some P2160
           else if w > 1280 \<or> h > 720 then Some P1080
           else if w > 720 \<or> h > 480 then Some P720
           else Some P480)
      | _ \<Rightarrow> None)"

definition classify :: "media \<Rightarrow> resolution_limit option" where
  "classify m =
     (let from_text = Option.bind (m_video_resolution m) limit_parse;
          from_dims = classify_dimensions (m_width m) (m_height m)
      in (case (from_text, from_dims) of
            (Some a, Some b) \<Rightarrow> Some (max a b)
          | (Some a, None) \<Rightarrow> Some a
          | (None, Some b) \<Rightarrow> Some b
          | (None, None) \<Rightarrow> None))"

definition media_allowed :: "media \<Rightarrow> resolution_policy \<Rightarrow> bool" where
  "media_allowed m p =
     (if is_unrestricted p then True
      else (case classify m of Some l \<Rightarrow> l \<le> rp_limit p | None \<Rightarrow> False))"

definition allowed_media :: "media list \<Rightarrow> resolution_policy \<Rightarrow> media list" where
  "allowed_media ms p = filter (\<lambda>m. media_allowed m p) ms"

text \<open>The key of the choice: \<open>i64\<close> arithmetic, wrapping as the release build does.\<close>

definition density_key :: "i64 option \<Rightarrow> media \<Rightarrow> i64" where
  "density_key device_density m =
     (let density = i64_mul (unwrap_or (m_width m) 0) (unwrap_or (m_height m) 0)
      in (case device_density of
            Some dd \<Rightarrow> i64_abs (i64_sub density dd)
          | None \<Rightarrow> i64_neg density))"

definition best_allowed_media ::
  "media list \<Rightarrow> resolution_policy \<Rightarrow> (i64 \<times> i64) option \<Rightarrow> media option" where
  "best_allowed_media ms p screen =
     (let candidates = allowed_media ms p
      in if candidates = [] then None
         else min_by_key (density_key (map_option (\<lambda>(w, h). i64_mul w h) screen)) candidates)"

subsection \<open>Laws of the policy decisions\<close>

lemmas policy_defs [policy_simps] =
  is_unrestricted_def limit_is_unrestricted_def media_allowed_def policy_unrestricted_def

lemma media_allowed_unrestricted [simp]: "is_unrestricted p \<Longrightarrow> media_allowed m p"
  by (simp add: media_allowed_def)

lemma media_allowed_restricted:
  "\<not> is_unrestricted p \<Longrightarrow> media_allowed m p \<longleftrightarrow> (\<exists>l. classify m = Some l \<and> l \<le> rp_limit p)"
  by (auto simp: media_allowed_def split: option.splits)

lemma media_allowed_mono:
  assumes "rp_limit p \<le> rp_limit q" and "media_allowed m p"
  shows "media_allowed m q"
  using assms by (cases "is_unrestricted q")
    (auto simp: policy_simps split: option.splits if_splits intro: order_trans)

lemma classify_dimensions_ceiling:
  "classify_dimensions w h \<noteq> Some Unlimited"
  by (auto simp: classify_dimensions_def split: option.splits if_splits)

lemma classify_dimensions_mono:
  assumes "classify_dimensions (Some w) (Some h) = Some l"
    and "classify_dimensions (Some w') (Some h') = Some l'" and "w \<le> w'" "h \<le> h'"
  shows "l \<le> l'"
  using assms by (auto simp: classify_dimensions_def limit_order split: if_splits)

lemma classify_ge_dims:
  "classify_dimensions (m_width m) (m_height m) = Some d \<Longrightarrow> \<exists>l. classify m = Some l \<and> d \<le> l"
  by (auto simp: classify_def Let_def split: option.splits)

lemma classify_ge_text:
  "Option.bind (m_video_resolution m) limit_parse = Some t \<Longrightarrow> \<exists>l. classify m = Some l \<and> t \<le> l"
  by (auto simp: classify_def Let_def split: option.splits)

lemma allowed_media_sound: "m \<in> set (allowed_media ms p) \<longleftrightarrow> m \<in> set ms \<and> media_allowed m p"
  by (auto simp: allowed_media_def)

lemma best_allowed_sound:
  "best_allowed_media ms p s = Some m \<Longrightarrow> m \<in> set ms \<and> media_allowed m p"
  using min_by_key_in by (fastforce simp: best_allowed_media_def Let_def allowed_media_sound split: if_splits)

lemma best_allowed_optimal:
  assumes "best_allowed_media ms p s = Some b" and "m \<in> set ms" and "media_allowed m p"
  shows "density_key (map_option (\<lambda>(w, h). i64_mul w h) s) b
       \<le> density_key (map_option (\<lambda>(w, h). i64_mul w h) s) m"
  using assms min_by_key_le [of _ "allowed_media ms p" b m]
  by (auto simp: best_allowed_media_def Let_def allowed_media_sound split: if_splits)

lemma best_allowed_None:
  "best_allowed_media ms p s = None \<longleftrightarrow> (\<forall>m \<in> set ms. \<not> media_allowed m p)"
  by (auto simp: best_allowed_media_def Let_def min_by_key_None allowed_media_def filter_empty_conv)

lemma matching_entry_in: "matching_entry ps i = Some e \<Longrightarrow> e \<in> set ps"
  by (auto simp: matching_entry_def opt_or_def find_Some_iff split: option.splits)

lemma matching_entry_None:
  "matching_entry ps i = None \<longleftrightarrow>
   (\<forall>p \<in> set ps. pe_uuid p \<noteq> Some (ui_uuid i) \<and> pe_username p \<noteq> Some (ui_username i))"
proof (cases "find (\<lambda>p. pe_uuid p = Some (ui_uuid i)) ps")
  case None
  then have "matching_entry ps i = find (\<lambda>p. pe_username p = Some (ui_username i)) ps"
    by (simp add: matching_entry_def)
  with None show ?thesis by (auto simp: find_None_iff)
next
  case (Some x)
  with find_SomeD [OF this] show ?thesis by (auto simp: matching_entry_def)
qed

lemma matching_entry_uuid_first:
  assumes "p \<in> set ps" and "pe_uuid p = Some (ui_uuid i)"
  shows "\<exists>q. matching_entry ps i = Some q \<and> pe_uuid q = Some (ui_uuid i)"
proof (cases "find (\<lambda>p. pe_uuid p = Some (ui_uuid i)) ps")
  case None
  with assms show ?thesis by (auto simp: find_None_iff)
next
  case (Some x)
  with find_SomeD [OF this] show ?thesis by (auto simp: matching_entry_def)
qed

lemma collect_entries_identified:
  "collect_entries raw = Inr out \<Longrightarrow> e \<in> set out \<Longrightarrow> pe_username e \<noteq> None \<or> pe_uuid e \<noteq> None"
proof (induction raw arbitrary: out)
  case (Cons a raw)
  have "pe_username e \<noteq> None \<or> pe_uuid e \<noteq> None" if "collect_entries raw = Inr o'" "e \<in> set o'" for o'
    using Cons.IH that by blast
  with Cons.prems show ?case
    by (auto simp: Let_def split: if_splits option.splits sum.splits)
qed simp

lemma resolve_policy_fields:
  "rp_limit (resolve_policy ps d hid i) =
     (case matching_entry ps i of Some p \<Rightarrow> pe_max_resolution p | None \<Rightarrow> d)"
  "rp_max_bitrate (resolve_policy ps d hid i) =
     (case matching_entry ps i of Some p \<Rightarrow> pe_max_bitrate p | None \<Rightarrow> None)"
  "set (rp_hidden_collections (resolve_policy ps d hid i)) \<subseteq> set hid"
  by (auto simp: resolve_policy_def Let_def)

end
