(* ===== verification/Config.thy ===== *)
theory Config
  imports "HOL-Library.While_Combinator" Resolution_Policy "HOL-Library.AList"
begin

text \<open>
  \<open>src/config.rs\<close>: the configuration record, its validation, the allow-list of upstream
  servers, the bindings of token fingerprints to accounts, and the deserialisers that decide
  something.  The \<open>url\<close> crate is the record \<open>base_urls\<close> of its parser and printer; JSON text is
  read by a parameter.
\<close>

subsection \<open>The configuration\<close>

datatype token_identity_binding =
  Username string | Detailed string "string option"

fun binding_username :: "token_identity_binding \<Rightarrow> string" where
  "binding_username (Username u) = u"
| "binding_username (Detailed u c) = u"

fun binding_client_identifier :: "token_identity_binding \<Rightarrow> string option" where
  "binding_client_identifier (Username u) = None"
| "binding_client_identifier (Detailed u c) = c"

record config =
  cf_host :: "string option"
  cf_token :: "string option"
  cf_port :: "nat option"
  cf_interleave :: "bool"
  cf_hub_restrictions :: "bool"
  cf_exclude_watched :: "bool"
  cf_cache_ttl :: "nat"
  cf_hub_stale_ttl :: "nat"
  cf_warm_interval :: "nat"
  cf_warm_tokens :: "(string list) option"
  cf_cache_rows :: "bool"
  cf_cache_rows_refresh :: "bool"
  cf_hero_rows :: "(string list) option"
  cf_ssl_enable :: "bool"
  cf_ssl_domain :: "string option"
  cf_newrelic_api_key :: "string option"
  cf_enable_console :: "bool"
  cf_disable_continue_watching :: "bool"
  cf_disable_user_state :: "bool"
  cf_disable_leaf_count :: "bool"
  cf_redirect_streams :: "bool"
  cf_redirect_streams_host :: "string option"
  cf_allowed_upstream_hosts :: "(string list) option"
  cf_disable_related :: "bool"
  cf_disable_transcode :: "bool"
  cf_force_maximum_quality :: "bool"
  cf_auto_select_version :: "bool"
  cf_video_transcode_fallback_for :: "(string list) option"
  cf_force_direct_play_for :: "(string list) option"
  cf_test_script :: "string option"
  cf_ntf_watchlist_force :: "bool"
  cf_resolution_policy_enabled :: "bool"
  cf_user_resolution_policies :: "policy_entry list"
  cf_resolution_default :: "resolution_limit"
  cf_resolution_policy_fail_closed :: "bool"
  cf_allow_username_fallback :: "bool"
  cf_token_identity_map :: "(string \<times> token_identity_binding) list"
  cf_client_identity_map :: "(string \<times> string) list"
  cf_identity_cache_ttl :: "nat"
  cf_identity_api_base :: "string option"
  cf_hidden_collections :: "(string list) option"

text \<open>The values of the serde defaults.\<close>

definition default_config :: config where
  "default_config = \<lparr>
    cf_host = None, cf_token = None, cf_port = None, cf_interleave = True,
    cf_hub_restrictions = True, cf_exclude_watched = True, cf_cache_ttl = 1800,
    cf_hub_stale_ttl = 300, cf_warm_interval = 300, cf_warm_tokens = None, cf_cache_rows = True,
    cf_cache_rows_refresh = True, cf_hero_rows = None, cf_ssl_enable = False,
    cf_ssl_domain = None, cf_newrelic_api_key = None, cf_enable_console = False,
    cf_disable_continue_watching = False, cf_disable_user_state = False,
    cf_disable_leaf_count = True, cf_redirect_streams = False, cf_redirect_streams_host = None,
    cf_allowed_upstream_hosts = None, cf_disable_related = False, cf_disable_transcode = False,
    cf_force_maximum_quality = False, cf_auto_select_version = False,
    cf_video_transcode_fallback_for = None, cf_force_direct_play_for = None,
    cf_test_script = None, cf_ntf_watchlist_force = False, cf_resolution_policy_enabled = False,
    cf_user_resolution_policies = [], cf_resolution_default = Unlimited,
    cf_resolution_policy_fail_closed = True, cf_allow_username_fallback = False,
    cf_token_identity_map = [], cf_client_identity_map = [], cf_identity_cache_ttl = 3600,
    cf_identity_api_base = None, cf_hidden_collections = None \<rparr>"

definition identity_api_base :: "config \<Rightarrow> string" where
  "identity_api_base c = unwrap_or (cf_identity_api_base c) ''https://plex.tv''"

subsection \<open>Base URLs and the allow-list\<close>

record base_url =
  bu_scheme :: string
  bu_host :: "string option"
  bu_path :: string
  bu_query :: "string option"
  bu_fragment :: "string option"

record base_urls =
  bu_parse :: "string \<Rightarrow> base_url option"
  bu_print :: "base_url \<Rightarrow> string"

text \<open>The loop of \<open>normalize_base_url\<close> on the path; setting an empty path on an http URL gives
  the path \<open>/\<close>.\<close>

definition set_path :: "string \<Rightarrow> string" where
  "set_path p = (if p = [] then ''/'' else p)"

lemma length_trim_end_of: "length (trim_end_of c s) \<le> length s"
  unfolding trim_end_of_def length_rev
  using length_dropWhile_le [of "\<lambda>x. x = c" "rev s"] by simp

lemma trim_end_of_no_suffix: "\<not> suffix [c] (trim_end_of c s)"
proof
  assume "suffix [c] (trim_end_of c s)"
  then obtain t where "trim_end_of c s = t @ [c]" by (auto simp: suffix_def)
  then have "dropWhile (\<lambda>x. x = c) (rev s) = c # rev t"
    by (metis rev_eq_Cons_iff rev_rev_ident trim_end_of_def)
  then show False using hd_dropWhile [of "\<lambda>x. x = c" "rev s"] by simp
qed

lemma length_set_path_trim:
  assumes "length p > 1" "suffix [c] p"
  shows "length (set_path (trim_end_of c p)) < length p"
proof -
  have "trim_end_of c p \<noteq> p" using trim_end_of_no_suffix assms(2) by metis
  moreover have "suffix (dropWhile (\<lambda>x. x = c) (rev p)) (rev p)" by (rule suffix_dropWhile)
  then obtain zs where "rev p = zs @ dropWhile (\<lambda>x. x = c) (rev p)" by (auto simp: suffix_def)
  then have "trim_end_of c p = p" if "length (trim_end_of c p) = length p"
    using that unfolding trim_end_of_def length_rev
    by (metis append_Nil append_eq_append_conv length_rev list.size(3) rev_rev_ident same_append_eq
        add_cancel_left_left length_0_conv length_append)
  ultimately show ?thesis
    using length_trim_end_of [of c p] assms(1) by (fastforce simp: set_path_def)
qed

function normalize_path :: "string \<Rightarrow> string" where
  "normalize_path p =
     (if length p > 1 \<and> ends_with p ''/''
      then normalize_path (set_path (trim_end_of CHR ''/'' p)) else p)"
  by pat_completeness auto
termination
  by (relation "measure length") (auto simp: ends_with_suffix length_set_path_trim)

declare normalize_path.simps [simp del]

text \<open>The loop as the code runs it.\<close>

definition trim_more :: "string \<Rightarrow> bool" where
  "trim_more p \<longleftrightarrow> length p > 1 \<and> ends_with p ''/''"

definition trim_round :: "string \<Rightarrow> string" where
  "trim_round p = set_path (trim_end_of CHR ''/'' p)"

lemma normalize_path_same: "\<not> trim_more p \<Longrightarrow> normalize_path p = p"
  by (subst normalize_path.simps) (auto simp: trim_more_def)

lemma normalize_path_round: "trim_more p \<Longrightarrow> normalize_path p = normalize_path (trim_round p)"
  by (subst normalize_path.simps) (simp add: trim_more_def trim_round_def)

lemma normalize_path_while: "while_option trim_more trim_round p = Some (normalize_path p)"
proof (induction p rule: normalize_path.induct)
  case (1 p)
  show ?case
  proof (cases "trim_more p")
    case True
    then have "while_option trim_more trim_round (trim_round p) = Some (normalize_path (trim_round p))"
      by (rule 1 [folded trim_more_def trim_round_def])
    with True show ?thesis by (simp add: while_option_unfold normalize_path_round)
  qed (simp add: while_option_unfold normalize_path_same)
qed

lemma normalize_path_done: "\<not> trim_more (normalize_path p)"
  by (rule while_option_stop [OF normalize_path_while])

definition normalize_base_url :: "base_urls \<Rightarrow> string \<Rightarrow> string option" where
  "normalize_base_url bus v =
     (case bu_parse bus v of
        None \<Rightarrow> None
      | Some u \<Rightarrow>
          (if bu_scheme u \<notin> {''http'', ''https''} \<or> bu_host u = None \<or> bu_query u \<noteq> None
              \<or> bu_fragment u \<noteq> None
           then None
           else Some (trim_end_of CHR ''/''
                        (bu_print bus (u\<lparr>bu_path := normalize_path (bu_path u)\<rparr>)))))"

definition upstream_matches_allowlist :: "base_urls \<Rightarrow> string \<Rightarrow> string list \<Rightarrow> bool" where
  "upstream_matches_allowlist bus candidate allowed =
     (case normalize_base_url bus candidate of
        None \<Rightarrow> False
      | Some c \<Rightarrow> list_ex (\<lambda>a. a = c) (List.map_filter (normalize_base_url bus) allowed))"

definition allows_upstream_host :: "base_urls \<Rightarrow> config \<Rightarrow> string \<Rightarrow> bool" where
  "allows_upstream_host bus c candidate =
     upstream_matches_allowlist bus candidate
       ((case cf_host c of Some h \<Rightarrow> [h] | None \<Rightarrow> [])
        @ (case cf_redirect_streams_host c of Some h \<Rightarrow> [h] | None \<Rightarrow> [])
        @ (case cf_allowed_upstream_hosts c of Some hs \<Rightarrow> hs | None \<Rightarrow> []))"

subsection \<open>Validation\<close>

datatype config_error =
  MissingHost | InvalidBaseUrl string string | InvalidPort nat | MissingSslDomain
| InvalidClientIdentityBinding | InvalidPolicyIdentity | InvalidBitrate i64
| InvalidDiskCacheSize string

definition validate_base_url :: "base_urls \<Rightarrow> string \<Rightarrow> string \<Rightarrow> config_error option" where
  "validate_base_url bus fld v =
     (case bu_parse bus v of
        None \<Rightarrow> Some (InvalidBaseUrl fld v)
      | Some u \<Rightarrow>
          (let valid_scheme = (bu_scheme u = ''http'' \<or> bu_scheme u = ''https'');
               valid_host = (bu_host u \<noteq> None);
               clean_base = (bu_query u = None \<and> bu_fragment u = None)
           in if \<not> valid_scheme \<or> \<not> valid_host \<or> \<not> clean_base
              then Some (InvalidBaseUrl fld v) else None))"

fun first_error :: "('a \<Rightarrow> 'e option) \<Rightarrow> 'a list \<Rightarrow> 'e option" where
  "first_error f [] = None"
| "first_error f (x # xs) = (case f x of Some e \<Rightarrow> Some e | None \<Rightarrow> first_error f xs)"

definition blank :: "string option \<Rightarrow> bool" where
  "blank s = (case s of Some v \<Rightarrow> trim v = [] | None \<Rightarrow> False)"

definition policy_entry_error :: "policy_entry \<Rightarrow> config_error option" where
  "policy_entry_error p =
     (if blank (pe_username p) \<or> blank (pe_uuid p) then Some InvalidPolicyIdentity
      else (case pe_max_bitrate p of
              Some b \<Rightarrow> if b \<le> 0 then Some (InvalidBitrate b) else None
            | None \<Rightarrow> None))"

definition disk_size_error :: "string option \<Rightarrow> config_error option" where
  "disk_size_error env =
     (case env of
        None \<Rightarrow> None
      | Some raw \<Rightarrow>
          (case parse_uint u64_max (trim raw) of
             None \<Rightarrow> Some (InvalidDiskCacheSize raw)
           | Some gb \<Rightarrow>
               if gb = 0 \<or> gb * (1024 * 1024 * 1024) > u64_max
               then Some (InvalidDiskCacheSize raw) else None))"

text \<open>The checks of \<open>validate\<close> in their order; the first failing one is the answer.  \<open>disk_env\<close>
  is the value of \<open>REPLEX_DISK_CACHE_MAX_GB\<close>.\<close>

definition config_checks :: "base_urls \<Rightarrow> string option \<Rightarrow> config \<Rightarrow> config_error option list" where
  "config_checks bus disk_env c =
     [(case cf_host c of None \<Rightarrow> Some MissingHost
       | Some h \<Rightarrow> validate_base_url bus ''REPLEX_HOST'' h),
      (case cf_redirect_streams_host c of None \<Rightarrow> None
       | Some h \<Rightarrow> validate_base_url bus ''REPLEX_REDIRECT_STREAMS_HOST'' h),
      first_error (validate_base_url bus ''REPLEX_ALLOWED_UPSTREAM_HOSTS'')
        (unwrap_or (cf_allowed_upstream_hosts c) []),
      (case cf_identity_api_base c of None \<Rightarrow> None
       | Some b \<Rightarrow> validate_base_url bus ''REPLEX_IDENTITY_API_BASE'' b),
      (case cf_port c of
         Some port \<Rightarrow> if port = 0 \<or> port > 65535 then Some (InvalidPort port) else None
       | None \<Rightarrow> None),
      (if cf_ssl_enable c \<and> (case cf_ssl_domain c of Some d \<Rightarrow> trim d = [] | None \<Rightarrow> True)
       then Some MissingSslDomain else None),
      first_error (\<lambda>(client, user). if trim client = [] \<or> trim user = []
                     then Some InvalidClientIdentityBinding else None) (cf_client_identity_map c),
      first_error policy_entry_error (cf_user_resolution_policies c),
      disk_size_error disk_env]"

definition validate :: "base_urls \<Rightarrow> string option \<Rightarrow> config \<Rightarrow> config_error option" where
  "validate bus disk_env c = first_error (\<lambda>e. e) (config_checks bus disk_env c)"

subsection \<open>Deserialisers\<close>

datatype 'a json_setting = JsonString string | JsonValue 'a

definition deserialize_json_map ::
  "(string \<Rightarrow> string + 'm list) \<Rightarrow> (string + 'm list) json_setting \<Rightarrow> string + 'm list" where
  "deserialize_json_map from_str v =
     (case v of
        JsonString s \<Rightarrow> if trim s = [] then Inr [] else from_str s
      | JsonValue r \<Rightarrow> r)"

datatype fingerprint_error = JsonError string | BadFingerprint string | EmptyUsername string
  | EmptyClientIdentifier string

fun validate_bindings ::
  "(string \<times> token_identity_binding) list \<Rightarrow> (string \<times> token_identity_binding) list
   \<Rightarrow> fingerprint_error + (string \<times> token_identity_binding) list" where
  "validate_bindings [] acc = Inr acc"
| "validate_bindings ((f, b) # rest) acc =
     (let fp = to_lower (trim f) in
      if length fp \<noteq> 64 \<or> \<not> list_all is_hexdigit fp then Inl (BadFingerprint fp)
      else if trim (binding_username b) = [] then Inl (EmptyUsername fp)
      else if blank (binding_client_identifier b) then Inl (EmptyClientIdentifier fp)
      else validate_bindings rest (AList.update fp b acc))"

definition deserialize_token_identity_map ::
  "(string \<Rightarrow> string + (string \<times> token_identity_binding) list)
   \<Rightarrow> (string + (string \<times> token_identity_binding) list) json_setting
   \<Rightarrow> fingerprint_error + (string \<times> token_identity_binding) list" where
  "deserialize_token_identity_map from_str v =
     (case deserialize_json_map from_str v of
        Inl e \<Rightarrow> Inl (JsonError e)
      | Inr bindings \<Rightarrow> validate_bindings bindings [])"

definition deserialize_client_identity_map ::
  "(string \<Rightarrow> string + (string \<times> string) list) \<Rightarrow> (string + (string \<times> string) list) json_setting
   \<Rightarrow> string + (string \<times> string) list" where
  "deserialize_client_identity_map from_str v = deserialize_json_map from_str v"

definition deserialize_resolution_default :: "string option \<Rightarrow> string + resolution_limit" where
  "deserialize_resolution_default v =
     (case v of
        None \<Rightarrow> Inr Unlimited
      | Some s \<Rightarrow> (case limit_parse s of Some l \<Rightarrow> Inr l | None \<Rightarrow> Inl s))"

definition deserialize_host :: "string option \<Rightarrow> string option" where
  "deserialize_host v =
     map_option (\<lambda>s. if ends_with s ''/'' then butlast s else s) v"

subsection \<open>Laws\<close>

lemma first_error_None: "first_error f xs = None \<longleftrightarrow> (\<forall>x \<in> set xs. f x = None)"
  by (induction xs) (auto split: option.splits)

lemma first_error_Some: "first_error f xs = Some e \<Longrightarrow> \<exists>x \<in> set xs. f x = Some e"
  by (induction xs) (auto split: option.splits)

lemma validate_base_url_None:
  "validate_base_url bus fld v = None \<longleftrightarrow>
   (\<exists>u. bu_parse bus v = Some u \<and> bu_scheme u \<in> {''http'', ''https''} \<and> bu_host u \<noteq> None
      \<and> bu_query u = None \<and> bu_fragment u = None)"
  by (auto simp: validate_base_url_def Let_def split: option.splits if_splits)

lemma validated_normalizes:
  "validate_base_url bus fld v = None \<Longrightarrow> normalize_base_url bus v \<noteq> None"
  by (auto simp: validate_base_url_None normalize_base_url_def)

lemma normalize_path_no_slash:
  "length (normalize_path p) > 1 \<Longrightarrow> \<not> ends_with (normalize_path p) ''/''"
proof (induction p rule: normalize_path.induct)
  case (1 p)
  show ?case
  proof (cases "length p > 1 \<and> ends_with p ''/''")
    case True
    then have eq: "normalize_path p = normalize_path (set_path (trim_end_of CHR ''/'' p))"
      by (subst normalize_path.simps) simp
    from 1 True show ?thesis unfolding eq by blast
  next
    case False
    then have "normalize_path p = p" by (subst normalize_path.simps) (simp only: if_False)
    with False 1(2) show ?thesis by simp
  qed
qed

lemma allows_upstream_iff:
  "allows_upstream_host bus c candidate \<longleftrightarrow>
   (\<exists>n a. normalize_base_url bus candidate = Some n \<and> normalize_base_url bus a = Some n
      \<and> (cf_host c = Some a \<or> cf_redirect_streams_host c = Some a
          \<or> a \<in> set (unwrap_or (cf_allowed_upstream_hosts c) [])))"
proof -
  have "list_ex (\<lambda>a. a = n) (List.map_filter (normalize_base_url bus) as)
      \<longleftrightarrow> (\<exists>a \<in> set as. normalize_base_url bus a = Some n)" for n as
    by (induction as) (auto simp: List.map_filter_simps split: option.splits)
  then show ?thesis
    by (cases "cf_host c"; cases "cf_redirect_streams_host c"; cases "cf_allowed_upstream_hosts c")
      (auto simp: allows_upstream_host_def upstream_matches_allowlist_def split: option.splits)
qed

lemma validate_None:
  "validate bus env c = None \<longleftrightarrow> (\<forall>e \<in> set (config_checks bus env c). e = None)"
  by (simp add: validate_def first_error_None)

lemma validated_host:
  "validate bus env c = None \<Longrightarrow>
   \<exists>h. cf_host c = Some h \<and> validate_base_url bus ''REPLEX_HOST'' h = None"
  by (auto simp: validate_None config_checks_def split: option.splits)

lemma validated_disk_size:
  "validate bus env c = None \<Longrightarrow> disk_size_error env = None"
  by (simp add: validate_None config_checks_def)

lemma validated_policies:
  "validate bus env c = None \<Longrightarrow> p \<in> set (cf_user_resolution_policies c) \<Longrightarrow>
   policy_entry_error p = None"
  by (simp add: validate_None config_checks_def first_error_None)

lemma validated_port:
  "validate bus env c = None \<Longrightarrow> cf_port c = Some port \<Longrightarrow> 1 \<le> port \<and> port \<le> 65535"
  by (auto simp: validate_None config_checks_def split: if_splits)

definition canonical_fingerprint :: "string \<Rightarrow> bool" where
  "canonical_fingerprint f \<longleftrightarrow> length f = 64 \<and> list_all is_hexdigit f \<and> to_lower f = f"

lemma validate_bindings_canonical:
  "validate_bindings bs acc = Inr out \<Longrightarrow>
   (\<forall>(f, b) \<in> set acc. canonical_fingerprint f \<and> trim (binding_username b) \<noteq> []
      \<and> \<not> blank (binding_client_identifier b)) \<Longrightarrow>
   (\<forall>(f, b) \<in> set out. canonical_fingerprint f \<and> trim (binding_username b) \<noteq> []
      \<and> \<not> blank (binding_client_identifier b))"
proof (induction bs acc rule: validate_bindings.induct)
  case (2 f b rest acc)
  let ?fp = "to_lower (trim f)"
  from "2.prems"(1) have ok: "length ?fp = 64" "list_all is_hexdigit ?fp"
    "trim (binding_username b) \<noteq> []" "\<not> blank (binding_client_identifier b)"
    and rest: "validate_bindings rest (AList.update ?fp b acc) = Inr out"
    by (auto simp: Let_def split: if_splits)
  have "set (AList.update ?fp b acc) \<subseteq> insert (?fp, b) (set acc)"
    by (induction acc) auto
  with "2.prems"(2) ok have "\<forall>(f, b) \<in> set (AList.update ?fp b acc). canonical_fingerprint f
      \<and> trim (binding_username b) \<noteq> [] \<and> \<not> blank (binding_client_identifier b)"
    by (auto simp: canonical_fingerprint_def)
  from "2.IH" [OF refl _ _ _ rest this] ok show ?case by simp
qed simp

lemma deserialize_host_single:
  "\<not> ends_with s ''/'' \<Longrightarrow> deserialize_host (Some (s @ ''/'')) = Some s"
  by (simp add: deserialize_host_def ends_with_suffix)

end
