(* ===== verification/Requests.thy ===== *)
theory Requests
  imports Prelude
begin

text \<open>
  Requests as the handlers see them: the decoded query with the \<open>MultiMap\<close> operations on it,
  the headers, the query rewriting of \<open>src/utils.rs\<close>, the content type negotiation, and the
  token of a request (\<open>request_token\<close> of \<open>src/routes.rs\<close>).

  A request keeps its path, its query as the ordered list of decoded name/value pairs, and its
  headers under lower-case names with the values that read as text.  Percent-decoding and
  -encoding of a query are inverse to each other and stay in the URL library, so a rewritten
  URI is the list of its new pairs.  \<open>MultiMap\<close> is that list too: \<open>get\<close> finds the first value of
  a name, \<open>insert\<close> appends, and \<open>iter\<close> gives every name once with its first value.  The Rust map
  iterates in an unspecified order; the list fixes the order of first occurrence, which only
  shows when a query spells one name in two ways.
\<close>

named_theorems request_simps \<open>equations of requests and queries\<close>

type_synonym query = "(string \<times> string) list"

record request =
  rq_method :: string
  rq_path :: string
  rq_query :: query
  rq_headers :: "(string \<times> string) list"
  rq_absolute :: bool  \<comment> \<open>whether \<open>Url::parse\<close> accepts the URI of the request\<close>

subsection \<open>\<open>MultiMap\<close>\<close>

definition mm_get :: "query \<Rightarrow> string \<Rightarrow> string option" where
  "mm_get q n = map_of q n"

definition mm_insert :: "string \<Rightarrow> string \<Rightarrow> query \<Rightarrow> query" where
  "mm_insert n v q = q @ [(n, v)]"

definition mm_remove :: "string \<Rightarrow> query \<Rightarrow> query" where
  "mm_remove n q = filter (\<lambda>(k, _). k \<noteq> n) q"

definition mm_set :: "string \<Rightarrow> string \<Rightarrow> query \<Rightarrow> query" where
  "mm_set n v q = mm_insert n v (mm_remove n q)"

fun mm_iter :: "query \<Rightarrow> query" where
  "mm_iter [] = []"
| "mm_iter ((k, v) # q) = (k, v) # mm_iter (filter (\<lambda>(k', _). k' \<noteq> k) q)"

subsection \<open>Headers and the token\<close>

definition header :: "request \<Rightarrow> string \<Rightarrow> string option" where
  "header r n = map_of (rq_headers r) (to_lower n)"

definition find_query_ci :: "string \<Rightarrow> query \<Rightarrow> string option" where
  "find_query_ci n q = map_option snd (find (\<lambda>(k, _). eq_ignore_case k n) (mm_iter q))"

definition request_token :: "request \<Rightarrow> string option" where
  "request_token r =
     (case header r ''X-Plex-Token'' of
        Some v \<Rightarrow> Some v
      | None \<Rightarrow> find_query_ci ''x-plex-token'' (rq_query r))"

text \<open>The header names of \<open>src/headers.rs\<close>.\<close>

definition PLEX_TOKEN :: string where "PLEX_TOKEN = ''x-plex-token''"
definition PLEX_LANGUAGE :: string where "PLEX_LANGUAGE = ''x-plex-language''"
definition PLEX_PLATFORM :: string where "PLEX_PLATFORM = ''x-plex-platform''"
definition PLEX_CLIENT_IDENTIFIER :: string where
  "PLEX_CLIENT_IDENTIFIER = ''x-plex-client-identifier''"
definition PLEX_CLIENT_PROFILE_EXTRA :: string where
  "PLEX_CLIENT_PROFILE_EXTRA = ''x-plex-client-profile-extra''"
definition PLEX_SESSION_ID :: string where "PLEX_SESSION_ID = ''x-plex-client-identifier''"

text \<open>The session has the name of the client.\<close>

lemma session_header_is_the_client_header: "PLEX_SESSION_ID = PLEX_CLIENT_IDENTIFIER"
  by (simp add: PLEX_SESSION_ID_def PLEX_CLIENT_IDENTIFIER_def)

subsection \<open>Rewriting the query\<close>

definition replace_query :: "query \<Rightarrow> request \<Rightarrow> request" where
  "replace_query q r = (if rq_absolute r then r\<lparr>rq_query := mm_iter q\<rparr> else r)"

definition add_query_param_salvo :: "string \<Rightarrow> string \<Rightarrow> request \<Rightarrow> request" where
  "add_query_param_salvo n v r =
     (if rq_absolute r
      then r\<lparr>rq_query := filter (\<lambda>(k, _). k \<noteq> n) (rq_query r) @ [(n, v)]\<rparr>
      else r)"

subsection \<open>Content types\<close>

datatype content_type = Json | Xml

definition get_content_type_from_headers :: "string option \<Rightarrow> string option \<Rightarrow> content_type" where
  "get_content_type_from_headers content_type accept =
     (let c = unwrap_or (opt_or content_type accept) ''text/xml;charset=utf-8''
      in if contains c ''application/json'' then Json
         else if contains c ''text/xml'' then Xml
         else Xml)"

text \<open>\<open>mime_to_content_type\<close> matches on the top-level type, as the source does.\<close>

definition mime_to_content_type :: "string \<Rightarrow> string \<Rightarrow> content_type" where
  "mime_to_content_type ty sub =
     (if ty = ''json'' then Json else if ty = ''xml'' then Xml else Xml)"

subsection \<open>Laws\<close>

lemmas mm_defs [request_simps] = mm_get_def mm_insert_def mm_remove_def mm_set_def

lemma map_of_filter_ne [request_simps]:
  "map_of (filter (\<lambda>(k, _). k \<noteq> n) q) m = (if m = n then None else map_of q m)"
  by (induction q) auto

lemma map_add_single [request_simps]:
  "([n \<mapsto> v] ++ f) m = (case f m of Some w \<Rightarrow> Some w | None \<Rightarrow> if m = n then Some v else None)"
  by (simp add: map_add_def split: option.splits)

lemma map_of_mm_iter [simp]: "map_of (mm_iter q) n = map_of q n"
proof (induction q rule: mm_iter.induct)
  case (2 k v q)
  then show ?case by (auto simp: map_of_filter_ne)
qed simp

lemma mm_iter_subset: "set (mm_iter q) \<subseteq> set q"
proof (induction q rule: mm_iter.induct)
  case (2 k v q)
  then show ?case by auto
qed simp

lemma mm_iter_distinct: "distinct (map fst (mm_iter q))"
proof (induction q rule: mm_iter.induct)
  case (2 k v q)
  have "k \<notin> fst ` set (mm_iter (filter (\<lambda>(k', _). k' \<noteq> k) q))"
    using mm_iter_subset by fastforce
  with 2 show ?case by simp
qed simp

lemma mm_iter_distinct_id: "distinct (map fst q) \<Longrightarrow> mm_iter q = q"
proof (induction q rule: mm_iter.induct)
  case (2 k v q)
  then have "filter (\<lambda>(k', _). k' \<noteq> k) q = q"
    by (auto simp: filter_id_conv image_iff)
  with 2 show ?case by simp
qed simp

lemma mm_get_set [simp]:
  "mm_get (mm_set n v q) m = (if m = n then Some v else mm_get q m)"
  by (auto simp: request_simps split: option.splits)

lemma mm_get_remove [simp]:
  "mm_get (mm_remove n q) m = (if m = n then None else mm_get q m)"
  by (simp add: request_simps)

lemma mm_get_insert_new: "mm_get q n = None \<Longrightarrow> mm_get (mm_insert n v q) n = Some v"
  by (auto simp: request_simps)

lemma mm_get_insert_other [simp]: "m \<noteq> n \<Longrightarrow> mm_get (mm_insert n v q) m = mm_get q m"
  by (auto simp: request_simps split: option.splits)

lemma mm_set_keys: "n \<in> fst ` set (mm_set m v q) \<longleftrightarrow> n = m \<or> n \<in> fst ` set q"
  by (force simp: request_simps)

lemma replace_query_get:
  "rq_absolute r \<Longrightarrow> mm_get (rq_query (replace_query q r)) n = mm_get q n"
  by (simp add: replace_query_def mm_get_def)

lemma add_query_param_get:
  "rq_absolute r \<Longrightarrow>
   mm_get (rq_query (add_query_param_salvo n v r)) m = (if m = n then Some v else mm_get (rq_query r) m)"
  by (auto simp: add_query_param_salvo_def request_simps split: option.splits)

lemma add_query_param_once:
  "rq_absolute r \<Longrightarrow> filter (\<lambda>(k, _). k = n) (rq_query (add_query_param_salvo n v r)) = [(n, v)]"
  by (simp add: add_query_param_salvo_def) (auto simp: filter_empty_conv)

lemma query_rewrites_keep [simp]:
  "rq_path (replace_query q r) = rq_path r" "rq_headers (replace_query q r) = rq_headers r"
  "rq_absolute (replace_query q r) = rq_absolute r" "rq_method (replace_query q r) = rq_method r"
  "rq_path (add_query_param_salvo n v r) = rq_path r"
  "rq_headers (add_query_param_salvo n v r) = rq_headers r"
  "rq_absolute (add_query_param_salvo n v r) = rq_absolute r"
  "rq_method (add_query_param_salvo n v r) = rq_method r"
  by (simp_all add: replace_query_def add_query_param_salvo_def)

lemma find_query_ci_Some:
  "find_query_ci n q = Some v \<Longrightarrow> \<exists>k. (k, v) \<in> set q \<and> eq_ignore_case k n"
  using mm_iter_subset [of q] by (fastforce simp: find_query_ci_def dest: find_SomeD)

lemma find_query_ci_None:
  "find_query_ci n q = None \<longleftrightarrow> (\<forall>(k, v) \<in> set q. \<not> eq_ignore_case k n)"
proof -
  have "fst ` set (mm_iter q) = fst ` set q"
    by (metis map_of_mm_iter map_of_eq_None_iff set_eqI)
  then have "(\<exists>v. (k, v) \<in> set (mm_iter q)) \<longleftrightarrow> (\<exists>v. (k, v) \<in> set q)" for k
    by (metis (no_types, lifting) fst_conv image_iff prod.collapse)
  then show ?thesis by (auto simp: find_query_ci_def find_None_iff)
qed

lemma request_token_header_first:
  "header r ''X-Plex-Token'' = Some t \<Longrightarrow> request_token r = Some t"
  by (simp add: request_token_def)

end
