(* ===== verification/Cache_Keys.thy ===== *)
theory Cache_Keys
  imports Requests "HOL-Library.Multiset" "HOL-Library.Product_Lexorder"
begin

text \<open>
  Cache keys: the account scope (\<open>src/account_scope.rs\<close>), the keys of library pages and of
  artwork (\<open>src/routes.rs\<close>), and the keys and fetch paths of hubs (\<open>src/routes.rs\<close>,
  \<open>src/hub_cache.rs\<close>).

  SHA-256 is the parameter \<open>sha\<close>, which yields the lower-case hexadecimal digest.  The \<open>url\<close>
  crate is the parameter \<open>url_lib\<close>: parsing a text into a path and its decoded query pairs,
  writing a URL whose pairs were replaced, encoding pairs as a query, and whether
  \<open>hyper::Uri\<close> accepts a text.
\<close>

subsection \<open>Account scopes\<close>

definition token_fingerprint :: "(string \<Rightarrow> string) \<Rightarrow> string \<Rightarrow> string" where
  "token_fingerprint sha token = sha token"

definition token_scope :: "(string \<Rightarrow> string) \<Rightarrow> string option \<Rightarrow> string" where
  "token_scope sha token =
     (case token of
        Some t \<Rightarrow> take 16 (token_fingerprint sha t)
      | None \<Rightarrow> ''anon'')"

definition hex_digest :: "(string \<Rightarrow> string) \<Rightarrow> bool" where
  "hex_digest sha \<longleftrightarrow> (\<forall>t. length (sha t) = 64 \<and> list_all is_hexdigit (sha t))"

text \<open>The keys of disk files and the fingerprints write the 32 bytes of the digest as hexadecimal digits; with
  \<open>sha = hash_key digest\<close> the assumption \<open>hex_digest\<close> is the length of the digest.\<close>

definition hex_digit :: "nat \<Rightarrow> char" where
  "hex_digit n = ''0123456789abcdef'' ! n"

definition hex_byte :: "8 word \<Rightarrow> string" where
  "hex_byte b = [hex_digit (unat b div 16), hex_digit (unat b mod 16)]"

definition hex :: "8 word list \<Rightarrow> string" where
  "hex bytes = concat (map hex_byte bytes)"

definition hash_key :: "(string \<Rightarrow> 8 word list) \<Rightarrow> string \<Rightarrow> string" where
  "hash_key digest k = hex (digest k)"

lemma sixteen_cases: "(n :: nat) < 16 \<Longrightarrow> n \<in> set [0..<16]"
  by simp

lemma hex_digit_ok: "n < 16 \<Longrightarrow> is_hexdigit (hex_digit n)"
  by (drule sixteen_cases) (auto simp: upt_conv_Cons hex_digit_def is_hexdigit_def Let_def)

lemma hex_digit_inject: "m < 16 \<Longrightarrow> n < 16 \<Longrightarrow> hex_digit m = hex_digit n \<longleftrightarrow> m = n"
  using nth_eq_iff_index_eq [of "''0123456789abcdef''" m n] by (simp add: hex_digit_def)

lemma byte_halves: "unat (b :: 8 word) div 16 < 16"
  using unsigned_less [where 'a = nat, of b] by (simp add: div_less_iff_less_mult)

lemma hex_byte_inject: "hex_byte a = hex_byte b \<longleftrightarrow> a = b"
proof
  assume "hex_byte a = hex_byte b"
  then have "unat a div 16 = unat b div 16" "unat a mod 16 = unat b mod 16"
    using byte_halves [of a] byte_halves [of b]
    by (simp_all add: hex_byte_def hex_digit_inject)
  then have "unat a = unat b" by (metis div_mult_mod_eq)
  then show "a = b" by (rule unsigned_word_eqI)
qed simp

lemma hex_inject: "hex xs = hex ys \<longleftrightarrow> xs = ys"
proof
  show "hex xs = hex ys \<Longrightarrow> xs = ys"
  proof (induction xs arbitrary: ys)
    case Nil
    then show ?case by (cases ys) (simp_all add: hex_def hex_byte_def)
  next
    case (Cons x xs)
    then obtain y zs where y: "ys = y # zs" by (cases ys) (auto simp: hex_def hex_byte_def)
    with Cons.prems have "hex_byte x @ hex xs = hex_byte y @ hex zs" by (simp add: hex_def)
    moreover have "length (hex_byte x) = length (hex_byte y)" by (simp add: hex_byte_def)
    ultimately have "hex_byte x = hex_byte y" "hex xs = hex zs" by simp_all
    with Cons.IH y show ?case by (simp add: hex_byte_inject)
  qed
qed simp

lemma length_hex: "length (hex bytes) = 2 * length bytes"
  by (induction bytes) (simp_all add: hex_def hex_byte_def)

lemma hex_is_hex: "list_all is_hexdigit (hex bytes)"
  using byte_halves by (induction bytes) (simp_all add: hex_def hex_byte_def hex_digit_ok)

lemma hash_key_hex_digest:
  assumes "\<And>k. length (digest k) = 32" shows "hex_digest (hash_key digest)"
  using assms by (simp add: hex_digest_def hash_key_def length_hex hex_is_hex)

lemma hash_key_inject: "hash_key digest a = hash_key digest b \<longleftrightarrow> digest a = digest b"
  by (simp add: hash_key_def hex_inject)

subsection \<open>URLs\<close>

record url =
  ur_path :: string
  ur_pairs :: "(string \<times> string) list"

record url_lib =
  ul_parse :: "string \<Rightarrow> url option"
  ul_show :: "url \<Rightarrow> string"
  ul_encode :: "(string \<times> string) list \<Rightarrow> string"
  ul_uri_ok :: "string \<Rightarrow> bool"

subsection \<open>Artwork keys\<close>

definition extract_inner_token :: "string \<Rightarrow> string option" where
  "extract_inner_token v =
     (case find_str (to_lower v) ''x-plex-token='' of
        None \<Rightarrow> None
      | Some i \<Rightarrow>
          (let token = takeWhile (\<lambda>c. c \<noteq> CHR ''&'' \<and> c \<noteq> CHR ''#'')
                         (drop (i + length ''x-plex-token='') v)
           in if token = [] then None else Some token))"

definition photo_request_token :: "request \<Rightarrow> string option" where
  "photo_request_token r =
     opt_or (request_token r)
       (Option.bind (find_query_ci ''url'' (rq_query r)) extract_inner_token)"

definition is_token_pair :: "string \<Rightarrow> bool" where
  "is_token_pair pair =
     (case split_once CHR ''='' pair of
        Some (k, _) \<Rightarrow> eq_ignore_case k ''x-plex-token'' | None \<Rightarrow> False)"

definition strip_inner_token :: "string \<Rightarrow> string" where
  "strip_inner_token v =
     (case split_once CHR ''?'' v of
        None \<Rightarrow> v
      | Some (base, q) \<Rightarrow>
          (let kept = filter (\<lambda>p. \<not> is_token_pair p) (split_on CHR ''&'' q)
           in if kept = [] then base else base @ ''?'' @ join ''&'' kept))"

definition canonical_photo_pairs :: "(string \<times> string) list \<Rightarrow> (string \<times> string) list" where
  "canonical_photo_pairs ps =
     map (\<lambda>(k, v). if k = ''url'' then (k, strip_inner_token v) else (k, v))
       (filter (\<lambda>(k, _). \<not> eq_ignore_case k ''X-Plex-Token'') ps)"

definition canonical_photo_key :: "url_lib \<Rightarrow> string \<Rightarrow> string" where
  "canonical_photo_key ul raw =
     (case ul_parse ul (''http://x'' @ raw) of
        Some u \<Rightarrow> ''photo:'' @ ul_show ul (u\<lparr>ur_pairs := canonical_photo_pairs (ur_pairs u)\<rparr>)
      | None \<Rightarrow> ''photo:'' @ raw)"

definition photo_cache_key_for ::
  "(string \<Rightarrow> string) \<Rightarrow> url_lib \<Rightarrow> string \<Rightarrow> string option \<Rightarrow> string" where
  "photo_cache_key_for sha ul raw token =
     ''photo:u:'' @ (case token of Some t \<Rightarrow> token_scope sha (Some t) | None \<Rightarrow> ''anon'')
       @ '':'' @ canonical_photo_key ul raw"

definition photo_cache_key :: "(string \<Rightarrow> string) \<Rightarrow> url_lib \<Rightarrow> string \<Rightarrow> request \<Rightarrow> string" where
  "photo_cache_key sha ul raw r = photo_cache_key_for sha ul raw (photo_request_token r)"

subsection \<open>Library keys\<close>

definition is_library_fetch_shaping :: "string \<Rightarrow> bool" where
  "is_library_fetch_shaping name \<longleftrightarrow>
     to_lower name \<in> {''includefields'', ''excludefields'', ''includegeolocation''}"

definition is_library_key_noise :: "string \<Rightarrow> bool" where
  "is_library_key_noise name =
     (let lower = to_lower name in
      if lower = ''x-plex-container-start'' \<or> lower = ''x-plex-container-size'' then False
      else starts_with lower ''x-plex-''
        \<or> lower \<in> {''includefields'', ''excludefields'', ''includegeolocation''})"

definition canonical_library_pairs :: "(string \<times> string) list \<Rightarrow> (string \<times> string) list" where
  "canonical_library_pairs ps =
     sort (map (\<lambda>(k, v). (to_lower k, v)) (filter (\<lambda>(k, _). \<not> is_library_key_noise k) ps))"

definition canonical_library_path :: "url_lib \<Rightarrow> string \<Rightarrow> string" where
  "canonical_library_path ul raw =
     (case ul_parse ul (''http://x'' @ raw) of
        Some u \<Rightarrow> ''library:'' @ ul_show ul (u\<lparr>ur_pairs := canonical_library_pairs (ur_pairs u)\<rparr>)
      | None \<Rightarrow> ''library:'' @ raw)"

definition library_cache_key_for ::
  "(string \<Rightarrow> string) \<Rightarrow> url_lib \<Rightarrow> string \<Rightarrow> string option \<Rightarrow> string" where
  "library_cache_key_for sha ul raw token =
     ''library:u:'' @ (case token of Some t \<Rightarrow> token_scope sha (Some t) | None \<Rightarrow> ''anon'')
       @ '':'' @ canonical_library_path ul raw"

definition library_cache_key :: "(string \<Rightarrow> string) \<Rightarrow> url_lib \<Rightarrow> string \<Rightarrow> request \<Rightarrow> string" where
  "library_cache_key sha ul raw r = library_cache_key_for sha ul raw (request_token r)"

text \<open>\<open>normalize_library_fetch\<close> on the path and query of the request's URI.\<close>

definition fetch_form :: "url_lib \<Rightarrow> string \<Rightarrow> (string \<times> string) list \<Rightarrow> string" where
  "fetch_form ul path kept =
     (if ul_encode ul kept \<noteq> [] then path @ ''?'' @ ul_encode ul kept else path)"

definition fetch_pairs :: "(string \<times> string) list \<Rightarrow> (string \<times> string) list" where
  "fetch_pairs ps = filter (\<lambda>(k, _). \<not> is_library_fetch_shaping k) ps"

definition normalize_library_fetch :: "url_lib \<Rightarrow> string option \<Rightarrow> string option" where
  "normalize_library_fetch ul path_and_query =
     (case path_and_query of
        None \<Rightarrow> None
      | Some raw \<Rightarrow>
          (case ul_parse ul (''http://x'' @ raw) of
             None \<Rightarrow> Some raw
           | Some u \<Rightarrow>
               (let new = fetch_form ul (ur_path u) (fetch_pairs (ur_pairs u))
                in if ul_uri_ok ul new then Some new else Some raw)))"

subsection \<open>Hub keys and fetch paths\<close>

definition canonical_ids :: "string \<Rightarrow> string" where
  "canonical_ids v =
     (if contains v '',''
      then join '','' (sort (filter (\<lambda>s. s \<noteq> []) (map trim (split_on CHR '','' v))))
      else v)"

definition hub_key_parts :: "query \<Rightarrow> (string \<times> string) list" where
  "hub_key_parts q =
     sort_key fst
       (List.map_filter
          (\<lambda>name. map_option (\<lambda>v. (name, canonical_ids v))
                   (opt_or (mm_get q name) (mm_get q (to_lower name))))
          [''contentDirectoryID'', ''pinnedContentDirectoryID'', ''X-Plex-Container-Start'',
           ''X-Plex-Container-Size''])"

definition cache_key_for_request :: "request \<Rightarrow> string" where
  "cache_key_for_request r =
     (let parts = hub_key_parts (rq_query r) in
      if parts = [] then rq_path r
      else rq_path r @ ''?'' @ join ''&'' (map (\<lambda>(k, v). to_lower k @ ''='' @ v) parts))"

definition hub_fetch_parts :: "query \<Rightarrow> (string \<times> string) list" where
  "hub_fetch_parts q =
     sort_key fst
       (List.map_filter
          (\<lambda>(lower, orig). map_option (\<lambda>v. (orig, canonical_ids v))
                   (opt_or (mm_get q orig) (mm_get q lower)))
          [(''contentdirectoryid'', ''contentDirectoryID''),
           (''pinnedcontentdirectoryid'', ''pinnedContentDirectoryID''),
           (''x-plex-container-start'', ''X-Plex-Container-Start''),
           (''x-plex-container-size'', ''X-Plex-Container-Size'')])"

definition canonical_fetch_path :: "request \<Rightarrow> string \<Rightarrow> string" where
  "canonical_fetch_path r key_path =
     (let query = map (\<lambda>(k, v). k @ ''='' @ v) (hub_fetch_parts (rq_query r));
          query = (if list_ex (\<lambda>p. starts_with p ''includeGuids'') query then query
                   else query @ [''includeGuids=1'']);
          query = (if list_ex (\<lambda>p. starts_with p ''count='') query then query
                   else query @ [''count=50''])
      in hd (split_on CHR ''?'' key_path) @ ''?'' @ join ''&'' query)"

definition hub_cache_key :: "(string \<Rightarrow> string) \<Rightarrow> string \<Rightarrow> string option \<Rightarrow> string" where
  "hub_cache_key sha key_path token =
     (if starts_with key_path ''/hubs/promoted'' \<or> starts_with key_path ''/hubs/home''
      then ''hubcache:global:'' @ key_path
      else (case token of
              Some t \<Rightarrow> ''hubcache:u:'' @ token_scope sha (Some t) @ '':'' @ key_path
            | None \<Rightarrow> ''hubcache:u:anon:'' @ key_path))"

subsection \<open>The interface of an account-scoped key\<close>

text \<open>A key that puts the account's scope between a fixed prefix and the canonical form of the
  request.  Under a digest of hexadecimal digits two such keys are equal only when the accounts
  have the same scope and the canonical forms agree.\<close>

lemma hexdigit_no_colon: "list_all is_hexdigit s \<Longrightarrow> CHR '':'' \<notin> set s"
  by (auto simp: list_all_iff is_hexdigit_def Let_def)

lemma scope_no_colon: "hex_digest sha \<Longrightarrow> CHR '':'' \<notin> set (token_scope sha t)"
proof (cases t)
  case (Some x)
  assume "hex_digest sha"
  then have "CHR '':'' \<notin> set (sha x)" by (simp add: hex_digest_def hexdigit_no_colon)
  then have "CHR '':'' \<notin> set (take 16 (sha x))" by (meson in_set_takeD)
  with Some show ?thesis by (simp add: token_scope_def token_fingerprint_def)
qed (simp add: token_scope_def)

lemma scope_length:
  "hex_digest sha \<Longrightarrow> length (token_scope sha t) = (if t = None then 4 else 16)"
  by (cases t) (auto simp: token_scope_def token_fingerprint_def hex_digest_def)

lemma separated_inject:
  assumes "c \<notin> set a" "c \<notin> set b" "a @ c # x = b @ c # y"
  shows "a = b \<and> x = y"
proof -
  have "takeWhile (\<lambda>z. z \<noteq> c) (a @ c # x) = a" "takeWhile (\<lambda>z. z \<noteq> c) (b @ c # y) = b"
    using assms(1,2) by (simp_all add: takeWhile_append takeWhile_eq_all_conv)
  with assms(3) show ?thesis by simp
qed

locale scoped_key =
  fixes pre :: string and sha :: "string \<Rightarrow> string" and canonical :: "'r \<Rightarrow> string"
    and key :: "'r \<Rightarrow> string option \<Rightarrow> string"
  assumes key_form: "key r t = pre @ token_scope sha t @ '':'' @ canonical r"
begin

lemma isolated:
  assumes "hex_digest sha" and "key r t = key r' t'"
  shows "token_scope sha t = token_scope sha t' \<and> canonical r = canonical r'"
proof -
  have "token_scope sha t @ CHR '':'' # canonical r = token_scope sha t' @ CHR '':'' # canonical r'"
    using assms(2) by (simp add: key_form)
  then show ?thesis
    by (rule separated_inject [OF scope_no_colon [OF assms(1)] scope_no_colon [OF assms(1)]])
qed

lemma anonymous_apart:
  assumes "hex_digest sha" shows "key r (Some t) \<noteq> key r' None"
proof
  assume "key r (Some t) = key r' None"
  then have "token_scope sha (Some t) = token_scope sha None"
    using isolated [OF assms] by blast
  then show False
    using scope_length [OF assms, of "Some t"] scope_length [OF assms, of None] by simp
qed

lemma shared:
  assumes "canonical r = canonical r'" shows "key r t = key r' t"
  using assms by (simp add: key_form)

end

lemma scope_option:
  "(case t of None \<Rightarrow> ''anon'' | Some x \<Rightarrow> token_scope sha (Some x)) = token_scope sha t"
  by (cases t) (simp_all add: token_scope_def)

interpretation library: scoped_key "''library:u:''" sha "canonical_library_path ul"
  "library_cache_key_for sha ul" for sha ul
  by unfold_locales (simp add: library_cache_key_for_def scope_option)

interpretation photo: scoped_key "''photo:u:''" sha "canonical_photo_key ul"
  "photo_cache_key_for sha ul" for sha ul
  by unfold_locales (simp add: photo_cache_key_for_def scope_option)

text \<open>The keys of the hubs that are not global have the same form.\<close>

definition global_hub :: "string \<Rightarrow> bool" where
  "global_hub path \<longleftrightarrow> starts_with path ''/hubs/promoted'' \<or> starts_with path ''/hubs/home''"

typedef scoped_path = "{p. \<not> global_hub p}"
  by (rule exI [of _ "[]"]) (simp add: global_hub_def starts_with_code)

lemma hub_key_scoped:
  "\<not> global_hub p \<Longrightarrow> hub_cache_key sha p t = ''hubcache:u:'' @ token_scope sha t @ '':'' @ p"
  by (cases t) (simp_all add: hub_cache_key_def global_hub_def token_scope_def)

lemma hub_key_global:
  "global_hub p \<Longrightarrow> hub_cache_key sha p t = ''hubcache:global:'' @ p"
  by (simp add: hub_cache_key_def global_hub_def)

interpretation hub: scoped_key "''hubcache:u:''" sha Rep_scoped_path
  "\<lambda>p. hub_cache_key sha (Rep_scoped_path p)" for sha
  using Rep_scoped_path by unfold_locales (simp add: hub_key_scoped)

subsection \<open>Laws of the canonical forms\<close>

lemma fetch_shaping_noise: "is_library_fetch_shaping n \<Longrightarrow> is_library_key_noise n"
  by (auto simp: is_library_fetch_shaping_def is_library_key_noise_def Let_def)

lemma canonical_pairs_fetch:
  "canonical_library_pairs (fetch_pairs ps) = canonical_library_pairs ps"
  by (auto simp: canonical_library_pairs_def fetch_pairs_def filter_filter
      intro!: arg_cong [where f = sort] arg_cong [where f = "map _"] filter_cong
      dest: fetch_shaping_noise)

lemma canonical_pairs_perm:
  assumes "mset (filter (\<lambda>(k, _). \<not> is_library_key_noise k) ps)
         = mset (filter (\<lambda>(k, _). \<not> is_library_key_noise k) qs)"
  shows "canonical_library_pairs ps = canonical_library_pairs qs"
  unfolding canonical_library_pairs_def
  using assms by (intro properties_for_sort) (simp_all add: mset_map)

lemma lower_hub_names:
  "map (\<lambda>n. (to_lower n, n)) [''contentDirectoryID'', ''pinnedContentDirectoryID'',
     ''X-Plex-Container-Start'', ''X-Plex-Container-Size''] =
   [(''contentdirectoryid'', ''contentDirectoryID''),
    (''pinnedcontentdirectoryid'', ''pinnedContentDirectoryID''),
    (''x-plex-container-start'', ''X-Plex-Container-Start''),
    (''x-plex-container-size'', ''X-Plex-Container-Size'')]"
  by code_simp

lemma map_filter_map: "List.map_filter f (map g xs) = List.map_filter (\<lambda>x. f (g x)) xs"
  by (simp add: List.map_filter_def filter_map comp_def)

lemma hub_parts_agree: "hub_fetch_parts q = hub_key_parts q"
  unfolding hub_fetch_parts_def hub_key_parts_def lower_hub_names [symmetric] map_filter_map
  by simp

lemma strip_inner_token_clean:
  assumes "split_once CHR ''?'' (strip_inner_token v) = Some (b, q)"
    and "p \<in> set (split_on CHR ''&'' q)"
  shows "\<not> is_token_pair p"
proof (cases "split_once CHR ''?'' v")
  case None
  with assms show ?thesis by (simp add: strip_inner_token_def)
next
  case (Some bq)
  then obtain base rest where v: "split_once CHR ''?'' v = Some (base, rest)" by (cases bq) auto
  define kept where "kept = filter (\<lambda>p. \<not> is_token_pair p) (split_on CHR ''&'' rest)"
  have base: "CHR ''?'' \<notin> set base" using split_once_Some [OF v] by simp
  show ?thesis
  proof (cases "kept = []")
    case True
    with v base assms(1) show ?thesis
      by (simp add: strip_inner_token_def kept_def split_once_None [symmetric])
  next
    case False
    with v base assms(1) have "q = join ''&'' kept"
      by (simp add: strip_inner_token_def flip: kept_def)
    moreover have "split_on CHR ''&'' (join ''&'' kept) = kept"
      using False by (rule split_on_join) (auto simp: kept_def dest: split_on_no_sep)
    ultimately show ?thesis using assms(2) by (auto simp: kept_def)
  qed
qed

lemma canonical_photo_pairs_clean:
  "(k, v) \<in> set (canonical_photo_pairs ps) \<Longrightarrow> \<not> eq_ignore_case k ''X-Plex-Token''"
  by (auto simp: canonical_photo_pairs_def split: if_splits)

lemma canonical_photo_pairs_idem_token:
  "eq_ignore_case n ''X-Plex-Token'' \<Longrightarrow>
   canonical_photo_pairs (a @ (n, t) # b) = canonical_photo_pairs (a @ b)"
  by (simp add: canonical_photo_pairs_def)

end
