(* ===== verification/Identity.thy ===== *)
theory Identity
  imports Config Cache_Keys Models
begin

text \<open>
  The account identity of a token, \<open>get_current_identity\<close> of \<open>src/plex_client.rs\<close>: the lookup at
  plex.tv, the shared-token resolution, the administrator's bindings, the compatibility
  fallbacks, and the identity cache.

  plex.tv and the media server are the record \<open>identity_api\<close>: what each request returned, as a
  status with a body, already parsed where the code parses JSON; \<open>NoReply\<close> is a failed request.
  The two caches are the record \<open>identity_state\<close>; their expiry is not modelled.
\<close>

subsection \<open>The services\<close>

datatype 'a reply = NoReply | Reply nat 'a

record raw_user =
  ru_id :: i64
  ru_uuid :: string
  ru_username :: "string option"
  ru_title :: "string option"

record raw_resource =
  rr_client_identifier :: "string option"
  rr_provides :: "string option"
  rr_source_title :: "string option"
  rr_owner_id :: "i64 option"

text \<open>The arguments are the base URL (or the host), the token, and the client identifier header.\<close>

record identity_api =
  ia_user :: "string \<Rightarrow> string \<Rightarrow> string \<Rightarrow> raw_user option reply"
  ia_resources :: "string \<Rightarrow> string \<Rightarrow> string \<Rightarrow> raw_resource list option reply"
  ia_shared_servers :: "string \<Rightarrow> string \<Rightarrow> string \<Rightarrow> string \<Rightarrow> string reply"
  ia_root :: "string \<Rightarrow> string option reply"
  ia_header_ok :: "string \<Rightarrow> bool"

record identity_state =
  id_identities :: "string \<Rightarrow> resolved_identity option"
  id_machines :: "string \<Rightarrow> string option"

datatype identity_error = InvalidToken | MissingToken | UpstreamError string

definition client_identifier_header :: "identity_api \<Rightarrow> plex_context \<Rightarrow> string" where
  "client_identifier_header api cx =
     (let v = (case cx_client_identifier cx of
                 Some v \<Rightarrow> if v \<noteq> [] then v else ''replex-resolution-proxy''
               | None \<Rightarrow> ''replex-resolution-proxy'')
      in if ia_header_ok api v then v else ''replex-resolution-proxy'')"

definition server_machine_id ::
  "identity_api \<Rightarrow> string \<Rightarrow> identity_state \<Rightarrow> (identity_error + string) \<times> identity_state" where
  "server_machine_id api host st =
     (case id_machines st host of
        Some i \<Rightarrow> (Inr i, st)
      | None \<Rightarrow>
          (case ia_root api host of
             NoReply \<Rightarrow> (Inl (UpstreamError ''server root request failed''), st)
           | Reply _ None \<Rightarrow> (Inl (UpstreamError ''server root parse failed''), st)
           | Reply _ (Some i) \<Rightarrow> (Inr i, st\<lparr>id_machines := (id_machines st)(host \<mapsto> i)\<rparr>)))"

subsection \<open>Shared users\<close>

definition is_our_resource :: "string \<Rightarrow> raw_resource \<Rightarrow> bool" where
  "is_our_resource machine_id r \<longleftrightarrow>
     rr_client_identifier r = Some machine_id
     \<and> (case rr_provides r of Some p \<Rightarrow> contains p ''server'' | None \<Rightarrow> False)"

fun scan_resources :: "string \<Rightarrow> raw_resource list \<Rightarrow> user_identity option" where
  "scan_resources machine_id [] = None"
| "scan_resources machine_id (r # rs) =
     (if \<not> is_our_resource machine_id r then scan_resources machine_id rs
      else (case rr_source_title r of
              Some u \<Rightarrow>
                if u \<noteq> []
                then Some \<lparr>ui_id = unwrap_or (rr_owner_id r) 0, ui_uuid = ''shared-'' @ u,
                           ui_username = u\<rparr>
                else None
            | None \<Rightarrow> None))"

definition resolve_shared_user ::
  "identity_api \<Rightarrow> config \<Rightarrow> plex_context \<Rightarrow> string \<Rightarrow> string \<Rightarrow> identity_state
   \<Rightarrow> (identity_error + user_identity option) \<times> identity_state" where
  "resolve_shared_user api c cx host token st =
     (case server_machine_id api host st of
        (Inl e, st') \<Rightarrow> (Inl e, st')
      | (Inr machine_id, st') \<Rightarrow>
          (if \<not> ia_header_ok api token then (Inl (UpstreamError ''bad token header''), st')
           else (case ia_resources api (identity_api_base c) token (client_identifier_header api cx) of
                   NoReply \<Rightarrow> (Inl (UpstreamError ''resources request failed''), st')
                 | Reply status body \<Rightarrow>
                     (if status = 200
                      then (case body of
                              None \<Rightarrow> (Inl (UpstreamError ''resources response parse failed''), st')
                            | Some rs \<Rightarrow> (Inr (scan_resources machine_id rs), st'))
                      else if status = 401 \<or> status = 403 \<or> status = 404 then (Inr None, st')
                      else (Inl (UpstreamError ''unexpected status from resources API''), st')))))"

lemma length_split_once: "split_once d s = Some (a, b) \<Longrightarrow> length b < length s"
  by (auto dest: split_once_Some)

lemma length_trim_start: "length (trim_start s) \<le> length s"
  by (simp add: trim_start_def length_dropWhile_le)

text \<open>The loop of \<open>parse_xml_attrs\<close>: a name up to the equals sign, a value between double quotes,
  and so on; it stops at the first piece of another form.\<close>

function parse_attrs_loop :: "string \<Rightarrow> (string \<times> string) list \<Rightarrow> (string \<times> string) list" where
  "parse_attrs_loop rest m =
     (case split_once CHR ''='' rest of
        None \<Rightarrow> m
      | Some (k, tail) \<Rightarrow>
          (case trim_start tail of
             [] \<Rightarrow> m
           | q # cs \<Rightarrow>
               (if q \<noteq> CHR 0x22 then m
                else (case split_once CHR 0x22 cs of
                        None \<Rightarrow> m
                      | Some (v, rem) \<Rightarrow>
                          parse_attrs_loop (trim_start rem) (AList.update (trim k) v m)))))"
  by pat_completeness auto
termination
proof (relation "measure (\<lambda>(rest, _). length rest)")
  fix rest m x k tail q cs y v rem
  assume "split_once CHR ''='' rest = Some x" "(k, tail) = x" "trim_start tail = q # cs"
    "split_once CHR 0x22 cs = Some y" "(v, rem) = y"
  then have "length tail < length rest" "length rem < length cs" "length (q # cs) \<le> length tail"
    using length_split_once length_trim_start [of tail] by metis+
  with length_trim_start [of rem]
  show "((trim_start rem, AList.update (trim k) v m), (rest, m)) \<in> measure (\<lambda>(rest, _). length rest)"
    by simp
qed simp

declare parse_attrs_loop.simps [simp del]

definition parse_xml_attrs :: "string \<Rightarrow> (string \<times> string) list" where
  "parse_xml_attrs s = parse_attrs_loop (trim s) []"

fun scan_shared_servers :: "string \<Rightarrow> string list \<Rightarrow> user_identity option" where
  "scan_shared_servers token [] = None"
| "scan_shared_servers token (tag # tags) =
     (let a = parse_xml_attrs (hd (split_on CHR ''>'' tag)) in
      if map_of a ''accessToken'' \<noteq> Some token then scan_shared_servers token tags
      else (case map_of a ''username'' of
              None \<Rightarrow> scan_shared_servers token tags
            | Some u \<Rightarrow>
                if u = [] then scan_shared_servers token tags
                else Some \<lparr>ui_id = unwrap_or (Option.bind (map_of a ''userID'') parse_i64) 0,
                           ui_uuid = ''shared-'' @ u, ui_username = u\<rparr>))"

definition resolve_via_shared_servers ::
  "identity_api \<Rightarrow> config \<Rightarrow> plex_context \<Rightarrow> string \<Rightarrow> string \<Rightarrow> identity_state
   \<Rightarrow> (identity_error + user_identity option) \<times> identity_state" where
  "resolve_via_shared_servers api c cx host token st =
     (case cf_token c of
        None \<Rightarrow> (Inr None, st)
      | Some admin_token \<Rightarrow>
          (case server_machine_id api host st of
             (Inl e, st') \<Rightarrow> (Inl e, st')
           | (Inr machine_id, st') \<Rightarrow>
               (case ia_shared_servers api (identity_api_base c) admin_token machine_id
                       (client_identifier_header api cx) of
                  NoReply \<Rightarrow> (Inl (UpstreamError ''shared_servers request failed''), st')
                | Reply status body \<Rightarrow>
                    (if status \<noteq> 200 then (Inr None, st')
                     else (Inr (scan_shared_servers token
                                  (drop 1 (split_str ''<SharedServer '' body))), st')))))"

subsection \<open>The identity chain\<close>

definition synthetic :: "string \<Rightarrow> string \<Rightarrow> identity_source \<Rightarrow> resolved_identity" where
  "synthetic uuid user src =
     \<lparr>ri_identity = \<lparr>ui_id = 0, ui_uuid = uuid, ui_username = user\<rparr>, ri_source = src\<rparr>"

text \<open>The configured fallbacks for a token that Plex does not resolve.\<close>

definition configured_identity ::
  "(string \<Rightarrow> string) \<Rightarrow> config \<Rightarrow> plex_context \<Rightarrow> string \<Rightarrow> identity_error + resolved_identity" where
  "configured_identity sha c cx token =
     (let fp = token_fingerprint sha token in
      (case map_of (cf_token_identity_map c) fp of
         Some b \<Rightarrow>
           (if (case binding_client_identifier b of
                  Some required \<Rightarrow> cx_client_identifier cx \<noteq> Some required
                | None \<Rightarrow> False)
            then Inl InvalidToken
            else Inr (synthetic (''token-sha256-'' @ fp) (binding_username b) TokenFingerprint))
       | None \<Rightarrow>
           (case Option.bind (cx_client_identifier cx)
                   (\<lambda>cid. map_option (\<lambda>u. (cid, u)) (map_of (cf_client_identity_map c) cid)) of
              Some (cid, user) \<Rightarrow> Inr (synthetic (''cid-'' @ cid) user LegacyClientIdentifier)
            | None \<Rightarrow>
                (case (if cf_allow_username_fallback c then cx_username cx else None) of
                   Some u \<Rightarrow>
                     if u \<noteq> [] then Inr (synthetic (''unverified-'' @ u) u UsernameFallback)
                     else Inl InvalidToken
                 | None \<Rightarrow> Inl InvalidToken))))"

definition rejected_identity ::
  "(string \<Rightarrow> string) \<Rightarrow> identity_api \<Rightarrow> config \<Rightarrow> plex_context \<Rightarrow> string \<Rightarrow> string \<Rightarrow> identity_state
   \<Rightarrow> (identity_error + resolved_identity) \<times> identity_state" where
  "rejected_identity sha api c cx host token st =
     (case resolve_shared_user api c cx host token st of
        (Inl e, st1) \<Rightarrow> (Inl e, st1)
      | (Inr (Some i), st1) \<Rightarrow> (Inr \<lparr>ri_identity = i, ri_source = SharedResource\<rparr>, st1)
      | (Inr None, st1) \<Rightarrow>
          (case resolve_via_shared_servers api c cx host token st1 of
             (Inl e, st2) \<Rightarrow> (Inl e, st2)
           | (Inr (Some i), st2) \<Rightarrow> (Inr \<lparr>ri_identity = i, ri_source = SharedServer\<rparr>, st2)
           | (Inr None, st2) \<Rightarrow> (configured_identity sha c cx token, st2)))"

definition fetch_current_identity ::
  "(string \<Rightarrow> string) \<Rightarrow> identity_api \<Rightarrow> config \<Rightarrow> plex_context \<Rightarrow> string \<Rightarrow> string \<Rightarrow> identity_state
   \<Rightarrow> (identity_error + resolved_identity) \<times> identity_state" where
  "fetch_current_identity sha api c cx host token st =
     (if \<not> ia_header_ok api token then (Inl (UpstreamError ''bad token header''), st)
      else (case ia_user api (identity_api_base c) token (client_identifier_header api cx) of
              NoReply \<Rightarrow> (Inl (UpstreamError ''plex.tv request failed''), st)
            | Reply status body \<Rightarrow>
                (if status = 200
                 then (case body of
                         None \<Rightarrow> (Inl (UpstreamError ''identity response parse failed''), st)
                       | Some raw \<Rightarrow>
                           (Inr \<lparr>ri_identity =
                               \<lparr>ui_id = ru_id raw, ui_uuid = ru_uuid raw,
                                ui_username = unwrap_or (opt_or (ru_username raw) (ru_title raw))
                                                (''user-'' @ ru_uuid raw)\<rparr>,
                              ri_source = VerifiedPlex\<rparr>, st))
                 else if status = 401 \<or> status = 403
                 then rejected_identity sha api c cx host token st
                 else (Inl (UpstreamError ''unexpected status from identity API''), st))))"

definition get_current_identity ::
  "(string \<Rightarrow> string) \<Rightarrow> identity_api \<Rightarrow> config \<Rightarrow> string \<Rightarrow> plex_context \<Rightarrow> identity_state
   \<Rightarrow> (identity_error + resolved_identity) \<times> identity_state" where
  "get_current_identity sha api c host cx st =
     (case cx_token cx of
        None \<Rightarrow> (Inl MissingToken, st)
      | Some token \<Rightarrow>
          (let k = token_fingerprint sha token in
           (case id_identities st k of
              Some r \<Rightarrow> (Inr r, st)
            | None \<Rightarrow>
                (case fetch_current_identity sha api c cx host token st of
                   (Inl e, st') \<Rightarrow> (Inl e, st')
                 | (Inr r, st') \<Rightarrow>
                     (Inr r, st'\<lparr>id_identities := (id_identities st')(k \<mapsto> r)\<rparr>)))))"

definition get_current_user ::
  "(string \<Rightarrow> string) \<Rightarrow> identity_api \<Rightarrow> config \<Rightarrow> string \<Rightarrow> plex_context \<Rightarrow> identity_state
   \<Rightarrow> (identity_error + user_identity) \<times> identity_state" where
  "get_current_user sha api c host cx st =
     (case get_current_identity sha api c host cx st of
        (Inl e, st') \<Rightarrow> (Inl e, st')
      | (Inr r, st') \<Rightarrow> (Inr (ri_identity r), st'))"

subsection \<open>Laws\<close>

lemma server_machine_id_identities:
  "server_machine_id api host st = (r, st') \<Longrightarrow> id_identities st' = id_identities st"
  by (auto simp: server_machine_id_def split: option.splits reply.splits)

lemma shared_user_identities:
  "resolve_shared_user api c cx host token st = (r, st') \<Longrightarrow> id_identities st' = id_identities st"
  by (auto simp: resolve_shared_user_def dest!: server_machine_id_identities
      split: prod.splits sum.splits reply.splits option.splits if_splits)

lemma shared_servers_identities:
  "resolve_via_shared_servers api c cx host token st = (r, st') \<Longrightarrow>
   id_identities st' = id_identities st"
  by (auto simp: resolve_via_shared_servers_def dest!: server_machine_id_identities
      split: prod.splits sum.splits reply.splits option.splits if_splits)

lemma fetch_keeps_identities:
  "fetch_current_identity sha api c cx host token st = (r, st') \<Longrightarrow>
   id_identities st' = id_identities st"
  by (auto simp: fetch_current_identity_def rejected_identity_def
      dest!: shared_user_identities shared_servers_identities
      split: prod.splits sum.splits reply.splits option.splits if_splits)

lemma get_identity_caches:
  "get_current_identity sha api c host cx st = (Inr r, st') \<Longrightarrow>
   \<exists>token. cx_token cx = Some token \<and> id_identities st' (token_fingerprint sha token) = Some r"
  by (auto simp: get_current_identity_def Let_def split: option.splits prod.splits sum.splits)

lemma get_identity_error_not_cached:
  "get_current_identity sha api c host cx st = (Inl e, st') \<Longrightarrow> id_identities st' = id_identities st"
  by (auto simp: get_current_identity_def Let_def dest!: fetch_keeps_identities
      split: option.splits prod.splits sum.splits)

lemma get_identity_cached:
  "cx_token cx = Some token \<Longrightarrow> id_identities st (token_fingerprint sha token) = Some r \<Longrightarrow>
   get_current_identity sha api c host cx st = (Inr r, st)"
  by (simp add: get_current_identity_def Let_def)

lemma configured_identity_Inr:
  "configured_identity sha c cx token = Inr r \<Longrightarrow>
   (ri_source r = TokenFingerprint
      \<and> (\<exists>b. map_of (cf_token_identity_map c) (token_fingerprint sha token) = Some b
          \<and> ui_username (ri_identity r) = binding_username b
          \<and> (\<forall>q. binding_client_identifier b = Some q \<longrightarrow> cx_client_identifier cx = Some q)))
   \<or> (ri_source r = LegacyClientIdentifier
      \<and> map_of (cf_token_identity_map c) (token_fingerprint sha token) = None
      \<and> (\<exists>cid. cx_client_identifier cx = Some cid
          \<and> map_of (cf_client_identity_map c) cid = Some (ui_username (ri_identity r))))
   \<or> (ri_source r = UsernameFallback \<and> cf_allow_username_fallback c
      \<and> cx_username cx = Some (ui_username (ri_identity r)))"
  by (auto simp: configured_identity_def synthetic_def Let_def bind_eq_Some_conv
      split: option.splits if_splits)

lemma fetch_outage:
  "ia_user api (identity_api_base c) token (client_identifier_header api cx) = NoReply
   \<or> (\<exists>n b. ia_user api (identity_api_base c) token (client_identifier_header api cx) = Reply n b
        \<and> n \<notin> {200, 401, 403}) \<Longrightarrow>
   \<exists>e. fetch_current_identity sha api c cx host token st = (Inl (UpstreamError e), st)"
  by (auto simp: fetch_current_identity_def split: if_splits)

lemma fetch_sources:
  assumes "fst (fetch_current_identity sha api c cx host token st) = Inr r"
  shows "(ri_source r = VerifiedPlex \<and>
      (\<exists>raw. ia_user api (identity_api_base c) token (client_identifier_header api cx)
              = Reply 200 (Some raw) \<and> ui_uuid (ri_identity r) = ru_uuid raw))
    \<or> ((\<exists>n b. n \<in> {401, 403} \<and>
          ia_user api (identity_api_base c) token (client_identifier_header api cx) = Reply n b)
       \<and> (ri_source r \<in> {SharedResource, SharedServer}
          \<or> configured_identity sha c cx token = Inr r))"
  using assms
  by (auto simp: fetch_current_identity_def rejected_identity_def
      split: reply.splits if_splits option.splits prod.splits sum.splits)

lemma scan_resources_Some:
  "scan_resources m rs = Some i \<Longrightarrow>
   \<exists>r \<in> set rs. is_our_resource m r \<and> rr_source_title r = Some (ui_username i)
     \<and> ui_uuid i = ''shared-'' @ ui_username i"
  by (induction rs) (auto split: if_splits option.splits)

subsection \<open>Attributes read back\<close>

definition attr_text :: "string \<times> string \<Rightarrow> string" where
  "attr_text kv = (case kv of (k, v) \<Rightarrow> k @ ''='' @ [CHR 0x22] @ v @ [CHR 0x22])"

definition attr_ok :: "string \<times> string \<Rightarrow> bool" where
  "attr_ok kv \<longleftrightarrow> fst kv \<noteq> [] \<and> CHR ''='' \<notin> set (fst kv) \<and> list_all (\<lambda>c. \<not> is_ws c) (fst kv)
     \<and> CHR 0x22 \<notin> set (snd kv)"

lemma dropWhile_none: "list_all (\<lambda>c. \<not> P c) s \<Longrightarrow> dropWhile P s = s"
  by (cases s) auto

lemma trim_no_ws: "list_all (\<lambda>c. \<not> is_ws c) s \<Longrightarrow> trim s = s"
  by (simp add: trim_def dropWhile_none list_all_rev)

lemma parse_attrs_step:
  assumes "attr_ok (k, v)"
  shows "parse_attrs_loop (attr_text (k, v) @ tail) m
       = parse_attrs_loop (trim_start tail) (AList.update k v m)"
  using assms
  by (subst parse_attrs_loop.simps)
    (simp add: attr_text_def attr_ok_def trim_start_def trim_no_ws is_ws_def)

lemma parse_attrs_join:
  "\<forall>kv \<in> set kvs. attr_ok kv \<Longrightarrow>
   parse_attrs_loop (join '' '' (map attr_text kvs)) m = fold (\<lambda>(k, v). AList.update k v) kvs m"
proof (induction kvs arbitrary: m rule: induct_list012)
  case 1
  show ?case by (subst parse_attrs_loop.simps) simp
next
  case (2 kv)
  obtain k v where kv: "kv = (k, v)" by (cases kv)
  have "parse_attrs_loop [] m' = m'" for m' by (subst parse_attrs_loop.simps) simp
  with 2 kv parse_attrs_step [of k v "[]" m] show ?case by (simp add: trim_start_def)
next
  case (3 kv kv' kvs)
  obtain k v where kv: "kv = (k, v)" by (cases kv)
  obtain k' v' where kv': "kv' = (k', v')" by (cases kv')
  obtain rest where rest: "join '' '' (map attr_text (kv' # kvs)) = attr_text kv' @ rest"
    by (cases kvs) auto
  have "trim_start ('' '' @ attr_text kv' @ rest) = attr_text kv' @ rest"
    using 3(3) kv' by (cases k') (auto simp: trim_start_def attr_text_def attr_ok_def is_ws_def Let_def)
  with 3 kv rest parse_attrs_step [of k v "'' '' @ attr_text kv' @ rest" m] show ?case by simp
qed

lemma trim_id:
  assumes "s \<noteq> []" "\<not> is_ws (hd s)" "\<not> is_ws (last s)"
  shows "trim s = s"
proof -
  have "dropWhile is_ws s = s" using assms(1,2) by (cases s) auto
  moreover have "dropWhile is_ws (rev s) = rev s"
    using assms(1,3) by (cases s rule: rev_cases) auto
  ultimately show ?thesis by (simp add: trim_def)
qed

lemma parse_xml_attrs_render:
  assumes "\<forall>kv \<in> set kvs. attr_ok kv"
  shows "parse_xml_attrs (join '' '' (map attr_text kvs)) = fold (\<lambda>(k, v). AList.update k v) kvs []"
proof (cases "kvs = []")
  case False
  let ?s = "join '' '' (map attr_text kvs)"
  have last: "ws \<noteq> [] \<Longrightarrow> last ws \<noteq> [] \<Longrightarrow> join '' '' ws \<noteq> [] \<and> last (join '' '' ws) = last (last ws)" for ws
    by (induction "'' ''" ws rule: join.induct) auto
  obtain k v rest where k: "kvs = (k, v) # rest" using False by (cases kvs) auto
  have "?s \<noteq> [] \<and> last ?s = CHR 0x22"
    using last [of "map attr_text kvs"] False by (auto simp: last_map attr_text_def split: prod.splits)
  moreover have "hd ?s = hd k \<and> k \<noteq> []"
    using k assms by (cases k; cases rest) (auto simp: attr_text_def attr_ok_def)
  moreover have "\<not> is_ws (hd k)"
    using k assms by (cases k) (auto simp: attr_ok_def)
  ultimately have "trim ?s = ?s" by (intro trim_id) (auto simp: is_ws_def)
  with parse_attrs_join [OF assms] show ?thesis by (simp add: parse_xml_attrs_def)
qed (simp add: parse_xml_attrs_def trim_def parse_attrs_loop.simps)

text \<open>The cache asks for the token only, so neither the client identifier nor the user name of a
  later request matters.\<close>

lemma cached_identity_ignores_client:
  assumes "get_current_identity sha api c host cx st = (Inr r, st')" and "cx_token cx' = cx_token cx"
  shows "get_current_identity sha api' c' host' cx' st' = (Inr r, st')"
  using get_identity_caches [OF assms(1)] get_identity_cached assms(2) by metis

end
