(* ===== verification/Policy_Store.thy ===== *)
theory Policy_Store
  imports Config
begin

text \<open>
  \<open>src/policy_store.rs\<close>: the policy snapshot that every request reads, and its reload.  The
  lock makes a reload atomic, so the store is a state with two operations.
\<close>

record policy_snapshot =
  ps_enabled :: bool
  ps_entries :: "policy_entry list"
  ps_default_limit :: resolution_limit
  ps_fail_closed :: bool
  ps_hidden_collections :: "string list"
  ps_generation :: nat

definition snapshot_from_config :: "config \<Rightarrow> nat \<Rightarrow> policy_snapshot" where
  "snapshot_from_config c g =
     \<lparr>ps_enabled = cf_resolution_policy_enabled c,
      ps_entries = cf_user_resolution_policies c,
      ps_default_limit = cf_resolution_default c,
      ps_fail_closed = cf_resolution_policy_fail_closed c,
      ps_hidden_collections = unwrap_or (cf_hidden_collections c) [],
      ps_generation = g\<rparr>"

definition new_store :: "config \<Rightarrow> policy_snapshot" where
  "new_store c = snapshot_from_config c 1"

definition reload_store :: "config \<Rightarrow> policy_snapshot \<Rightarrow> policy_snapshot \<times> policy_snapshot" where
  "reload_store c current =
     (let next_s = snapshot_from_config c
                     ((ps_generation current + 1) mod 18446744073709551616)
      in (next_s, next_s))"

text \<open>The store after a sequence of reloads.\<close>

definition reloads :: "config list \<Rightarrow> policy_snapshot \<Rightarrow> policy_snapshot" where
  "reloads cs s = foldl (\<lambda>cur c. snd (reload_store c cur)) s cs"

lemma reload_returns_stored: "fst (reload_store c s) = snd (reload_store c s)"
  by (simp add: reload_store_def Let_def)

lemma reload_generation:
  "ps_generation s < u64_max \<Longrightarrow>
   ps_generation (snd (reload_store c s)) = ps_generation s + 1"
  by (simp add: reload_store_def snapshot_from_config_def Let_def u64_max_def)

lemma reload_reflects:
  "snd (reload_store c s)\<lparr>ps_generation := g\<rparr> = snapshot_from_config c g"
  by (simp add: reload_store_def snapshot_from_config_def Let_def)

lemma reloads_enabled:
  "\<forall>c \<in> set cs. cf_resolution_policy_enabled c = ps_enabled s \<Longrightarrow> ps_enabled (reloads cs s) = ps_enabled s"
proof (induction cs arbitrary: s)
  case (Cons c cs)
  have "ps_enabled (snd (reload_store c s)) = ps_enabled s"
    using Cons.prems by (simp add: reload_store_def snapshot_from_config_def Let_def)
  with Cons.IH [of "snd (reload_store c s)"] Cons.prems show ?case by (simp add: reloads_def)
qed (simp add: reloads_def)

lemma reloads_generation:
  "ps_generation s + length cs \<le> u64_max \<Longrightarrow>
   ps_generation (reloads cs s) = ps_generation s + length cs"
proof (induction cs arbitrary: s)
  case (Cons c cs)
  then have "ps_generation (snd (reload_store c s)) = ps_generation s + 1"
    by (intro reload_generation) simp
  with Cons.IH [of "snd (reload_store c s)"] Cons.prems show ?case by (simp add: reloads_def)
qed (simp add: reloads_def)

end
