(* ===== verification/Disk_Cache.thy ===== *)
theory Disk_Cache
  imports Prelude "HOL-Library.AList"
begin

text \<open>
  \<open>src/disk_cache.rs\<close>: the record format, the file operations with the size they account for,
  and the eviction.

  The cache directory is the list of its files in the order the directory walk visits them,
  each with its modification time and contents.  What the file system answers is the record
  \<open>disk_io\<close>: whether a write, a rename or a removal succeeds, what a failed write leaves behind,
  and the clock.  The operations run one at a time, as the commit and clean locks make the
  writers do.  A byte is an \<open>8 word\<close>; a content type is the UTF-8 bytes of its string.
\<close>

type_synonym bytes = "8 word list"

subsection \<open>Big-endian numbers and UTF-8\<close>

fun be_bytes :: "nat \<Rightarrow> nat \<Rightarrow> bytes" where
  "be_bytes 0 n = []"
| "be_bytes (Suc k) n = be_bytes k (n div 256) @ [word_of_nat n]"

definition from_be_bytes :: "bytes \<Rightarrow> nat" where
  "from_be_bytes bs = foldl (\<lambda>acc b. 256 * acc + unat b) 0 bs"

definition utf8_cont :: "8 word \<Rightarrow> bool" where
  "utf8_cont b \<longleftrightarrow> 128 \<le> b \<and> b < 192"

text \<open>\<open>String::from_utf8\<close> accepts exactly the well-formed sequences of the Unicode standard.\<close>

fun valid_utf8 :: "bytes \<Rightarrow> bool" where
  "valid_utf8 [] = True"
| "valid_utf8 (a # bs) =
     (if a < 128 then valid_utf8 bs
      else if 194 \<le> a \<and> a < 224 then
        (case bs of b # r \<Rightarrow> utf8_cont b \<and> valid_utf8 r | _ \<Rightarrow> False)
      else if 224 \<le> a \<and> a < 240 then
        (case bs of
           b # c # r \<Rightarrow> utf8_cont b \<and> (a = 224 \<longrightarrow> 160 \<le> b) \<and> (a = 237 \<longrightarrow> b < 160)
             \<and> utf8_cont c \<and> valid_utf8 r
         | _ \<Rightarrow> False)
      else if 240 \<le> a \<and> a < 245 then
        (case bs of
           b # c # d # r \<Rightarrow> utf8_cont b \<and> (a = 240 \<longrightarrow> 144 \<le> b) \<and> (a = 244 \<longrightarrow> b < 144)
             \<and> utf8_cont c \<and> utf8_cont d \<and> valid_utf8 r
         | _ \<Rightarrow> False)
      else False)"

subsection \<open>Records\<close>

definition cache_magic :: bytes where
  "cache_magic = [82, 80, 67, 49]"  \<comment> \<open>\<open>RPC1\<close>\<close>

record cache_record =
  cr_content_type :: "bytes option"
  cr_body :: bytes

datatype io_error = InvalidInput | IoFailed

definition encode_record :: "bytes option \<Rightarrow> bytes \<Rightarrow> io_error + bytes" where
  "encode_record content_type body =
     (let ct = unwrap_or content_type [] in
      if \<not> length ct < 65536 then Inl InvalidInput
      else if \<not> length body \<le> u64_max then Inl InvalidInput
      else Inr (cache_magic @ be_bytes 2 (length ct) @ ct @ be_bytes 8 (length body) @ body))"

text \<open>\<open>checked_add\<close> and \<open>try_from\<close> on \<open>usize\<close>, which is 64 bits wide.\<close>

definition usize_checked_add :: "nat \<Rightarrow> nat \<Rightarrow> nat option" where
  "usize_checked_add a b = (if a + b \<le> u64_max then Some (a + b) else None)"

definition slice :: "nat \<Rightarrow> nat \<Rightarrow> 'a list \<Rightarrow> 'a list" where
  "slice a b xs = take (b - a) (drop a xs)"

definition decode_body :: "bytes \<Rightarrow> nat \<Rightarrow> nat \<Rightarrow> nat \<Rightarrow> cache_record option" where
  "decode_body data ct_len body_len_start body_len_end =
     (let body_len = from_be_bytes (slice body_len_start body_len_end data);
          body_start = body_len_end
      in (case usize_checked_add body_start body_len of
            None \<Rightarrow> None
          | Some body_end \<Rightarrow>
              (if body_end > length data then None
               else if ct_len = 0
               then Some \<lparr>cr_content_type = None, cr_body = slice body_start body_end data\<rparr>
               else (let ct = slice 6 body_len_start data in
                     if valid_utf8 ct
                     then Some \<lparr>cr_content_type = Some ct, cr_body = slice body_start body_end data\<rparr>
                     else None))))"

definition decode_record :: "bytes \<Rightarrow> cache_record option" where
  "decode_record data =
     (if length data < 4 \<or> take 4 data \<noteq> cache_magic
      then Some \<lparr>cr_content_type = None, cr_body = data\<rparr>
      else if length data < 6 then None
      else (let ct_len = from_be_bytes [data ! 4, data ! 5] in
            (case usize_checked_add 6 ct_len of
               None \<Rightarrow> None
             | Some body_len_start \<Rightarrow>
                 (case usize_checked_add body_len_start 8 of
                    None \<Rightarrow> None
                  | Some body_len_end \<Rightarrow>
                      (if body_len_end > length data then None
                       else decode_body data ct_len body_len_start body_len_end)))))"

subsection \<open>Limits\<close>

definition default_max_size :: nat where
  "default_max_size = 45 * 1024 * 1024 * 1024"

text \<open>The product wraps in the release build.\<close>

definition max_size :: "string option \<Rightarrow> nat" where
  "max_size env =
     (case Option.bind env (\<lambda>v. parse_uint u64_max (trim v)) of
        Some gb \<Rightarrow> (if gb > 0 then (gb * 1024 * 1024 * 1024) mod 18446744073709551616
                    else default_max_size)
      | None \<Rightarrow> default_max_size)"

definition clean_threshold :: "nat \<Rightarrow> nat" where
  "clean_threshold mx = sat_mul64 mx 85 div 100"

subsection \<open>Paths\<close>

definition cache_dir :: "string option \<Rightarrow> bool \<Rightarrow> string" where
  "cache_dir env data_exists =
     (case env of
        Some d \<Rightarrow> d
      | None \<Rightarrow> if data_exists then ''/data/replex-cache'' else ''./replex-cache'')"

definition path_for_key :: "(string \<Rightarrow> string) \<Rightarrow> string \<Rightarrow> string \<Rightarrow> string" where
  "path_for_key sha dir key =
     (let hash = sha key in dir @ ''/'' @ take 2 hash @ ''/'' @ hash)"

definition file_name :: "string \<Rightarrow> string" where
  "file_name path = last (split_on CHR ''/'' path)"

definition is_temp_file :: "string \<Rightarrow> bool" where
  "is_temp_file path =
     (let name = file_name path in ends_with name ''.tmp'' \<or> contains name ''.tmp.'')"

definition is_cache_file :: "string \<Rightarrow> bool" where
  "is_cache_file path \<longleftrightarrow> \<not> is_temp_file path"

text \<open>\<open>with_extension\<close> on a name without a dot, as the digest is.\<close>

definition tmp_path :: "string \<Rightarrow> nat \<Rightarrow> nat \<Rightarrow> string" where
  "tmp_path path pid counter = path @ ''.tmp.'' @ show_nat pid @ ''.'' @ show_nat counter"

subsection \<open>The directory and the tracked size\<close>

record disk =
  dk_files :: "(string \<times> nat \<times> bytes) list"
  dk_size :: nat
  dk_counter :: nat

record disk_io =
  io_write :: bool
  io_partial :: "bytes option"
  io_rename :: bool
  io_remove :: "string \<Rightarrow> bool"
  io_touch :: bool
  io_now :: nat
  io_pid :: nat

definition lookup_file :: "disk \<Rightarrow> string \<Rightarrow> (nat \<times> bytes) option" where
  "lookup_file d p = map_of (dk_files d) p"

definition file_len :: "disk \<Rightarrow> string \<Rightarrow> nat option" where
  "file_len d p = map_option (\<lambda>(_, bs). length bs) (lookup_file d p)"

definition remove_file :: "disk_io \<Rightarrow> string \<Rightarrow> disk \<Rightarrow> disk" where
  "remove_file io p d = (if io_remove io p then d\<lparr>dk_files := AList.delete p (dk_files d)\<rparr> else d)"

definition write_file :: "disk_io \<Rightarrow> string \<Rightarrow> bytes \<Rightarrow> disk \<Rightarrow> disk" where
  "write_file io p bs d =
     (if io_write io then d\<lparr>dk_files := AList.update p (io_now io, bs) (dk_files d)\<rparr>
      else (case io_partial io of
              Some part \<Rightarrow> d\<lparr>dk_files := AList.update p (io_now io, part) (dk_files d)\<rparr>
            | None \<Rightarrow> d))"

definition rename_file :: "string \<Rightarrow> string \<Rightarrow> disk \<Rightarrow> disk" where
  "rename_file src dst d =
     (case lookup_file d src of
        None \<Rightarrow> d
      | Some f \<Rightarrow> d\<lparr>dk_files := AList.update dst f (AList.delete src (dk_files d))\<rparr>)"

definition commit_record ::
  "disk_io \<Rightarrow> string \<Rightarrow> bytes \<Rightarrow> disk \<Rightarrow> (io_error + unit) \<times> disk" where
  "commit_record io path encoded d0 =
     (let tmp = tmp_path path (io_pid io) (dk_counter d0);
          d1 = d0\<lparr>dk_counter := (dk_counter d0 + 1) mod 18446744073709551616\<rparr>;
          d2 = write_file io tmp encoded d1
      in if \<not> io_write io then (Inl IoFailed, remove_file io tmp d2)
         else let old_len = file_len d2 path in
           if \<not> io_rename io then (Inl IoFailed, remove_file io tmp d2)
           else let d3 = rename_file tmp path d2;
                    new_len = min (length encoded) u64_max
                in (Inr (),
                    d3\<lparr>dk_size := sat_add64 (sat_sub (dk_size d3) (unwrap_or old_len 0)) new_len\<rparr>))"

text \<open>\<open>remove\<close>, on the path of its key.\<close>

definition remove_entry :: "disk_io \<Rightarrow> string \<Rightarrow> disk \<Rightarrow> disk" where
  "remove_entry io path d =
     (case file_len d path of
        None \<Rightarrow> d
      | Some len \<Rightarrow>
          (if io_remove io path
           then (remove_file io path d)\<lparr>dk_size := sat_sub (dk_size d) len\<rparr>
           else d))"

subsection \<open>Eviction\<close>

definition cache_files :: "disk \<Rightarrow> (string \<times> nat \<times> bytes) list" where
  "cache_files d = filter (\<lambda>(p, _). is_cache_file p) (dk_files d)"

definition total_len :: "(string \<times> nat \<times> bytes) list \<Rightarrow> nat" where
  "total_len fs = sum_list (map (\<lambda>(_, _, bs). length bs) fs)"

fun evict :: "disk_io \<Rightarrow> nat \<Rightarrow> (string \<times> nat \<times> bytes) list \<Rightarrow> disk \<Rightarrow> disk" where
  "evict io mx [] d = d"
| "evict io mx ((p, t, bs) # fs) d =
     (if dk_size d < clean_threshold mx then d
      else evict io mx fs
             (if io_remove io p
              then (remove_file io p d)\<lparr>dk_size := sat_sub (dk_size d) (length bs)\<rparr>
              else d))"

definition ensure_capacity :: "disk_io \<Rightarrow> nat \<Rightarrow> disk \<Rightarrow> disk" where
  "ensure_capacity io mx d =
     (if dk_size d < mx then d
      else (let files = cache_files d;
                total = total_len files mod 18446744073709551616;
                d1 = d\<lparr>dk_size := total\<rparr>
            in if total < clean_threshold mx then d1
               else evict io mx (sort_key (\<lambda>(_, t, _). t) files) d1))"

subsection \<open>The operations of the cache\<close>

definition put_full ::
  "(string \<Rightarrow> string) \<Rightarrow> string \<Rightarrow> nat \<Rightarrow> disk_io \<Rightarrow> string \<Rightarrow> bytes \<Rightarrow> bytes option \<Rightarrow> disk
   \<Rightarrow> (io_error + unit) \<times> disk" where
  "put_full sha dir mx io key data content_type d =
     (case encode_record content_type data of
        Inl e \<Rightarrow> (Inl e, d)
      | Inr encoded \<Rightarrow>
          (case commit_record io (path_for_key sha dir key) encoded d of
             (Inl e, d') \<Rightarrow> (Inl e, d')
           | (Inr _, d') \<Rightarrow> (Inr (), ensure_capacity io mx d')))"

definition put_body ::
  "(string \<Rightarrow> string) \<Rightarrow> string \<Rightarrow> nat \<Rightarrow> disk_io \<Rightarrow> string \<Rightarrow> bytes \<Rightarrow> disk
   \<Rightarrow> (io_error + unit) \<times> disk" where
  "put_body sha dir mx io key data d = put_full sha dir mx io key data None d"

definition get_full ::
  "(string \<Rightarrow> string) \<Rightarrow> string \<Rightarrow> disk_io \<Rightarrow> string \<Rightarrow> disk \<Rightarrow> cache_record option \<times> disk" where
  "get_full sha dir io key d =
     (let path = path_for_key sha dir key in
      (case lookup_file d path of
         None \<Rightarrow> (None, d)
       | Some (t, data) \<Rightarrow>
           (case decode_record data of
              None \<Rightarrow> (None, remove_entry io path d)
            | Some r \<Rightarrow>
                (Some r,
                 if io_touch io
                 then d\<lparr>dk_files := AList.update path (io_now io, data) (dk_files d)\<rparr> else d))))"

definition get_body ::
  "(string \<Rightarrow> string) \<Rightarrow> string \<Rightarrow> disk_io \<Rightarrow> string \<Rightarrow> disk \<Rightarrow> bytes option \<times> disk" where
  "get_body sha dir io key d =
     (case get_full sha dir io key d of (r, d') \<Rightarrow> (map_option cr_body r, d'))"

definition init_cache :: "disk_io \<Rightarrow> disk \<Rightarrow> disk" where
  "init_cache io d =
     (let kept = filter (\<lambda>(p, _). \<not> (is_temp_file p \<and> io_remove io p)) (dk_files d)
      in d\<lparr>dk_files := kept,
           dk_size := foldl (\<lambda>acc (_, _, bs). sat_add64 acc (length bs)) 0 (cache_files d)\<rparr>)"

definition clear_all :: "disk_io \<Rightarrow> disk \<Rightarrow> nat \<times> disk" where
  "clear_all io d =
     (length (filter (\<lambda>(p, _). io_remove io p) (dk_files d)),
      d\<lparr>dk_files := filter (\<lambda>(p, _). \<not> io_remove io p) (dk_files d), dk_size := 0\<rparr>)"

subsection \<open>Laws of the record format\<close>

lemma length_be_bytes [simp]: "length (be_bytes k n) = k"
  by (induction k arbitrary: n) simp_all

lemma from_be_bytes_append [simp]: "from_be_bytes (bs @ [b]) = 256 * from_be_bytes bs + unat b"
  by (simp add: from_be_bytes_def)

lemma from_be_bytes_mod: "from_be_bytes (be_bytes k n) = n mod 256 ^ k"
proof (induction k arbitrary: n)
  case 0
  show ?case by (simp add: from_be_bytes_def)
next
  case (Suc k)
  have "unat (word_of_nat n :: 8 word) = n mod 256"
    by (simp add: unat_of_nat)
  with Suc show ?case by (simp add: mod_mult2_eq)
qed

lemma from_be_bytes_id: "n < 256 ^ k \<Longrightarrow> from_be_bytes (be_bytes k n) = n"
  by (simp add: from_be_bytes_mod)

lemma slice_middle [simp]:
  "slice (length a) (length a + length b) (a @ b @ c) = b"
  by (simp add: slice_def)

lemma encode_record_layout:
  "encode_record ct body = Inr e \<Longrightarrow>
   length (unwrap_or ct []) < 65536 \<and> length body \<le> u64_max \<and>
   e = cache_magic @ be_bytes 2 (length (unwrap_or ct [])) @ unwrap_or ct []
         @ be_bytes 8 (length body) @ body"
  by (auto simp: encode_record_def Let_def split: if_splits)

text \<open>Reading any file that starts with the header and the content type of a record.\<close>

lemma decode_header:
  assumes data: "data = cache_magic @ be_bytes 2 (length ct) @ ct @ be_bytes 8 n @ rest"
    and ct: "length ct < 65536" and n: "n \<le> u64_max" and room: "14 + length ct + n \<le> u64_max"
  shows "decode_record data =
    (if n > length rest then None
     else if ct = [] then Some \<lparr>cr_content_type = None, cr_body = take n rest\<rparr>
     else if valid_utf8 ct then Some \<lparr>cr_content_type = Some ct, cr_body = take n rest\<rparr>
     else None)" (is "_ = ?rhs")
proof -
  let ?a = "cache_magic @ be_bytes 2 (length ct)"
  have la: "length ?a = 6" by (simp add: cache_magic_def)
  have two: "[data ! 4, data ! 5] = be_bytes 2 (length ct)"
    by (simp add: data cache_magic_def numeral_2_eq_2 nth_append)
  have ctl: "from_be_bytes [data ! 4, data ! 5] = length ct"
    unfolding two using ct by (intro from_be_bytes_id) simp
  have s1: "slice 6 (6 + length ct) data = ct"
    using slice_middle [of ?a ct] by (simp only: la data append_assoc)
  have "slice (length (?a @ ct)) (length (?a @ ct) + length (be_bytes 8 n)) data = be_bytes 8 n"
    using slice_middle [of "?a @ ct" "be_bytes 8 n" rest] by (simp only: data append_assoc)
  then have s2: "slice (6 + length ct) (6 + length ct + 8) data = be_bytes 8 n"
    using la by simp
  have s3: "slice (6 + length ct + 8) (6 + length ct + 8 + n) data = take n rest"
  proof -
    let ?p = "?a @ ct @ be_bytes 8 n"
    have "data = ?p @ rest" "length ?p = 14 + length ct" using la by (simp_all add: data)
    then have "drop (14 + length ct) data = rest" by (metis append_eq_conv_conj)
    then show ?thesis by (simp add: slice_def add.commute)
  qed
  have len: "length data = 14 + length ct + length rest"
    by (simp add: data cache_magic_def)
  have magic: "take 4 data = cache_magic" by (simp add: data cache_magic_def)
  have n8: "from_be_bytes (be_bytes 8 n) = n"
    using n by (intro from_be_bytes_id) (simp add: u64_max_def)
  obtain bs where bs: "6 + length ct = bs" by blast
  obtain be where be: "bs + 8 = be" by blast
  have chk: "usize_checked_add 6 (length ct) = Some bs" "usize_checked_add bs 8 = Some be"
    "usize_checked_add be n = Some (be + n)"
    using room by (auto simp: usize_checked_add_def simp flip: bs be)
  note s = s1 [unfolded bs] s2 [unfolded bs be] s3 [unfolded bs be]
  have "\<not> be > length data" "be + n > length data \<longleftrightarrow> n > length rest"
    using len by (auto simp flip: bs be)
  then have "decode_record data = decode_body data (length ct) bs be"
    using len by (simp add: decode_record_def magic ctl chk)
  also have "decode_body data (length ct) bs be = ?rhs"
    using \<open>be + n > length data \<longleftrightarrow> n > length rest\<close>
    by (simp add: decode_body_def s n8 chk)
  finally show ?thesis .
qed

lemma decode_short:
  assumes "data = cache_magic @ be_bytes 2 (length ct) @ ct @ be_bytes 8 n @ rest"
    and "length ct < 65536" and "n \<le> u64_max" and "14 + length ct + n \<le> u64_max"
    and "length rest < n"
  shows "decode_record data = None"
  using decode_header [OF assms(1-4)] assms(5) by simp

lemma decode_encode:
  assumes "encode_record ct body = Inr e" and "valid_utf8 (unwrap_or ct [])"
    and "length body + 65550 \<le> u64_max"
  shows "decode_record e =
    Some \<lparr>cr_content_type = (if unwrap_or ct [] = [] then None else ct), cr_body = body\<rparr>"
proof -
  note l = encode_record_layout [OF assms(1)]
  with assms(3) have "14 + length (unwrap_or ct []) + length body \<le> u64_max" by simp
  from decode_header [OF _ _ _ this, of e body] l assms(2) show ?thesis
    by (cases ct) auto
qed

lemma decode_truncated:
  assumes "encode_record ct body = Inr e" and "4 \<le> k" and "k < length e"
    and "length body + 65550 \<le> u64_max"
  shows "decode_record (take k e) = None"
proof -
  let ?ct = "unwrap_or ct []"
  note l = encode_record_layout [OF assms(1)]
  have len: "length e = 14 + length ?ct + length body" using l by (simp add: cache_magic_def)
  have magic: "take 4 (take k e) = cache_magic"
    using l assms(2) by (simp add: cache_magic_def min_absorb1)
  consider "k < 6" | "6 \<le> k" "k < 14 + length ?ct" | "14 + length ?ct \<le> k" by linarith
  then show ?thesis
  proof cases
    case 1
    with magic assms(2,3) show ?thesis by (simp add: decode_record_def)
  next
    case 2
    have two: "[take k e ! 4, take k e ! 5] = be_bytes 2 (length ?ct)"
      using 2 l by (simp add: cache_magic_def numeral_2_eq_2 nth_append)
    have "from_be_bytes [take k e ! 4, take k e ! 5] = length ?ct"
      unfolding two using l by (intro from_be_bytes_id) simp
    with 2 magic assms(2,3) show ?thesis
      by (simp add: decode_record_def usize_checked_add_def Let_def)
  next
    case 3
    let ?h = "cache_magic @ be_bytes 2 (length ?ct) @ ?ct @ be_bytes 8 (length body)"
    have h: "length ?h = 14 + length ?ct" by (simp add: cache_magic_def)
    have "e = ?h @ body" using l by simp
    with 3 h have "take k e = ?h @ take (k - (14 + length ?ct)) body" by (simp only: take_append) simp
    then have "take k e = cache_magic @ be_bytes 2 (length ?ct) @ ?ct
        @ be_bytes 8 (length body) @ take (k - (14 + length ?ct)) body" by simp
    then show ?thesis
    proof (rule decode_short)
      show "14 + length ?ct + length body \<le> u64_max" using l assms(4) by simp
      show "length (take (k - (14 + length ?ct)) body) < length body"
        using 3 assms(3) len by simp
    qed (use l in simp_all)
  qed
qed

lemma decode_legacy:
  "take 4 data \<noteq> cache_magic \<Longrightarrow>
   decode_record data = Some \<lparr>cr_content_type = None, cr_body = data\<rparr>"
  by (simp add: decode_record_def)

subsection \<open>Laws of the tracked size\<close>

definition well_formed :: "disk \<Rightarrow> bool" where
  "well_formed d \<longleftrightarrow> distinct (map fst (dk_files d))"

definition accounted :: "disk \<Rightarrow> bool" where
  "accounted d \<longleftrightarrow> dk_size d = total_len (cache_files d)"

lemma total_len_simps [simp]:
  "total_len [] = 0" "total_len ((p, t, bs) # fs) = length bs + total_len fs"
  "total_len (fs @ gs) = total_len fs + total_len gs"
  by (simp_all add: total_len_def)

definition old_len :: "(string \<times> nat \<times> bytes) list \<Rightarrow> string \<Rightarrow> nat" where
  "old_len fs p = (case map_of fs p of Some (_, bs) \<Rightarrow> length bs | None \<Rightarrow> 0)"

lemma file_len_old: "unwrap_or (file_len d p) 0 = old_len (dk_files d) p"
  by (auto simp: file_len_def lookup_file_def old_len_def split: option.splits)

lemma filter_update_other:
  "\<not> P p \<Longrightarrow> filter (\<lambda>(q, _). P q) (AList.update p v fs) = filter (\<lambda>(q, _). P q) fs"
  by (induction fs) auto

lemma filter_delete_other:
  "\<not> P p \<Longrightarrow> filter (\<lambda>(q, _). P q) (AList.delete p fs) = filter (\<lambda>(q, _). P q) fs"
  by (induction fs) auto

lemma old_len_le: "P p \<Longrightarrow> old_len fs p \<le> total_len (filter (\<lambda>(q, _). P q) fs)"
  by (induction fs) (auto simp: old_len_def)

lemma total_update:
  assumes "P p"
  shows "total_len (filter (\<lambda>(q, _). P q) (AList.update p (t, bs) fs)) + old_len fs p
     = total_len (filter (\<lambda>(q, _). P q) fs) + length bs"
proof (induction fs)
  case (Cons f fs)
  obtain q u cs where f: "f = (q, u, cs)" by (cases f)
  show ?case
  proof (cases "q = p")
    case True
    with f assms show ?thesis by (simp add: old_len_def)
  next
    case False
    with Cons f have "old_len (f # fs) p = old_len fs p" by (simp add: old_len_def)
    with False f Cons show ?thesis by simp
  qed
qed (simp add: old_len_def assms)

lemma total_delete:
  assumes "P p" and "distinct (map fst fs)"
  shows "total_len (filter (\<lambda>(q, _). P q) (AList.delete p fs)) + old_len fs p
    = total_len (filter (\<lambda>(q, _). P q) fs)"
  using assms(2)
proof (induction fs)
  case (Cons f fs)
  obtain q t bs where f: "f = (q, t, bs)" by (cases f)
  show ?case
  proof (cases "q = p")
    case True
    with Cons.prems f have "AList.delete p fs = fs"
      by (auto simp: AList.delete_eq filter_id_conv image_iff)
    with True f assms(1) show ?thesis by (simp add: old_len_def)
  next
    case False
    with Cons f show ?thesis by (auto simp: old_len_def)
  qed
qed (simp add: old_len_def)

lemma old_len_update_other: "p \<noteq> q \<Longrightarrow> old_len (AList.update q v fs) p = old_len fs p"
  by (simp add: old_len_def update_conv')

lemma old_len_delete_other: "p \<noteq> q \<Longrightarrow> old_len (AList.delete q fs) p = old_len fs p"
  by (simp add: old_len_def delete_conv')

subsection \<open>Paths of temporary files\<close>

lemma tmp_path_temp: "is_temp_file (tmp_path path pid n)"
proof -
  have "CHR ''/'' \<notin> set (''.tmp.'' @ show_nat pid @ ''.'' @ show_nat n)"
    by (auto dest!: show_nat_char simp: is_digit_def Let_def)
  from last_split_on_append [OF this] show ?thesis
    using contains_self [of "last (split_on CHR ''/'' path)" "''.tmp.''" "show_nat pid @ ''.'' @ show_nat n"]
    by (simp add: is_temp_file_def tmp_path_def file_name_def Let_def)
qed

lemma hex_name_cache:
  assumes "list_all is_hexdigit (sha key)"
  shows "is_cache_file (path_for_key sha dir key)"
proof -
  have no: "c \<notin> set (sha key)" if "\<not> is_hexdigit c" for c
    using assms that by (auto simp: list_all_iff)
  have "CHR ''/'' \<notin> set (sha key)" by (rule no) (simp add: is_hexdigit_def)
  then have name: "file_name (path_for_key sha dir key) = sha key"
    using last_split_on_sep [of "CHR ''/''" "sha key" "dir @ ''/'' @ take 2 (sha key)"]
    by (simp add: file_name_def path_for_key_def Let_def)
  have dot: "CHR ''.'' \<notin> set (sha key)" by (rule no) (simp add: is_hexdigit_def)
  have "\<not> contains (sha key) ''.tmp.''" "\<not> ends_with (sha key) ''.tmp''"
    using dot by (auto simp: contains_sublist ends_with_suffix dest!: set_mono_sublist set_mono_suffix)
  with name show ?thesis by (simp add: is_cache_file_def is_temp_file_def Let_def)
qed

subsection \<open>Laws of the operations\<close>

lemma cache_files_temp [simp]:
  assumes "is_temp_file p"
  shows "cache_files (write_file io p bs d) = cache_files d"
    and "cache_files (remove_file io p d) = cache_files d"
  using assms
  by (auto simp: cache_files_def write_file_def remove_file_def is_cache_file_def
      filter_update_other filter_delete_other split: option.splits)

lemma file_ops_size [simp]:
  "dk_size (write_file io p bs d) = dk_size d" "dk_size (remove_file io p d) = dk_size d"
  "dk_size (rename_file q p d) = dk_size d"
  by (auto simp: write_file_def remove_file_def rename_file_def split: option.splits)

lemma file_ops_well_formed:
  assumes "well_formed d"
  shows "well_formed (write_file io p bs d)" and "well_formed (remove_file io p d)"
    and "well_formed (rename_file q p d)"
  using assms
  by (auto simp: well_formed_def write_file_def remove_file_def rename_file_def distinct_update
      distinct_delete split: option.splits)

lemma disk_fields [simp]:
  "cache_files (d\<lparr>dk_size := n\<rparr>) = cache_files d" "cache_files (d\<lparr>dk_counter := n\<rparr>) = cache_files d"
  "well_formed (d\<lparr>dk_size := n\<rparr>) = well_formed d"
  "well_formed (d\<lparr>dk_counter := n\<rparr>) = well_formed d"
  by (simp_all add: cache_files_def well_formed_def)

lemma commit_failed:
  "\<not> (io_write io \<and> io_rename io) \<Longrightarrow>
   fst (commit_record io path enc d) = Inl IoFailed
   \<and> cache_files (snd (commit_record io path enc d)) = cache_files d
   \<and> dk_size (snd (commit_record io path enc d)) = dk_size d"
  by (auto simp: commit_record_def Let_def tmp_path_temp)

lemma commit_well_formed:
  "well_formed d \<Longrightarrow> well_formed (snd (commit_record io path enc d))"
  by (auto simp: commit_record_def Let_def intro!: file_ops_well_formed)

lemma commit_files:
  assumes "io_write io" "io_rename io"
  shows "fst (commit_record io path enc d) = Inr ()"
    and "dk_files (snd (commit_record io path enc d)) =
      AList.update path (io_now io, enc)
        (AList.delete (tmp_path path (io_pid io) (dk_counter d))
          (AList.update (tmp_path path (io_pid io) (dk_counter d)) (io_now io, enc) (dk_files d)))"
  using assms
  by (simp_all add: commit_record_def Let_def write_file_def rename_file_def lookup_file_def
      update_conv')

lemma commit_size:
  assumes "io_write io" "io_rename io" "is_cache_file path"
  shows "dk_size (snd (commit_record io path enc d)) =
    sat_add64 (dk_size d - old_len (dk_files d) path) (min (length enc) u64_max)"
proof -
  have "path \<noteq> tmp_path path (io_pid io) (dk_counter d)"
    using tmp_path_temp assms(3) by (metis is_cache_file_def)
  with assms(1,2) show ?thesis
    by (simp add: commit_record_def Let_def file_len_old sat_sub_def)
      (simp add: write_file_def old_len_update_other)
qed

lemma commit_accounted:
  assumes "accounted d" "is_cache_file path"
    and "total_len (cache_files d) + length enc \<le> u64_max"
  shows "accounted (snd (commit_record io path enc d))"
proof (cases "io_write io \<and> io_rename io")
  case True
  let ?tmp = "tmp_path path (io_pid io) (dk_counter d)"
  let ?fs = "AList.delete ?tmp (AList.update ?tmp (io_now io, enc) (dk_files d))"
  have ne: "path \<noteq> ?tmp" using tmp_path_temp assms(2) by (metis is_cache_file_def)
  have tmp: "\<not> is_cache_file ?tmp" by (simp add: is_cache_file_def tmp_path_temp)
  have fs: "filter (\<lambda>(q, _). is_cache_file q) ?fs = cache_files d"
    using tmp by (simp add: filter_delete_other filter_update_other cache_files_def)
  have old: "old_len ?fs path = old_len (dk_files d) path"
    using ne by (simp add: old_len_delete_other old_len_update_other)
  have "total_len (cache_files (snd (commit_record io path enc d))) + old_len (dk_files d) path
      = total_len (cache_files d) + length enc"
    using total_update [of is_cache_file path "io_now io" enc ?fs] assms(2) True
    by (simp add: cache_files_def [of "snd _"] commit_files fs old)
  moreover have "old_len (dk_files d) path \<le> total_len (cache_files d)"
    using old_len_le [of is_cache_file, OF assms(2)] by (simp add: cache_files_def)
  ultimately show ?thesis
    using assms True commit_size [of io path enc d]
    by (simp add: accounted_def sat_add64_def)
next
  case False
  with assms(1) commit_failed [OF False, of path enc d] show ?thesis
    by (simp add: accounted_def)
qed

lemma remove_entry_accounted:
  assumes "accounted d" "well_formed d" "is_cache_file path"
  shows "accounted (remove_entry io path d) \<and> well_formed (remove_entry io path d)"
proof (cases "file_len d path")
  case None
  with assms show ?thesis by (simp add: remove_entry_def)
next
  case (Some len)
  have "total_len (filter (\<lambda>(q, _). is_cache_file q) (AList.delete path (dk_files d))) + len
      = total_len (cache_files d)"
    using total_delete [of is_cache_file path "dk_files d"] assms Some file_len_old [of d path]
    by (simp add: well_formed_def cache_files_def)
  with assms Some show ?thesis
    using file_ops_well_formed(2) [OF assms(2), of io path]
    by (auto simp: remove_entry_def accounted_def remove_file_def cache_files_def sat_sub_def
        well_formed_def)
qed

subsection \<open>Laws of the eviction\<close>

definition listed :: "(string \<times> nat \<times> bytes) list \<Rightarrow> disk \<Rightarrow> bool" where
  "listed fs d \<longleftrightarrow> distinct (map fst fs) \<and> set fs \<subseteq> set (cache_files d)"

lemma listed_remove:
  assumes "listed ((p, t, bs) # fs) d" "well_formed d" "accounted d" "io_remove io p"
  defines "d' \<equiv> (remove_file io p d)\<lparr>dk_size := sat_sub (dk_size d) (length bs)\<rparr>"
  shows "listed fs d' \<and> well_formed d' \<and> accounted d'"
proof -
  have mem: "(p, t, bs) \<in> set (dk_files d)" and p: "is_cache_file p"
    using assms(1) by (auto simp: listed_def cache_files_def)
  then have len: "file_len d p = Some (length bs)"
    using assms(2) by (simp add: well_formed_def file_len_def lookup_file_def)
  then have d': "d' = remove_entry io p d"
    using assms(4) by (simp add: d'_def remove_entry_def)
  have "set fs \<subseteq> set (cache_files d')"
    using assms(1,4) by (auto simp: listed_def d'_def remove_file_def cache_files_def AList.delete_eq
        image_iff)
  with d' remove_entry_accounted [OF assms(3,2) p] assms(1) show ?thesis
    by (simp add: listed_def)
qed

lemma evict_accounted:
  "listed fs d \<Longrightarrow> well_formed d \<Longrightarrow> accounted d \<Longrightarrow>
   accounted (evict io mx fs d) \<and> well_formed (evict io mx fs d)"
proof (induction io mx fs d rule: evict.induct)
  case (2 io mx p t bs fs d)
  show ?case
  proof (cases "dk_size d < clean_threshold mx \<or> \<not> io_remove io p")
    case True
    with 2 show ?thesis by (auto simp: listed_def)
  next
    case False
    with listed_remove [OF "2.prems"] 2 show ?thesis by simp
  qed
qed simp

lemma evict_prefix:
  "(\<And>p. io_remove io p) \<Longrightarrow>
   \<exists>k. dk_files (evict io mx fs d) = filter (\<lambda>(p, _). p \<notin> fst ` set (take k fs)) (dk_files d)
     \<and> (k < length fs \<longrightarrow> dk_size (evict io mx fs d) < clean_threshold mx)"
proof (induction io mx fs d rule: evict.induct)
  case (1 io mx d)
  show ?case by (rule exI [of _ 0]) simp
next
  case (2 io mx p t bs fs d)
  show ?case
  proof (cases "dk_size d < clean_threshold mx")
    case True
    then show ?thesis by (intro exI [of _ 0]) simp
  next
    case False
    let ?d = "(remove_file io p d)\<lparr>dk_size := sat_sub (dk_size d) (length bs)\<rparr>"
    from 2 False obtain k where
      k: "dk_files (evict io mx fs ?d) = filter (\<lambda>(q, _). q \<notin> fst ` set (take k fs)) (dk_files ?d)"
        "k < length fs \<longrightarrow> dk_size (evict io mx fs ?d) < clean_threshold mx"
      by auto
    have "dk_files ?d = filter (\<lambda>(q, _). q \<noteq> p) (dk_files d)"
      using "2.prems" by (auto simp: remove_file_def AList.delete_eq intro!: filter_cong)
    with k False "2.prems" show ?thesis
      by (intro exI [of _ "Suc k"]) (auto simp: filter_filter intro!: filter_cong)
  qed
qed

lemma listed_cache_files:
  "well_formed d \<Longrightarrow> listed (sort_key f (cache_files d)) (d\<lparr>dk_size := n\<rparr>)"
  by (auto simp: listed_def well_formed_def cache_files_def distinct_map inj_on_def
      intro: distinct_filter)

lemma ensure_capacity_accounted:
  assumes "well_formed d" "total_len (cache_files d) \<le> u64_max"
    and "accounted d \<or> mx \<le> dk_size d"
  shows "accounted (ensure_capacity io mx d)" "well_formed (ensure_capacity io mx d)"
proof -
  let ?n = "total_len (cache_files d) mod 18446744073709551616"
  have n: "?n = total_len (cache_files d)" using assms(2) by (simp add: u64_max_def)
  then have "accounted (d\<lparr>dk_size := ?n\<rparr>)" by (simp add: accounted_def)
  with evict_accounted [OF listed_cache_files [OF assms(1)], of ?n] assms(1,3)
  have "accounted (ensure_capacity io mx d) \<and> well_formed (ensure_capacity io mx d)"
    by (auto simp: ensure_capacity_def Let_def)
  then show "accounted (ensure_capacity io mx d)" "well_formed (ensure_capacity io mx d)" by auto
qed

lemma ensure_capacity_bound:
  assumes "well_formed d" "total_len (cache_files d) \<le> u64_max" and rm: "\<And>p. io_remove io p"
    and "mx \<le> dk_size d"
  shows "dk_size (ensure_capacity io mx d) < clean_threshold mx
    \<or> cache_files (ensure_capacity io mx d) = []"
proof (cases "total_len (cache_files d) mod 18446744073709551616 < clean_threshold mx")
  case True
  with assms(4) show ?thesis by (simp add: ensure_capacity_def Let_def)
next
  case False
  let ?d = "d\<lparr>dk_size := total_len (cache_files d) mod 18446744073709551616\<rparr>"
  let ?fs = "sort_key (\<lambda>(_, t, _). t) (cache_files d)"
  have e: "ensure_capacity io mx d = evict io mx ?fs ?d"
    using False assms(4) by (simp add: ensure_capacity_def Let_def)
  from evict_prefix [OF rm, of mx ?fs ?d] obtain k where
    k: "dk_files (evict io mx ?fs ?d) = filter (\<lambda>(p, _). p \<notin> fst ` set (take k ?fs)) (dk_files d)"
      "k < length ?fs \<longrightarrow> dk_size (evict io mx ?fs ?d) < clean_threshold mx" by auto
  show ?thesis
  proof (cases "k < length ?fs")
    case True
    with k e show ?thesis by simp
  next
    case False
    then have "set (take k ?fs) = set (cache_files d)" by simp
    with k(1) have "cache_files (evict io mx ?fs ?d) = []"
      by (force simp: cache_files_def filter_empty_conv)
    with e show ?thesis by simp
  qed
qed

lemma sorted_take_drop:
  assumes "x \<in> set (take k (sort_key f xs))" "y \<in> set xs" "y \<notin> set (take k (sort_key f xs))"
  shows "f x \<le> f y"
proof -
  have "y \<in> set (drop k (sort_key f xs))"
    using assms(2,3) by (metis Un_iff append_take_drop_id set_append set_sort)
  moreover have "sorted (map f (take k (sort_key f xs) @ drop k (sort_key f xs)))"
    unfolding append_take_drop_id by simp
  ultimately show ?thesis
    using assms(1) by (simp only: map_append sorted_append) auto
qed

lemma ensure_capacity_lru:
  assumes wf: "well_formed d" and rm: "\<And>p. io_remove io p"
    and f: "(p, t, bs) \<in> set (cache_files d)" "(p, t, bs) \<notin> set (dk_files (ensure_capacity io mx d))"
    and g: "(q, u, cs) \<in> set (cache_files d)" "(q, u, cs) \<in> set (dk_files (ensure_capacity io mx d))"
  shows "t \<le> u"
proof -
  let ?fs = "sort_key (\<lambda>(_, t, _). t) (cache_files d)"
  let ?d = "d\<lparr>dk_size := total_len (cache_files d) mod 18446744073709551616\<rparr>"
  have mem: "(p, t, bs) \<in> set (dk_files d)" using f(1) by (simp add: cache_files_def)
  have e: "ensure_capacity io mx d = evict io mx ?fs ?d"
    using f(2) mem by (auto simp: ensure_capacity_def Let_def split: if_splits)
  from evict_prefix [OF rm, of mx ?fs ?d] obtain k where
    k: "dk_files (evict io mx ?fs ?d) = filter (\<lambda>(p, _). p \<notin> fst ` set (take k ?fs)) (dk_files d)"
    by auto
  from f(2) mem k e obtain t' bs' where "(p, t', bs') \<in> set (take k ?fs)" by force
  moreover then have "(p, t', bs') \<in> set (dk_files d)"
    by (auto simp: cache_files_def dest!: in_set_takeD)
  with mem wf have "t' = t \<and> bs' = bs"
    by (force simp: well_formed_def dest: eq_key_imp_eq_value)
  ultimately have "(p, t, bs) \<in> set (take k ?fs)" by simp
  moreover have "(q, u, cs) \<notin> set (take k ?fs)" using g(2) k e by force
  ultimately show ?thesis
    using sorted_take_drop [of "(p, t, bs)" k "\<lambda>(_, t, _). t" "cache_files d" "(q, u, cs)"] g(1)
    by simp
qed

subsection \<open>Laws of the cache\<close>

lemma put_full_accounted:
  assumes "well_formed d" "accounted d" "list_all is_hexdigit (sha key)"
    and "total_len (cache_files d) + length data + 65550 \<le> u64_max"
  shows "accounted (snd (put_full sha dir mx io key data ct d))
    \<and> well_formed (snd (put_full sha dir mx io key data ct d))"
proof (cases "encode_record ct data")
  case (Inl e)
  with assms(1,2) show ?thesis by (simp add: put_full_def)
next
  case (Inr enc)
  let ?path = "path_for_key sha dir key"
  let ?c = "commit_record io ?path enc d"
  from encode_record_layout [OF Inr] have len: "length enc < length data + 65550"
    by (auto simp: cache_magic_def)
  have acc: "accounted (snd ?c)" and wf: "well_formed (snd ?c)"
    using commit_accounted [OF assms(2) hex_name_cache [where sha = sha and key = key, OF assms(3)]] assms(1,4) len
      commit_well_formed by (simp_all add: commit_well_formed)
  have "dk_size (snd ?c) \<le> u64_max"
  proof (cases "io_write io \<and> io_rename io")
    case True
    then show ?thesis
      using commit_size [of io ?path enc d] hex_name_cache [where sha = sha and key = key, OF assms(3)]
      by (simp add: sat_add64_def)
  next
    case False
    with commit_failed [OF False] assms(2,4) show ?thesis by (simp add: accounted_def)
  qed
  with acc have "total_len (cache_files (snd ?c)) \<le> u64_max" by (simp add: accounted_def)
  from ensure_capacity_accounted [OF wf this] acc wf Inr show ?thesis
    by (cases ?c; cases "fst ?c") (simp_all add: put_full_def)
qed

lemma get_full_accounted:
  assumes "well_formed d" "accounted d" "list_all is_hexdigit (sha key)"
  shows "accounted (snd (get_full sha dir io key d))
    \<and> well_formed (snd (get_full sha dir io key d))"
proof -
  let ?path = "path_for_key sha dir key"
  note p = hex_name_cache [where sha = sha and key = key and dir = dir, OF assms(3)]
  have "accounted (d\<lparr>dk_files := AList.update ?path (n, data) (dk_files d)\<rparr>)"
    if "lookup_file d ?path = Some (t, data)" for n t data
  proof -
    have "old_len (dk_files d) ?path = length data"
      using that by (simp add: old_len_def lookup_file_def)
    with total_update [of is_cache_file ?path n data "dk_files d"] p assms(2) show ?thesis
      by (simp add: accounted_def cache_files_def)
  qed
  with remove_entry_accounted [OF assms(2,1) p] assms show ?thesis
    by (auto simp: get_full_def Let_def well_formed_def distinct_update split: option.splits)
qed

lemma put_get:
  assumes put: "put_full sha dir mx io key data ct d = (Inr (), d')"
    and io: "io_write io" "io_rename io" and hex: "list_all is_hexdigit (sha key)"
    and room: "dk_size d' < mx" "length data + 65550 \<le> u64_max"
    and kept: "dk_size (snd (commit_record io (path_for_key sha dir key)
                (case encode_record ct data of Inr e \<Rightarrow> e) d)) < mx"
    and ct: "valid_utf8 (unwrap_or ct [])"
  shows "fst (get_full sha dir io' key d') =
    Some \<lparr>cr_content_type = (if unwrap_or ct [] = [] then None else ct), cr_body = data\<rparr>"
proof -
  from put obtain enc where enc: "encode_record ct data = Inr enc"
    by (auto simp: put_full_def split: sum.splits)
  let ?path = "path_for_key sha dir key"
  have "d' = snd (commit_record io ?path enc d)"
    using put enc kept by (auto simp: put_full_def ensure_capacity_def split: prod.splits sum.splits)
  then have "lookup_file d' ?path = Some (io_now io, enc)"
    using commit_files [OF io] by (simp add: lookup_file_def update_conv')
  with decode_encode [OF enc ct room(2)] show ?thesis by (simp add: get_full_def Let_def)
qed

lemma init_accounted:
  assumes "total_len (cache_files d) \<le> u64_max"
  shows "accounted (init_cache io d)"
proof -
  have "foldl (\<lambda>acc (_, _, bs). sat_add64 acc (length bs)) n fs = n + total_len fs"
    if "n + total_len fs \<le> u64_max" for n and fs :: "(string \<times> nat \<times> bytes) list"
    using that by (induction fs arbitrary: n) (auto simp: sat_add64_def)
  then have "dk_size (init_cache io d) = total_len (cache_files d)"
    using assms by (simp add: init_cache_def Let_def)
  moreover have "cache_files (init_cache io d) = cache_files d"
    by (auto simp: init_cache_def Let_def cache_files_def is_cache_file_def filter_filter
        intro!: filter_cong)
  ultimately show ?thesis by (simp add: accounted_def)
qed

lemma clear_all_size: "dk_size (snd (clear_all io d)) = 0"
  by (simp add: clear_all_def)

lemma clear_all_empty:
  "(\<And>p. io_remove io p) \<Longrightarrow>
   dk_files (snd (clear_all io d)) = [] \<and> fst (clear_all io d) = length (dk_files d)"
  by (simp add: clear_all_def split_def)

text \<open>A file that cannot be removed stays, but is no longer accounted for.\<close>

lemma clear_all_drift:
  assumes "(p, t, bs) \<in> set (cache_files d)" "\<not> io_remove io p" "bs \<noteq> []"
  shows "\<not> accounted (snd (clear_all io d))"
proof -
  have "(p, t, bs) \<in> set (cache_files (snd (clear_all io d)))"
    using assms by (simp add: clear_all_def cache_files_def)
  then have "length bs \<le> total_len (cache_files (snd (clear_all io d)))"
    by (force simp: total_len_def intro: member_le_sum_list)
  moreover have "length bs > 0" using assms(3) by simp
  ultimately have "0 < total_len (cache_files (snd (clear_all io d)))" by linarith
  then show ?thesis by (simp add: accounted_def clear_all_size)
qed

lemma clean_threshold_le: "clean_threshold mx \<le> mx"
  by (simp add: clean_threshold_def sat_mul64_def)

lemma max_size_wraps: "max_size (Some ''17179869184'') = 0"
  by (simp add: max_size_def str_simps u64_max_def)

end
