(* ===== verification/Auth_Context.thy ===== *)
theory Auth_Context
  imports Identity Policy_Store Requests Disk_Cache
begin

text \<open>
  \<open>src/auth/context.rs\<close>: the request context with the upstream host it may reach, and the
  security context with the policy of the account.  Base32 decoding is a parameter.
\<close>

subsection \<open>State of a request\<close>

record request_ctx =
  rc_plex :: plex_context
  rc_upstream_host :: string
  rc_request_id :: nat
  rc_token_scope :: string

record security_context =
  sc_identity :: user_identity
  sc_token_scope :: string
  sc_policy :: resolution_policy
  sc_identity_source :: identity_source

datatype security_state = Resolved security_context | Unavailable bool identity_error

text \<open>A middleware rejects with a status or continues.\<close>

datatype 'a middleware = Reject nat | Continue 'a

subsection \<open>The dynamic upstream host\<close>

definition utf8_string :: "string \<Rightarrow> bool" where
  "utf8_string s = valid_utf8 (map (\<lambda>c. word_of_nat (of_char c)) s)"

definition decoded_replex_stream_host ::
  "(string \<Rightarrow> string option) \<Rightarrow> base_urls \<Rightarrow> string option \<Rightarrow> string option" where
  "decoded_replex_stream_host base32 bus host_header =
     (case Option.bind host_header (\<lambda>h. strip_suffix h ''.replex.stream'') of
        None \<Rightarrow> None
      | Some encoded \<Rightarrow>
          (if encoded = [] then None
           else (case base32 (to_upper encoded) of
                   None \<Rightarrow> None
                 | Some output \<Rightarrow>
                     (if output = [] \<or> \<not> utf8_string output then None
                      else let v = trim output in
                        if \<not> (starts_with v ''http://'' \<or> starts_with v ''https://'') then None
                        else (case bu_parse bus v of
                                None \<Rightarrow> None
                              | Some u \<Rightarrow>
                                  (if bu_host u = None \<or> bu_query u \<noteq> None \<or> bu_fragment u \<noteq> None
                                   then None else Some (trim_end_of CHR ''/'' v)))))))"

definition requires_security_context :: "string \<Rightarrow> bool" where
  "requires_security_context path \<longleftrightarrow>
     starts_with path ''/library/'' \<or> starts_with path ''/hubs/'' \<or> path = ''/hubs''
     \<or> starts_with path ''/playQueues'' \<or> starts_with path ''/video/''"

subsection \<open>The middlewares\<close>

definition request_context_middleware ::
  "(string \<Rightarrow> string) \<Rightarrow> (string \<Rightarrow> string option) \<Rightarrow> base_urls \<Rightarrow> config \<Rightarrow> plex_context
   \<Rightarrow> string option \<Rightarrow> nat \<Rightarrow> request_ctx middleware \<times> nat" where
  "request_context_middleware sha base32 bus c plex host_header counter =
     (let decoded = decoded_replex_stream_host base32 bus host_header in
      if (case decoded of Some candidate \<Rightarrow> \<not> allows_upstream_host bus c candidate | None \<Rightarrow> False)
      then (Reject 400, counter)
      else (Continue \<lparr>rc_plex = plex,
              rc_upstream_host = unwrap_or (opt_or decoded (cf_host c)) [],
              rc_request_id = counter,
              rc_token_scope = token_scope sha (cx_token plex)\<rparr>,
            (counter + 1) mod 18446744073709551616))"

text \<open>\<open>from_context_with_state\<close> fails without a token or a configured host.\<close>

definition client_error :: "config \<Rightarrow> plex_context \<Rightarrow> identity_error option" where
  "client_error c cx =
     (if cx_token cx = None then Some (UpstreamError ''missing Plex token on request'')
      else if cf_host c = None then Some (UpstreamError ''REPLEX_HOST is not configured'')
      else None)"

definition security_context_middleware ::
  "(string \<Rightarrow> string) \<Rightarrow> identity_api \<Rightarrow> config \<Rightarrow> policy_snapshot \<Rightarrow> string \<Rightarrow> request_ctx
   \<Rightarrow> identity_state \<Rightarrow> security_state option \<times> identity_state" where
  "security_context_middleware sha api c snap path rc st =
     (if ps_enabled snap \<and> requires_security_context path
      then (case client_error c (rc_plex rc) of
              Some e \<Rightarrow> (Some (Unavailable (ps_fail_closed snap) e), st)
            | None \<Rightarrow>
                (case get_current_identity sha api c (rc_upstream_host rc) (rc_plex rc) st of
                   (Inl e, st') \<Rightarrow> (Some (Unavailable (ps_fail_closed snap) e), st')
                 | (Inr r, st') \<Rightarrow>
                     (Some (Resolved
                        \<lparr>sc_identity = ri_identity r, sc_token_scope = rc_token_scope rc,
                         sc_policy = resolve_policy (ps_entries snap) (ps_default_limit snap)
                                       (ps_hidden_collections snap) (ri_identity r),
                         sc_identity_source = ri_source r\<rparr>), st')))
      else (None, st))"

subsection \<open>Laws\<close>

lemma upstream_host_approved:
  assumes "request_context_middleware sha b32 bus c plex hh n = (Continue rc, n')"
  shows "rc_upstream_host rc = unwrap_or (cf_host c) [] \<or> allows_upstream_host bus c (rc_upstream_host rc)"
  using assms
  by (auto simp: request_context_middleware_def Let_def split: if_splits option.splits)

lemma undecoded_host_default:
  "decoded_replex_stream_host b32 bus hh = None \<Longrightarrow>
   \<exists>rc. fst (request_context_middleware sha b32 bus c plex hh n) = Continue rc
     \<and> rc_upstream_host rc = unwrap_or (cf_host c) []"
  by (simp add: request_context_middleware_def Let_def)

lemma decoded_host_shape:
  "decoded_replex_stream_host b32 bus hh = Some v \<Longrightarrow>
   \<exists>w u. v = trim_end_of CHR ''/'' w \<and> bu_parse bus w = Some u \<and> bu_host u \<noteq> None
     \<and> bu_query u = None \<and> bu_fragment u = None
     \<and> (starts_with w ''http://'' \<or> starts_with w ''https://'')"
  by (auto simp: decoded_replex_stream_host_def Let_def split: option.splits if_splits)

lemma security_present:
  "ps_enabled snap \<and> requires_security_context path \<longleftrightarrow>
   fst (security_context_middleware sha api c snap path rc st) \<noteq> None"
  by (auto simp: security_context_middleware_def split: option.splits prod.splits sum.splits)

lemma security_resolved:
  assumes "fst (security_context_middleware sha api c snap path rc st) = Some (Resolved sc)"
  shows "sc_policy sc = resolve_policy (ps_entries snap) (ps_default_limit snap)
           (ps_hidden_collections snap) (sc_identity sc)"
    and "sc_token_scope sc = rc_token_scope rc"
    and "\<exists>r. fst (get_current_identity sha api c (rc_upstream_host rc) (rc_plex rc) st) = Inr r
           \<and> sc_identity sc = ri_identity r"
    and "ps_enabled snap"
  using assms
  by (auto simp: security_context_middleware_def split: option.splits prod.splits sum.splits if_splits)

lemma security_unavailable:
  assumes "fst (security_context_middleware sha api c snap path rc st) = Some (Unavailable fc e)"
  shows "fc = ps_fail_closed snap"
  using assms
  by (auto simp: security_context_middleware_def split: option.splits prod.splits sum.splits if_splits)

end
