(* ===== verification/Playback_Selection.thy ===== *)
theory Playback_Selection
  imports Resolution_Policy "HOL-Library.Product_Lexorder"
begin

text \<open>
  \<open>src/playback_selection.rs\<close>, the choice of a media version by index, and the
  classification of media parts of \<open>src/plex_client.rs\<close> that the direct-play route consults.
  An index always counts in the list that Plex returned.
\<close>

subsection \<open>Version indexes\<close>

definition requested_media_index :: "string option \<Rightarrow> nat option" where
  "requested_media_index v =
     (case v of
        None \<Rightarrow> Some 0
      | Some s \<Rightarrow> (if s = ''-1'' then Some 0 else parse_usize s))"

text \<open>\<open>u128::try_from\<close> of an \<open>i64\<close>, and \<open>checked_mul\<close>.\<close>

definition u128_from :: "i64 \<Rightarrow> nat option" where
  "u128_from i = (if i < 0 then None else Some (nat i))"

definition u128_checked_mul :: "nat \<Rightarrow> nat \<Rightarrow> nat option" where
  "u128_checked_mul a b = (if a * b \<le> u128_max then Some (a * b) else None)"

definition density :: "media \<Rightarrow> nat option" where
  "density m =
     (case Option.bind (m_width m) u128_from of
        None \<Rightarrow> None
      | Some w \<Rightarrow> (case Option.bind (m_height m) u128_from of
                    None \<Rightarrow> None
                  | Some h \<Rightarrow> u128_checked_mul w h))"

definition abs_diff :: "nat \<Rightarrow> nat \<Rightarrow> nat" where
  "abs_diff a b = (if a \<le> b then b - a else a - b)"

definition best_fit_key :: "nat \<Rightarrow> media \<Rightarrow> nat \<times> nat \<times> nat" where
  "best_fit_key sd m =
     (case density m of
        Some v \<Rightarrow> (0, abs_diff v sd, u128_max - v)
      | None \<Rightarrow> (1, u128_max, u128_max))"

definition best_fit_index :: "media list \<Rightarrow> i64 \<times> i64 \<Rightarrow> nat option" where
  "best_fit_index ms screen =
     (case u128_from (fst screen) of
        None \<Rightarrow> None
      | Some a \<Rightarrow>
          (case Option.bind (u128_from (snd screen)) (u128_checked_mul a) of
             None \<Rightarrow> None
           | Some sd \<Rightarrow>
               map_option fst (min_by_key (\<lambda>(_, m). best_fit_key sd m) (enumerate 0 ms))))"

definition fallback_candidate ::
  "nat \<Rightarrow> string \<Rightarrow> resolution_policy option \<Rightarrow> nat \<times> media \<Rightarrow> bool" where
  "fallback_candidate selected fallback_resolution policy im \<longleftrightarrow>
     fst im \<noteq> selected
     \<and> (case m_video_resolution (snd im) of
          Some v \<Rightarrow> \<not> eq_ignore_case v fallback_resolution | None \<Rightarrow> False)
     \<and> (case policy of Some p \<Rightarrow> media_allowed (snd im) p | None \<Rightarrow> True)"

text \<open>\<open>sort_by_key\<close> is stable, as \<open>sort_key\<close> is; \<open>Reverse\<close> is the negated density.\<close>

definition fallback_indexes ::
  "media list \<Rightarrow> nat \<Rightarrow> string \<Rightarrow> resolution_policy option \<Rightarrow> nat list" where
  "fallback_indexes ms selected fallback_resolution policy =
     sort_key (\<lambda>i. - int (unwrap_or (density (ms ! i)) 0))
       (map fst (filter (fallback_candidate selected fallback_resolution policy)
          (enumerate 0 ms)))"

definition decision_is_transcoding :: "media_container \<Rightarrow> bool" where
  "decision_is_transcoding c =
     (case Option.bind (Option.bind (first_opt (mc_metadata c))
             (\<lambda>it. first_opt (md_media (attrs it)))) (\<lambda>m. first_opt (m_parts m)) of
        None \<Rightarrow> False
      | Some part \<Rightarrow>
          list_ex (\<lambda>s. s_stream_type s = Some 1 \<and> s_decision s = Some ''transcode'')
            (p_streams part))"

subsection \<open>Classification of parts\<close>

record part_classification =
  pc_resolution :: "resolution_limit option"
  pc_bitrate :: "i64 option"

definition part_classification_allowed :: "part_classification \<Rightarrow> resolution_policy \<Rightarrow> bool" where
  "part_classification_allowed c p =
     (if \<not> is_unrestricted p
         \<and> \<not> (case pc_resolution c of Some r \<Rightarrow> r \<le> rp_limit p | None \<Rightarrow> False)
      then False
      else (case rp_max_bitrate p of
              Some mb \<Rightarrow> (case pc_bitrate c of Some b \<Rightarrow> b \<le> mb | None \<Rightarrow> False)
            | None \<Rightarrow> True))"

definition classification_of :: "media \<Rightarrow> part_classification" where
  "classification_of m = \<lparr>pc_resolution = classify m, pc_bitrate = m_bitrate m\<rparr>"

type_synonym part_cache = "i64 \<Rightarrow> part_classification option"

definition cache_media_parts :: "media \<Rightarrow> part_cache \<Rightarrow> part_cache" where
  "cache_media_parts m cache =
     fold (\<lambda>part c. c(p_id part \<mapsto> classification_of m)) (m_parts m) cache"

definition cache_part_classification :: "media list \<Rightarrow> part_cache \<Rightarrow> part_cache" where
  "cache_part_classification ms cache = fold cache_media_parts ms cache"

subsection \<open>Laws\<close>

lemma density_i64:
  assumes "m_width m = Some w" "m_height m = Some h" "0 \<le> w" "0 \<le> h" "in_i64 w" "in_i64 h"
  shows "density m = Some (nat (w * h))"
proof -
  have "nat w * nat h \<le> 9223372036854775807 * 9223372036854775807"
    using assms by (intro mult_le_mono) (auto simp: in_i64_def i64_max_def)
  then show ?thesis
    using assms by (simp add: density_def u128_from_def u128_checked_mul_def u128_max_def
        nat_mult_distrib)
qed

lemma enumerate_in: "(i, m) \<in> set (enumerate 0 ms) \<longleftrightarrow> i < length ms \<and> m = ms ! i"
  by (auto simp: in_set_enumerate_eq)

lemma best_fit_Some:
  assumes "best_fit_index ms screen = Some i"
  obtains sd where "sd = nat (fst screen * snd screen)" "0 \<le> fst screen" "0 \<le> snd screen"
    "i < length ms" "\<And>j. j < length ms \<Longrightarrow> best_fit_key sd (ms ! i) \<le> best_fit_key sd (ms ! j)"
proof -
  from assms obtain sd m where sd: "sd = nat (fst screen * snd screen)"
    and s: "0 \<le> fst screen" "0 \<le> snd screen"
    and min: "min_by_key (\<lambda>(_, m). best_fit_key sd m) (enumerate 0 ms) = Some (i, m)"
    by (auto simp: best_fit_index_def u128_from_def u128_checked_mul_def nat_mult_distrib
        split: option.splits if_splits)
  from min_by_key_in [OF min] have i: "i < length ms" "m = ms ! i"
    by (auto simp: enumerate_in)
  have "best_fit_key sd (ms ! i) \<le> best_fit_key sd (ms ! j)" if "j < length ms" for j
    using min_by_key_le [OF min, of "(j, ms ! j)"] that i by (simp add: enumerate_in)
  with that sd s i show thesis by blast
qed

lemma best_fit_None:
  assumes "0 \<le> fst screen" "0 \<le> snd screen" "in_i64 (fst screen)" "in_i64 (snd screen)"
  shows "best_fit_index ms screen = None \<longleftrightarrow> ms = []"
proof -
  have "nat (fst screen) * nat (snd screen) \<le> 9223372036854775807 * 9223372036854775807"
    using assms by (intro mult_le_mono) (auto simp: in_i64_def i64_max_def)
  moreover have "enumerate 0 ms = [] \<longleftrightarrow> ms = []" by (cases ms) simp_all
  ultimately show ?thesis
    using assms by (simp add: best_fit_index_def u128_from_def u128_checked_mul_def u128_max_def
        min_by_key_None)
qed

lemma fallback_indexes_set:
  "i \<in> set (fallback_indexes ms sel fr pol) \<longleftrightarrow>
   i < length ms \<and> fallback_candidate sel fr pol (i, ms ! i)"
  by (force simp: fallback_indexes_def enumerate_in)

lemma fallback_indexes_distinct: "distinct (fallback_indexes ms sel fr pol)"
  by (simp add: fallback_indexes_def distinct_map_filter)

lemma fallback_indexes_sorted:
  "sorted (map (\<lambda>i. - int (unwrap_or (density (ms ! i)) 0)) (fallback_indexes ms sel fr pol))"
  by (simp add: fallback_indexes_def)

lemma part_allowed_iff:
  "part_classification_allowed (classification_of m) p \<longleftrightarrow>
   media_allowed m p \<and> (\<forall>mb. rp_max_bitrate p = Some mb \<longrightarrow> (\<exists>b. m_bitrate m = Some b \<and> b \<le> mb))"
  by (auto simp: part_classification_allowed_def classification_of_def media_allowed_def
      split: option.splits)

lemma cache_media_parts_lookup:
  "cache_media_parts m c k =
   (if k \<in> p_id ` set (m_parts m) then Some (classification_of m) else c k)"
proof -
  have "fold (\<lambda>part c. c(p_id part \<mapsto> x)) ps c k = (if k \<in> p_id ` set ps then Some x else c k)"
    for ps :: "media_part list" and c :: part_cache and x
    by (induction ps arbitrary: c) auto
  then show ?thesis by (simp add: cache_media_parts_def)
qed

lemma cache_part_classification_sound:
  "cache_part_classification ms c k = Some x \<Longrightarrow>
   c k = Some x \<or> (\<exists>m \<in> set ms. k \<in> p_id ` set (m_parts m) \<and> x = classification_of m)"
proof (induction ms arbitrary: c)
  case (Cons m ms)
  then show ?case
    by (fastforce simp: cache_part_classification_def cache_media_parts_lookup split: if_splits)
qed (simp add: cache_part_classification_def)

lemma cache_part_classification_last:
  assumes "k \<in> p_id ` set (m_parts m)" and "\<forall>m' \<in> set after. k \<notin> p_id ` set (m_parts m')"
  shows "cache_part_classification (before @ m # after) c k = Some (classification_of m)"
proof -
  have "fold cache_media_parts after c' k = c' k" for c'
    using assms(2) by (induction after arbitrary: c') (auto simp: cache_media_parts_lookup)
  with assms(1) show ?thesis
    by (simp add: cache_part_classification_def cache_media_parts_lookup)
qed

end
