(* ===== verification/Policy_Transform.thy ===== *)
theory Policy_Transform
  imports Transform Auth_Context Playback_Selection
begin

text \<open>
  \<open>src/transform/resolution_policy.rs\<close>: the policy in force for a request, the recursive removal
  of prohibited versions, the transform that applies it, and the hiding of collections.
\<close>

subsection \<open>The policy in force\<close>

text \<open>\<open>identity\<close> is what \<open>get_current_identity\<close> returns for this request; the code asks it only
  on the last branch.\<close>

definition current_policy ::
  "policy_snapshot \<Rightarrow> security_context option \<Rightarrow> bool option \<Rightarrow> identity_error + resolved_identity
   \<Rightarrow> (resolution_policy \<times> user_identity) option" where
  "current_policy runtime security unavailable identity =
     (if \<not> ps_enabled runtime
      then Some (policy_unrestricted, \<lparr>ui_id = 0, ui_uuid = [], ui_username = []\<rparr>)
      else (case security of
              Some sc \<Rightarrow> Some (sc_policy sc, sc_identity sc)
            | None \<Rightarrow>
                (if unavailable \<noteq> None then None
                 else (case identity of
                         Inl _ \<Rightarrow> None
                       | Inr r \<Rightarrow>
                           Some (resolve_policy (ps_entries runtime) (ps_default_limit runtime)
                                   (ps_hidden_collections runtime) (ri_identity r),
                                 ri_identity r)))))"

subsection \<open>Removal of versions\<close>

definition originally_playable :: "metadata \<Rightarrow> bool" where
  "originally_playable it \<longleftrightarrow>
     md_type (attrs it) \<in> {''movie'', ''episode'', ''clip'', ''track''}"

definition structural :: "metadata \<Rightarrow> bool" where
  "structural it \<longleftrightarrow>
     md_media (attrs it) = [] \<and> (metadata it \<noteq> [] \<or> directory it \<noteq> [] \<or> video it \<noteq> [])"

definition keep_child :: "metadata \<Rightarrow> bool" where
  "keep_child it \<longleftrightarrow>
     \<not> originally_playable it \<or> md_media (attrs it) \<noteq> [] \<or> structural it"

primrec filter_media_recursive :: "resolution_policy \<Rightarrow> metadata \<Rightarrow> metadata" where
  "filter_media_recursive p (MetaData a m d v) =
     MetaData (a\<lparr>md_media := filter (\<lambda>x. media_allowed x p) (md_media a)\<rparr>)
       (filter keep_child (map (filter_media_recursive p) m))
       (filter keep_child (map (filter_media_recursive p) d))
       (filter keep_child (map (filter_media_recursive p) v))"

definition prune_children :: "resolution_policy \<Rightarrow> metadata list \<Rightarrow> metadata list" where
  "prune_children p cs = filter keep_child (map (filter_media_recursive p) cs)"

primrec clear_media_recursive :: "metadata \<Rightarrow> metadata" where
  "clear_media_recursive (MetaData a m d v) =
     MetaData (a\<lparr>md_media := []\<rparr>) (map clear_media_recursive m) (map clear_media_recursive d)
       (map clear_media_recursive v)"

primrec count_media :: "metadata \<Rightarrow> nat" where
  "count_media (MetaData a m d v) =
     length (md_media a) + sum_list (map count_media m) + sum_list (map count_media d)
       + sum_list (map count_media v)"

subsection \<open>The transforms\<close>

text \<open>\<open>cur\<close> is the outcome of \<open>current_policy\<close>; \<open>fail_closed\<close> the snapshot's flag.\<close>

definition policy_transform_item ::
  "(resolution_policy \<times> user_identity) option \<Rightarrow> bool \<Rightarrow> metadata \<Rightarrow> metadata" where
  "policy_transform_item cur fail_closed it =
     (case cur of
        None \<Rightarrow> if fail_closed then clear_media_recursive it else it
      | Some (p, _) \<Rightarrow> if is_unrestricted p then it else filter_media_recursive p it)"

text \<open>The classification facts recorded before anything is removed.\<close>

definition policy_transform_cache ::
  "(resolution_policy \<times> user_identity) option \<Rightarrow> metadata \<Rightarrow> part_cache \<Rightarrow> part_cache" where
  "policy_transform_cache cur it cache =
     (case cur of None \<Rightarrow> cache | Some _ \<Rightarrow> cache_part_classification (md_media (attrs it)) cache)"

definition policy_transform_filter ::
  "(resolution_policy \<times> user_identity) option \<Rightarrow> bool \<Rightarrow> metadata \<Rightarrow> bool" where
  "policy_transform_filter cur fail_closed it =
     (case cur of
        None \<Rightarrow> \<not> (fail_closed \<and> md_media (attrs it) \<noteq> [])
      | Some (p, _) \<Rightarrow>
          if is_unrestricted p then True
          else if md_media (attrs it) = [] then True
          else list_ex (\<lambda>m. media_allowed m p) (md_media (attrs it)))"

definition resolution_policy_transform ::
  "(resolution_policy \<times> user_identity) option \<Rightarrow> bool \<Rightarrow> transform" where
  "resolution_policy_transform cur fail_closed =
     \<lparr>tf_item = policy_transform_item cur fail_closed, tf_container = (\<lambda>c. c),
      tf_filter = policy_transform_filter cur fail_closed\<rparr>"

definition is_hidden :: "resolution_policy \<Rightarrow> metadata \<Rightarrow> bool" where
  "is_hidden p it =
     (if rp_hidden_collections p = [] then False
      else if \<not> (is_collection_hub it \<or> md_type (attrs it) = ''collection'') then False
      else list_ex (\<lambda>h. h = trim (md_title (attrs it))) (rp_hidden_collections p))"

definition collection_visibility_transform ::
  "(resolution_policy \<times> user_identity) option \<Rightarrow> transform" where
  "collection_visibility_transform cur =
     \<lparr>tf_item = (\<lambda>it. it), tf_container = (\<lambda>c. c),
      tf_filter = (\<lambda>it. case cur of Some (p, _) \<Rightarrow> \<not> is_hidden p it | None \<Rightarrow> True)\<rparr>"

subsection \<open>Laws of the removal\<close>

lemma filter_media_code:
  "filter_media_recursive p (MetaData a m d v) =
     MetaData (a\<lparr>md_media := filter (\<lambda>x. media_allowed x p) (md_media a)\<rparr>)
       (prune_children p m) (prune_children p d) (prune_children p v)"
  by (simp add: prune_children_def)

lemma concat_map_filter_nil:
  "(\<And>x. x \<in> set xs \<Longrightarrow> \<not> P x \<Longrightarrow> f x = []) \<Longrightarrow> concat (map f (filter P xs)) = concat (map f xs)"
  by (induction xs) auto

lemma dropped_child_empty: "\<not> keep_child it \<Longrightarrow> all_media it = []"
  by (cases it) (auto simp: keep_child_def structural_def)

text \<open>The removal keeps exactly the permitted versions of the whole tree, in order.\<close>

lemma all_media_filter:
  "all_media (filter_media_recursive p it) = filter (\<lambda>x. media_allowed x p) (all_media it)"
proof (induction it)
  case (MetaData a m d v)
  have go: "concat (map all_media (filter keep_child (map (filter_media_recursive p) cs)))
      = filter (\<lambda>x. media_allowed x p) (concat (map all_media cs))"
    if "\<And>c. c \<in> set cs \<Longrightarrow>
        all_media (filter_media_recursive p c) = filter (\<lambda>x. media_allowed x p) (all_media c)" for cs
  proof -
    have "concat (map all_media (filter keep_child (map (filter_media_recursive p) cs)))
        = concat (map all_media (map (filter_media_recursive p) cs))"
      by (rule concat_map_filter_nil) (rule dropped_child_empty)
    also have "\<dots> = filter (\<lambda>x. media_allowed x p) (concat (map all_media cs))"
      using that by (induction cs) auto
    finally show ?thesis .
  qed
  show ?case
    using go [OF MetaData.IH(1)] go [OF MetaData.IH(2)] go [OF MetaData.IH(3)] by simp
qed

lemma count_media_length: "count_media it = length (all_media it)"
proof (induction it)
  case (MetaData a m d v)
  have go: "sum_list (map count_media cs) = length (concat (map all_media cs))"
    if "\<And>c. c \<in> set cs \<Longrightarrow> count_media c = length (all_media c)" for cs
    using that by (induction cs) auto
  from go [OF MetaData.IH(1)] go [OF MetaData.IH(2)] go [OF MetaData.IH(3)] show ?case by simp
qed

lemma clear_media_all: "all_media (clear_media_recursive it) = []"
  by (induction it) auto

lemma filter_keep_children_fix:
  "(\<And>c. c \<in> set cs \<Longrightarrow> g (g c) = g c) \<Longrightarrow>
   filter P (map g (filter P (map g cs))) = filter P (map g cs)"
  by (induction cs) auto

lemma filter_media_idem:
  "filter_media_recursive p (filter_media_recursive p it) = filter_media_recursive p it"
proof (induction it)
  case (MetaData a m d v)
  then show ?case by (simp add: filter_keep_children_fix)
qed

lemma filter_media_attrs:
  "attrs (filter_media_recursive p it) =
     (attrs it)\<lparr>md_media := filter (\<lambda>x. media_allowed x p) (md_media (attrs it))\<rparr>"
  by (cases it) simp

subsection \<open>Laws of the transforms\<close>

interpretation policy: media_safe "resolution_policy_transform cur fc" for cur fc
proof
  show "set (all_media (tf_item (resolution_policy_transform cur fc) it)) \<subseteq> set (all_media it)" for it
    by (auto simp: resolution_policy_transform_def policy_transform_item_def all_media_filter
        clear_media_all split: option.splits)
qed (simp add: resolution_policy_transform_def)

interpretation visibility: media_safe "collection_visibility_transform cur" for cur
  by unfold_locales (simp_all add: collection_visibility_transform_def)

lemma policy_item_allowed:
  "m \<in> set (all_media (policy_transform_item (Some (p, i)) fc it)) \<Longrightarrow> media_allowed m p"
  by (auto simp: policy_transform_item_def all_media_filter split: if_splits)

lemma policy_item_closed: "all_media (policy_transform_item None True it) = []"
  by (simp add: policy_transform_item_def clear_media_all)

lemma policy_walk:
  assumes "single_list c"
  shows "mc_children_mut (apply_one (resolution_policy_transform cur fc) c) =
    map (policy_transform_item cur fc) (filter (policy_transform_filter cur fc) (mc_children_mut c))"
  using apply_items_single [OF assms, of "resolution_policy_transform cur fc"]
  by (simp add: apply_one_def resolution_policy_transform_def)

lemma visibility_walk:
  assumes "single_list c"
  shows "mc_children_mut (apply_one (collection_visibility_transform (Some (p, i))) c) =
    filter (\<lambda>it. \<not> is_hidden p it) (mc_children_mut c)"
  using apply_items_single [OF assms, of "collection_visibility_transform (Some (p, i))"]
  by (simp add: apply_one_def collection_visibility_transform_def)

lemma single_list_media: "single_list c \<Longrightarrow> container_media c = items_media (mc_children_mut c)"
  by (auto simp: single_list_def item_total_def container_media_def container_items_def
      mc_children_mut_def split: if_splits)

lemma walk_keeps_single: "single_list c \<Longrightarrow> single_list (apply_items t 0 c)"
  using walk_single [of c 0 t] by simp

lemma policy_container_allowed:
  assumes "single_list c" "m \<in> container_media (apply_one (resolution_policy_transform (Some (p, i)) fc) c)"
  shows "media_allowed m p"
proof -
  have "single_list (apply_one (resolution_policy_transform (Some (p, i)) fc) c)"
    using walk_keeps_single [OF assms(1)] by (simp add: apply_one_def resolution_policy_transform_def)
  from single_list_media [OF this] assms policy_item_allowed show ?thesis
    by (auto simp: policy_walk items_media_def)
qed

lemma policy_container_closed:
  assumes "single_list c"
  shows "container_media (apply_one (resolution_policy_transform None True) c) = {}"
proof -
  have "single_list (apply_one (resolution_policy_transform None True) c)"
    using walk_keeps_single [OF assms(1)] by (simp add: apply_one_def resolution_policy_transform_def)
  from single_list_media [OF this] assms policy_item_closed show ?thesis
    by (auto simp: policy_walk items_media_def)
qed

text \<open>Under an unknown identity, failing closed, a collection (which carries no media) passes
  both transforms, whatever the configured hidden collections are.\<close>

lemma unidentified_sees_collections:
  "md_media (attrs it) = [] \<Longrightarrow>
   tf_filter (resolution_policy_transform None True) it
   \<and> tf_filter (collection_visibility_transform None) it"
  by (simp add: resolution_policy_transform_def policy_transform_filter_def
      collection_visibility_transform_def)

text \<open>A nested playable item that never had media is removed, although the transform keeps the
  same item at the top level.\<close>

lemma nested_without_media_removed:
  assumes "originally_playable it" "md_media (attrs it) = []" "metadata it = []" "directory it = []"
    "video it = []" "\<not> is_unrestricted p"
  shows "prune_children p [it] = []"
    and "policy_transform_filter (Some (p, i)) fc it"
  using assms
  by (cases it; simp add: prune_children_def keep_child_def structural_def originally_playable_def
      policy_transform_filter_def)+

end
