(* ===== verification/Client_Cache.thy ===== *)
theory Client_Cache
  imports Config Models "HOL-Library.AList"
begin

text \<open>
  The caching client of \<open>src/plex_client.rs\<close>: the requests it builds, the cached fetch, and the
  hero artwork lookup; with the interface of a cache store that the fetch relies on.

  A cache is a map; expiry and capacity, which may drop an entry at any time, are the library's.
  The upstream answers a path with a status and a parsed container.
\<close>

subsection \<open>The interface of a cache store\<close>

locale cache_store =
  fixes lookup :: "'s \<Rightarrow> 'k \<Rightarrow> 'v option" and insert :: "'k \<Rightarrow> 'v \<Rightarrow> 's \<Rightarrow> 's"
    and delete :: "'k \<Rightarrow> 's \<Rightarrow> 's" and clear :: "'s \<Rightarrow> 's"
  assumes lookup_insert: "lookup (insert k v s) j = (if j = k then Some v else lookup s j)"
    and lookup_delete: "lookup (delete k s) j = (if j = k then None else lookup s j)"
    and lookup_clear: "lookup (clear s) j = None"
begin

text \<open>A fetch through the store, its fallible fetch already run.\<close>

definition through :: "'k \<Rightarrow> 'v option \<Rightarrow> 's \<Rightarrow> 'v option \<times> 's" where
  "through k fetched s =
     (case lookup s k of
        Some v \<Rightarrow> (Some v, s)
      | None \<Rightarrow> (case fetched of None \<Rightarrow> (None, s) | Some v \<Rightarrow> (Some v, insert k v s)))"

lemma through_repeats:
  "through k fetched s = (Some v, s') \<Longrightarrow> through k other s' = (Some v, s')"
  by (auto simp: through_def lookup_insert split: option.splits)

lemma through_failure: "through k fetched s = (None, s') \<Longrightarrow> s' = s \<and> fetched = None"
  by (auto simp: through_def split: option.splits)

lemma through_other: "j \<noteq> k \<Longrightarrow> lookup (snd (through k fetched s)) j = lookup s j"
  by (auto simp: through_def lookup_insert split: option.splits)

lemma through_after_delete: "fst (through k fetched (delete k s)) = fetched"
  by (auto simp: through_def lookup_delete split: option.splits)

end

subsection \<open>The metadata cache\<close>

type_synonym meta_cache = "string \<Rightarrow> media_container option"

definition get_cache :: "meta_cache \<Rightarrow> string \<Rightarrow> media_container option" where
  "get_cache cache k = cache k"

definition insert_cache :: "string \<Rightarrow> media_container \<Rightarrow> meta_cache \<Rightarrow> meta_cache" where
  "insert_cache k v cache = cache(k \<mapsto> v)"

definition invalidate_cache :: "string \<Rightarrow> meta_cache \<Rightarrow> meta_cache" where
  "invalidate_cache k cache = cache(k := None)"

definition invalidate_all :: "meta_cache \<Rightarrow> meta_cache" where
  "invalidate_all cache = (\<lambda>_. None)"

definition generate_cache_key :: "plex_context \<Rightarrow> string \<Rightarrow> string" where
  "generate_cache_key cx name = name @ '':'' @ unwrap_or (cx_token cx) []"

text \<open>\<open>fetched\<close> is the result of the future \<open>f\<close>, which runs only on a miss.\<close>

definition get_cached ::
  "plex_context \<Rightarrow> media_container option \<Rightarrow> string \<Rightarrow> meta_cache
   \<Rightarrow> media_container option \<times> meta_cache" where
  "get_cached cx fetched name cache =
     (let k = generate_cache_key cx name in
      (case get_cache cache k of
         Some c \<Rightarrow> (Some c, cache)
       | None \<Rightarrow> (case fetched of
                   None \<Rightarrow> (None, cache)
                 | Some r \<Rightarrow> (Some r, insert_cache k r cache))))"

interpretation metadata_cache: cache_store get_cache insert_cache invalidate_cache invalidate_all
  by unfold_locales
    (simp_all add: get_cache_def insert_cache_def invalidate_cache_def invalidate_all_def)

text \<open>The photo cache is an association list.\<close>

interpretation photo_cache: cache_store map_of AList.update AList.delete "\<lambda>_. []"
  by unfold_locales (simp_all add: update_conv' delete_conv')

lemma get_cached_through:
  "get_cached cx fetched name cache = metadata_cache.through (generate_cache_key cx name) fetched cache"
  by (simp add: get_cached_def metadata_cache.through_def Let_def)

subsection \<open>Requests\<close>

datatype response = NoResponse | Http nat "media_container option"

definition get_container :: "response \<Rightarrow> media_container option" where
  "get_container r =
     (case r of
        NoResponse \<Rightarrow> None
      | Http status body \<Rightarrow> if 200 \<le> status \<and> status < 300 then body else None)"

definition section_collections_path :: "i64 \<Rightarrow> string" where
  "section_collections_path i = ''/library/sections/'' @ show_int i @ ''/collections''"

definition get_section_collections :: "(string \<Rightarrow> response) \<Rightarrow> i64 \<Rightarrow> media_container option" where
  "get_section_collections get i = get_container (get (section_collections_path i))"

definition collection_children_path :: "i64 \<Rightarrow> i32 option \<Rightarrow> i32 option \<Rightarrow> string" where
  "collection_children_path i offset limit =
     (let path = ''/library/collections/'' @ show_int i @ ''/children'';
          path = (case offset of
                    Some off \<Rightarrow> path @ ''?X-Plex-Container-Start='' @ show_int off
                  | None \<Rightarrow> path);
          path = (case limit of
                    Some l \<Rightarrow>
                      path @ (if contains path ''?'' then ''&'' else ''?'')
                        @ ''X-Plex-Container-Size='' @ show_int l
                  | None \<Rightarrow> path)
      in path @ (if contains path ''?'' then ''&'' else ''?'') @ ''includeGuids=1'')"

definition get_collection_children ::
  "(string \<Rightarrow> response) \<Rightarrow> i64 \<Rightarrow> i32 option \<Rightarrow> i32 option \<Rightarrow> media_container option" where
  "get_collection_children get i offset limit =
     get_container (get (collection_children_path i offset limit))"

text \<open>\<open>truncate\<close> to \<open>original_limit as usize\<close>: a negative limit becomes a huge one.\<close>

definition as_usize :: "i32 \<Rightarrow> nat" where
  "as_usize i = nat (i mod 18446744073709551616)"

definition load_collection_children_recursive ::
  "(string \<Rightarrow> response) \<Rightarrow> i64 \<Rightarrow> i32 \<Rightarrow> i32 \<Rightarrow> i32 \<Rightarrow> media_container option" where
  "load_collection_children_recursive get i offset limit original_limit =
     map_option
       (\<lambda>c. mc_update_children (take (as_usize original_limit))
              (mc_update_children (filter (\<lambda>x. \<not> is_watched x)) c))
       (get_collection_children get i (Some offset) (Some limit))"

text \<open>Only a 404 is an error here; any other status is parsed.\<close>

definition get_collection :: "(string \<Rightarrow> response) \<Rightarrow> i32 \<Rightarrow> media_container option" where
  "get_collection get i =
     (case get (''/library/collections/'' @ show_int i) of
        NoResponse \<Rightarrow> None
      | Http status body \<Rightarrow> if status = 404 then None else body)"

definition unwatched_size_path :: "i32 \<Rightarrow> i32 \<Rightarrow> string \<Rightarrow> string" where
  "unwatched_size_path section_id collection_index ty =
     (let path = ''/library/sections/'' @ show_int section_id
                   @ ''/all?X-Plex-Container-Start=0&X-Plex-Container-Size=0'';
          path = (if ty = ''show''
                  then path @ ''&show.unwatchedLeaves=1&show.collection='' @ show_int collection_index
                  else path)
      in (if ty = ''movie''
          then path @ ''&movie.unwatched=1&movie.collection='' @ show_int collection_index
          else path))"

definition get_collection_total_size_unwatched ::
  "(string \<Rightarrow> response) \<Rightarrow> i32 \<Rightarrow> i32 \<Rightarrow> string \<Rightarrow> media_container option" where
  "get_collection_total_size_unwatched get section_id collection_index ty =
     (case get (unwatched_size_path section_id collection_index ty) of
        NoResponse \<Rightarrow> None
      | Http status body \<Rightarrow> if status = 404 then None else body)"

definition get_hubs :: "(string \<Rightarrow> response) \<Rightarrow> media_container option" where
  "get_hubs get = get_container (get ''/hubs'')"

definition get_item_by_key :: "(string \<Rightarrow> response) \<Rightarrow> string \<Rightarrow> media_container option" where
  "get_item_by_key get key = get_container (get key)"

subsection \<open>Hero artwork\<close>

definition get_provider_data ::
  "(string \<Rightarrow> bool) \<Rightarrow> (string \<Rightarrow> response) \<Rightarrow> config \<Rightarrow> string \<Rightarrow> media_container option" where
  "get_provider_data header_ok get c uuid =
     (if (case cf_token c of Some t \<Rightarrow> \<not> header_ok t | None \<Rightarrow> False) then None
      else (case get (''https://discover.provider.plex.tv/library/metadata/'' @ uuid) of
              NoResponse \<Rightarrow> None
            | Http status body \<Rightarrow> if status \<noteq> 200 then None else body))"

definition hero_image :: "media_container \<Rightarrow> string option" where
  "hero_image c =
     Option.bind (first_opt (mc_children_mut c))
       (\<lambda>it. map_option img_url (find (\<lambda>i. img_type i = ''coverArt'') (md_images (attrs it))))"

type_synonym art_cache = "string \<Rightarrow> string option option"

definition get_hero_art ::
  "(string \<Rightarrow> bool) \<Rightarrow> (string \<Rightarrow> response) \<Rightarrow> config \<Rightarrow> string \<Rightarrow> art_cache
   \<Rightarrow> string option \<times> art_cache" where
  "get_hero_art header_ok get c uuid cache =
     (let k = uuid @ '':hero_art'' in
      (case cache k of
         Some r \<Rightarrow> (r, cache)
       | None \<Rightarrow>
           (case get_provider_data header_ok get c uuid of
              None \<Rightarrow> (None, cache)
            | Some container \<Rightarrow>
                (case hero_image container of
                   None \<Rightarrow> (None, cache)
                 | Some art \<Rightarrow> (Some art, cache(k \<mapsto> Some art))))))"

subsection \<open>Laws\<close>

lemma cache_key_inject:
  assumes "generate_cache_key cx n = generate_cache_key cx' n"
  shows "unwrap_or (cx_token cx) [] = unwrap_or (cx_token cx') []"
  using assms by (simp add: generate_cache_key_def)

lemma get_cached_repeats:
  "get_cached cx fetched name cache = (Some v, cache') \<Longrightarrow>
   get_cached cx other name cache' = (Some v, cache')"
  unfolding get_cached_through by (rule metadata_cache.through_repeats)

lemma get_cached_failure:
  "get_cached cx fetched name cache = (None, cache') \<Longrightarrow> cache' = cache"
  unfolding get_cached_through by (simp add: metadata_cache.through_failure)

lemma get_cached_other_account:
  assumes "unwrap_or (cx_token cx) [] \<noteq> unwrap_or (cx_token cx') []"
  shows "get_cache (snd (get_cached cx fetched name cache)) (generate_cache_key cx' name)
       = get_cache cache (generate_cache_key cx' name)"
  unfolding get_cached_through
  by (rule metadata_cache.through_other) (use assms cache_key_inject in metis)

lemma children_path_guids: "contains (collection_children_path i off lim) ''includeGuids=1''"
  unfolding collection_children_path_def Let_def
  by (rule contains_append_left, rule contains_append_left, rule contains_self [of "[]" _ "[]", simplified])

lemma hero_art_failure_not_cached:
  "get_hero_art h get c uuid cache = (None, cache') \<Longrightarrow> cache' = cache"
  by (auto simp: get_hero_art_def Let_def split: option.splits)

lemma hero_art_cached:
  "get_hero_art h get c uuid cache = (Some i, cache') \<Longrightarrow>
   get_hero_art h get' c' uuid cache' = (Some i, cache')"
  by (auto simp: get_hero_art_def Let_def split: option.splits)

end
