(* ===== verification/Metrics.thy ===== *)
theory Metrics
  imports Prelude
begin

text \<open>
  \<open>src/observability.rs\<close>: the process counters, atomic \<open>u64\<close> values that wrap, and their text
  exposition.
\<close>

record metrics =
  mt_policy_rejects :: nat
  mt_cache_hits :: nat
  mt_cache_misses :: nat
  mt_redirects :: nat
  mt_upstream_failures :: nat
  mt_upstream_requests :: nat
  mt_upstream_latency_ms :: nat
  mt_task_failures :: nat

definition default_metrics :: metrics where
  "default_metrics = \<lparr>mt_policy_rejects = 0, mt_cache_hits = 0, mt_cache_misses = 0,
     mt_redirects = 0, mt_upstream_failures = 0, mt_upstream_requests = 0,
     mt_upstream_latency_ms = 0, mt_task_failures = 0\<rparr>"

definition fetch_add :: "nat \<Rightarrow> nat \<Rightarrow> nat" where
  "fetch_add n x = (x + n) mod 18446744073709551616"

definition policy_reject :: "metrics \<Rightarrow> metrics" where
  "policy_reject m = m\<lparr>mt_policy_rejects := fetch_add 1 (mt_policy_rejects m)\<rparr>"

definition cache_hit :: "metrics \<Rightarrow> metrics" where
  "cache_hit m = m\<lparr>mt_cache_hits := fetch_add 1 (mt_cache_hits m)\<rparr>"

definition cache_miss :: "metrics \<Rightarrow> metrics" where
  "cache_miss m = m\<lparr>mt_cache_misses := fetch_add 1 (mt_cache_misses m)\<rparr>"

definition count_redirect :: "metrics \<Rightarrow> metrics" where
  "count_redirect m = m\<lparr>mt_redirects := fetch_add 1 (mt_redirects m)\<rparr>"

definition upstream_failure :: "metrics \<Rightarrow> metrics" where
  "upstream_failure m = m\<lparr>mt_upstream_failures := fetch_add 1 (mt_upstream_failures m)\<rparr>"

definition observe_upstream :: "nat \<Rightarrow> bool \<Rightarrow> metrics \<Rightarrow> metrics" where
  "observe_upstream elapsed_ms success m =
     (let m1 = m\<lparr>mt_upstream_requests := fetch_add 1 (mt_upstream_requests m)\<rparr>;
          m2 = m1\<lparr>mt_upstream_latency_ms := fetch_add elapsed_ms (mt_upstream_latency_ms m1)\<rparr>
      in if \<not> success then upstream_failure m2 else m2)"

definition task_failure :: "metrics \<Rightarrow> metrics" where
  "task_failure m = m\<lparr>mt_task_failures := fetch_add 1 (mt_task_failures m)\<rparr>"

definition counter_text :: "string \<Rightarrow> nat \<Rightarrow> string" where
  "counter_text name n =
     ''# TYPE replex_'' @ name @ ''_total counter'' @ [CHR 0x0A]
     @ ''replex_'' @ name @ ''_total '' @ show_nat n @ [CHR 0x0A]"

definition prometheus :: "metrics \<Rightarrow> string" where
  "prometheus s =
     counter_text ''policy_rejects'' (mt_policy_rejects s)
     @ counter_text ''cache_hits'' (mt_cache_hits s)
     @ counter_text ''cache_misses'' (mt_cache_misses s)
     @ counter_text ''redirects'' (mt_redirects s)
     @ counter_text ''upstream_failures'' (mt_upstream_failures s)
     @ counter_text ''upstream_requests'' (mt_upstream_requests s)
     @ counter_text ''upstream_latency_milliseconds'' (mt_upstream_latency_ms s)
     @ counter_text ''task_failures'' (mt_task_failures s)"

lemma fetch_add_bound [simp]: "fetch_add n x \<le> u64_max"
proof -
  have "fetch_add n x < 18446744073709551616" by (simp add: fetch_add_def)
  then show ?thesis by (simp add: u64_max_def)
qed

lemma observe_upstream_counts:
  "mt_upstream_requests (observe_upstream ms ok m) = fetch_add 1 (mt_upstream_requests m)"
  "mt_upstream_failures (observe_upstream ms ok m) =
     (if ok then mt_upstream_failures m else fetch_add 1 (mt_upstream_failures m))"
  by (simp_all add: observe_upstream_def upstream_failure_def Let_def)

end
