(* ===== verification/Playback.thy ===== *)
theory Playback
  imports Policy_Transform Requests Client_Cache Metrics
begin

text \<open>
  The playback routes of \<open>src/routes.rs\<close>: the policy enforcement and the version-selection hoops,
  in the order the router runs them before the request is proxied to Plex.

  A hoop maps a request to \<open>Next\<close> (go on with this request), \<open>Stop\<close> (answer with a status and
  skip the rest) or \<open>Fail\<close> (the handler returned an error).  What a hoop reads besides the
  request is the record \<open>play_env\<close>: the configuration, the policy snapshot, the security state,
  and what the upstream answers (the item of a path, the transcode decision).  Reading a decimal
  as an \<open>f32\<close> truncated to an integer is a parameter there as well.
\<close>

subsection \<open>Hoops\<close>

datatype hoop_result = Next request | Stop nat request | Fail

record play_env =
  ev_config :: config
  ev_snapshot :: policy_snapshot
  ev_security :: "security_state option"
  ev_user :: "identity_error + user_identity"
  ev_client_ok :: bool
  ev_skip :: bool
  ev_context :: plex_context
  ev_item :: "string \<Rightarrow> media_container option"
  ev_decision :: "request \<Rightarrow> media_container option"
  ev_decision_status :: "request \<Rightarrow> nat option \<times> media_container option"
  ev_f32 :: "string \<Rightarrow> i64 option"

text \<open>\<open>should_skip\<close>: Live TV and Plexamp opt out of the optional hoops.\<close>

definition skips_optional :: "plex_context \<Rightarrow> bool" where
  "skips_optional cx \<longleftrightarrow>
     (case cx_path cx of Some p \<Rightarrow> contains p ''livetv'' | None \<Rightarrow> False)
     \<or> (case cx_product cx of Some p \<Rightarrow> contains (to_lower p) ''plexamp'' | None \<Rightarrow> False)"

definition query_i64 :: "query \<Rightarrow> string \<Rightarrow> string \<Rightarrow> i64 option" where
  "query_i64 q n alt = Option.bind (opt_or (mm_get q n) (mm_get q alt)) parse_i64"

text \<open>The index a request selects; absence, \<open>-1\<close> and malformed text select none.\<close>

definition explicit_index :: "query \<Rightarrow> nat option" where
  "explicit_index q =
     Option.bind (case mm_get q ''mediaIndex'' of
                    Some v \<Rightarrow> if v \<noteq> ''-1'' then Some v else None | None \<Rightarrow> None) parse_usize"

definition item_media :: "media_container \<Rightarrow> media list option" where
  "item_media c = map_option (\<lambda>it. md_media (attrs it)) (first_opt (mc_metadata c))"

subsection \<open>Policy enforcement\<close>

definition cap_bitrate :: "i64 option \<Rightarrow> request \<Rightarrow> request" where
  "cap_bitrate max_bitrate r =
     (case max_bitrate of
        None \<Rightarrow> r
      | Some cap \<Rightarrow>
          (let q = rq_query r;
               current = query_i64 q ''maxVideoBitrate'' ''videoBitrate'';
               effective = (case current of Some c \<Rightarrow> min c cap | None \<Rightarrow> cap)
           in if (case current of Some c \<Rightarrow> c > effective | None \<Rightarrow> True)
              then replace_query
                     (mm_insert ''maxVideoBitrate'' (show_int effective)
                        (mm_remove ''maxVideoBitrate'' (mm_remove ''videoBitrate'' q))) r
              else r))"

definition pin_index :: "nat \<Rightarrow> request \<Rightarrow> request" where
  "pin_index i r = replace_query (mm_set ''mediaIndex'' (show_nat i) (rq_query r)) r"

definition screen_of :: "plex_context \<Rightarrow> (i64 \<times> i64) option" where
  "screen_of cx = map_option (\<lambda>s. (res_width s, res_height s)) (first_opt (cx_screen_resolution cx))"

definition select_version :: "resolution_policy \<Rightarrow> plex_context \<Rightarrow> media list \<Rightarrow> request \<Rightarrow> hoop_result" where
  "select_version p cx ms r =
     (if (case explicit_index (rq_query r) of
            Some i \<Rightarrow> (case nth_opt ms i of Some m \<Rightarrow> media_allowed m p | None \<Rightarrow> False)
          | None \<Rightarrow> False)
      then Next r
      else (case best_allowed_media ms p (screen_of cx) of
              Some best \<Rightarrow>
                (case position (\<lambda>m. m_id m = m_id best) ms of
                   None \<Rightarrow> Next r
                 | Some i \<Rightarrow> Next (pin_index i r))
            | None \<Rightarrow> Stop 403 r))"

definition enforce_limit :: "play_env \<Rightarrow> resolution_policy \<Rightarrow> request \<Rightarrow> hoop_result" where
  "enforce_limit ev p r =
     (case mm_get (rq_query r) ''path'' of
        None \<Rightarrow> Next r
      | Some path \<Rightarrow>
          (case ev_item ev path of
             None \<Rightarrow> if ps_fail_closed (ev_snapshot ev) then Stop 503 r else Next r
           | Some item \<Rightarrow>
               (case item_media item of
                  None \<Rightarrow> if ps_fail_closed (ev_snapshot ev) then Stop 502 r else Next r
                | Some ms \<Rightarrow> if ms = [] then Next r else select_version p (ev_context ev) ms r)))"

definition enforce_resolution_policy :: "play_env \<Rightarrow> request \<Rightarrow> hoop_result" where
  "enforce_resolution_policy ev r =
     (if \<not> ps_enabled (ev_snapshot ev) then Next r
      else if \<not> ev_client_ok ev then Fail
      else (case (case ev_security ev of
                    Some (Resolved sc) \<Rightarrow> Inr (sc_policy sc)
                  | Some (Unavailable fail_closed _) \<Rightarrow>
                      Inl (if fail_closed then Stop 503 r else Next r)
                  | None \<Rightarrow>
                      (case ev_user ev of
                         Inl _ \<Rightarrow> Inl Fail
                       | Inr i \<Rightarrow> Inr (resolve_policy (ps_entries (ev_snapshot ev))
                                   (ps_default_limit (ev_snapshot ev))
                                   (ps_hidden_collections (ev_snapshot ev)) i))) of
              Inl res \<Rightarrow> res
            | Inr p \<Rightarrow>
                (if is_unrestricted p \<and> rp_max_bitrate p = None then Next r
                 else (let r' = cap_bitrate (rp_max_bitrate p) r
                       in if is_unrestricted p then Next r' else enforce_limit ev p r'))))"

text \<open>What the hoop does besides the request: the account and media it decides on are
  \<open>enforced_media\<close>; their classification facts are recorded for the direct-play route, and a
  request for which nothing is permitted is counted.\<close>

record playback_state =
  pb_parts :: part_cache
  pb_metrics :: metrics

definition enforced_policy :: "play_env \<Rightarrow> resolution_policy option" where
  "enforced_policy ev =
     (if \<not> ps_enabled (ev_snapshot ev) \<or> \<not> ev_client_ok ev then None
      else (case ev_security ev of
              Some (Resolved sc) \<Rightarrow> Some (sc_policy sc)
            | Some (Unavailable _ _) \<Rightarrow> None
            | None \<Rightarrow>
                (case ev_user ev of
                   Inl _ \<Rightarrow> None
                 | Inr i \<Rightarrow> Some (resolve_policy (ps_entries (ev_snapshot ev))
                             (ps_default_limit (ev_snapshot ev))
                             (ps_hidden_collections (ev_snapshot ev)) i))))"

definition enforced_media :: "play_env \<Rightarrow> request \<Rightarrow> (resolution_policy \<times> media list) option" where
  "enforced_media ev r =
     (case (enforced_policy ev, Option.bind (mm_get (rq_query r) ''path'') (ev_item ev)) of
        (Some p, Some item) \<Rightarrow>
          (case item_media item of
             Some ms \<Rightarrow> if is_unrestricted p \<or> ms = [] then None else Some (p, ms)
           | None \<Rightarrow> None)
      | _ \<Rightarrow> None)"

definition enforce_effects :: "play_env \<Rightarrow> request \<Rightarrow> playback_state \<Rightarrow> playback_state" where
  "enforce_effects ev r st =
     (case enforced_media ev r of
        None \<Rightarrow> st
      | Some (p, ms) \<Rightarrow>
          st\<lparr>pb_parts := cache_part_classification ms (pb_parts st),
             pb_metrics :=
               (if enforce_resolution_policy ev r = Stop 403 (cap_bitrate (rp_max_bitrate p) r)
                then policy_reject (pb_metrics st) else pb_metrics st)\<rparr>)"

subsection \<open>Automatic selection\<close>

definition auto_select_version :: "play_env \<Rightarrow> request \<Rightarrow> hoop_result" where
  "auto_select_version ev r =
     (if ev_skip ev \<or> \<not> ev_client_ok ev then Next r
      else let q = rq_query r in
        if (case mm_get q ''mediaIndex'' of Some i \<Rightarrow> i \<noteq> ''-1'' | None \<Rightarrow> False) then Next r
        else (case first_opt (cx_screen_resolution (ev_context ev)) of
                None \<Rightarrow> Next r
              | Some screen \<Rightarrow>
                  (case mm_get q ''path'' of
                     None \<Rightarrow> Next (replace_query q r)
                   | Some path \<Rightarrow>
                       (case Option.bind (ev_item ev path) item_media of
                          None \<Rightarrow> Next r
                        | Some ms \<Rightarrow>
                            (if length ms \<le> 1 then Next r
                             else (case best_fit_index ms (res_width screen, res_height screen) of
                                     None \<Rightarrow> Next (replace_query q r)
                                   | Some i \<Rightarrow>
                                       (let q1 = mm_set ''mediaIndex'' (show_nat i) q;
                                            q2 = (if query_i64 q ''videoBitrate'' ''maxVideoBitrate'' = None
                                                  then mm_set ''directPlay'' ''1'' q1 else q1)
                                        in Next (replace_query (mm_set ''subtitles'' ''auto'' q2) r))))))))"

subsection \<open>Maximum quality\<close>

definition fix_buffer_size :: "(string \<Rightarrow> i64 option) \<Rightarrow> query \<Rightarrow> query" where
  "fix_buffer_size f32 q =
     (case mm_get q ''mediaBufferSize'' of
        None \<Rightarrow> q
      | Some raw \<Rightarrow>
          mm_insert ''mediaBufferSize''
            (case f32 raw of Some n \<Rightarrow> show_int n | None \<Rightarrow> raw)
            (mm_remove ''mediaBufferSize'' q))"

definition filter_profile_extra :: "query \<Rightarrow> query" where
  "filter_profile_extra q =
     (case mm_get q ''X-Plex-Client-Profile-Extra'' of
        None \<Rightarrow> q
      | Some extra \<Rightarrow>
          mm_insert ''X-Plex-Client-Profile-Extra''
            (join ''+'' (filter (\<lambda>s. \<not> contains s ''add-limitation''
                              \<and> \<not> contains (to_lower s) ''name=video.bitrate'')
                          (split_on CHR ''+'' extra)))
            (mm_remove ''X-Plex-Client-Profile-Extra'' q))"

fun force_direct_play :: "string option \<Rightarrow> string list \<Rightarrow> query \<Rightarrow> query" where
  "force_direct_play vr [] q = q"
| "force_direct_play vr (reso # resos) q =
     force_direct_play vr resos
       (case vr of
          Some v \<Rightarrow>
            if to_lower v = to_lower reso
            then mm_remove ''videoResolution'' (mm_set ''directPlay'' ''1'' q) else q
        | None \<Rightarrow> q)"

definition maximum_quality_query :: "(string \<Rightarrow> i64 option) \<Rightarrow> query \<Rightarrow> query" where
  "maximum_quality_query f32 q =
     filter_profile_extra (fix_buffer_size f32
       (mm_set ''videoQuality'' ''100'' (mm_set ''directPlay'' ''1'' (mm_set ''directStream'' ''1''
         (mm_set ''autoAdjustQuality'' ''0''
           (mm_remove ''videoBitrate'' (mm_remove ''maxVideoBitrate'' q)))))))"

definition force_maximum_quality :: "play_env \<Rightarrow> request \<Rightarrow> hoop_result" where
  "force_maximum_quality ev r =
     (if ev_skip ev then Next r
      else if \<not> ev_client_ok ev then Fail
      else if mm_get (rq_query r) ''maxVideoBitrate'' = None
              \<and> mm_get (rq_query r) ''videoBitrate'' = None then Next r
      else let q = maximum_quality_query (ev_f32 ev) (rq_query r) in
        (case (cf_force_direct_play_for (ev_config ev), mm_get q ''path'') of
           (Some resos, Some path) \<Rightarrow>
             (case ev_item ev path of
                None \<Rightarrow> Next r
              | Some item \<Rightarrow>
                  (case Option.bind (item_media item)
                          (\<lambda>ms. nth_opt ms (unwrap_or (explicit_index (rq_query r)) 0)) of
                     None \<Rightarrow> Next r
                   | Some m \<Rightarrow>
                       Next (replace_query (force_direct_play (m_video_resolution m) resos q) r)))
         | _ \<Rightarrow> Next (replace_query q r)))"

subsection \<open>Fallbacks\<close>

definition transcoding_status :: "media_container \<Rightarrow> bool" where
  "transcoding_status d = (if mc_size d = Some 0 then False else decision_is_transcoding d)"

definition fallback_policy :: "security_state option \<Rightarrow> resolution_policy option" where
  "fallback_policy s = (case s of Some (Resolved sc) \<Rightarrow> Some (sc_policy sc) | _ \<Rightarrow> None)"

definition fallback_query :: "nat \<Rightarrow> query \<Rightarrow> query" where
  "fallback_query i q =
     (let q1 = mm_set ''directStream'' ''1'' (mm_set ''mediaIndex'' (show_nat i) q);
          q2 = (if query_i64 q ''videoBitrate'' ''maxVideoBitrate'' = None
                then mm_set ''directPlay'' ''1'' q1 else q1)
      in mm_set ''subtitles'' ''auto'' q2)"

definition fallback_choice ::
  "play_env \<Rightarrow> media list \<Rightarrow> nat \<Rightarrow> string \<Rightarrow> request \<Rightarrow> hoop_result" where
  "fallback_choice ev ms sel fallback_for r =
     (if length ms \<le> 1 then Next r
      else (case ev_decision ev r of
              None \<Rightarrow> Fail
            | Some d \<Rightarrow>
                (if \<not> transcoding_status d then Next r
                 else let candidates =
                        (if cf_resolution_policy_enabled (ev_config ev)
                            \<and> (case ev_security ev of Some (Unavailable True _) \<Rightarrow> True | _ \<Rightarrow> False)
                         then []
                         else fallback_indexes ms sel fallback_for (fallback_policy (ev_security ev)))
                      in (case first_opt candidates of
                            None \<Rightarrow> Next (replace_query (rq_query r) r)
                          | Some i \<Rightarrow> Next (replace_query (fallback_query i (rq_query r)) r)))))"

definition video_transcode_fallback :: "play_env \<Rightarrow> request \<Rightarrow> hoop_result" where
  "video_transcode_fallback ev r =
     (if ev_skip ev then Next r
      else if \<not> ev_client_ok ev then Fail
      else (case (requested_media_index (mm_get (rq_query r) ''mediaIndex''),
                  map_option to_lower (Option.bind (cf_video_transcode_fallback_for (ev_config ev)) first_opt),
                  mm_get (rq_query r) ''path'') of
              (Some sel, Some fallback_for, Some path) \<Rightarrow>
                (case Option.bind (ev_item ev path) item_media of
                   None \<Rightarrow> Next r
                 | Some ms \<Rightarrow>
                     (case nth_opt ms sel of
                        None \<Rightarrow> Next r
                      | Some m \<Rightarrow>
                          (if (case m_video_resolution m of
                                 Some v \<Rightarrow> eq_ignore_case v fallback_for | None \<Rightarrow> False)
                           then fallback_choice ev ms sel fallback_for r
                           else Next r)))
            | _ \<Rightarrow> Next r))"

definition to_direct_stream :: "request \<Rightarrow> request" where
  "to_direct_stream r =
     add_query_param_salvo ''directStream'' ''1'' (add_query_param_salvo ''directPlay'' ''0'' r)"

definition direct_stream_fallback :: "play_env \<Rightarrow> request \<Rightarrow> hoop_result" where
  "direct_stream_fallback ev r =
     (if ev_skip ev then Next r
      else if \<not> ev_client_ok ev then Fail
      else if unwrap_or (mm_get (rq_query r) ''directPlay'') ''1'' \<noteq> ''1'' then Next r
      else (case ev_decision_status ev r of
              (status, body) \<Rightarrow>
                (if unwrap_or status 502 = 200
                 then (case body of
                         None \<Rightarrow> Fail
                       | Some c \<Rightarrow>
                           if mc_general_decision_code c = Some 2000
                           then Next (to_direct_stream r) else Next r)
                 else if unwrap_or status 502 = 400 then Next (to_direct_stream r)
                 else Fail)))"

subsection \<open>The routes\<close>

fun run_hoops :: "(request \<Rightarrow> hoop_result) list \<Rightarrow> request \<Rightarrow> hoop_result" where
  "run_hoops [] r = Next r"
| "run_hoops (h # hs) r = (case h r of Next r' \<Rightarrow> run_hoops hs r' | Stop n r' \<Rightarrow> Stop n r' | Fail \<Rightarrow> Fail)"

definition start_hoops :: "play_env \<Rightarrow> (request \<Rightarrow> hoop_result) list" where
  "start_hoops ev =
     (let c = ev_config ev in
      (if cf_resolution_policy_enabled c then [enforce_resolution_policy ev] else [])
      @ (if cf_auto_select_version c then [auto_select_version ev] else [])
      @ (if cf_force_maximum_quality c \<or> cf_disable_transcode c then [force_maximum_quality ev] else []))"

definition decision_hoops :: "play_env \<Rightarrow> (request \<Rightarrow> hoop_result) list" where
  "decision_hoops ev =
     start_hoops ev
     @ (if cf_video_transcode_fallback_for (ev_config ev) \<noteq> None then [video_transcode_fallback ev] else [])
     @ [direct_stream_fallback ev]"

subsection \<open>What the hoops leave alone\<close>

text \<open>A hoop rewrites the query under a fixed set of names; every other name, the path and the
  headers reach the next hoop as they came.\<close>

locale query_hoop =
  fixes hoop :: "request \<Rightarrow> hoop_result"
    and keys :: "string set"
  assumes keeps: "hoop r = Next r' \<Longrightarrow> rq_absolute r \<Longrightarrow> n \<notin> keys \<Longrightarrow>
                  mm_get (rq_query r') n = mm_get (rq_query r) n"
    and frame: "hoop r = Next r' \<Longrightarrow>
                rq_path r' = rq_path r \<and> rq_headers r' = rq_headers r \<and> rq_absolute r' = rq_absolute r"
begin

lemma keeps_path:
  assumes "hoop r = Next r'" and "rq_absolute r" and "''path'' \<notin> keys"
  shows "rq_absolute r' \<and> mm_get (rq_query r') ''path'' = mm_get (rq_query r) ''path''"
  using assms keeps frame by blast

lemma keeps_index:
  assumes "hoop r = Next r'" and "rq_absolute r" and "''mediaIndex'' \<notin> keys"
  shows "explicit_index (rq_query r') = explicit_index (rq_query r)"
  using assms keeps by (simp add: explicit_index_def)

end

lemma mm_remove_absent: "mm_get q n = None \<Longrightarrow> mm_remove n q = q"
  by (auto simp: mm_get_def mm_remove_def filter_id_conv map_of_eq_None_iff image_iff)

lemma mm_get_insert_removed [simp]:
  "mm_get (mm_insert n v (mm_remove n q)) m = (if m = n then Some v else mm_get q m)"
  using mm_get_set [of n v q m] by (simp only: mm_set_def)

lemma cap_bitrate_frame [simp]:
  "rq_path (cap_bitrate b r) = rq_path r" "rq_headers (cap_bitrate b r) = rq_headers r"
  "rq_absolute (cap_bitrate b r) = rq_absolute r"
  by (simp_all add: cap_bitrate_def Let_def split: option.split)

lemma cap_bitrate_keeps:
  assumes "rq_absolute r" and "n \<noteq> ''maxVideoBitrate''" and "n \<noteq> ''videoBitrate''"
  shows "mm_get (rq_query (cap_bitrate b r)) n = mm_get (rq_query r) n"
  using assms by (simp add: cap_bitrate_def Let_def replace_query_get split: option.split)

lemma pin_index_frame [simp]:
  "rq_path (pin_index i r) = rq_path r" "rq_headers (pin_index i r) = rq_headers r"
  "rq_absolute (pin_index i r) = rq_absolute r"
  by (simp_all add: pin_index_def)

lemma pin_index_keeps:
  "rq_absolute r \<Longrightarrow> n \<noteq> ''mediaIndex'' \<Longrightarrow> mm_get (rq_query (pin_index i r)) n = mm_get (rq_query r) n"
  by (simp add: pin_index_def replace_query_get)

lemma select_version_Next:
  "select_version p cx ms r = Next r' \<Longrightarrow> r' = r \<or> (\<exists>i. r' = pin_index i r)"
  by (auto simp: select_version_def split: if_splits option.splits)

lemma enforce_limit_Next:
  "enforce_limit ev p r = Next r' \<Longrightarrow> r' = r \<or> (\<exists>i. r' = pin_index i r)"
  by (auto simp: enforce_limit_def split: if_splits option.splits dest: select_version_Next)

lemma enforce_Next:
  assumes "enforce_resolution_policy ev r = Next r'"
  obtains "r' = r" | b where "r' = cap_bitrate b r" | b i where "r' = pin_index i (cap_bitrate b r)"
  using assms
  by (auto simp: enforce_resolution_policy_def Let_def split: if_splits option.splits
      security_state.splits sum.splits dest!: enforce_limit_Next)

interpretation enforce: query_hoop "enforce_resolution_policy ev"
  "{''mediaIndex'', ''maxVideoBitrate'', ''videoBitrate''}" for ev
proof (unfold_locales, goal_cases)
  case (1 r r' n)
  then show ?case by (auto elim!: enforce_Next simp: pin_index_keeps cap_bitrate_keeps)
next
  case (2 r r')
  then show ?case by (auto elim!: enforce_Next)
qed

interpretation auto_select: query_hoop "auto_select_version ev"
  "{''mediaIndex'', ''directPlay'', ''subtitles''}" for ev
  by unfold_locales
    (auto simp: auto_select_version_def Let_def replace_query_get split: if_splits option.splits)

lemma fix_buffer_size_keeps: "n \<noteq> ''mediaBufferSize'' \<Longrightarrow> mm_get (fix_buffer_size f q) n = mm_get q n"
  by (simp add: fix_buffer_size_def split: option.split)

lemma filter_profile_extra_keeps:
  "n \<noteq> ''X-Plex-Client-Profile-Extra'' \<Longrightarrow> mm_get (filter_profile_extra q) n = mm_get q n"
  by (simp add: filter_profile_extra_def split: option.split)

lemma force_direct_play_keeps:
  "n \<notin> {''directPlay'', ''videoResolution''} \<Longrightarrow> mm_get (force_direct_play vr resos q) n = mm_get q n"
  by (induction vr resos q rule: force_direct_play.induct) (simp_all split: option.split)

definition maximum_quality_keys :: "string set" where
  "maximum_quality_keys =
     {''maxVideoBitrate'', ''videoBitrate'', ''autoAdjustQuality'', ''directStream'', ''directPlay'',
      ''videoQuality'', ''mediaBufferSize'', ''X-Plex-Client-Profile-Extra'', ''videoResolution''}"

lemma maximum_quality_keeps:
  "n \<notin> maximum_quality_keys \<Longrightarrow> mm_get (maximum_quality_query f q) n = mm_get q n"
  by (simp add: maximum_quality_query_def maximum_quality_keys_def filter_profile_extra_keeps
      fix_buffer_size_keeps)

lemma force_Next:
  assumes "force_maximum_quality ev r = Next r'"
  obtains "r' = r" | "r' = replace_query (maximum_quality_query (ev_f32 ev) (rq_query r)) r"
  | vr resos where
      "r' = replace_query (force_direct_play vr resos (maximum_quality_query (ev_f32 ev) (rq_query r))) r"
  using assms
  by (auto simp: force_maximum_quality_def Let_def split: if_splits option.splits)

interpretation force_quality: query_hoop "force_maximum_quality ev" maximum_quality_keys for ev
proof (unfold_locales, goal_cases)
  case (1 r r' n)
  then have "n \<notin> {''directPlay'', ''videoResolution''}" by (auto simp: maximum_quality_keys_def)
  with 1 show ?case
    by (auto elim!: force_Next simp: replace_query_get maximum_quality_keeps force_direct_play_keeps)
next
  case (2 r r')
  then show ?case by (auto elim!: force_Next)
qed

lemma fallback_query_keeps:
  "n \<notin> {''mediaIndex'', ''directStream'', ''directPlay'', ''subtitles''} \<Longrightarrow>
   mm_get (fallback_query i q) n = mm_get q n"
  by (simp add: fallback_query_def Let_def)

lemma first_opt_in: "first_opt xs = Some x \<Longrightarrow> x \<in> set xs"
  by (cases xs) simp_all

lemma fallback_choice_Next:
  "fallback_choice ev ms sel fb r = Next r' \<Longrightarrow>
   r' = r \<or> r' = replace_query (rq_query r) r
   \<or> (\<exists>i \<in> set (fallback_indexes ms sel fb (fallback_policy (ev_security ev))).
        r' = replace_query (fallback_query i (rq_query r)) r)"
  by (auto simp: fallback_choice_def Let_def split: if_splits option.splits dest!: first_opt_in)

lemma fallback_Next:
  assumes "video_transcode_fallback ev r = Next r'"
  obtains "r' = r" | "r' = replace_query (rq_query r) r"
  | path item ms sel fb i where
      "r' = replace_query (fallback_query i (rq_query r)) r"
      "mm_get (rq_query r) ''path'' = Some path" "ev_item ev path = Some item"
      "item_media item = Some ms"
      "i \<in> set (fallback_indexes ms sel fb (fallback_policy (ev_security ev)))"
proof -
  have "r' = r \<or> (\<exists>path item ms sel fb. fallback_choice ev ms sel fb r = Next r'
      \<and> mm_get (rq_query r) ''path'' = Some path \<and> ev_item ev path = Some item
      \<and> item_media item = Some ms)"
    using assms
    by (auto simp: video_transcode_fallback_def split: if_splits option.splits Option.bind_splits)
  then show thesis using that fallback_choice_Next by metis
qed

interpretation transcode_fallback: query_hoop "video_transcode_fallback ev"
  "{''mediaIndex'', ''directStream'', ''directPlay'', ''subtitles''}" for ev
proof (unfold_locales, goal_cases)
  case (1 r r' n)
  then show ?case by (auto elim!: fallback_Next simp: replace_query_get fallback_query_keeps)
next
  case (2 r r')
  then show ?case by (auto elim!: fallback_Next)
qed

lemma direct_stream_Next:
  "direct_stream_fallback ev r = Next r' \<Longrightarrow> r' = r \<or> r' = to_direct_stream r"
  by (auto simp: direct_stream_fallback_def split: if_splits option.splits prod.splits)

interpretation direct_stream: query_hoop "direct_stream_fallback ev"
  "{''directPlay'', ''directStream''}" for ev
  by unfold_locales (auto dest!: direct_stream_Next simp: to_direct_stream_def add_query_param_get)

subsection \<open>The selected version stays within the policy\<close>

definition selects_allowed :: "resolution_policy \<Rightarrow> media list \<Rightarrow> query \<Rightarrow> bool" where
  "selects_allowed p ms q \<longleftrightarrow>
     (case Option.bind (explicit_index q) (nth_opt ms) of Some m \<Rightarrow> media_allowed m p | None \<Rightarrow> False)"

text \<open>The media lists the policy is enforced on: Plex identifies versions by distinct ids, and
  every index is a \<open>usize\<close>.\<close>

definition indexable :: "media list \<Rightarrow> bool" where
  "indexable ms \<longleftrightarrow> distinct (map m_id ms) \<and> length ms \<le> u64_max"

lemma show_nat_not_minus_one [simp]: "show_nat i \<noteq> ''-1''"
  using show_nat_no_sign [of i] by auto

lemma explicit_index_set:
  "mm_get q ''mediaIndex'' = Some (show_nat i) \<Longrightarrow> i \<le> u64_max \<Longrightarrow> explicit_index q = Some i"
  by (simp add: explicit_index_def)

lemma selects_allowed_index:
  "mm_get q ''mediaIndex'' = Some (show_nat i) \<Longrightarrow> indexable ms \<Longrightarrow> i < length ms \<Longrightarrow>
   media_allowed (ms ! i) p \<Longrightarrow> selects_allowed p ms q"
  by (simp add: selects_allowed_def explicit_index_set indexable_def nth_opt_def)

lemma selects_allowed_cong:
  "explicit_index q' = explicit_index q \<Longrightarrow> selects_allowed p ms q' = selects_allowed p ms q"
  by (simp add: selects_allowed_def)

lemma selects_allowed_given:
  assumes "selects_allowed p ms q"
  obtains v where "mm_get q ''mediaIndex'' = Some v" "v \<noteq> ''-1''"
  using assms
  by (auto simp: selects_allowed_def explicit_index_def split: option.splits if_splits)

lemma best_position:
  assumes "indexable ms" and "best_allowed_media ms p s = Some b"
  obtains i where "position (\<lambda>m. m_id m = m_id b) ms = Some i" "i < length ms" "ms ! i = b"
    "media_allowed (ms ! i) p"
proof -
  have b: "b \<in> set ms" "media_allowed b p" using best_allowed_sound [OF assms(2)] by auto
  then have "position (\<lambda>m. m_id m = m_id b) ms \<noteq> None"
    by (auto simp: position_None)
  then obtain i where i: "position (\<lambda>m. m_id m = m_id b) ms = Some i" by blast
  have "i < length ms" and eq: "m_id (ms ! i) = m_id b" using position_Some [OF i] by auto
  moreover have "inj_on m_id (set ms)" using assms(1) by (simp add: indexable_def distinct_map)
  ultimately have "ms ! i = b" using b(1) by (meson inj_on_def nth_mem)
  with that i b \<open>i < length ms\<close> show thesis by blast
qed

lemma select_version_allowed:
  assumes "select_version p cx ms r = Next r'" and "indexable ms" and "rq_absolute r"
  shows "selects_allowed p ms (rq_query r')"
proof (cases "selects_allowed p ms (rq_query r)")
  case True
  then have "select_version p cx ms r = Next r"
    by (auto simp: selects_allowed_def select_version_def split: option.splits Option.bind_splits)
  with assms True show ?thesis by simp
next
  case False
  then have *: "select_version p cx ms r =
      (case best_allowed_media ms p (screen_of cx) of
         Some best \<Rightarrow> (case position (\<lambda>m. m_id m = m_id best) ms of
            None \<Rightarrow> Next r | Some i \<Rightarrow> Next (pin_index i r)) | None \<Rightarrow> Stop 403 r)"
    by (auto simp: selects_allowed_def select_version_def split: option.splits Option.bind_splits)
  with assms(1) obtain b where b: "best_allowed_media ms p (screen_of cx) = Some b"
    by (auto split: option.splits)
  obtain i where i: "position (\<lambda>m. m_id m = m_id b) ms = Some i" "i < length ms" "media_allowed (ms ! i) p"
    using best_position [OF assms(2) b] by metis
  with * b assms(1) have "r' = pin_index i r" by simp
  with i assms(2,3) show ?thesis
    by (intro selects_allowed_index) (simp_all add: pin_index_def replace_query_get)
qed

lemma select_version_rejects:
  "select_version p cx ms r = Stop 403 r' \<longleftrightarrow> (\<forall>m \<in> set ms. \<not> media_allowed m p) \<and> r' = r"
proof (cases "\<exists>m \<in> set ms. media_allowed m p")
  case True
  then obtain b where "best_allowed_media ms p (screen_of cx) = Some b"
    using best_allowed_None by (metis option.exhaust)
  then have "select_version p cx ms r \<noteq> Stop 403 r'"
    by (auto simp: select_version_def split: option.splits)
  with True show ?thesis by blast
next
  case False
  then have "best_allowed_media ms p (screen_of cx) = None" by (simp add: best_allowed_None)
  moreover have "\<not> media_allowed m p" if "nth_opt ms i = Some m" for i m
    using that False by (auto simp: nth_opt_Some)
  ultimately show ?thesis using False
    by (auto simp: select_version_def split: option.splits)
qed

text \<open>The enforced policy and the item: from here on the hoop is \<open>select_version\<close>.\<close>

lemma enforce_selects:
  assumes "enforced_media ev r = Some (p, ms)" and "rq_absolute r"
  shows "enforce_resolution_policy ev r =
         select_version p (ev_context ev) ms (cap_bitrate (rp_max_bitrate p) r)"
proof -
  let ?r = "cap_bitrate (rp_max_bitrate p) r"
  obtain path item where e: "enforced_policy ev = Some p" "\<not> is_unrestricted p" "ms \<noteq> []"
    "mm_get (rq_query r) ''path'' = Some path" "ev_item ev path = Some item" "item_media item = Some ms"
    using assms(1) by (auto simp: enforced_media_def split: option.splits if_splits Option.bind_splits)
  have "mm_get (rq_query ?r) ''path'' = Some path" using e(4) assms(2) by (simp add: cap_bitrate_keeps)
  with e have "enforce_limit ev p ?r = select_version p (ev_context ev) ms ?r"
    by (simp add: enforce_limit_def)
  with e show ?thesis
    by (auto simp: enforced_policy_def enforce_resolution_policy_def Let_def
        split: if_splits option.splits security_state.splits sum.splits)
qed

lemma enforce_allowed:
  assumes "enforced_media ev r = Some (p, ms)" and "rq_absolute r" and "indexable ms"
    and "enforce_resolution_policy ev r = Next r'"
  shows "selects_allowed p ms (rq_query r')"
proof (rule select_version_allowed)
  show "select_version p (ev_context ev) ms (cap_bitrate (rp_max_bitrate p) r) = Next r'"
    using enforce_selects [OF assms(1,2)] assms(4) by simp
qed (use assms in simp_all)

lemma enforce_rejects:
  assumes "enforced_media ev r = Some (p, ms)" and "rq_absolute r"
  shows "enforce_resolution_policy ev r = Stop 403 (cap_bitrate (rp_max_bitrate p) r) \<longleftrightarrow>
         (\<forall>m \<in> set ms. \<not> media_allowed m p)"
  by (simp add: enforce_selects [OF assms] select_version_rejects)

lemma auto_select_pinned:
  "selects_allowed p ms (rq_query r) \<Longrightarrow> auto_select_version ev r = Next r"
  by (erule selects_allowed_given) (simp add: auto_select_version_def)

lemma auto_select_allowed:
  "selects_allowed p ms (rq_query r) \<Longrightarrow> auto_select_version ev r = Next r' \<Longrightarrow>
   selects_allowed p ms (rq_query r')"
  by (simp add: auto_select_pinned)

lemma force_quality_allowed:
  assumes "selects_allowed p ms (rq_query r)" and "force_maximum_quality ev r = Next r'" "rq_absolute r"
  shows "selects_allowed p ms (rq_query r')"
  using assms(1) selects_allowed_cong [OF force_quality.keeps_index [OF assms(2,3)]]
  by (simp add: maximum_quality_keys_def)

lemma direct_stream_allowed:
  assumes "selects_allowed p ms (rq_query r)" and "direct_stream_fallback ev r = Next r'" "rq_absolute r"
  shows "selects_allowed p ms (rq_query r')"
  using assms(1) selects_allowed_cong [OF direct_stream.keeps_index [OF assms(2,3)]]
  by simp

lemma fallback_query_index:
  "mm_get (fallback_query i q) ''mediaIndex'' = Some (show_nat i)"
  by (simp add: fallback_query_def Let_def)

lemma fallback_allowed:
  assumes "selects_allowed p ms (rq_query r)" and "video_transcode_fallback ev r = Next r'" "rq_absolute r"
    and "fallback_policy (ev_security ev) = Some p" and "indexable ms"
    and "mm_get (rq_query r) ''path'' = Some path" "ev_item ev path = Some item" "item_media item = Some ms"
  shows "selects_allowed p ms (rq_query r')"
  using assms(2)
proof (cases rule: fallback_Next)
  case 2
  then have "explicit_index (rq_query r') = explicit_index (rq_query r)"
    using assms(3) by (simp add: explicit_index_def replace_query_get)
  with assms(1) show ?thesis by (simp add: selects_allowed_def)
next
  case (3 path' item' ms' sel fb i)
  with assms have i: "i < length ms" "media_allowed (ms ! i) p"
    by (auto simp: fallback_indexes_set fallback_candidate_def)
  have "mm_get (rq_query r') ''mediaIndex'' = Some (show_nat i)"
    using 3 assms(3) by (simp add: replace_query_get fallback_query_index)
  with i assms(5) show ?thesis by (intro selects_allowed_index)
qed (use assms in simp)

subsection \<open>The routes as a whole\<close>

lemma run_hoops_append:
  "run_hoops (hs @ hs') r = (case run_hoops hs r of Next r' \<Rightarrow> run_hoops hs' r' | x \<Rightarrow> x)"
  by (induction hs arbitrary: r) (simp_all split: hoop_result.split)

lemma run_hoops_invariant:
  assumes "run_hoops hs r = Next r'" and "I r"
    and "\<And>h r r'. h \<in> set hs \<Longrightarrow> I r \<Longrightarrow> h r = Next r' \<Longrightarrow> I r'"
  shows "I r'"
  using assms
proof (induction hs arbitrary: r)
  case (Cons h hs)
  then obtain r1 where r1: "h r = Next r1" "run_hoops hs r1 = Next r'"
    by (auto split: hoop_result.splits)
  have "I r1" using Cons.prems r1(1) by (meson list.set_intros(1))
  with Cons r1(2) show ?case by (meson list.set_intros(2))
qed simp

definition route_inv :: "resolution_policy \<Rightarrow> media list \<Rightarrow> string \<Rightarrow> request \<Rightarrow> bool" where
  "route_inv p ms path r \<longleftrightarrow>
     rq_absolute r \<and> mm_get (rq_query r) ''path'' = Some path \<and> selects_allowed p ms (rq_query r)"

lemma enforced_media_policy: "enforced_media ev r = Some (p, ms) \<Longrightarrow> enforced_policy ev = Some p"
  by (auto simp: enforced_media_def split: option.splits if_splits)

lemma enforced_media_item:
  assumes "enforced_media ev r = Some (p, ms)"
  obtains path item where "mm_get (rq_query r) ''path'' = Some path" "ev_item ev path = Some item"
    "item_media item = Some ms" "\<not> is_unrestricted p" "ms \<noteq> []"
  using assms by (auto simp: enforced_media_def split: option.splits if_splits Option.bind_splits)

lemma enforce_establishes:
  assumes "enforced_media ev r = Some (p, ms)" and "rq_absolute r" and "indexable ms"
    and "enforce_resolution_policy ev r = Next r'" and "mm_get (rq_query r) ''path'' = Some path"
  shows "route_inv p ms path r'"
  using enforce_allowed [OF assms(1-4)] enforce.keeps_path [OF assms(4,2)] assms(5)
  by (simp add: route_inv_def)

lemma auto_select_route: "route_inv p ms path r \<Longrightarrow> auto_select_version ev r = Next r' \<Longrightarrow> route_inv p ms path r'"
  using auto_select_pinned by (auto simp: route_inv_def)

lemma force_quality_route:
  assumes "route_inv p ms path r" and "force_maximum_quality ev r = Next r'"
  shows "route_inv p ms path r'"
  using assms force_quality_allowed [OF _ assms(2)] force_quality.keeps_path [OF assms(2)]
  by (simp add: route_inv_def maximum_quality_keys_def)

lemma direct_stream_route:
  assumes "route_inv p ms path r" and "direct_stream_fallback ev r = Next r'"
  shows "route_inv p ms path r'"
  using assms direct_stream_allowed [OF _ assms(2)] direct_stream.keeps_path [OF assms(2)]
  by (simp add: route_inv_def)

lemma fallback_route:
  assumes "route_inv p ms path r" and "video_transcode_fallback ev r = Next r'"
    and "fallback_policy (ev_security ev) = Some p" and "indexable ms"
    and "ev_item ev path = Some item" "item_media item = Some ms"
  shows "route_inv p ms path r'"
  using assms fallback_allowed [OF _ assms(2) _ assms(3,4) _ assms(5,6)]
    transcode_fallback.keeps_path [OF assms(2)]
  by (simp add: route_inv_def)

lemma start_hoops_enforce:
  "cf_resolution_policy_enabled (ev_config ev) \<Longrightarrow>
   \<exists>hs. start_hoops ev = enforce_resolution_policy ev # hs
        \<and> set hs \<subseteq> {auto_select_version ev, force_maximum_quality ev}"
  by (auto simp: start_hoops_def Let_def)

lemma decision_hoops_enforce:
  assumes "cf_resolution_policy_enabled (ev_config ev)"
  obtains hs where "decision_hoops ev = enforce_resolution_policy ev # hs"
    "set hs \<subseteq> {auto_select_version ev, force_maximum_quality ev, video_transcode_fallback ev,
               direct_stream_fallback ev}"
proof -
  obtain hs where hs: "start_hoops ev = enforce_resolution_policy ev # hs"
    "set hs \<subseteq> {auto_select_version ev, force_maximum_quality ev}"
    using start_hoops_enforce [OF assms] by blast
  show thesis
    by (rule that [of "hs @ (if cf_video_transcode_fallback_for (ev_config ev) \<noteq> None
            then [video_transcode_fallback ev] else []) @ [direct_stream_fallback ev]"])
      (use hs in \<open>auto simp: decision_hoops_def\<close>)
qed

lemma start_route_allowed:
  assumes "cf_resolution_policy_enabled (ev_config ev)"
    and "enforced_media ev r = Some (p, ms)" and "rq_absolute r" and "indexable ms"
    and "run_hoops (start_hoops ev) r = Next r'"
  shows "selects_allowed p ms (rq_query r')"
proof -
  obtain path where path: "mm_get (rq_query r) ''path'' = Some path"
    using enforced_media_item [OF assms(2)] by metis
  obtain hs where hs: "start_hoops ev = enforce_resolution_policy ev # hs"
    "set hs \<subseteq> {auto_select_version ev, force_maximum_quality ev}"
    using start_hoops_enforce [OF assms(1)] by blast
  with assms(5) obtain r1 where r1: "enforce_resolution_policy ev r = Next r1" "run_hoops hs r1 = Next r'"
    by (auto split: hoop_result.splits)
  have "route_inv p ms path r'"
  proof (rule run_hoops_invariant [where I = "route_inv p ms path", OF r1(2)])
    show "route_inv p ms path r1" by (rule enforce_establishes [OF assms(2-4) r1(1) path])
    show "route_inv p ms path b" if "h \<in> set hs" "route_inv p ms path a" "h a = Next b" for h a b
      using that hs(2) auto_select_route force_quality_route by blast
  qed
  then show ?thesis by (simp add: route_inv_def)
qed

lemma decision_route_allowed:
  assumes "cf_resolution_policy_enabled (ev_config ev)" and "ev_security ev = Some (Resolved sc)"
    and "enforced_media ev r = Some (p, ms)" and "rq_absolute r" and "indexable ms"
    and "run_hoops (decision_hoops ev) r = Next r'"
  shows "selects_allowed p ms (rq_query r')"
proof -
  obtain path item where item: "mm_get (rq_query r) ''path'' = Some path" "ev_item ev path = Some item"
    "item_media item = Some ms"
    using enforced_media_item [OF assms(3)] by metis
  obtain hs where hs: "decision_hoops ev = enforce_resolution_policy ev # hs"
    "set hs \<subseteq> {auto_select_version ev, force_maximum_quality ev, video_transcode_fallback ev,
               direct_stream_fallback ev}"
    using decision_hoops_enforce [OF assms(1)] by blast
  with assms(6) obtain r1 where r1: "enforce_resolution_policy ev r = Next r1" "run_hoops hs r1 = Next r'"
    by (auto split: hoop_result.splits)
  have p: "fallback_policy (ev_security ev) = Some p"
    using enforced_media_policy [OF assms(3)] assms(2)
    by (simp add: enforced_policy_def fallback_policy_def split: if_splits)
  have "route_inv p ms path r'"
  proof (rule run_hoops_invariant [where I = "route_inv p ms path", OF r1(2)])
    show "route_inv p ms path r1" by (rule enforce_establishes [OF assms(3-5) r1(1) item(1)])
    show "route_inv p ms path b" if "h \<in> set hs" "route_inv p ms path a" "h a = Next b" for h a b
    proof -
      have "h = auto_select_version ev \<or> h = force_maximum_quality ev \<or>
            h = video_transcode_fallback ev \<or> h = direct_stream_fallback ev"
        using that(1) hs(2) by blast
      then show ?thesis
        using auto_select_route [OF that(2)] force_quality_route [OF that(2)]
          direct_stream_route [OF that(2)] fallback_route [OF that(2) _ p assms(5) item(2,3)] that(3)
        by metis
    qed
  qed
  then show ?thesis by (simp add: route_inv_def)
qed

subsection \<open>Refusals\<close>

lemma enforce_fails_closed:
  assumes "ps_enabled (ev_snapshot ev)" "ev_client_ok ev" "ev_security ev = Some (Unavailable True e)"
  shows "enforce_resolution_policy ev r = Stop 503 r"
  using assms by (simp add: enforce_resolution_policy_def)

lemma enforce_item_missing:
  assumes "enforced_policy ev = Some p" "\<not> is_unrestricted p" "rq_absolute r"
    and "mm_get (rq_query r) ''path'' = Some path" and "ev_item ev path = None"
    and "ps_fail_closed (ev_snapshot ev)"
  shows "enforce_resolution_policy ev r = Stop 503 (cap_bitrate (rp_max_bitrate p) r)"
proof -
  let ?r = "cap_bitrate (rp_max_bitrate p) r"
  have "mm_get (rq_query ?r) ''path'' = Some path" using assms(3,4) by (simp add: cap_bitrate_keeps)
  with assms have "enforce_limit ev p ?r = Stop 503 ?r" by (simp add: enforce_limit_def)
  with assms(1,2) show ?thesis
    by (auto simp: enforced_policy_def enforce_resolution_policy_def Let_def
        split: if_splits option.splits security_state.splits sum.splits)
qed

lemma enforce_unrestricted:
  assumes "enforced_policy ev = Some p" "is_unrestricted p" "rp_max_bitrate p = None"
  shows "enforce_resolution_policy ev r = Next r"
  using assms
  by (auto simp: enforced_policy_def enforce_resolution_policy_def
      split: if_splits option.splits security_state.splits sum.splits)

text \<open>The first hoop's refusal is the route's answer.\<close>

lemma decision_route_stops:
  assumes "cf_resolution_policy_enabled (ev_config ev)" and "enforce_resolution_policy ev r = Stop n r'"
  shows "run_hoops (decision_hoops ev) r = Stop n r'" and "run_hoops (start_hoops ev) r = Stop n r'"
proof -
  obtain hs where "decision_hoops ev = enforce_resolution_policy ev # hs"
    using decision_hoops_enforce [OF assms(1)] by blast
  with assms(2) show "run_hoops (decision_hoops ev) r = Stop n r'" by simp
  obtain hs where "start_hoops ev = enforce_resolution_policy ev # hs"
    using start_hoops_enforce [OF assms(1)] by blast
  with assms(2) show "run_hoops (start_hoops ev) r = Stop n r'" by simp
qed

subsection \<open>The bitrate cap\<close>

definition requested_bitrate :: "query \<Rightarrow> i64 option" where
  "requested_bitrate q = query_i64 q ''maxVideoBitrate'' ''videoBitrate''"

lemma cap_bitrate_bound:
  assumes "rq_absolute r" and "in_i64 cap"
  shows "\<exists>b. requested_bitrate (rq_query (cap_bitrate (Some cap) r)) = Some b \<and> b \<le> cap"
proof (cases "requested_bitrate (rq_query r)")
  case None
  with assms show ?thesis
    by (simp add: requested_bitrate_def cap_bitrate_def Let_def query_i64_def replace_query_get parse_i64_show_int)
next
  case (Some c)
  then have "in_i64 c" by (auto simp: requested_bitrate_def query_i64_def parse_i64_range split: Option.bind_splits)
  show ?thesis
  proof (cases "c > cap")
    case True
    with Some assms show ?thesis
      by (simp add: requested_bitrate_def cap_bitrate_def Let_def query_i64_def replace_query_get parse_i64_show_int)
  next
    case False
    with Some show ?thesis
      by (simp add: requested_bitrate_def cap_bitrate_def Let_def)
  qed
qed

lemma select_version_bitrate:
  assumes "select_version p cx ms r = Next r'" and "rq_absolute r"
  shows "requested_bitrate (rq_query r') = requested_bitrate (rq_query r)"
  using select_version_Next [OF assms(1)] assms(2)
  by (auto simp: requested_bitrate_def query_i64_def pin_index_keeps)

lemma enforce_limit_bitrate:
  assumes "enforce_limit ev p r = Next r'" and "rq_absolute r"
  shows "requested_bitrate (rq_query r') = requested_bitrate (rq_query r)"
  using enforce_limit_Next [OF assms(1)] assms(2)
  by (auto simp: requested_bitrate_def query_i64_def pin_index_keeps)

lemma enforce_caps:
  assumes "enforced_policy ev = Some p" "rp_max_bitrate p = Some cap" "in_i64 cap" "rq_absolute r"
    and "enforce_resolution_policy ev r = Next r'"
  shows "\<exists>b. requested_bitrate (rq_query r') = Some b \<and> b \<le> cap"
proof -
  let ?r = "cap_bitrate (Some cap) r"
  have "enforce_resolution_policy ev r = (if is_unrestricted p then Next ?r else enforce_limit ev p ?r)"
    using assms(1,2)
    by (auto simp: enforced_policy_def enforce_resolution_policy_def Let_def
        split: if_splits option.splits security_state.splits sum.splits)
  with assms(4,5) have "requested_bitrate (rq_query r') = requested_bitrate (rq_query ?r)"
    by (auto split: if_splits dest!: enforce_limit_bitrate)
  with cap_bitrate_bound [OF assms(4,3)] show ?thesis by simp
qed

text \<open>A later hoop takes the cap away again.\<close>

lemma maximum_quality_bitrate: "requested_bitrate (maximum_quality_query f q) = None"
  by (simp add: maximum_quality_query_def requested_bitrate_def query_i64_def filter_profile_extra_keeps
      fix_buffer_size_keeps)

lemma force_direct_play_bitrate:
  "requested_bitrate (force_direct_play vr resos q) = requested_bitrate q"
  by (simp add: requested_bitrate_def query_i64_def force_direct_play_keeps)

lemma force_quality_uncaps:
  assumes "\<not> ev_skip ev" "ev_client_ok ev" "rq_absolute r" "requested_bitrate (rq_query r) \<noteq> None"
    and "cf_force_direct_play_for (ev_config ev) = None"
  shows "\<exists>r'. force_maximum_quality ev r = Next r' \<and> requested_bitrate (rq_query r') = None"
proof -
  have "force_maximum_quality ev r = Next (replace_query (maximum_quality_query (ev_f32 ev) (rq_query r)) r)"
    using assms by (auto simp: force_maximum_quality_def Let_def requested_bitrate_def query_i64_def)
  moreover have "requested_bitrate (rq_query (replace_query q r)) = requested_bitrate q" for q
    using assms(3) by (simp add: requested_bitrate_def query_i64_def replace_query_get)
  ultimately show ?thesis by (simp add: maximum_quality_bitrate)
qed

subsection \<open>The later hoops let a request pass\<close>

definition upstream_answers :: "play_env \<Rightarrow> bool" where
  "upstream_answers ev \<longleftrightarrow>
     ev_client_ok ev
     \<and> (\<forall>r. ev_decision ev r \<noteq> None \<and> (\<exists>c. ev_decision_status ev r = (Some 200, Some c)))"

lemma auto_select_passes: "\<exists>r'. auto_select_version ev r = Next r'"
  by (auto simp: auto_select_version_def Let_def split: option.split)

lemma force_quality_passes: "ev_client_ok ev \<Longrightarrow> \<exists>r'. force_maximum_quality ev r = Next r'"
  by (auto simp: force_maximum_quality_def Let_def split: option.split)

lemma fallback_passes:
  assumes "upstream_answers ev" shows "\<exists>r'. video_transcode_fallback ev r = Next r'"
proof -
  obtain d where "ev_decision ev r = Some d" using assms by (auto simp: upstream_answers_def)
  then have "\<exists>r'. fallback_choice ev ms sel fb r = Next r'" for ms sel fb
    by (simp add: fallback_choice_def Let_def split: option.split)
  then show ?thesis
    using assms by (auto simp: video_transcode_fallback_def upstream_answers_def split: option.split)
qed

lemma direct_stream_passes:
  assumes "upstream_answers ev" shows "\<exists>r'. direct_stream_fallback ev r = Next r'"
proof -
  obtain c where "ev_decision_status ev r = (Some 200, Some c)" "ev_client_ok ev"
    using assms by (auto simp: upstream_answers_def)
  then show ?thesis by (simp add: direct_stream_fallback_def)
qed

lemma run_hoops_pass:
  "(\<And>h r. h \<in> set hs \<Longrightarrow> \<exists>r'. h r = Next r') \<Longrightarrow> \<exists>r'. run_hoops hs r = Next r'"
proof (induction hs arbitrary: r)
  case (Cons h hs)
  obtain r1 where "h r = Next r1" using Cons.prems [of h r] by auto
  moreover have "\<exists>r'. run_hoops hs r1 = Next r'" using Cons by simp
  ultimately show ?case by simp
qed simp

lemma decision_route_passes:
  assumes "cf_resolution_policy_enabled (ev_config ev)" and "upstream_answers ev"
    and "enforce_resolution_policy ev r = Next r1"
  shows "\<exists>r'. run_hoops (decision_hoops ev) r = Next r'"
proof -
  obtain hs where hs: "decision_hoops ev = enforce_resolution_policy ev # hs"
    "set hs \<subseteq> {auto_select_version ev, force_maximum_quality ev, video_transcode_fallback ev,
               direct_stream_fallback ev}"
    using decision_hoops_enforce [OF assms(1)] by blast
  have "\<exists>r'. run_hoops hs r1 = Next r'"
  proof (rule run_hoops_pass)
    fix h r assume "h \<in> set hs"
    then consider "h = auto_select_version ev" | "h = force_maximum_quality ev"
      | "h = video_transcode_fallback ev" | "h = direct_stream_fallback ev"
      using hs(2) by blast
    then show "\<exists>r'. h r = Next r'"
      using auto_select_passes force_quality_passes fallback_passes direct_stream_passes assms(2)
      by cases (auto simp: upstream_answers_def)
  qed
  with hs(1) assms(3) show ?thesis by simp
qed

lemma select_version_passes:
  assumes "\<exists>m \<in> set ms. media_allowed m p" shows "\<exists>r'. select_version p cx ms r = Next r'"
proof -
  obtain b where "best_allowed_media ms p (screen_of cx) = Some b"
    using assms best_allowed_None by (metis option.exhaust)
  then show ?thesis by (auto simp: select_version_def split: option.split)
qed

text \<open>A restricted request that has a permitted version goes through.\<close>

lemma decision_route_serves:
  assumes "cf_resolution_policy_enabled (ev_config ev)" and "upstream_answers ev"
    and "enforced_media ev r = Some (p, ms)" and "rq_absolute r"
    and "m \<in> set ms" and "media_allowed m p"
  shows "\<exists>r'. run_hoops (decision_hoops ev) r = Next r'"
proof -
  obtain r1 where "enforce_resolution_policy ev r = Next r1"
    using enforce_selects [OF assms(3,4)] select_version_passes assms(5,6) by metis
  then show ?thesis by (rule decision_route_passes [OF assms(1,2)])
qed

end
