(* ===== verification/Single_Flight.thy ===== *)
theory Single_Flight
  imports Metrics
begin

text \<open>
  The single-flight interface: a claim on a key is granted only while no one holds the key, and
  a release frees it.  \<open>src/jobs.rs\<close> provides it here with its cooldown; the background hub
  refresh provides it in \<open>Hub_Cache\<close>.
\<close>

subsection \<open>The interface\<close>

text \<open>What the workers of a single-flight guard do: ask for a key, or give it back.  A worker
  that was refused does not release.\<close>

datatype ('c, 'f) flight_event = Start 'c | Finish 'f

locale single_flight =
  fixes claim :: "'c \<Rightarrow> 's \<Rightarrow> bool \<times> 's" and claim_key :: "'c \<Rightarrow> 'k"
    and release :: "'f \<Rightarrow> 's \<Rightarrow> 's" and release_key :: "'f \<Rightarrow> 'k"
    and running :: "'s \<Rightarrow> 'k set"
  assumes granted: "claim c s = (True, s') \<Longrightarrow>
      claim_key c \<notin> running s \<and> running s' = insert (claim_key c) (running s)"
    and refused: "claim c s = (False, s') \<Longrightarrow> running s' = running s"
    and released: "running (release f s) = running s - {release_key f}"
begin

fun exec :: "('c, 'f) flight_event list \<Rightarrow> 's \<Rightarrow> 'k list \<Rightarrow> 's \<times> 'k list" where
  "exec [] s ws = (s, ws)"
| "exec (Start c # es) s ws =
     (case claim c s of
        (True, s') \<Rightarrow> exec es s' (claim_key c # ws)
      | (False, s') \<Rightarrow> exec es s' ws)"
| "exec (Finish f # es) s ws =
     (if release_key f \<in> set ws then exec es (release f s) (remove1 (release_key f) ws)
      else exec es s ws)"

text \<open>However the events interleave, the workers hold distinct keys, and those are exactly the
  keys the guard counts as running.\<close>

lemma one_worker_per_key:
  "distinct ws \<Longrightarrow> set ws = running s \<Longrightarrow> exec es s ws = (s', ws') \<Longrightarrow>
   distinct ws' \<and> set ws' = running s'"
proof (induction es s ws arbitrary: s' ws' rule: exec.induct)
  case (2 c es s ws)
  obtain b t where c: "claim c s = (b, t)" by (cases "claim c s")
  with 2 granted [of c s t] refused [of c s t] show ?case by (cases b) auto
next
  case (3 f es s ws)
  then show ?case by (auto simp: released split: if_splits)
qed simp

lemma no_second_claim:
  "claim_key c \<in> running s \<Longrightarrow> \<not> fst (claim c s)"
  using granted [of c s] by (cases "claim c s"; cases "fst (claim c s)") auto

end

subsection \<open>\<open>src/jobs.rs\<close>\<close>

text \<open>The cooldown is a cache whose entries live for an hour; its times are seconds.  The
  capacity bound of that cache, which may drop an entry early, is not modelled.\<close>

record jobs =
  jb_inflight :: "string list"
  jb_cooldown :: "string \<Rightarrow> nat option"
  jb_metrics :: metrics

definition new_jobs :: "metrics \<Rightarrow> jobs" where
  "new_jobs m = \<lparr>jb_inflight = [], jb_cooldown = (\<lambda>_. None), jb_metrics = m\<rparr>"

text \<open>What \<open>snapshot\<close> reports: the running jobs and the entries of the cooldown cache.\<close>

record job_snapshot =
  js_inflight :: nat
  js_cooling_down :: nat

definition cooldown_ttl :: nat where "cooldown_ttl = 60 * 60"

definition cooling :: "nat \<Rightarrow> string \<Rightarrow> jobs \<Rightarrow> bool" where
  "cooling now k s = (case jb_cooldown s k of Some t \<Rightarrow> now < t + cooldown_ttl | None \<Rightarrow> False)"

definition try_start :: "nat \<times> string \<Rightarrow> jobs \<Rightarrow> bool \<times> jobs" where
  "try_start nk s =
     (case nk of (now, k) \<Rightarrow>
        if cooling now k s then (False, s)
        else if k \<in> set (jb_inflight s) then (False, s)
        else (True, s\<lparr>jb_inflight := k # jb_inflight s,
                      jb_cooldown := (jb_cooldown s)(k \<mapsto> now)\<rparr>))"

definition finish_job :: "string \<times> bool \<Rightarrow> jobs \<Rightarrow> jobs" where
  "finish_job ks s =
     (case ks of (k, success) \<Rightarrow>
        let s' = s\<lparr>jb_inflight := filter (\<lambda>j. j \<noteq> k) (jb_inflight s)\<rparr>
        in if \<not> success then s'\<lparr>jb_metrics := task_failure (jb_metrics s')\<rparr> else s')"

interpretation job_flight: single_flight try_start snd finish_job fst
  "\<lambda>s. set (jb_inflight s)"
  by unfold_locales
    (auto simp: try_start_def finish_job_def Let_def split: prod.splits if_splits)

lemma try_start_cools: "try_start (now, k) s = (True, s') \<Longrightarrow> jb_cooldown s' k = Some now"
  by (auto simp: try_start_def split: if_splits)

lemma finish_keeps_cooldown: "jb_cooldown (finish_job f s) = jb_cooldown s"
  by (cases f) (simp add: finish_job_def Let_def)

lemma try_start_keeps_other:
  "try_start (now, k) s = (b, s') \<Longrightarrow> j \<noteq> k \<Longrightarrow> jb_cooldown s' j = jb_cooldown s j"
  by (auto simp: try_start_def split: if_splits)

lemma try_start_refused_same: "try_start nk s = (False, s') \<Longrightarrow> s' = s"
  by (auto simp: try_start_def split: prod.splits if_splits)

lemma try_start_spaced:
  assumes "jb_cooldown s k = Some t" and "try_start (now, k) s = (True, s')"
  shows "t + cooldown_ttl \<le> now"
  using assms by (auto simp: try_start_def cooling_def split: if_splits)

text \<open>The starts that a sequence of calls grants, in order.\<close>

fun job_grants :: "(nat \<times> string, string \<times> bool) flight_event list \<Rightarrow> jobs \<Rightarrow> (nat \<times> string) list" where
  "job_grants [] s = []"
| "job_grants (Start c # es) s =
     (case try_start c s of
        (True, s') \<Rightarrow> c # job_grants es s'
      | (False, s') \<Rightarrow> job_grants es s')"
| "job_grants (Finish f # es) s = job_grants es (finish_job f s)"

lemma job_grants_after_cooldown:
  "(t', k) \<in> set (job_grants es s) \<Longrightarrow> jb_cooldown s k = Some t \<Longrightarrow> t + cooldown_ttl \<le> t'"
proof (induction es s arbitrary: t rule: job_grants.induct)
  case (2 c es s)
  obtain n j where c: "c = (n, j)" by (cases c)
  obtain b s' where ts: "try_start c s = (b, s')" by (cases "try_start c s")
  show ?case
  proof (cases b)
    case True
    have grant: "t + cooldown_ttl \<le> n" if "j = k"
      using try_start_spaced [of s k t n s'] ts True c that "2.prems"(2) by simp
    show ?thesis
    proof (cases "(t', k) = c")
      case True
      with grant c show ?thesis by simp
    next
      case False
      with "2.prems" ts True have later: "(t', k) \<in> set (job_grants es s')" by auto
      have cd: "jb_cooldown s' k = (if j = k then Some n else Some t)"
        using try_start_cools [of n j s s'] try_start_keeps_other [of n j s True s' k] ts True c
          "2.prems"(2) by auto
      show ?thesis
      proof (cases "j = k")
        case True
        with grant "2.IH"(1) [OF ts [symmetric] \<open>b\<close> [THEN eqTrueI] later] cd show ?thesis
          by (simp add: \<open>b\<close>)
      next
        case False
        with "2.IH"(1) [OF ts [symmetric] \<open>b\<close> [THEN eqTrueI] later] cd show ?thesis by simp
      qed
    qed
  next
    case False
    with "2.prems" "2.IH"(2) ts try_start_refused_same [of c s s'] show ?thesis by auto
  qed
next
  case (3 f es s)
  then show ?case by (simp add: finish_keeps_cooldown)
qed simp

lemma job_grants_spaced:
  "sorted_wrt (\<lambda>(t, k) (t', k'). k = k' \<longrightarrow> t + cooldown_ttl \<le> t') (job_grants es s)"
proof (induction es s rule: job_grants.induct)
  case (2 c es s)
  obtain n j where c: "c = (n, j)" by (cases c)
  obtain b s' where ts: "try_start c s = (b, s')" by (cases "try_start c s")
  show ?case
  proof (cases b)
    case True
    with 2 ts c try_start_cools [of n j s s'] show ?thesis
      by (auto dest: job_grants_after_cooldown)
  next
    case False
    with 2 ts show ?thesis by auto
  qed
qed simp_all

end
