(* ===== verification/Streams.thy ===== *)
theory Streams
  imports Playback Metrics Single_Flight
begin

text \<open>
  Serving the bytes: the stream gate of \<open>src/routes.rs\<close> (\<open>protected_redirect_stream\<close>), which
  decides for a part or a transcode session whether it is proxied through Replex, redirected to
  the origin, or refused; and the small media routes around it (photo requests, hero images,
  the notification bootstrap).  The content type that a redirect guesses from the path is left out.
\<close>

subsection \<open>Delivery\<close>

datatype stream_delivery = Proxy | Redirect

definition choose_delivery :: "bool \<Rightarrow> bool \<Rightarrow> stream_delivery" where
  "choose_delivery restricted redirects_enabled =
     (if restricted \<or> \<not> redirects_enabled then Proxy else Redirect)"

text \<open>The answer of a stream route: the bytes through Replex, a redirect, or a bare status.\<close>

datatype stream_reply = Proxied | RedirectTo string | Refused nat

text \<open>What the handler finds in the depot; a component that was not installed is \<open>None\<close>.
  \<open>st_uri\<close> is the path and query, \<open>st_part\<close> the text of the path parameter \<open>partid\<close>, which only
  the part route has, \<open>st_proxied\<close> how long the proxied request takes and whether it succeeds.\<close>

record stream_env =
  st_config :: "config option"
  st_snapshot :: "policy_snapshot option"
  st_upstream :: "string option"
  st_client_ok :: bool
  st_security :: "security_state option"
  st_user :: "identity_error + user_identity"
  st_parts :: part_cache
  st_uri :: string
  st_part :: "string option"
  st_proxied :: "nat \<times> bool"

definition proxied_metrics :: "stream_env \<Rightarrow> metrics \<Rightarrow> metrics" where
  "proxied_metrics ev m =
     (case st_proxied ev of (elapsed, ok) \<Rightarrow> observe_upstream (min elapsed u64_max) ok m)"

definition perform_stream_redirect :: "config \<Rightarrow> stream_env \<Rightarrow> metrics \<Rightarrow> string option \<times> metrics" where
  "perform_stream_redirect c ev m =
     (case st_upstream ev of
        None \<Rightarrow> (None, m)
      | Some upstream \<Rightarrow>
          (Some (unwrap_or (cf_redirect_streams_host c) upstream @ st_uri ev), count_redirect m))"

text \<open>\<open>deliver_stream\<close>, and the status its callers answer with when it fails.\<close>

definition deliver_stream ::
  "stream_delivery \<Rightarrow> config \<Rightarrow> stream_env \<Rightarrow> metrics \<Rightarrow> stream_reply \<times> metrics" where
  "deliver_stream d c ev m =
     (case d of
        Proxy \<Rightarrow> (Proxied, proxied_metrics ev m)
      | Redirect \<Rightarrow>
          (case perform_stream_redirect c ev m of
             (Some url, m') \<Rightarrow> (RedirectTo url, m')
           | (None, m') \<Rightarrow> (Refused 500, m')))"

subsection \<open>The stream gate\<close>

definition stream_restricted :: "resolution_policy \<Rightarrow> bool" where
  "stream_restricted p \<longleftrightarrow> \<not> is_unrestricted p \<or> rp_max_bitrate p \<noteq> None"

definition gate_restricted ::
  "resolution_policy \<Rightarrow> config \<Rightarrow> stream_env \<Rightarrow> metrics \<Rightarrow> stream_reply \<times> metrics" where
  "gate_restricted p c ev m =
     (let deliver = deliver_stream (choose_delivery True (cf_redirect_streams c)) c ev m in
      (case Option.bind (st_part ev) parse_i64 of
         None \<Rightarrow> deliver
       | Some part \<Rightarrow>
           (case st_parts ev part of
              Some known \<Rightarrow>
                (if part_classification_allowed known p then deliver else (Refused 403, policy_reject m))
            | None \<Rightarrow> (Refused 403, policy_reject m))))"

definition protected_redirect_stream :: "stream_env \<Rightarrow> metrics \<Rightarrow> stream_reply \<times> metrics" where
  "protected_redirect_stream ev m =
     (case (st_config ev, st_snapshot ev) of
        (None, _) \<Rightarrow> (Refused 500, m)
      | (Some c, None) \<Rightarrow> (Refused 500, m)
      | (Some c, Some snap) \<Rightarrow>
          (let free = deliver_stream (choose_delivery False (cf_redirect_streams c)) c ev m in
           if \<not> ps_enabled snap then free
           else if st_upstream ev = None then (Refused 400, m)
           else if \<not> st_client_ok ev then (Refused 401, m)
           else (case (case st_security ev of
                         Some (Resolved sc) \<Rightarrow> Inr (sc_policy sc)
                       | Some (Unavailable fail_closed _) \<Rightarrow>
                           Inl (if fail_closed then (Refused 503, m) else free)
                       | None \<Rightarrow>
                           (case st_user ev of
                              Inl _ \<Rightarrow> Inl (Refused 503, m)
                            | Inr i \<Rightarrow> Inr (resolve_policy (ps_entries snap) (ps_default_limit snap)
                                        (ps_hidden_collections snap) i))) of
                   Inl answer \<Rightarrow> answer
                 | Inr p \<Rightarrow> if stream_restricted p then gate_restricted p c ev m else free)))"

subsection \<open>Photo requests\<close>

text \<open>\<open>size\<close> values such as \<open>large-1280\<close> carry the edge length after the last dash.\<close>

definition fix_photo_transcode_request :: "plex_context option \<Rightarrow> request \<Rightarrow> request" where
  "fix_photo_transcode_request cx r =
     (case Option.bind cx cx_size of
        None \<Rightarrow> r
      | Some value \<Rightarrow>
          (if contains value ''-''
           then (let edge = last (split_on CHR ''-'' value) in
                 if edge = [] then r
                 else add_query_param_salvo ''width'' edge (add_query_param_salvo ''height'' edge r))
           else r))"

text \<open>\<open>segments\<close> is \<open>Url::parse\<close> followed by \<open>path_segments\<close>; \<open>art\<close> the hero artwork lookup, and
  \<open>client_ok\<close> whether a client can be built for the request.\<close>

definition resolve_local_media_path ::
  "(string \<Rightarrow> string list option) \<Rightarrow> (string \<Rightarrow> string option) \<Rightarrow> bool \<Rightarrow> request
   \<Rightarrow> nat option \<times> request" where
  "resolve_local_media_path segments art client_ok r =
     (case mm_get (rq_query r) ''url'' of
        None \<Rightarrow> (None, r)
      | Some raw \<Rightarrow>
          (if \<not> contains raw ''/replex/image/hero'' then (None, r)
           else (case segments raw of
                   None \<Rightarrow> (None, r)
                 | Some ss \<Rightarrow>
                     (case (if ss = [] then None else Some (replace_str (last ss) ''.jpg'' [])) of
                        None \<Rightarrow> (None, r)
                      | Some uuid \<Rightarrow>
                          (if uuid = [] then (None, r)
                           else if \<not> client_ok then (Some 401, r)
                           else (case art uuid of
                                   None \<Rightarrow> (None, r)
                                 | Some u \<Rightarrow> (None, add_query_param_salvo ''url'' u r)))))))"

definition disable_related_query :: "bool \<Rightarrow> request \<Rightarrow> request" where
  "disable_related_query skip r =
     (if skip then r else add_query_param_salvo ''includeRelated'' ''0'' r)"

text \<open>The hero image route.  \<open>uri_ok\<close> is the URI parser, \<open>url_text\<close> the text of a parsed URL.\<close>

definition hero_image_route ::
  "(string \<Rightarrow> bool) \<Rightarrow> (string \<Rightarrow> string option) \<Rightarrow> bool \<Rightarrow> string option \<Rightarrow> string option \<Rightarrow> bool
   \<Rightarrow> (string \<Rightarrow> string option) \<Rightarrow> nat + string" where
  "hero_image_route uri_ok url_text context_ok image_type uuid client_ok art =
     (if \<not> context_ok \<or> image_type = None then Inl 400
      else (case uuid of
              None \<Rightarrow> Inl 400
            | Some u \<Rightarrow>
                (if \<not> client_ok then Inl 401
                 else (case art u of
                         None \<Rightarrow> Inl 404
                       | Some location \<Rightarrow>
                           (let clean = replace_str location '' '' ''%20'' in
                            if uri_ok clean then Inr clean
                            else (case url_text clean of Some t \<Rightarrow> Inr t | None \<Rightarrow> Inl 404))))))"

subsection \<open>The notification bootstrap\<close>

text \<open>The replies of the Plex services: status of the identity request and its user, of the
  settings request, and of each opt-out.  A missing reply is \<open>None\<close>.\<close>

record bootstrap_replies =
  br_identity :: "(nat \<times> user_identity option) option"
  br_settings :: "nat option"
  br_opt_out :: "string \<Rightarrow> nat option"

definition is_success :: "nat \<Rightarrow> bool" where
  "is_success s \<longleftrightarrow> 200 \<le> s \<and> s < 300"

definition opt_outs :: "string list" where
  "opt_outs = [''tv.plex.provider.vod'', ''tv.plex.provider.music'']"

definition bootstrap_success :: "bootstrap_replies \<Rightarrow> bool" where
  "bootstrap_success br =
     (case br_identity br of
        None \<Rightarrow> False
      | Some (status, user) \<Rightarrow>
          (if \<not> is_success status \<or> user = None then False
           else (case br_settings br of
                   None \<Rightarrow> False
                 | Some s \<Rightarrow>
                     foldl (\<lambda>ok key. case br_opt_out br key of
                                       None \<Rightarrow> False | Some t \<Rightarrow> ok \<and> is_success t)
                       (is_success s) opt_outs)))"

text \<open>The handler claims the job; the spawned task, run to its end, releases it.\<close>

definition notification_key :: "(string \<Rightarrow> string) \<Rightarrow> string \<Rightarrow> string" where
  "notification_key digest token = ''notifications:'' @ token_scope digest (Some token)"

definition ntf_watchlist_force ::
  "(string \<Rightarrow> string) \<Rightarrow> bool \<Rightarrow> plex_context \<Rightarrow> nat \<Rightarrow> jobs \<Rightarrow> string option \<times> jobs" where
  "ntf_watchlist_force digest skip cx now js =
     (if skip then (None, js)
      else (case (cx_token cx, cx_client_identifier cx) of
              (Some token, Some _) \<Rightarrow>
                (case try_start (now, notification_key digest token) js of
                   (started, js') \<Rightarrow> (if started then Some (notification_key digest token) else None, js'))
            | _ \<Rightarrow> (None, js)))"

definition bootstrap_task :: "string \<Rightarrow> bootstrap_replies \<Rightarrow> jobs \<Rightarrow> jobs" where
  "bootstrap_task k br js = finish_job (k, bootstrap_success br) js"

subsection \<open>Laws of the stream gate\<close>

lemma deliver_proxy: "deliver_stream (choose_delivery True b) c ev m = (Proxied, proxied_metrics ev m)"
  by (simp add: deliver_stream_def choose_delivery_def)

text \<open>The policy the gate applies, when it gets that far.\<close>

definition gate_policy :: "stream_env \<Rightarrow> resolution_policy option" where
  "gate_policy ev =
     (case (st_config ev, st_snapshot ev) of
        (Some c, Some snap) \<Rightarrow>
          (if \<not> ps_enabled snap \<or> st_upstream ev = None \<or> \<not> st_client_ok ev then None
           else (case st_security ev of
                   Some (Resolved sc) \<Rightarrow> Some (sc_policy sc)
                 | Some (Unavailable _ _) \<Rightarrow> None
                 | None \<Rightarrow>
                     (case st_user ev of
                        Inl _ \<Rightarrow> None
                      | Inr i \<Rightarrow> Some (resolve_policy (ps_entries snap) (ps_default_limit snap)
                                  (ps_hidden_collections snap) i))))
      | _ \<Rightarrow> None)"

lemma gate_policyE:
  assumes "gate_policy ev = Some p"
  obtains c snap where "st_config ev = Some c" "st_snapshot ev = Some snap"
    "protected_redirect_stream ev m =
     (if stream_restricted p then gate_restricted p c ev m
      else deliver_stream (choose_delivery False (cf_redirect_streams c)) c ev m)"
  using assms
  by (auto simp: gate_policy_def protected_redirect_stream_def Let_def
      split: option.splits if_splits security_state.splits sum.splits)

lemma gate_restricted_reply:
  "fst (gate_restricted p c ev m) =
   (case Option.bind (st_part ev) parse_i64 of
      None \<Rightarrow> Proxied
    | Some part \<Rightarrow>
        (case st_parts ev part of
           Some known \<Rightarrow> if part_classification_allowed known p then Proxied else Refused 403
         | None \<Rightarrow> Refused 403))"
  by (simp add: gate_restricted_def Let_def deliver_proxy split: option.split)

lemma restricted_never_redirected:
  assumes "gate_policy ev = Some p" and "stream_restricted p"
  shows "fst (protected_redirect_stream ev m) \<noteq> RedirectTo u"
  by (rule gate_policyE [OF assms(1), of m])
    (use assms(2) in \<open>simp add: gate_restricted_reply split: option.split\<close>)

lemma restricted_part:
  assumes "gate_policy ev = Some p" and "stream_restricted p"
    and "st_part ev = Some t" and "parse_i64 t = Some part"
  shows "fst (protected_redirect_stream ev m) =
         (if \<exists>known. st_parts ev part = Some known \<and> part_classification_allowed known p
          then Proxied else Refused 403)"
  by (rule gate_policyE [OF assms(1), of m])
    (use assms in \<open>auto simp: gate_restricted_reply split: option.split\<close>)

lemma restricted_refusals_counted:
  assumes "gate_policy ev = Some p" and "stream_restricted p"
  shows "snd (protected_redirect_stream ev m) =
         (if fst (protected_redirect_stream ev m) = Refused 403 then policy_reject m
          else proxied_metrics ev m)"
  by (rule gate_policyE [OF assms(1), of m])
    (use assms(2) in \<open>auto simp: gate_restricted_def Let_def deliver_proxy split: option.split\<close>)

text \<open>A path parameter that is no number leaves the part unchecked.\<close>

lemma malformed_part_proxied:
  assumes "gate_policy ev = Some p" and "stream_restricted p"
    and "st_part ev = Some t" and "parse_i64 t = None"
  shows "fst (protected_redirect_stream ev m) = Proxied"
  by (rule gate_policyE [OF assms(1), of m])
    (use assms in \<open>simp add: gate_restricted_reply\<close>)

lemma unrestricted_delivery:
  assumes "gate_policy ev = Some p" and "\<not> stream_restricted p" and "st_config ev = Some c"
    and "st_upstream ev = Some up"
  shows "protected_redirect_stream ev m =
         (if cf_redirect_streams c
          then (RedirectTo (unwrap_or (cf_redirect_streams_host c) up @ st_uri ev), count_redirect m)
          else (Proxied, proxied_metrics ev m))"
  by (rule gate_policyE [OF assms(1), of m])
    (use assms in \<open>simp add: deliver_stream_def choose_delivery_def perform_stream_redirect_def\<close>)

lemma gate_fails_closed:
  assumes "st_config ev = Some c" "st_snapshot ev = Some snap" "ps_enabled snap"
    and "st_upstream ev \<noteq> None" "st_client_ok ev" "st_security ev = Some (Unavailable True e)"
  shows "protected_redirect_stream ev m = (Refused 503, m)"
  using assms by (auto simp: protected_redirect_stream_def)

text \<open>With the facts of an item recorded, the gate decides a part as the policy decides its version.\<close>

lemma gate_follows_enforcement:
  assumes "gate_policy ev = Some p" and "stream_restricted p"
    and "st_part ev = Some t" "parse_i64 t = Some (p_id part)" and "part \<in> set (m_parts v)"
    and "ms = before @ v # after" and "\<forall>w \<in> set after. p_id part \<notin> p_id ` set (m_parts w)"
    and "st_parts ev = cache_part_classification ms cache"
  shows "fst (protected_redirect_stream ev m) = Proxied \<longleftrightarrow>
         media_allowed v p \<and> (\<forall>mb. rp_max_bitrate p = Some mb \<longrightarrow> (\<exists>b. m_bitrate v = Some b \<and> b \<le> mb))"
proof -
  have "st_parts ev (p_id part) = Some (classification_of v)"
    using assms(5-8) by (simp add: cache_part_classification_last)
  with restricted_part [OF assms(1-4)] show ?thesis by (simp add: part_allowed_iff)
qed

subsection \<open>Laws of the small routes\<close>

lemma fix_photo_dimensions:
  assumes "cx_size cx = Some value" "contains value ''-''" "last (split_on CHR ''-'' value) = edge"
    and "edge \<noteq> []" and "rq_absolute r"
  shows "mm_get (rq_query (fix_photo_transcode_request (Some cx) r)) ''width'' = Some edge"
    and "mm_get (rq_query (fix_photo_transcode_request (Some cx) r)) ''height'' = Some edge"
  using assms by (simp_all add: fix_photo_transcode_request_def add_query_param_get Let_def)

lemma hero_image_location:
  "hero_image_route uri_ok url_text cok ty uuid ok art = Inr u \<Longrightarrow>
   uri_ok u \<or> (\<exists>v. url_text v = Some u)"
  by (auto simp: hero_image_route_def Let_def split: if_splits option.splits)

lemma bootstrap_success_iff:
  "bootstrap_success br \<longleftrightarrow>
   (\<exists>s u t. br_identity br = Some (s, Some u) \<and> is_success s
      \<and> br_settings br = Some t \<and> is_success t
      \<and> (\<forall>k \<in> set opt_outs. \<exists>x. br_opt_out br k = Some x \<and> is_success x))"
  by (auto simp: bootstrap_success_def opt_outs_def split: option.splits)

text \<open>A bootstrap that was started is not started again, while it runs and for an hour after.\<close>

lemma bootstrap_once:
  assumes "ntf_watchlist_force digest skip cx now js = (Some k, js')" and "now' < now + cooldown_ttl"
  shows "fst (ntf_watchlist_force digest skip' cx now' (bootstrap_task k br js')) = None"
proof -
  obtain token where t: "cx_token cx = Some token" "k = notification_key digest token"
    "try_start (now, k) js = (True, js')"
    using assms(1)
    by (auto simp: ntf_watchlist_force_def split: if_splits option.splits prod.splits)
  have "jb_cooldown (bootstrap_task k br js') k = Some now"
    using try_start_cools [OF t(3)] by (simp add: bootstrap_task_def finish_keeps_cooldown)
  then have "cooling now' k (bootstrap_task k br js')"
    using assms(2) by (simp add: cooling_def)
  then show ?thesis using t
    by (simp add: ntf_watchlist_force_def try_start_def split: option.split)
qed

end
