(* ===== verification/Hub_Cache.thy ===== *)
theory Hub_Cache
  imports Cache_Keys Config Single_Flight Models Disk_Cache
begin

text \<open>
  \<open>src/hub_cache.rs\<close>: staleness of hub payloads, the single-flight background refresh with its
  rate limit, the upstream fetch with its fallback, and the requests that invalidate.

  The caches are maps; the clock counts seconds.  A payload is a \<open>media_container\<close>.  The
  upstream is the function \<open>get\<close> from a path to what the request returned.  The refresh is given
  twice: as the whole task (\<open>spawn_hub_refresh\<close>), and as a step relation in which the tasks of
  many requests and of the warmer interleave between the points where the code awaits.
\<close>

named_theorems hub_simps \<open>equations of the hub cache\<close>

subsection \<open>State\<close>

record hub_state =
  hs_payloads :: "string \<Rightarrow> media_container option"  \<comment> \<open>\<open>PlexClient::cache\<close>\<close>
  hs_fetched_at :: "string \<Rightarrow> nat option"
  hs_last_attempt :: "string \<Rightarrow> nat option"
  hs_inflight :: "string list"

definition initial_hub :: hub_state where
  "initial_hub = \<lparr>hs_payloads = (\<lambda>_. None), hs_fetched_at = (\<lambda>_. None),
     hs_last_attempt = (\<lambda>_. None), hs_inflight = []\<rparr>"

definition refresh_min_interval :: nat where "refresh_min_interval = 60"

definition track_fetched :: "nat \<Rightarrow> string \<Rightarrow> hub_state \<Rightarrow> hub_state" where
  "track_fetched now k s = s\<lparr>hs_fetched_at := (hs_fetched_at s)(k \<mapsto> now)\<rparr>"

definition is_older_than :: "nat option \<Rightarrow> nat \<Rightarrow> nat \<Rightarrow> bool" where
  "is_older_than fetched_at max_age now =
     (case fetched_at of Some t \<Rightarrow> now - t \<ge> max_age | None \<Rightarrow> True)"

definition is_stale :: "nat \<Rightarrow> string \<Rightarrow> nat \<Rightarrow> hub_state \<Rightarrow> bool" where
  "is_stale now k max_age s = is_older_than (hs_fetched_at s k) max_age now"

definition mark_all_hubs_stale :: "hub_state \<Rightarrow> hub_state" where
  "mark_all_hubs_stale s = s\<lparr>hs_fetched_at := (\<lambda>_. None)\<rparr>"

subsection \<open>The upstream fetch\<close>

text \<open>A response has a status and, when its body parses, a payload.\<close>

datatype upstream = Failed | Response nat "media_container option"

definition fetch_hubs_payload :: "(string \<Rightarrow> upstream) \<Rightarrow> string \<Rightarrow> media_container option" where
  "fetch_hubs_payload get key_path =
     (case get key_path of
        Failed \<Rightarrow> None
      | Response status body \<Rightarrow>
          (case (if status = 404 \<and> starts_with key_path ''/hubs/home''
                 then get (replace_first key_path ''/hubs/home'' ''/hubs/promoted'')
                 else Response status body) of
             Failed \<Rightarrow> None
           | Response status' body' \<Rightarrow> if status' \<noteq> 200 then None else body'))"

subsection \<open>The background refresh\<close>

definition claim_refresh :: "string \<Rightarrow> hub_state \<Rightarrow> bool \<times> hub_state" where
  "claim_refresh k s =
     (if k \<in> set (hs_inflight s) then (False, s)
      else (True, s\<lparr>hs_inflight := k # hs_inflight s\<rparr>))"

definition release_refresh :: "string \<Rightarrow> hub_state \<Rightarrow> hub_state" where
  "release_refresh k s = s\<lparr>hs_inflight := filter (\<lambda>j. j \<noteq> k) (hs_inflight s)\<rparr>"

definition refresh_hub_entry ::
  "(string \<Rightarrow> upstream) \<Rightarrow> nat \<Rightarrow> string \<Rightarrow> string \<Rightarrow> hub_state \<Rightarrow> hub_state" where
  "refresh_hub_entry get now key_path k s =
     (case fetch_hubs_payload get key_path of
        Some payload \<Rightarrow>
          track_fetched now k (s\<lparr>hs_payloads := (hs_payloads s)(k \<mapsto> payload)\<rparr>)
      | None \<Rightarrow> s)"

definition rate_limited :: "nat \<Rightarrow> string \<Rightarrow> hub_state \<Rightarrow> bool" where
  "rate_limited now k s =
     (case hs_last_attempt s k of Some t \<Rightarrow> now - t < refresh_min_interval | None \<Rightarrow> False)"

definition spawn_hub_refresh ::
  "(string \<Rightarrow> upstream) \<Rightarrow> nat \<Rightarrow> string \<Rightarrow> string \<Rightarrow> hub_state \<Rightarrow> hub_state" where
  "spawn_hub_refresh get now key_path k s =
     (if rate_limited now k s then s
      else (case claim_refresh k s of
              (False, s') \<Rightarrow> s'
            | (True, s') \<Rightarrow>
                (let s1 = s'\<lparr>hs_last_attempt := (hs_last_attempt s')(k \<mapsto> now)\<rparr>;
                     s2 = refresh_hub_entry get now key_path k s1
                 in release_refresh k s2)))"

interpretation refresh_flight: single_flight claim_refresh "\<lambda>k. k" release_refresh "\<lambda>k. k"
  "\<lambda>s. set (hs_inflight s)"
  by unfold_locales (auto simp: claim_refresh_def release_refresh_def split: if_splits)

subsection \<open>Invalidation\<close>

definition is_playback_invalidation :: "string \<Rightarrow> string option \<Rightarrow> bool" where
  "is_playback_invalidation path query =
     (if ends_with path ''/:/scrobble'' \<or> ends_with path ''/:/unscrobble'' then True
      else if ends_with path ''/:/timeline''
      then Option.bind query (\<lambda>q. first_opt
             (List.map_filter (\<lambda>p. strip_prefix p ''state='') (split_on CHR ''&'' q)))
           = Some ''stopped''
      else False)"

subsection \<open>Interleaved refreshes\<close>

text \<open>A refresh task between two awaits: after the rate-limit check, after the claim, after
  recording the attempt (where the warmer joins, which records none), and after storing.\<close>

datatype refresh_pc = Checked | Claimed | Recorded | Refreshed

definition holds_claim :: "refresh_pc \<Rightarrow> bool" where
  "holds_claim pc \<longleftrightarrow> pc \<noteq> Checked"

type_synonym hub_tasks = "(string \<times> refresh_pc) list"

inductive hub_step :: "nat \<times> hub_state \<times> hub_tasks \<Rightarrow> nat \<times> hub_state \<times> hub_tasks \<Rightarrow> bool" where
  tick: "now \<le> now' \<Longrightarrow> hub_step (now, s, ts) (now', s, ts)"
| check: "\<not> rate_limited now k s \<Longrightarrow> hub_step (now, s, ts) (now, s, (k, Checked) # ts)"
| claim: "claim_refresh k s = (True, s') \<Longrightarrow>
    hub_step (now, s, xs @ (k, Checked) # ys) (now, s', xs @ (k, Claimed) # ys)"
| refuse: "claim_refresh k s = (False, s') \<Longrightarrow>
    hub_step (now, s, xs @ (k, Checked) # ys) (now, s', xs @ ys)"
| record_attempt: "hub_step (now, s, xs @ (k, Claimed) # ys)
    (now, s\<lparr>hs_last_attempt := (hs_last_attempt s)(k \<mapsto> now)\<rparr>, xs @ (k, Recorded) # ys)"
| warm_claim: "claim_refresh k s = (True, s') \<Longrightarrow>
    hub_step (now, s, ts) (now, s', (k, Recorded) # ts)"
| store: "s' = refresh_hub_entry get now path k s \<Longrightarrow>
    hub_step (now, s, xs @ (k, Recorded) # ys) (now, s', xs @ (k, Refreshed) # ys)"
| finish: "hub_step (now, s, xs @ (k, Refreshed) # ys) (now, release_refresh k s, xs @ ys)"
| foreground: "hub_step (now, s, ts)
    (now, track_fetched now k (s\<lparr>hs_payloads := (hs_payloads s)(k \<mapsto> payload)\<rparr>), ts)"
| invalidate: "hub_step (now, s, ts) (now, mark_all_hubs_stale s, ts)"

inductive hub_reachable :: "nat \<times> hub_state \<times> hub_tasks \<Rightarrow> bool" where
  start: "hub_reachable (now, initial_hub, [])"
| step: "hub_reachable c \<Longrightarrow> hub_step c c' \<Longrightarrow> hub_reachable c'"

inductive_cases hub_stepE: "hub_step (now, s, ts) c'"

subsection \<open>Laws\<close>

lemmas hub_defs [hub_simps] =
  track_fetched_def claim_refresh_def release_refresh_def mark_all_hubs_stale_def
  refresh_hub_entry_def

definition claimed :: "hub_tasks \<Rightarrow> string list" where
  "claimed ts = map fst (filter (\<lambda>(_, pc). holds_claim pc) ts)"

lemma claimed_simps [simp]:
  "claimed [] = []"
  "claimed ((k, pc) # ts) = (if holds_claim pc then k # claimed ts else claimed ts)"
  "claimed (xs @ ys) = claimed xs @ claimed ys"
  by (simp_all add: claimed_def)

lemma holds_claim_simps [simp]:
  "\<not> holds_claim Checked" "holds_claim Claimed" "holds_claim Recorded" "holds_claim Refreshed"
  by (simp_all add: holds_claim_def)

lemma refresh_hub_entry_inflight [simp]:
  "hs_inflight (refresh_hub_entry get now path k s) = hs_inflight s"
  "hs_last_attempt (refresh_hub_entry get now path k s) = hs_last_attempt s"
  by (simp_all add: refresh_hub_entry_def track_fetched_def split: option.splits)

definition flight_inv :: "hub_state \<Rightarrow> hub_tasks \<Rightarrow> bool" where
  "flight_inv s ts \<longleftrightarrow> distinct (claimed ts) \<and> set (claimed ts) = set (hs_inflight s)"

lemma flight_inv_claim:
  "claim_refresh k s = (True, s') \<Longrightarrow> flight_inv s (xs @ ys) \<Longrightarrow> holds_claim pc \<Longrightarrow>
   flight_inv s' (xs @ (k, pc) # ys)"
  by (auto simp: flight_inv_def claim_refresh_def split: if_splits)

lemma flight_inv_release:
  assumes "flight_inv s (xs @ (k, pc) # ys)" "holds_claim pc"
  shows "flight_inv (release_refresh k s) (xs @ ys)"
proof -
  from assms have d: "distinct (claimed xs @ k # claimed ys)"
    and e: "set (claimed xs @ k # claimed ys) = set (hs_inflight s)"
    by (simp_all add: flight_inv_def)
  from d have "set (claimed xs @ claimed ys) = set (claimed xs @ k # claimed ys) - {k}" by auto
  with d e show ?thesis by (auto simp: flight_inv_def release_refresh_def)
qed

lemma flight_inv_same:
  "hs_inflight s' = hs_inflight s \<Longrightarrow> claimed ts' = claimed ts \<Longrightarrow> flight_inv s ts \<Longrightarrow> flight_inv s' ts'"
  by (simp add: flight_inv_def)

lemma hub_step_inv:
  "hub_step c c' \<Longrightarrow> flight_inv (fst (snd c)) (snd (snd c)) \<Longrightarrow> flight_inv (fst (snd c')) (snd (snd c'))"
proof (induction rule: hub_step.induct)
  case (claim k s s' now xs ys)
  then have "flight_inv s (xs @ ys)" by (simp add: flight_inv_def)
  with claim(1) show ?case by (simp add: flight_inv_claim)
next
  case (warm_claim k s s' now ts)
  then show ?case using flight_inv_claim [of k s s' "[]" ts] by simp
next
  case (refuse k s s' now xs ys)
  then show ?case by (auto simp: flight_inv_def claim_refresh_def split: if_splits)
next
  case (finish now s xs k ys)
  then show ?case using flight_inv_release by simp
qed (auto elim!: flight_inv_same [rotated 2] simp: track_fetched_def mark_all_hubs_stale_def)

lemma hub_reachable_inv: "hub_reachable (now, s, ts) \<Longrightarrow> flight_inv s ts"
proof (induction "(now, s, ts)" arbitrary: now s ts rule: hub_reachable.induct)
  case (start now)
  then show ?case by (auto simp: flight_inv_def initial_hub_def)
next
  case (step c)
  obtain n0 s0 ts0 where c: "c = (n0, s0, ts0)" by (cases c)
  from step(2) [OF c] hub_step_inv [OF step(3)] c show ?case by simp
qed

lemma hub_step_keeps_payloads:
  "hub_step (now, s, ts) (now', s', ts') \<Longrightarrow> hs_payloads s k \<noteq> None \<Longrightarrow> hs_payloads s' k \<noteq> None"
  by (erule hub_stepE) (auto simp: hub_defs split: if_splits option.splits)

lemma hub_run_keeps_payloads:
  "hub_step\<^sup>*\<^sup>* c c' \<Longrightarrow> hs_payloads (fst (snd c)) k \<noteq> None \<Longrightarrow> hs_payloads (fst (snd c')) k \<noteq> None"
proof (induction rule: rtranclp_induct)
  case (step y z)
  obtain a b d where y: "y = (a, b, d)" by (cases y) auto
  obtain a' b' d' where z: "z = (a', b', d')" by (cases z) auto
  show ?case using hub_step_keeps_payloads [of a b d a' b' d' k] step y z by simp
qed simp

lemma refresh_failure_keeps:
  "fetch_hubs_payload get path = None \<Longrightarrow> refresh_hub_entry get now path k s = s"
  by (simp add: refresh_hub_entry_def)

lemma refresh_success:
  assumes "fetch_hubs_payload get path = Some p"
  shows "hs_payloads (refresh_hub_entry get now path k s) k = Some p"
    and "is_stale t k age (refresh_hub_entry get now path k s) \<longleftrightarrow> t - now \<ge> age"
  using assms by (simp_all add: refresh_hub_entry_def track_fetched_def is_stale_def is_older_than_def)

lemma marked_stale: "is_stale now k age (mark_all_hubs_stale s)"
  and marked_keeps: "hs_payloads (mark_all_hubs_stale s) = hs_payloads s"
  by (simp_all add: is_stale_def is_older_than_def mark_all_hubs_stale_def)

text \<open>The whole task is one way through the steps.\<close>

lemma spawn_refines:
  assumes "k \<notin> set (hs_inflight s)"
  shows "hub_step\<^sup>*\<^sup>* (now, s, ts) (now, spawn_hub_refresh get now path k s, ts)"
proof (cases "rate_limited now k s")
  case False
  obtain s1 where c: "claim_refresh k s = (True, s1)"
    using assms by (simp add: claim_refresh_def)
  let ?s2 = "s1\<lparr>hs_last_attempt := (hs_last_attempt s1)(k \<mapsto> now)\<rparr>"
  let ?s3 = "refresh_hub_entry get now path k ?s2"
  have "hub_step\<^sup>*\<^sup>* (now, s, ts) (now, s, (k, Checked) # ts)"
    using hub_step.check [OF False] by (rule r_into_rtranclp)
  also have "hub_step\<^sup>*\<^sup>* \<dots> (now, s1, (k, Claimed) # ts)"
    using hub_step.claim [OF c, of now "[]" ts] by (simp add: r_into_rtranclp)
  also have "hub_step\<^sup>*\<^sup>* \<dots> (now, ?s2, (k, Recorded) # ts)"
    using hub_step.record_attempt [of now s1 "[]" k ts] by (simp add: r_into_rtranclp)
  also have "hub_step\<^sup>*\<^sup>* \<dots> (now, ?s3, (k, Refreshed) # ts)"
    using hub_step.store [where s = ?s2 and xs = "[]" and ys = ts and now = now and get = get
        and path = path and k = k, OF refl] by (simp add: r_into_rtranclp)
  also have "hub_step\<^sup>*\<^sup>* \<dots> (now, release_refresh k ?s3, ts)"
    using hub_step.finish [of now ?s3 "[]" k ts] by (simp add: r_into_rtranclp)
  finally show ?thesis
    using False c by (simp add: spawn_hub_refresh_def Let_def)
qed (simp add: spawn_hub_refresh_def)

lemma spawn_rate_limit:
  assumes "hs_last_attempt s k = Some t" "now < t + refresh_min_interval"
  shows "spawn_hub_refresh get now path k s = s"
  using assms by (auto simp: spawn_hub_refresh_def rate_limited_def refresh_min_interval_def)

lemma spawn_records:
  "\<not> rate_limited now k s \<Longrightarrow> k \<notin> set (hs_inflight s) \<Longrightarrow>
   hs_last_attempt (spawn_hub_refresh get now path k s) k = Some now"
  by (simp add: spawn_hub_refresh_def claim_refresh_def release_refresh_def Let_def)

text \<open>The check of the interval and the claim are two steps: a task that checked before another
  one recorded its attempt still claims the key inside the interval, once the other is done.\<close>

lemma checked_pair_claims_twice:
  assumes "hub_reachable (now, s, [])" "\<not> rate_limited now k s"
  shows "\<exists>s'. hub_reachable (now, s', [(k, Claimed)]) \<and> rate_limited now k s'"
proof -
  obtain s1 where c: "claim_refresh k s = (True, s1)"
    using hub_reachable_inv [OF assms(1)] by (simp add: claim_refresh_def flight_inv_def)
  let ?s2 = "s1\<lparr>hs_last_attempt := (hs_last_attempt s1)(k \<mapsto> now)\<rparr>"
  let ?s3 = "refresh_hub_entry (\<lambda>_. Failed) now [] k ?s2"
  let ?s4 = "release_refresh k ?s3"
  obtain s5 where d: "claim_refresh k ?s4 = (True, s5)"
    by (simp add: claim_refresh_def release_refresh_def)
  have "hub_reachable (now, s, [(k, Checked), (k, Checked)])"
    by (meson assms hub_reachable.step hub_step.check)
  then have "hub_reachable (now, s1, [(k, Claimed), (k, Checked)])"
    using hub_step.claim [OF c, of now "[]" "[(k, Checked)]"] by (auto intro: hub_reachable.step)
  then have "hub_reachable (now, ?s2, [(k, Recorded), (k, Checked)])"
    using hub_step.record_attempt [of now s1 "[]" k "[(k, Checked)]"]
    by (auto intro: hub_reachable.step)
  then have "hub_reachable (now, ?s3, [(k, Refreshed), (k, Checked)])"
    using hub_step.store [OF refl, of now ?s2 "[]" k "[(k, Checked)]" "\<lambda>_. Failed" "[]"]
    by (auto intro: hub_reachable.step)
  then have "hub_reachable (now, ?s4, [(k, Checked)])"
    using hub_step.finish [of now ?s3 "[]" k "[(k, Checked)]"] by (auto intro: hub_reachable.step)
  then have "hub_reachable (now, s5, [(k, Claimed)])"
    using hub_step.claim [OF d, of now "[]" "[]"] by (auto intro: hub_reachable.step)
  moreover have "rate_limited now k s5"
    using c d by (auto simp: claim_refresh_def release_refresh_def rate_limited_def
        refresh_min_interval_def split: if_splits)
  ultimately show ?thesis by blast
qed

subsection \<open>Laws of the fetch and the keys\<close>

lemma fetch_home_fallback:
  assumes "get path = Response 404 b" "starts_with path ''/hubs/home''"
    and "get (replace_first path ''/hubs/home'' ''/hubs/promoted'') = Response 200 (Some p)"
  shows "fetch_hubs_payload get path = Some p"
  using assms by (simp add: fetch_hubs_payload_def)

lemma fetch_success_status:
  "fetch_hubs_payload get path = Some p \<Longrightarrow>
   get path = Response 200 (Some p) \<or>
   ((\<exists>b. get path = Response 404 b) \<and> starts_with path ''/hubs/home''
     \<and> get (replace_first path ''/hubs/home'' ''/hubs/promoted'') = Response 200 (Some p))"
  by (auto simp: fetch_hubs_payload_def split: upstream.splits if_splits)

definition hub_key_names :: "string set" where
  "hub_key_names =
     {''contentDirectoryID'', ''pinnedContentDirectoryID'', ''X-Plex-Container-Start'',
      ''X-Plex-Container-Size'', ''contentdirectoryid'', ''pinnedcontentdirectoryid'',
      ''x-plex-container-start'', ''x-plex-container-size''}"

lemma hub_key_parts_cong:
  assumes "\<And>n. n \<in> hub_key_names \<Longrightarrow> mm_get q n = mm_get q' n"
  shows "hub_fetch_parts q = hub_fetch_parts q'"
  unfolding hub_fetch_parts_def
  by (rule arg_cong [where f = "sort_key fst"], rule map_filter_ext)
    (auto simp: assms hub_key_names_def)

lemma cache_key_cong:
  assumes "rq_path r = rq_path r'" "hub_fetch_parts (rq_query r) = hub_fetch_parts (rq_query r')"
  shows "cache_key_for_request r = cache_key_for_request r'"
    and "canonical_fetch_path r key_path = canonical_fetch_path r' key_path"
  using assms by (simp_all add: cache_key_for_request_def canonical_fetch_path_def Let_def
      flip: hub_parts_agree)

end
