(* ===== verification/Cached_Routes.thy ===== *)
theory Cached_Routes
  imports Policy_Transform Hub_Cache Metrics
begin

text \<open>
  The routes of \<open>src/routes.rs\<close> that answer from the caches: the generic proxy, the policy
  transform of a response, the library pages over the disk cache, and the artwork cache.

  A handler is a function of the request and of \<open>web_state\<close>, the caches and counters it changes.
  The URI of a request enters as its text \<open>raw\<close> beside the decoded request.  JSON parsing, the
  rendering of a container, and the upstream are parameters (\<open>route_env\<close>); so is the outcome of
  \<open>current_policy\<close> for the request.  The framework runs the handlers of a route one after the
  other until one asks to skip the rest.
\<close>

subsection \<open>Answers and state\<close>

text \<open>A streamed body may fail when it is read.\<close>

datatype body = NoBody | Once bytes | Streaming "bytes option"

record answer =
  an_status :: "nat option"
  an_type :: "string option"
  an_control :: "string option"
  an_body :: body

definition empty_answer :: answer where
  "empty_answer = \<lparr>an_status = None, an_type = None, an_control = None, an_body = NoBody\<rparr>"

datatype outcome = Served answer | Errored

text \<open>An image in the artwork cache.\<close>

record cached_image =
  im_content_type :: "string option"
  im_cache_control :: "string option"
  im_body :: bytes

record web_state =
  ws_disk :: disk
  ws_photos :: "(string \<times> cached_image) list"
  ws_hub :: hub_state
  ws_parts :: part_cache
  ws_metrics :: metrics

record route_env =
  re_sha :: "string \<Rightarrow> string"
  re_urls :: url_lib
  re_dir :: string
  re_max :: nat
  re_io :: disk_io
  re_parse :: "bytes \<Rightarrow> media_container option"
  re_render :: "content_type \<Rightarrow> media_container \<Rightarrow> bytes"
  re_upstream :: "request \<Rightarrow> string \<Rightarrow> answer"
  re_elapsed :: nat
  re_current :: "(resolution_policy \<times> user_identity) option"
  re_fail_closed :: bool
  re_client_ok :: bool
  re_skip :: bool

definition status_success :: "answer \<Rightarrow> bool" where
  "status_success a = (let s = unwrap_or (an_status a) 200 in 200 \<le> s \<and> s < 300)"

definition take_bytes :: "body \<Rightarrow> bytes option" where
  "take_bytes b = (case b of NoBody \<Rightarrow> Some [] | Once bs \<Rightarrow> Some bs | Streaming r \<Rightarrow> r)"

definition text_bytes :: "string \<Rightarrow> bytes" where
  "text_bytes s = map (\<lambda>c. word_of_nat (of_char c)) s"

definition bytes_text :: "bytes \<Rightarrow> string" where
  "bytes_text bs = map (\<lambda>b. char_of (unat b)) bs"

subsection \<open>The proxy\<close>

definition do_proxy_request :: "route_env \<Rightarrow> request \<Rightarrow> string \<Rightarrow> web_state \<Rightarrow> answer \<times> web_state" where
  "do_proxy_request ev r raw ws =
     (let a = re_upstream ev r raw in
      (a, ws\<lparr>ws_metrics :=
             observe_upstream (min (re_elapsed ev) u64_max) (status_success a) (ws_metrics ws)\<rparr>))"

definition raw_query :: "string \<Rightarrow> string option" where
  "raw_query raw = map_option snd (split_once CHR ''?'' raw)"

definition proxy_request :: "route_env \<Rightarrow> request \<Rightarrow> string \<Rightarrow> web_state \<Rightarrow> answer \<times> web_state" where
  "proxy_request ev r raw ws =
     do_proxy_request ev r raw
       (if is_playback_invalidation (rq_path r) (raw_query raw)
        then ws\<lparr>ws_hub := mark_all_hubs_stale (ws_hub ws)\<rparr> else ws)"

text \<open>\<open>proxy_for_transform\<close> asks for JSON and leaves the request as it was.\<close>

definition accept_json :: "request \<Rightarrow> request" where
  "accept_json r =
     r\<lparr>rq_headers := (''accept'', ''application/json'')
         # filter (\<lambda>(n, _). n \<noteq> ''accept'') (rq_headers r)\<rparr>"

definition proxy_for_transform :: "route_env \<Rightarrow> request \<Rightarrow> string \<Rightarrow> answer" where
  "proxy_for_transform ev r raw = re_upstream ev (accept_json r) raw"

subsection \<open>The policy transform of a response\<close>

definition request_content_type :: "request \<Rightarrow> content_type" where
  "request_content_type r =
     get_content_type_from_headers (header r ''content-type'') (header r ''accept'')"

definition rendered :: "route_env \<Rightarrow> request \<Rightarrow> media_container \<Rightarrow> answer \<Rightarrow> answer" where
  "rendered ev r c a =
     a\<lparr>an_type := Some (case request_content_type r of
                          Json \<Rightarrow> ''application/json; charset=utf-8''
                        | Xml \<Rightarrow> ''text/xml; charset=utf-8''),
       an_body := Once (re_render ev (request_content_type r) c)\<rparr>"

definition policy_transforms :: "route_env \<Rightarrow> transform list" where
  "policy_transforms ev =
     [resolution_policy_transform (re_current ev) (re_fail_closed ev),
      collection_visibility_transform (re_current ev)]"

text \<open>The items that pass the filter are classified when they are transformed.\<close>

definition walk_parts :: "route_env \<Rightarrow> media_container \<Rightarrow> part_cache \<Rightarrow> part_cache" where
  "walk_parts ev c parts =
     fold (policy_transform_cache (re_current ev))
       (filter (policy_transform_filter (re_current ev) (re_fail_closed ev)) (mc_children_mut c)) parts"

definition apply_policy_transforms ::
  "route_env \<Rightarrow> request \<Rightarrow> answer \<Rightarrow> web_state \<Rightarrow> answer option \<times> web_state" where
  "apply_policy_transforms ev r a ws =
     (case Option.bind (take_bytes (an_body a)) (re_parse ev) of
        None \<Rightarrow> (None, ws)
      | Some c \<Rightarrow>
          (if \<not> re_client_ok ev then (None, ws)
           else (Some (rendered ev r (apply_to (policy_transforms ev) c) a),
                 ws\<lparr>ws_parts := walk_parts ev c (ws_parts ws)\<rparr>)))"

definition transform_policy_response ::
  "route_env \<Rightarrow> request \<Rightarrow> answer \<Rightarrow> web_state \<Rightarrow> outcome \<times> web_state" where
  "transform_policy_response ev r a ws =
     (if unwrap_or (an_status a) 200 \<noteq> 200 then (Served a, ws)
      else (case apply_policy_transforms ev r a ws of
              (Some a', ws') \<Rightarrow> (Served a', ws')
            | (None, ws') \<Rightarrow> (Errored, ws')))"

subsection \<open>Library pages\<close>

definition library_prefix :: string where "library_prefix = ''/library/sections/''"

text \<open>The fetch form of a request; its decoded query follows its text.\<close>

definition normalized :: "route_env \<Rightarrow> string \<Rightarrow> string" where
  "normalized ev raw =
     (case normalize_library_fetch (re_urls ev) (Some raw) of Some raw' \<Rightarrow> raw' | None \<Rightarrow> raw)"

definition normalized_request :: "route_env \<Rightarrow> string \<Rightarrow> request \<Rightarrow> request" where
  "normalized_request ev raw r =
     (if normalized ev raw = raw then r else r\<lparr>rq_query := fetch_pairs (rq_query r)\<rparr>)"

definition page_key :: "route_env \<Rightarrow> string \<Rightarrow> request \<Rightarrow> string" where
  "page_key ev raw r = library_cache_key (re_sha ev) (re_urls ev) raw r"

definition library_cache_store ::
  "route_env \<Rightarrow> request \<Rightarrow> string \<Rightarrow> answer \<Rightarrow> web_state \<Rightarrow> answer \<times> web_state" where
  "library_cache_store ev r raw a ws =
     (if \<not> starts_with (rq_path r) library_prefix \<or> \<not> status_success a then (a, ws)
      else (case take_bytes (an_body a) of
              None \<Rightarrow> (a\<lparr>an_body := NoBody\<rparr>, ws)
            | Some bs \<Rightarrow>
                (if bs = [] then (a\<lparr>an_body := NoBody\<rparr>, ws)
                 else (a\<lparr>an_body := Once bs\<rparr>,
                       ws\<lparr>ws_disk := snd (put_body (re_sha ev) (re_dir ev) (re_max ev) (re_io ev)
                                        (page_key ev raw r) bs (ws_disk ws))\<rparr>))))"

text \<open>The rest of the route after the lookup: fetch, store, transform.\<close>

definition library_live :: "route_env \<Rightarrow> request \<Rightarrow> string \<Rightarrow> web_state \<Rightarrow> outcome \<times> web_state" where
  "library_live ev r raw ws =
     (case library_cache_store ev r raw (proxy_for_transform ev r raw) ws of
        (a, ws') \<Rightarrow> transform_policy_response ev r a ws')"

definition cached_page :: "bytes \<Rightarrow> answer" where
  "cached_page data =
     \<lparr>an_status = None, an_type = Some ''application/json'', an_control = Some ''no-cache'',
      an_body = Once data\<rparr>"

definition library_miss :: "route_env \<Rightarrow> request \<Rightarrow> string \<Rightarrow> web_state \<Rightarrow> outcome \<times> web_state" where
  "library_miss ev r raw ws =
     library_live ev (normalized_request ev raw r) (normalized ev raw)
       (ws\<lparr>ws_metrics := cache_miss (ws_metrics ws)\<rparr>)"

definition library_cache_lookup :: "route_env \<Rightarrow> request \<Rightarrow> string \<Rightarrow> web_state \<Rightarrow> outcome \<times> web_state" where
  "library_cache_lookup ev r raw ws =
     (if \<not> starts_with (rq_path r) library_prefix then library_live ev r raw ws
      else (case get_body (re_sha ev) (re_dir ev) (re_io ev) (page_key ev raw r) (ws_disk ws) of
              (None, d) \<Rightarrow> library_miss ev r raw (ws\<lparr>ws_disk := d\<rparr>)
            | (Some data, d) \<Rightarrow>
                (case apply_policy_transforms ev r (cached_page data)
                        (ws\<lparr>ws_disk := d, ws_metrics := cache_hit (ws_metrics ws)\<rparr>) of
                   (Some a, ws') \<Rightarrow> (Served a, ws')
                 | (None, ws') \<Rightarrow>
                     library_miss ev r raw
                       (ws'\<lparr>ws_disk := remove_entry (re_io ev)
                               (path_for_key (re_sha ev) (re_dir ev) (page_key ev raw r))
                               (ws_disk ws')\<rparr>))))"

subsection \<open>Artwork\<close>

definition is_image :: "answer \<Rightarrow> bool" where
  "is_image a = (case an_type a of Some t \<Rightarrow> starts_with t ''image/'' | None \<Rightarrow> False)"

definition photo_limit :: nat where "photo_limit = 4 * 1024 * 1024"

text \<open>The hoop returns its answer and whether it skips the handlers after it.\<close>

definition photo_fill :: "route_env \<Rightarrow> string \<Rightarrow> answer \<Rightarrow> web_state \<Rightarrow> web_state" where
  "photo_fill ev key a ws =
     (case an_body a of
        Once bs \<Rightarrow>
          (if status_success a \<and> is_image a \<and> length bs \<le> photo_limit
           then ws\<lparr>ws_photos := AList.update key
                       \<lparr>im_content_type = an_type a, im_cache_control = an_control a, im_body = bs\<rparr>
                       (ws_photos ws),
                   ws_disk := snd (put_full (re_sha ev) (re_dir ev) (re_max ev) (re_io ev) key bs
                                     (map_option text_bytes (an_type a)) (ws_disk ws))\<rparr>
           else ws)
      | _ \<Rightarrow> ws)"

definition photo_cache_hoop ::
  "route_env \<Rightarrow> request \<Rightarrow> string \<Rightarrow> web_state \<Rightarrow> answer \<times> bool \<times> web_state" where
  "photo_cache_hoop ev r raw ws =
     (if re_skip ev
      then (case do_proxy_request ev r raw ws of (a, ws') \<Rightarrow> (a, True, ws'))
      else
        (let key = photo_cache_key (re_sha ev) (re_urls ev) raw r in
         (case get_full (re_sha ev) (re_dir ev) (re_io ev) key (ws_disk ws) of
            (Some rc, d) \<Rightarrow>
              (\<lparr>an_status = None,
                an_type = Some (case cr_content_type rc of
                            Some t \<Rightarrow> if t \<noteq> [] then bytes_text t else ''image/jpeg''
                          | None \<Rightarrow> ''image/jpeg''),
                an_control = Some ''public, max-age=259200'', an_body = Once (cr_body rc)\<rparr>,
               False, ws\<lparr>ws_disk := d, ws_metrics := cache_hit (ws_metrics ws)\<rparr>)
          | (None, d) \<Rightarrow>
              (case map_of (ws_photos ws) key of
                 Some img \<Rightarrow>
                   (\<lparr>an_status = None, an_type = im_content_type img,
                     an_control = im_cache_control img, an_body = Once (im_body img)\<rparr>,
                    False, ws\<lparr>ws_disk := d, ws_metrics := cache_hit (ws_metrics ws)\<rparr>)
               | None \<Rightarrow>
                   (case do_proxy_request ev r raw
                           (ws\<lparr>ws_disk := d, ws_metrics := cache_miss (ws_metrics ws)\<rparr>) of
                      (a, ws') \<Rightarrow> (a, False, photo_fill ev key a ws'))))))"

text \<open>The route: unless the hoop skipped the rest or answered with an error or a redirect, the
  proxy runs after it, on the request as the hoops between rewrote it.\<close>

definition photo_route ::
  "route_env \<Rightarrow> (request \<Rightarrow> request \<times> string) \<Rightarrow> request \<Rightarrow> string \<Rightarrow> web_state \<Rightarrow> answer \<times> web_state" where
  "photo_route ev rewrite r raw ws =
     (case photo_cache_hoop ev r raw ws of
        (a, skipped, ws') \<Rightarrow>
          (if skipped \<or> unwrap_or (an_status a) 200 \<ge> 300 then (a, ws')
           else (case rewrite r of (r', raw') \<Rightarrow> proxy_request ev r' raw' ws')))"

subsection \<open>The key of a page is the same before and after the fetch is normalised\<close>

text \<open>Parsing a URL that was written from the path and some pairs of a parsed one gives those back.\<close>

definition url_roundtrip :: "url_lib \<Rightarrow> bool" where
  "url_roundtrip ul \<longleftrightarrow>
     (\<forall>raw u ps. ul_parse ul (''http://x'' @ raw) = Some u \<and> set ps \<subseteq> set (ur_pairs u) \<longrightarrow>
        ul_parse ul (''http://x'' @ fetch_form ul (ur_path u) ps) = Some (u\<lparr>ur_pairs := ps\<rparr>))"

lemma mm_iter_filter: "mm_iter (filter (\<lambda>(k, _). P k) q) = filter (\<lambda>(k, _). P k) (mm_iter q)"
proof (induction q rule: mm_iter.induct)
  case (2 k v q)
  have "filter (\<lambda>(k', _). k' \<noteq> k) (filter (\<lambda>(k, _). P k) q) =
        filter (\<lambda>(k, _). P k) (filter (\<lambda>(k', _). k' \<noteq> k) q)"
    by (auto simp: filter_filter intro!: filter_cong)
  moreover have "filter (\<lambda>(k, _). P k) (filter (\<lambda>(k', _). k' \<noteq> k) q) = filter (\<lambda>(k, _). P k) q"
    if "\<not> P k"
    using that by (auto simp: filter_filter intro!: filter_cong)
  moreover have "filter (\<lambda>(k, _). P k) (mm_iter (filter (\<lambda>(k', _). k' \<noteq> k) q)) =
      mm_iter (filter (\<lambda>(k, _). P k) (filter (\<lambda>(k', _). k' \<noteq> k) q))"
    using 2 by simp
  ultimately show ?case by (cases "P k") simp_all
qed simp

lemma find_filter: "(\<And>x. Q x \<Longrightarrow> P x) \<Longrightarrow> find Q (filter P xs) = find Q xs"
  by (induction xs) auto

lemma token_not_shaping: "eq_ignore_case k ''x-plex-token'' \<Longrightarrow> \<not> is_library_fetch_shaping k"
  by (auto simp: eq_ignore_case_def is_library_fetch_shaping_def) (simp_all add: str_simps)

lemma fetch_keeps_token:
  "request_token (r\<lparr>rq_query := fetch_pairs (rq_query r)\<rparr>) = request_token r"
proof -
  have "find_query_ci ''x-plex-token'' (fetch_pairs q) = find_query_ci ''x-plex-token'' q" for q
    unfolding find_query_ci_def fetch_pairs_def mm_iter_filter
    by (subst find_filter) (auto dest: token_not_shaping)
  then show ?thesis by (simp add: request_token_def header_def split: option.split)
qed

lemma normalized_path:
  assumes "url_roundtrip (re_urls ev)"
  shows "canonical_library_path (re_urls ev) (normalized ev raw) = canonical_library_path (re_urls ev) raw"
proof (cases "ul_parse (re_urls ev) (''http://x'' @ raw)")
  case (Some u)
  then have "ul_parse (re_urls ev) (''http://x'' @ fetch_form (re_urls ev) (ur_path u) (fetch_pairs (ur_pairs u)))
      = Some (u\<lparr>ur_pairs := fetch_pairs (ur_pairs u)\<rparr>)"
    using assms by (auto simp: url_roundtrip_def fetch_pairs_def)
  with Some show ?thesis
    by (simp add: normalized_def normalize_library_fetch_def canonical_library_path_def Let_def
        canonical_pairs_fetch)
qed (simp add: normalized_def normalize_library_fetch_def)

lemma page_key_normalized:
  "url_roundtrip (re_urls ev) \<Longrightarrow>
   page_key ev (normalized ev raw) (normalized_request ev raw r) = page_key ev raw r"
  by (simp add: page_key_def library_cache_key_def library_cache_key_for_def normalized_path
      normalized_request_def fetch_keeps_token)

subsection \<open>What a page may show\<close>

lemma policy_transforms_media:
  "container_media (apply_to (policy_transforms ev) c)
   \<subseteq> container_media (apply_one (resolution_policy_transform (re_current ev) (re_fail_closed ev)) c)"
  using visibility.safe_apply by (simp add: apply_to_def policy_transforms_def)

definition page_safe :: "route_env \<Rightarrow> media_container \<Rightarrow> bool" where
  "page_safe ev c \<longleftrightarrow>
     (case re_current ev of
        Some (p, _) \<Rightarrow> \<forall>m \<in> container_media c. media_allowed m p
      | None \<Rightarrow> re_fail_closed ev \<longrightarrow> container_media c = {})"

lemma policy_transforms_safe:
  assumes "single_list c" shows "page_safe ev (apply_to (policy_transforms ev) c)"
proof (cases "re_current ev")
  case None
  with policy_transforms_media [of ev c] policy_container_closed [OF assms]
  show ?thesis by (auto simp: page_safe_def)
next
  case (Some x)
  obtain p i where x: "x = (p, i)" by (cases x)
  have "media_allowed m p" if "m \<in> container_media (apply_to (policy_transforms ev) c)" for m
  proof (rule policy_container_allowed [OF assms])
    show "m \<in> container_media
        (apply_one (resolution_policy_transform (Some (p, i)) (re_fail_closed ev)) c)"
      using that policy_transforms_media [of ev c] Some x by auto
  qed
  with Some x show ?thesis by (simp add: page_safe_def)
qed

lemma apply_policyE:
  assumes "apply_policy_transforms ev r a ws = (Some b, ws')"
  obtains bs c where "take_bytes (an_body a) = Some bs" "re_parse ev bs = Some c" "re_client_ok ev"
    "b = rendered ev r (apply_to (policy_transforms ev) c) a"
  using assms
  by (auto simp: apply_policy_transforms_def split: option.splits if_splits Option.bind_splits)

lemma rendered_fields [simp]:
  "an_body (rendered ev r c a) = Once (re_render ev (request_content_type r) c)"
  "an_status (rendered ev r c a) = an_status a"
  by (simp_all add: rendered_def)

definition answer_safe :: "route_env \<Rightarrow> request \<Rightarrow> answer \<Rightarrow> bool" where
  "answer_safe ev r a \<longleftrightarrow>
     (\<exists>c. an_body a = Once (re_render ev (request_content_type r) c) \<and> page_safe ev c)"

lemma apply_policy_safe:
  assumes "apply_policy_transforms ev r a ws = (Some b, ws')"
    and "\<And>bs c. re_parse ev bs = Some c \<Longrightarrow> single_list c"
  shows "answer_safe ev r b"
proof -
  obtain bs c where "re_parse ev bs = Some c" "b = rendered ev r (apply_to (policy_transforms ev) c) a"
    using assms(1) by (rule apply_policyE)
  with assms(2) policy_transforms_safe show ?thesis by (auto simp: answer_safe_def)
qed

lemma transform_policy_safe:
  assumes "transform_policy_response ev r a ws = (Served b, ws')" and "unwrap_or (an_status b) 200 = 200"
    and "\<And>bs c. re_parse ev bs = Some c \<Longrightarrow> single_list c"
  shows "answer_safe ev r b"
proof -
  have "apply_policy_transforms ev r a ws = (Some b, ws')"
    using assms(1,2)
    by (auto simp: transform_policy_response_def split: if_splits option.splits prod.splits)
  then show ?thesis using assms(3) by (rule apply_policy_safe)
qed

lemma request_type_query: "request_content_type (normalized_request ev raw r) = request_content_type r"
  by (simp add: normalized_request_def request_content_type_def header_def)

lemma library_miss_safe:
  assumes "library_miss ev r raw ws = (Served b, ws')" and "unwrap_or (an_status b) 200 = 200"
    and "\<And>bs c. re_parse ev bs = Some c \<Longrightarrow> single_list c"
  shows "answer_safe ev r b"
proof -
  obtain a ws1 where "transform_policy_response ev (normalized_request ev raw r) a ws1 = (Served b, ws')"
    using assms(1) by (auto simp: library_miss_def library_live_def split: prod.splits)
  from transform_policy_safe [OF this assms(2,3)] show ?thesis
    by (simp add: answer_safe_def request_type_query)
qed

lemma library_live_safe:
  assumes "library_live ev r raw ws = (Served b, ws')" and "unwrap_or (an_status b) 200 = 200"
    and "\<And>bs c. re_parse ev bs = Some c \<Longrightarrow> single_list c"
  shows "answer_safe ev r b"
proof -
  obtain a ws1 where "transform_policy_response ev r a ws1 = (Served b, ws')"
    using assms(1) by (auto simp: library_live_def split: prod.splits)
  then show ?thesis using assms(2,3) by (rule transform_policy_safe)
qed

lemma library_lookup_safe:
  assumes "library_cache_lookup ev r raw ws = (Served b, ws')" and "unwrap_or (an_status b) 200 = 200"
    and "\<And>bs c. re_parse ev bs = Some c \<Longrightarrow> single_list c"
  shows "answer_safe ev r b"
proof -
  consider ws1 where "library_live ev r raw ws1 = (Served b, ws')"
    | ws1 where "library_miss ev r raw ws1 = (Served b, ws')"
    | a ws1 where "apply_policy_transforms ev r a ws1 = (Some b, ws')"
    using assms(1)
    by (auto simp: library_cache_lookup_def split: if_splits option.splits prod.splits)
  then show ?thesis
    using library_live_safe library_miss_safe apply_policy_safe assms(2,3) by cases blast+
qed

text \<open>A hit answers with the body that the live path makes of the same payload.\<close>

lemma hit_as_live:
  assumes "starts_with (rq_path r) library_prefix"
    and "get_body (re_sha ev) (re_dir ev) (re_io ev) (page_key ev raw r) (ws_disk ws) = (Some data, d)"
    and "transform_policy_response ev r (\<lparr>an_status = Some 200, an_type = t, an_control = cc,
           an_body = Once data\<rparr>) ws2 = (Served live, ws3)"
  shows "\<exists>a ws'. library_cache_lookup ev r raw ws = (Served a, ws') \<and> an_body a = an_body live
         \<and> ws_disk ws' = d"
proof -
  obtain c where c: "re_parse ev data = Some c" "re_client_ok ev"
    "an_body live = Once (re_render ev (request_content_type r) (apply_to (policy_transforms ev) c))"
    using assms(3)
    by (auto simp: transform_policy_response_def take_bytes_def split: option.splits prod.splits
        elim!: apply_policyE)
  then show ?thesis using assms(1,2)
    by (simp add: library_cache_lookup_def apply_policy_transforms_def cached_page_def take_bytes_def)
qed

subsection \<open>Artwork\<close>

lemma photo_fill_isolated:
  assumes "hex_digest sha" and "token_scope sha t \<noteq> token_scope sha t'"
  shows "map_of (ws_photos (photo_fill ev (photo_cache_key_for sha ul raw t) a ws))
           (photo_cache_key_for sha ul raw' t') =
         map_of (ws_photos ws) (photo_cache_key_for sha ul raw' t')"
proof -
  have "photo_cache_key_for sha ul raw' t' \<noteq> photo_cache_key_for sha ul raw t"
    using photo.isolated [OF assms(1)] assms(2) by metis
  then show ?thesis by (simp add: photo_fill_def update_conv' split: body.split)
qed

text \<open>A hit does not stop the route: the proxy answers after all.\<close>

lemma photo_hit_proxied:
  assumes "\<not> re_skip ev" and "photo_cache_hoop ev r raw ws = (a, skipped, ws')"
    and "map_of (ws_photos ws) (photo_cache_key (re_sha ev) (re_urls ev) raw r) = Some img
         \<or> fst (get_full (re_sha ev) (re_dir ev) (re_io ev)
                  (photo_cache_key (re_sha ev) (re_urls ev) raw r) (ws_disk ws)) \<noteq> None"
  shows "\<not> skipped"
    and "fst (photo_route ev rewrite r raw ws) = re_upstream ev (fst (rewrite r)) (snd (rewrite r))"
proof -
  have *: "\<not> skipped \<and> an_status a = None"
    using assms by (auto simp: photo_cache_hoop_def Let_def split: option.splits prod.splits)
  then show "\<not> skipped" by simp
  show "fst (photo_route ev rewrite r raw ws) = re_upstream ev (fst (rewrite r)) (snd (rewrite r))"
    using * assms(2)
    by (simp add: photo_route_def proxy_request_def do_proxy_request_def Let_def split: prod.split)
qed

subsection \<open>Invalidation by playback\<close>

lemma proxy_marks_stale:
  assumes "is_playback_invalidation (rq_path r) (raw_query raw)"
  shows "is_stale now k max_age (ws_hub (snd (proxy_request ev r raw ws)))"
  using assms
  by (simp add: proxy_request_def do_proxy_request_def Let_def mark_all_hubs_stale_def is_stale_def
      is_older_than_def)

lemma proxy_keeps_payloads:
  "hs_payloads (ws_hub (snd (proxy_request ev r raw ws))) = hs_payloads (ws_hub ws)"
  by (simp add: proxy_request_def do_proxy_request_def Let_def mark_all_hubs_stale_def)

end
