(* ===== verification/Router.thy ===== *)
theory Router
  imports Streams Cached_Routes
begin

text \<open>
  The table of routes of \<open>route_with_state\<close> in \<open>src/routes.rs\<close>: which hoops run in front of which
  handler for a path, a method and a configuration.

  The framework tries the routes in the order in which they were pushed; the first whose path
  matches and that has a handler for the method answers.  A \<open>goal\<close> takes every method.  Matching
  a path against a pattern is the framework's: \<open>matches pattern path\<close>.  The table is that of a
  release build; the debugging route of other builds comes after the one that matches every path.
\<close>

named_theorems route_simps \<open>the parts of the route table\<close>

subsection \<open>Handlers and routes\<close>

datatype handler =
    Protected_redirect_stream | Proxy_request | Disable_related_query | Timeout_after nat
  | Enforce_policy | Auto_select | Force_quality | Transcode_fallback | Direct_stream
  | Proxy_for_transform | Transform_policy_response | Library_cache_lookup | Library_cache_store
  | Empty_handler | Ntf_watchlist_force | Req_include_guids | Req_android | Req_content_directory
  | Cached_hubs_response | Hero_image | Serve_web_asset | Webhook_plex | Liveness | Readiness
  | Metrics_text | Cache_status | Cache_purge | Policy_reload | Explain_playback | Ping
  | Get_collections_children | Default_transform | Photo_cache_hoop | Fix_photo_transcode_request
  | Resolve_local_media_path

record route =
  rt_path :: string
  rt_hoops :: "handler list"
  rt_goals :: "(string option \<times> handler) list"  \<comment> \<open>\<open>None\<close>: every method\<close>

definition goal_route :: "string \<Rightarrow> handler list \<Rightarrow> handler \<Rightarrow> route" where
  "goal_route path hoops h = \<lparr>rt_path = path, rt_hoops = hoops, rt_goals = [(None, h)]\<rparr>"

definition method_route :: "string \<Rightarrow> handler list \<Rightarrow> string list \<Rightarrow> handler \<Rightarrow> route" where
  "method_route path hoops methods h =
     \<lparr>rt_path = path, rt_hoops = hoops, rt_goals = map (\<lambda>m. (Some m, h)) methods\<rparr>"

subsection \<open>The table, in its order\<close>

definition session_path :: string where
  "session_path = ''/video/<colon:colon>/transcode/universal/session/<**rest>''"
definition parts_path :: string where
  "parts_path = ''/library/parts/<itemid>/<partid>/file.<extension>''"
definition related_path :: string where "related_path = ''/library/metadata/<id>/related''"
definition queue_path :: string where "queue_path = ''/playQueues''"
definition decision_path :: string where
  "decision_path = ''/video/<colon:colon>/transcode/universal/decision''"
definition start_path :: string where
  "start_path = ''/video/<colon:colon>/transcode/universal/start<**rest>''"
definition subtitles_path :: string where
  "subtitles_path = ''/video/<colon:colon>/transcode/universal/subtitles''"
definition metadata_path :: string where "metadata_path = ''/library/metadata/<**rest>''"
definition sections_path :: string where "sections_path = ''/library/sections/<**rest>''"
definition continue_path :: string where "continue_path = ''/hubs/continueWatching''"
definition rest_path :: string where "rest_path = ''<**rest>''"

lemmas route_paths = session_path_def parts_path_def related_path_def queue_path_def
  decision_path_def start_path_def subtitles_path_def metadata_path_def sections_path_def
  continue_path_def rest_path_def

definition stream_routes :: "config \<Rightarrow> route list" where
  "stream_routes c =
     (if cf_redirect_streams c \<or> cf_resolution_policy_enabled c
      then [goal_route session_path [] Protected_redirect_stream,
            goal_route parts_path [] Protected_redirect_stream]
      else [])"

definition related_routes :: "config \<Rightarrow> route list" where
  "related_routes c =
     (if cf_disable_related c
      then [goal_route related_path [Timeout_after 5] Proxy_request,
            goal_route queue_path [Disable_related_query] Proxy_request]
      else [])"

definition shared_hoops :: "config \<Rightarrow> handler list" where
  "shared_hoops c =
     (if cf_resolution_policy_enabled c then [Enforce_policy] else [])
     @ (if cf_auto_select_version c then [Auto_select] else [])
     @ (if cf_force_maximum_quality c \<or> cf_disable_transcode c then [Force_quality] else [])"

definition playback_routes :: "config \<Rightarrow> route list" where
  "playback_routes c =
     [goal_route decision_path
        (shared_hoops c
         @ (if cf_video_transcode_fallback_for c \<noteq> None then [Transcode_fallback] else [])
         @ [Direct_stream]) Proxy_request,
      goal_route start_path (shared_hoops c) Proxy_request,
      goal_route subtitles_path (shared_hoops c) Proxy_request]"

definition policy_routes :: "config \<Rightarrow> route list" where
  "policy_routes c =
     (if cf_resolution_policy_enabled c
      then [method_route metadata_path [Proxy_for_transform] [''GET'', ''POST''] Transform_policy_response,
            method_route sections_path [Library_cache_lookup, Proxy_for_transform, Library_cache_store]
              [''GET''] Transform_policy_response,
            method_route queue_path [Proxy_for_transform] [''GET'', ''POST'', ''PUT'']
              Transform_policy_response]
      else [])"

definition option_routes :: "config \<Rightarrow> route list" where
  "option_routes c =
     (if cf_disable_continue_watching c then [method_route continue_path [] [''GET''] Empty_handler] else [])
     @ (if cf_ntf_watchlist_force c
        then [goal_route ''/media/providers'' [Ntf_watchlist_force] Proxy_request] else [])"

definition hub_routes :: "route list" where
  "hub_routes =
     [method_route continue_path [Req_include_guids, Req_android] [''GET''] Cached_hubs_response,
      method_route ''/hubs/promoted'' [Req_content_directory, Req_include_guids, Req_android] [''GET'']
        Cached_hubs_response,
      method_route ''/hubs/home'' [Req_include_guids, Req_android] [''GET''] Cached_hubs_response,
      method_route ''/replex/image/hero/<type>/<uuid>'' [] [''GET''] Hero_image,
      method_route ''/web/<**rest>'' [] [''GET''] Serve_web_asset,
      method_route ''/hubs/sections/<id>'' [Req_include_guids, Req_android] [''GET'']
        Cached_hubs_response]"

definition service_routes :: "route list" where
  "service_routes =
     [method_route ''/replex/webhooks'' [] [''POST''] Webhook_plex,
      method_route ''/health/live'' [] [''GET''] Liveness,
      method_route ''/replex/admin/health/ready'' [] [''GET''] Readiness,
      method_route ''/replex/admin/metrics'' [] [''GET''] Metrics_text,
      method_route ''/replex/admin/cache'' [] [''GET''] Cache_status,
      method_route ''/replex/admin/cache/<class>'' [] [''DELETE''] Cache_purge,
      method_route ''/replex/admin/policy/reload'' [] [''POST''] Policy_reload,
      method_route ''/replex/admin/playback/explain'' [] [''GET''] Explain_playback,
      method_route ''/ping'' [] [''GET''] Ping,
      method_route ''/replex/<style>/library/collections/<ids>/children'' [] [''GET'']
        Get_collections_children,
      method_route ''/replex/<style>/<**rest>'' [] [''GET''] Default_transform,
      goal_route ''/photo/<colon:colon>/transcode''
        [Photo_cache_hoop, Fix_photo_transcode_request, Resolve_local_media_path] Proxy_request,
      goal_route rest_path [] Proxy_request]"

definition route_table :: "config \<Rightarrow> route list" where
  "route_table c =
     stream_routes c @ related_routes c @ playback_routes c @ policy_routes c @ option_routes c
     @ hub_routes @ service_routes"

subsection \<open>Dispatch\<close>

definition goal_for :: "string \<Rightarrow> route \<Rightarrow> handler option" where
  "goal_for verb rt =
     map_option snd (find (\<lambda>(m, _). m = None \<or> m = Some verb) (rt_goals rt))"

fun dispatch ::
  "(string \<Rightarrow> string \<Rightarrow> bool) \<Rightarrow> string \<Rightarrow> string \<Rightarrow> route list \<Rightarrow> (handler list \<times> handler) option" where
  "dispatch matches verb path [] = None"
| "dispatch matches verb path (rt # rts) =
     (if matches (rt_path rt) path
      then (case goal_for verb rt of
              Some h \<Rightarrow> Some (rt_hoops rt, h)
            | None \<Rightarrow> dispatch matches verb path rts)
      else dispatch matches verb path rts)"

text \<open>What the hoops of the playback routes are.\<close>

definition playback_hoop :: "play_env \<Rightarrow> handler \<Rightarrow> (request \<Rightarrow> hoop_result) option" where
  "playback_hoop ev h =
     (case h of
        Enforce_policy \<Rightarrow> Some (enforce_resolution_policy ev)
      | Auto_select \<Rightarrow> Some (auto_select_version ev)
      | Force_quality \<Rightarrow> Some (force_maximum_quality ev)
      | Transcode_fallback \<Rightarrow> Some (video_transcode_fallback ev)
      | Direct_stream \<Rightarrow> Some (direct_stream_fallback ev)
      | _ \<Rightarrow> None)"

subsection \<open>Around every route\<close>

text \<open>Without a header of its own, an answer outside \<open>/web/\<close> tells clients not to cache.\<close>

definition api_cache_control :: "string \<Rightarrow> answer \<Rightarrow> answer" where
  "api_cache_control path a =
     (if \<not> starts_with path ''/web/'' \<and> an_control a = None
      then a\<lparr>an_control := Some ''no-cache''\<rparr> else a)"

text \<open>The origins of the CORS hoop, from the environment variable.\<close>

definition cors_origins :: "(string \<Rightarrow> bool) \<Rightarrow> string option \<Rightarrow> string list" where
  "cors_origins header_ok env =
     (case Option.bind env
             (\<lambda>v. let os = filter header_ok (filter (\<lambda>s. s \<noteq> []) (map trim (split_on CHR '','' v)))
                  in if os \<noteq> [] then Some os else None) of
        Some os \<Rightarrow> os
      | None \<Rightarrow> [''https://app.plex.tv'', ''https://plex.tv''])"

text \<open>What a listed origin may send.\<close>

definition cors_methods :: "string list" where
  "cors_methods = [''GET'', ''POST'', ''PUT'', ''DELETE'', ''HEAD'', ''OPTIONS'']"

definition cors_headers :: "string list" where
  "cors_headers =
     [''accept'', ''authorization'', ''content-type'', ''origin'', ''range'', ''x-plex-token'',
      ''x-plex-client-identifier'', ''x-plex-device-name'', ''x-plex-platform'', ''x-plex-product'',
      ''x-plex-version'', ''x-plex-device'', ''x-plex-session-id'', ''x-plex-playback-session-id'',
      ''x-plex-target-client-id'']"

subsection \<open>Laws\<close>

text \<open>A path that none of some patterns matches.\<close>

definition clear_of :: "(string \<Rightarrow> string \<Rightarrow> bool) \<Rightarrow> string list \<Rightarrow> string \<Rightarrow> bool" where
  "clear_of matches patterns path \<longleftrightarrow> (\<forall>p \<in> set patterns. \<not> matches p path)"

definition transcode_patterns :: "string list" where
  "transcode_patterns = [session_path, parts_path, decision_path, start_path, subtitles_path]"

lemma clear_of_transcode:
  assumes "clear_of matches transcode_patterns path"
  shows "\<not> matches session_path path" "\<not> matches parts_path path" "\<not> matches decision_path path"
    "\<not> matches start_path path" "\<not> matches subtitles_path path"
  using assms by (simp_all add: clear_of_def transcode_patterns_def)

lemmas route_parts [route_simps] = goal_route_def method_route_def goal_for_def

lemma dispatch_skip:
  "(\<And>rt. rt \<in> set xs \<Longrightarrow> matches (rt_path rt) path \<Longrightarrow> goal_for verb rt = None) \<Longrightarrow>
   dispatch matches verb path (xs @ ys) = dispatch matches verb path ys"
  by (induction xs) auto

lemma dispatch_first:
  assumes "\<And>rt. rt \<in> set xs \<Longrightarrow> \<not> matches (rt_path rt) path"
    and "matches (rt_path rt) path" "goal_for verb rt = Some h"
  shows "dispatch matches verb path (xs @ rt # ys) = Some (rt_hoops rt, h)"
proof -
  have "dispatch matches verb path (xs @ rt # ys) = dispatch matches verb path (rt # ys)"
    by (rule dispatch_skip) (use assms(1) in blast)
  with assms(2,3) show ?thesis by simp
qed

lemma dispatch_total:
  assumes "rt \<in> set rts" "matches (rt_path rt) path" "goal_for verb rt \<noteq> None"
  shows "dispatch matches verb path rts \<noteq> None"
  using assms by (induction rts) (auto split: option.splits)

lemma every_request_dispatched:
  "matches rest_path path \<Longrightarrow> dispatch matches verb path (route_table c) \<noteq> None"
  by (rule dispatch_total [where rt = "goal_route rest_path [] Proxy_request"])
    (simp_all add: route_table_def service_routes_def route_simps)

lemma stream_goal: "rt \<in> set (stream_routes c) \<Longrightarrow> rt_path rt = session_path \<or> rt_path rt = parts_path"
  by (auto simp: stream_routes_def route_simps split: if_splits)

lemma related_goal: "rt \<in> set (related_routes c) \<Longrightarrow> rt_path rt = related_path \<or> rt_path rt = queue_path"
  by (auto simp: related_routes_def route_simps split: if_splits)

lemma playback_goal:
  "rt \<in> set (playback_routes c) \<Longrightarrow>
   rt_path rt = decision_path \<or> rt_path rt = start_path \<or> rt_path rt = subtitles_path"
  by (auto simp: playback_routes_def route_simps)

lemma parts_gated:
  assumes "cf_resolution_policy_enabled c" "matches parts_path path \<or> matches session_path path"
  shows "dispatch matches verb path (route_table c) = Some ([], Protected_redirect_stream)"
  using assms by (auto simp: route_table_def stream_routes_def route_simps)

text \<open>The playback routes come after the streams and the related items only.\<close>

lemma dispatch_playback:
  assumes "\<not> matches session_path path" "\<not> matches parts_path path"
    and "\<not> matches related_path path" "\<not> matches queue_path path"
  shows "dispatch matches verb path (route_table c) =
    dispatch matches verb path
      (playback_routes c @ policy_routes c @ option_routes c @ hub_routes @ service_routes)"
proof -
  have "\<not> matches (rt_path rt) path" if "rt \<in> set (stream_routes c @ related_routes c)" for rt
    using that assms stream_goal [of rt c] related_goal [of rt c] by auto
  then show ?thesis
    using dispatch_skip [of "stream_routes c @ related_routes c" matches path verb]
    by (simp add: route_table_def)
qed

lemma playback_hoops_start:
  "map (playback_hoop ev) (shared_hoops (ev_config ev)) = map Some (start_hoops ev)"
  by (simp add: shared_hoops_def start_hoops_def Let_def playback_hoop_def)

lemma dispatch_decision:
  assumes "\<not> matches session_path path" "\<not> matches parts_path path"
    and "\<not> matches related_path path" "\<not> matches queue_path path" "matches decision_path path"
  shows "\<exists>hs. dispatch matches verb path (route_table (ev_config ev)) = Some (hs, Proxy_request)
    \<and> map (playback_hoop ev) hs = map Some (decision_hoops ev)"
  using playback_hoops_start [of ev] assms(5)
  by (simp add: dispatch_playback [where matches = matches and path = path, OF assms(1-4)] playback_routes_def route_simps decision_hoops_def
      playback_hoop_def)

lemma dispatch_start:
  assumes "\<not> matches session_path path" "\<not> matches parts_path path"
    and "\<not> matches related_path path" "\<not> matches queue_path path" "\<not> matches decision_path path"
    and "matches start_path path \<or> matches subtitles_path path"
  shows "\<exists>hs. dispatch matches verb path (route_table (ev_config ev)) = Some (hs, Proxy_request)
    \<and> map (playback_hoop ev) hs = map Some (start_hoops ev)"
  using playback_hoops_start [of ev] assms(5,6)
  by (auto simp: dispatch_playback [where matches = matches and path = path, OF assms(1-4)] playback_routes_def route_simps)

lemma dispatch_policy:
  assumes "\<not> matches session_path path" "\<not> matches parts_path path"
    and "\<not> matches decision_path path" "\<not> matches start_path path" "\<not> matches subtitles_path path"
  shows "dispatch matches verb path (route_table c) =
    dispatch matches verb path
      (related_routes c @ policy_routes c @ option_routes c @ hub_routes @ service_routes)"
proof -
  have s: "\<not> matches (rt_path rt) path" if "rt \<in> set (stream_routes c)" for rt
    using that assms(1,2) stream_goal by metis
  have p: "\<not> matches (rt_path rt) path" if "rt \<in> set (playback_routes c)" for rt
    using that assms(3-5) playback_goal by metis
  have skip: "dispatch matches verb path (playback_routes c @ ys) = dispatch matches verb path ys" for ys
    by (rule dispatch_skip) (use p in blast)
  have "dispatch matches verb path (xs @ playback_routes c @ ys) = dispatch matches verb path (xs @ ys)"
    for xs ys by (induction xs) (simp_all add: skip split: option.split)
  moreover have "dispatch matches verb path (stream_routes c @ ys) = dispatch matches verb path ys" for ys
    by (rule dispatch_skip) (use s in blast)
  ultimately show ?thesis by (simp add: route_table_def)
qed

lemma metadata_filtered:
  assumes "cf_resolution_policy_enabled c" "matches metadata_path path" "\<not> matches queue_path path"
    and "\<not> matches session_path path" "\<not> matches parts_path path"
    and "\<not> matches decision_path path" "\<not> matches start_path path" "\<not> matches subtitles_path path"
    and "verb = ''GET'' \<or> verb = ''POST''"
  shows "dispatch matches verb path (route_table c) =
    (if cf_disable_related c \<and> matches related_path path then Some ([Timeout_after 5], Proxy_request)
     else Some ([Proxy_for_transform], Transform_policy_response))"
  using assms(1-3,9)
  by (auto simp: dispatch_policy [where matches = matches and path = path, OF assms(4-8)] related_routes_def policy_routes_def route_simps)

lemma queues_filtered:
  assumes "cf_resolution_policy_enabled c" "matches queue_path path" "\<not> matches related_path path"
    and "\<not> matches metadata_path path" "\<not> matches sections_path path"
    and "\<not> matches session_path path" "\<not> matches parts_path path"
    and "\<not> matches decision_path path" "\<not> matches start_path path" "\<not> matches subtitles_path path"
    and "verb \<in> {''GET'', ''POST'', ''PUT''}"
  shows "dispatch matches verb path (route_table c) =
    (if cf_disable_related c then Some ([Disable_related_query], Proxy_request)
     else Some ([Proxy_for_transform], Transform_policy_response))"
  using assms(1-5,11)
  by (auto simp: dispatch_policy [where matches = matches and path = path, OF assms(6-10)] related_routes_def policy_routes_def route_simps)

lemma sections_filtered:
  assumes "cf_resolution_policy_enabled c" "matches sections_path path"
    and "\<not> matches related_path path" "\<not> matches queue_path path" "\<not> matches metadata_path path"
    and "\<not> matches session_path path" "\<not> matches parts_path path"
    and "\<not> matches decision_path path" "\<not> matches start_path path" "\<not> matches subtitles_path path"
  shows "dispatch matches ''GET'' path (route_table c) =
    Some ([Library_cache_lookup, Proxy_for_transform, Library_cache_store], Transform_policy_response)"
  using assms(1-5)
  by (auto simp: dispatch_policy [where matches = matches and path = path, OF assms(6-10)] related_routes_def policy_routes_def route_simps)

lemma api_cache_control_set: "\<not> starts_with path ''/web/'' \<Longrightarrow> an_control (api_cache_control path a) \<noteq> None"
  by (simp add: api_cache_control_def)

text \<open>Every method of a route is one that the preflight answer lists.\<close>

lemma routed_methods_are_listed:
  "rt \<in> set (route_table c) \<Longrightarrow> (Some m, h) \<in> set (rt_goals rt) \<Longrightarrow> m \<in> set cors_methods"
  by (auto simp: route_table_def stream_routes_def related_routes_def playback_routes_def
      policy_routes_def option_routes_def hub_routes_def service_routes_def method_route_def
      goal_route_def cors_methods_def split: if_splits)

lemma cors_origins_listed:
  "cors_origins header_ok env \<noteq> []"
  "o' \<in> set (cors_origins header_ok env) \<Longrightarrow> o' \<in> {''https://app.plex.tv'', ''https://plex.tv''}
     \<or> (\<exists>v. env = Some v \<and> o' \<in> set (map trim (split_on CHR '','' v)) \<and> header_ok o')"
  by (auto simp: cors_origins_def Let_def split: option.splits Option.bind_splits if_splits)

end
