(* ===== verification/Plex_Client.thy ===== *)
theory Plex_Client
  imports Auth_Context Policy_Transform
begin

text \<open>
  How a request to Plex is made: the construction of a \<open>PlexClient\<close> from the request's context
  and the shared state (\<open>src/plex_client.rs\<close>, \<open>plex_client_from_depot\<close> of \<open>src/routes.rs\<close>),
  the URLs and headers of what it sends, and the reading and writing of bodies (\<open>src/utils.rs\<close>).

  Header names are lower case.  \<open>header_ok\<close> says whether a value is a legal header value,
  \<open>percent\<close> is the percent-encoding of a path segment, and \<open>raw\<close> is the path and query of a URI.
\<close>

subsection \<open>The client\<close>

definition platform_name :: "platform \<Rightarrow> string" where
  "platform_name p =
     (case p of Android \<Rightarrow> ''Android'' | Ios \<Rightarrow> ''iOS'' | TvOS \<Rightarrow> ''tvOS'' | Safari \<Rightarrow> ''Safari''
      | Chrome \<Rightarrow> ''Chrome'' | Roku \<Rightarrow> ''Roku'' | Web \<Rightarrow> ''Web'' | Generic \<Rightarrow> ''Generic'')"

text \<open>The caches and the policy store that a \<open>PlexClient\<close> carries are the shared ones; they have their
  own components.\<close>

record plex_client =
  pc_host :: string
  pc_headers :: "(string \<times> string) list"
  pc_context :: plex_context
  pc_security :: "security_context option"
  pc_unavailable_fail_closed :: "bool option"

definition context_headers :: "plex_context \<Rightarrow> (string \<times> string option) list" where
  "context_headers cx =
     [(''x-plex-token'', cx_token cx),
      (''x-plex-platform'', Some (platform_name (unwrap_or (cx_platform cx) Generic))),
      (''x-plex-client-identifier'', cx_client_identifier cx),
      (''x-plex-session-id'', cx_session_id cx),
      (''x-plex-playback-session-id'', cx_playback_session_id cx),
      (''x-plex-product'', cx_product cx),
      (''x-plex-playback-id'', cx_playback_id cx),
      (''x-plex-platform-version'', cx_platform_version cx),
      (''x-plex-version'', cx_version cx),
      (''x-plex-features'', cx_features cx),
      (''x-plex-model'', cx_model cx),
      (''x-plex-device'', cx_device cx),
      (''x-plex-device-name'', cx_device_name cx),
      (''x-plex-drm'', cx_drm cx),
      (''x-plex-text-format'', cx_text_format cx),
      (''x-plex-http-pipeline'', cx_http_pipeline cx),
      (''x-plex-provider-version'', cx_provider_version cx),
      (''x-plex-device-screen-resolution'', cx_screen_resolution_original cx),
      (''x-plex-client-capabilities'', cx_client_capabilities cx),
      (''x-forwarded-for'', cx_forwarded_for cx),
      (''x-real-ip'', cx_real_ip cx),
      (''accept'', Some ''application/json''),
      (''accept-language'', Some ''en-US'')]"

definition insert_header :: "string \<times> string \<Rightarrow> (string \<times> string) list \<Rightarrow> (string \<times> string) list" where
  "insert_header kv h = AList.update (fst kv) (snd kv) h"

definition default_headers :: "(string \<Rightarrow> bool) \<Rightarrow> plex_context \<Rightarrow> (string \<times> string) list" where
  "default_headers header_ok cx =
     foldl (\<lambda>h (k, val). case val of
              Some v \<Rightarrow> if header_ok v then insert_header (k, v) h else h
            | None \<Rightarrow> h) [] (context_headers cx)"

definition from_context_with_state ::
  "(string \<Rightarrow> bool) \<Rightarrow> config \<Rightarrow> plex_context \<Rightarrow> string + plex_client" where
  "from_context_with_state header_ok c cx =
     (if cx_token cx = None then Inl ''missing Plex token on request''
      else (case cf_host c of
              None \<Rightarrow> Inl ''REPLEX_HOST is not configured''
            | Some host \<Rightarrow>
                Inr \<lparr>pc_host = host, pc_headers = default_headers header_ok cx, pc_context = cx,
                     pc_security = None, pc_unavailable_fail_closed = None\<rparr>))"

text \<open>What the middlewares have put into the depot.\<close>

record depot =
  dp_config :: "config option"
  dp_request :: "request_ctx option"
  dp_security :: "security_state option"

definition plex_client_from_depot ::
  "(string \<Rightarrow> bool) \<Rightarrow> plex_context \<Rightarrow> depot \<Rightarrow> string + plex_client" where
  "plex_client_from_depot header_ok cx d =
     (case dp_config d of
        None \<Rightarrow> Inl ''shared application state missing from request''
      | Some c \<Rightarrow>
          (let effective = (case dp_request d of Some rc \<Rightarrow> rc_plex rc | None \<Rightarrow> cx) in
           (case from_context_with_state header_ok c effective of
              Inl e \<Rightarrow> Inl e
            | Inr client \<Rightarrow>
                (let client = (case dp_request d of
                                 Some rc \<Rightarrow> client\<lparr>pc_host := rc_upstream_host rc\<rparr> | None \<Rightarrow> client)
                 in Inr (case dp_security d of
                           Some (Resolved sc) \<Rightarrow> client\<lparr>pc_security := Some sc\<rparr>
                         | Some (Unavailable fail_closed _) \<Rightarrow>
                             client\<lparr>pc_unavailable_fail_closed := Some fail_closed\<rparr>
                         | None \<Rightarrow> client)))))"

subsection \<open>Requests\<close>

record outgoing =
  og_method :: string
  og_url :: string
  og_headers :: "(string \<times> string) list"

definition forwarded_headers :: "request \<Rightarrow> (string \<times> string) list" where
  "forwarded_headers r = filter (\<lambda>(k, _). k \<noteq> ''accept'' \<and> k \<noteq> ''host'') (rq_headers r)"

text \<open>\<open>PlexClient::request\<close>, \<open>get\<close> and \<open>proxy_request\<close> up to the sending.\<close>

definition client_request :: "plex_client \<Rightarrow> request \<Rightarrow> string \<Rightarrow> outgoing" where
  "client_request cl r raw =
     \<lparr>og_method = rq_method r, og_url = pc_host cl @ raw,
      og_headers = foldl (\<lambda>h kv. insert_header kv h) (pc_headers cl) (forwarded_headers r)\<rparr>"

definition client_get :: "(string \<Rightarrow> bool) \<Rightarrow> plex_client \<Rightarrow> string \<Rightarrow> outgoing option" where
  "client_get uri_ok cl path =
     (if uri_ok path
      then Some (client_request cl \<lparr>rq_method = ''GET'', rq_path = path, rq_query = [],
                   rq_headers = [], rq_absolute = False\<rparr> path)
      else None)"

definition encode_url_path :: "(string \<Rightarrow> string) \<Rightarrow> string \<Rightarrow> string" where
  "encode_url_path percent path = join ''/'' (map percent (split_on CHR ''/'' path))"

definition url_path_getter :: "string \<Rightarrow> string" where
  "url_path_getter raw = (case split_once CHR ''?'' raw of Some (p, _) \<Rightarrow> p | None \<Rightarrow> raw)"

definition url_query_getter :: "string \<Rightarrow> string option" where
  "url_query_getter raw = map_option snd (split_once CHR ''?'' raw)"

definition client_proxy_request :: "(string \<Rightarrow> string) \<Rightarrow> plex_client \<Rightarrow> request \<Rightarrow> string \<Rightarrow> outgoing" where
  "client_proxy_request percent cl r raw =
     (let path = encode_url_path percent (url_path_getter raw) in
      \<lparr>og_method = rq_method r,
       og_url = (case url_query_getter raw of
                   Some q \<Rightarrow> if q \<noteq> [] then pc_host cl @ path @ ''?'' @ q else pc_host cl @ path
                 | None \<Rightarrow> pc_host cl @ path),
       og_headers = forwarded_headers r\<rparr>)"

subsection \<open>Bodies\<close>

text \<open>The parsers and printers of the two formats are those of the libraries.\<close>

record formats =
  fm_json :: "string \<Rightarrow> media_container option"
  fm_xml :: "string \<Rightarrow> media_container option"
  fm_to_json :: "media_container \<Rightarrow> string option"
  fm_to_xml :: "media_container \<Rightarrow> string option"

definition body_from_string ::
  "formats \<Rightarrow> string \<Rightarrow> string \<Rightarrow> (media_container \<times> content_type) option" where
  "body_from_string fm text subtype =
     (if subtype = ''json'' then map_option (\<lambda>c. (c, Json)) (fm_json fm text)
      else map_option (\<lambda>c. (c, Xml)) (fm_xml fm text))"

definition body_to_string :: "formats \<Rightarrow> media_container \<Rightarrow> content_type \<Rightarrow> string option" where
  "body_to_string fm c ct = (case ct of Json \<Rightarrow> fm_to_json fm c | Xml \<Rightarrow> fm_to_xml fm c)"

subsection \<open>Laws\<close>

lemma from_context_error:
  "client_error c cx =
     (case from_context_with_state header_ok c cx of Inl e \<Rightarrow> Some (UpstreamError e) | Inr _ \<Rightarrow> None)"
  by (simp add: client_error_def from_context_with_state_def split: option.split)

lemma insert_header_get [simp]:
  "map_of (insert_header (k, v) h) n = (if n = k then Some v else map_of h n)"
  by (simp add: insert_header_def update_conv')

lemma default_headers_get:
  assumes "distinct (map fst kvs)"
  shows "map_of (foldl (\<lambda>h (k, val). case val of
              Some v \<Rightarrow> if header_ok v then insert_header (k, v) h else h
            | None \<Rightarrow> h) h kvs) n =
     (case map_of kvs n of
        Some (Some v) \<Rightarrow> if header_ok v then Some v else map_of h n
      | _ \<Rightarrow> map_of h n)"
  using assms
proof (induction kvs arbitrary: h)
  case (Cons kv kvs)
  obtain k val where kv: "kv = (k, val)" by (cases kv)
  have "map_of kvs n = None" if "n = k"
    using Cons.prems kv that by (simp add: map_of_eq_None_iff)
  with Cons show ?case by (auto simp: kv split: option.splits)
qed simp

lemma context_headers_distinct: "distinct (map fst (context_headers cx))"
  by (simp add: context_headers_def)

lemma default_header:
  "map_of (default_headers header_ok cx) n =
     (case map_of (context_headers cx) n of
        Some (Some v) \<Rightarrow> if header_ok v then Some v else None
      | _ \<Rightarrow> None)"
  by (simp add: default_headers_def default_headers_get [OF context_headers_distinct] split: option.split)

lemma inserted_headers:
  "map_of (foldl (\<lambda>h kv. insert_header kv h) h kvs) n =
     (case map_of (rev kvs) n of Some v \<Rightarrow> Some v | None \<Rightarrow> map_of h n)"
proof (induction kvs arbitrary: h)
  case (Cons kv kvs)
  then show ?case by (cases kv) (simp add: map_add_def split: option.split)
qed simp

lemma forwarded_no_accept: "map_of (rev (forwarded_headers r)) ''accept'' = None"
  by (auto simp: forwarded_headers_def map_of_eq_None_iff)

text \<open>A client asks for JSON in English whatever the request it forwards accepts.\<close>

lemma client_asks_json:
  assumes "pc_headers cl = default_headers header_ok cx" "header_ok ''application/json''"
  shows "map_of (og_headers (client_request cl r raw)) ''accept'' = Some ''application/json''"
  using assms by (simp add: client_request_def inserted_headers forwarded_no_accept default_header
      context_headers_def)

lemma client_get_headers:
  assumes "client_get uri_ok cl path = Some out"
  shows "og_headers out = pc_headers cl \<and> og_url out = pc_host cl @ path \<and> og_method out = ''GET''"
  using assms by (auto simp: client_get_def client_request_def forwarded_headers_def split: if_splits)

lemma client_get_token:
  assumes "from_context_with_state header_ok c cx = Inr cl" "client_get uri_ok cl path = Some out"
    and "cx_token cx = Some t" "header_ok t"
  shows "map_of (og_headers out) ''x-plex-token'' = Some t"
  using assms client_get_headers [OF assms(2)]
  by (auto simp: from_context_with_state_def default_header context_headers_def split: option.splits)

lemma depot_client_host:
  assumes "plex_client_from_depot header_ok cx d = Inr cl" "dp_request d = Some rc"
  shows "pc_host cl = rc_upstream_host rc" and "pc_context cl = rc_plex rc"
  using assms
  by (auto simp: plex_client_from_depot_def from_context_with_state_def Let_def
      split: option.splits sum.splits security_state.splits if_splits)

lemma depot_client_security:
  assumes "plex_client_from_depot header_ok cx d = Inr cl"
  shows "dp_security d = Some (Resolved sc) \<Longrightarrow> pc_security cl = Some sc"
    and "dp_security d = Some (Unavailable fc e) \<Longrightarrow>
      pc_security cl = None \<and> pc_unavailable_fail_closed cl = Some fc"
    and "dp_security d = None \<Longrightarrow> pc_security cl = None \<and> pc_unavailable_fail_closed cl = None"
  using assms
  by (auto simp: plex_client_from_depot_def from_context_with_state_def Let_def
      split: option.splits if_splits)

text \<open>So a handler filters by the policy that the middleware resolved, and by none that it would
  have to look up itself.\<close>

lemma depot_client_policy:
  assumes "plex_client_from_depot header_ok cx d = Inr cl" "ps_enabled snap"
  shows "dp_security d = Some (Resolved sc) \<Longrightarrow>
      current_policy snap (pc_security cl) (pc_unavailable_fail_closed cl) identity
      = Some (sc_policy sc, sc_identity sc)"
    and "dp_security d = Some (Unavailable fc e) \<Longrightarrow>
      current_policy snap (pc_security cl) (pc_unavailable_fail_closed cl) identity = None"
  using depot_client_security [OF assms(1)] assms(2) by (auto simp: current_policy_def)

lemma bodies_round_trip:
  assumes "\<And>c s. fm_to_json fm c = Some s \<Longrightarrow> fm_json fm s = Some c"
    and "\<And>c s. fm_to_xml fm c = Some s \<Longrightarrow> fm_xml fm s = Some c"
    and "body_to_string fm c ct = Some s"
  shows "body_from_string fm s (case ct of Json \<Rightarrow> ''json'' | Xml \<Rightarrow> ''xml'') = Some (c, ct)"
  using assms by (cases ct) (simp_all add: body_to_string_def body_from_string_def)

lemma client_urls:
  "prefix (pc_host cl) (og_url (client_request cl r raw))"
  "prefix (pc_host cl) (og_url (client_proxy_request percent cl r raw))"
  by (auto simp: client_request_def client_proxy_request_def Let_def split: option.split)

end
