(* ===== verification/Service.thy ===== *)
theory Service
  imports Router Plex_Client
begin

text \<open>
  A request from its arrival to its answer, as \<open>route_with_state\<close> of \<open>src/routes.rs\<close> composes the
  parts: the request context, the security context, the dispatch, and then the hoops of a playback
  route or the stream gate, over the state that requests share.  Requests that are dispatched to the
  other handlers leave through \<open>Elsewhere\<close>; their handlers have theories of their own.
\<close>

subsection \<open>The service and its state\<close>

text \<open>What a start has fixed, and what is outside: \<open>sv_extract\<close> is the framework's extractor of the
  Plex context, \<open>sv_matches\<close> its path patterns, \<open>sv_part\<close> the path parameter \<open>partid\<close>, \<open>sv_raw\<close> the
  text of path and query; the rest are the answers of Plex and plex.tv.\<close>

record service =
  sv_config :: config
  sv_policy :: policy_snapshot
  sv_sha :: "string \<Rightarrow> string"
  sv_base32 :: "string \<Rightarrow> string option"
  sv_bases :: base_urls
  sv_identity :: identity_api
  sv_extract :: "request \<Rightarrow> plex_context"
  sv_matches :: "string \<Rightarrow> string \<Rightarrow> bool"
  sv_part :: "request \<Rightarrow> string option"
  sv_raw :: "request \<Rightarrow> string"
  sv_items :: "request_ctx \<Rightarrow> string \<Rightarrow> media_container option"
  sv_decision :: "request_ctx \<Rightarrow> request \<Rightarrow> media_container option"
  sv_decision_status :: "request_ctx \<Rightarrow> request \<Rightarrow> nat option \<times> media_container option"
  sv_proxied :: "request_ctx \<Rightarrow> request \<Rightarrow> nat \<times> bool"
  sv_f32 :: "string \<Rightarrow> i64 option"

record service_state =
  ss_counter :: nat
  ss_identities :: identity_state
  ss_parts :: part_cache
  ss_metrics :: metrics
  ss_hub :: hub_state

text \<open>A request is sent on to Plex, redirected, answered by a bare status, or failed in a handler.\<close>

datatype service_reply = Forwarded request | Redirected string | Answered nat | Route_failed | Elsewhere handler

subsection \<open>What the handlers find\<close>

definition depot_of :: "service \<Rightarrow> request_ctx \<Rightarrow> security_state option \<Rightarrow> depot" where
  "depot_of sv rc sec = \<lparr>dp_config = Some (sv_config sv), dp_request = Some rc, dp_security = sec\<rparr>"

definition client_ok :: "service \<Rightarrow> request_ctx \<Rightarrow> security_state option \<Rightarrow> bool" where
  "client_ok sv rc sec =
     (case plex_client_from_depot (ia_header_ok (sv_identity sv)) (rc_plex rc) (depot_of sv rc sec) of
        Inl _ \<Rightarrow> False | Inr _ \<Rightarrow> True)"

text \<open>The handlers ask for the account themselves when no middleware has.\<close>

definition asked_user ::
  "service \<Rightarrow> request_ctx \<Rightarrow> security_state option \<Rightarrow> identity_state
   \<Rightarrow> (identity_error + user_identity) \<times> identity_state" where
  "asked_user sv rc sec ids =
     (if ps_enabled (sv_policy sv) \<and> sec = None \<and> client_ok sv rc sec
      then get_current_user (sv_sha sv) (sv_identity sv) (sv_config sv) (rc_upstream_host rc) (rc_plex rc) ids
      else (Inl MissingToken, ids))"

definition play_env_of ::
  "service \<Rightarrow> request_ctx \<Rightarrow> security_state option \<Rightarrow> identity_error + user_identity \<Rightarrow> play_env" where
  "play_env_of sv rc sec user =
     \<lparr>ev_config = sv_config sv, ev_snapshot = sv_policy sv, ev_security = sec, ev_user = user,
      ev_client_ok = client_ok sv rc sec, ev_skip = skips_optional (rc_plex rc), ev_context = rc_plex rc,
      ev_item = sv_items sv rc, ev_decision = sv_decision sv rc,
      ev_decision_status = sv_decision_status sv rc, ev_f32 = sv_f32 sv\<rparr>"

definition stream_env_of ::
  "service \<Rightarrow> request_ctx \<Rightarrow> security_state option \<Rightarrow> identity_error + user_identity \<Rightarrow> part_cache
   \<Rightarrow> request \<Rightarrow> stream_env" where
  "stream_env_of sv rc sec user parts r =
     \<lparr>st_config = Some (sv_config sv), st_snapshot = Some (sv_policy sv),
      st_upstream = Some (rc_upstream_host rc), st_client_ok = client_ok sv rc sec, st_security = sec,
      st_user = user, st_parts = parts, st_uri = sv_raw sv r, st_part = sv_part sv r,
      st_proxied = sv_proxied sv rc r\<rparr>"

subsection \<open>The routes\<close>

text \<open>\<open>proxy_request\<close>, as far as this state goes: a playback change marks the hubs stale, and the
  request to Plex is measured.\<close>

definition pass_on :: "service \<Rightarrow> request_ctx \<Rightarrow> request \<Rightarrow> service_state \<Rightarrow> service_state" where
  "pass_on sv rc r st =
     (case sv_proxied sv rc r of
        (elapsed, ok) \<Rightarrow>
          st\<lparr>ss_hub := (if is_playback_invalidation (rq_path r) (raw_query (sv_raw sv r))
                        then mark_all_hubs_stale (ss_hub st) else ss_hub st),
             ss_metrics := observe_upstream (min elapsed u64_max) ok (ss_metrics st)\<rparr>)"

text \<open>A route of hoops in front of the proxy; only the enforcement touches the shared state, and it is
  the first hoop where it runs.\<close>

definition playback_request ::
  "service \<Rightarrow> request_ctx \<Rightarrow> security_state option \<Rightarrow> handler list \<Rightarrow> request \<Rightarrow> service_state
   \<Rightarrow> service_reply \<times> service_state" where
  "playback_request sv rc sec hs r st =
     (case (if Enforce_policy \<in> set hs then asked_user sv rc sec (ss_identities st)
            else (Inl MissingToken, ss_identities st)) of
        (user, ids) \<Rightarrow>
          (let ev = play_env_of sv rc sec user;
               pb = \<lparr>pb_parts = ss_parts st, pb_metrics = ss_metrics st\<rparr>;
               pb' = (if Enforce_policy \<in> set hs then enforce_effects ev r pb else pb);
               st' = st\<lparr>ss_identities := ids, ss_parts := pb_parts pb', ss_metrics := pb_metrics pb'\<rparr>
           in (case those (map (playback_hoop ev) hs) of
                 None \<Rightarrow> (Elsewhere Proxy_request, st)
               | Some hoops \<Rightarrow>
                   (case run_hoops hoops r of
                      Next r' \<Rightarrow> (Forwarded r', pass_on sv rc r' st')
                    | Stop n _ \<Rightarrow> (Answered n, st')
                    | Fail \<Rightarrow> (Route_failed, st')))))"

definition stream_request ::
  "service \<Rightarrow> request_ctx \<Rightarrow> security_state option \<Rightarrow> request \<Rightarrow> service_state
   \<Rightarrow> service_reply \<times> service_state" where
  "stream_request sv rc sec r st =
     (case asked_user sv rc sec (ss_identities st) of
        (user, ids) \<Rightarrow>
          (case protected_redirect_stream (stream_env_of sv rc sec user (ss_parts st) r) (ss_metrics st) of
             (answer, m) \<Rightarrow>
               (case answer of
                  Proxied \<Rightarrow> (Forwarded r, st\<lparr>ss_identities := ids, ss_metrics := m\<rparr>)
                | RedirectTo u \<Rightarrow> (Redirected u, st\<lparr>ss_identities := ids, ss_metrics := m\<rparr>)
                | Refused n \<Rightarrow> (Answered n, st\<lparr>ss_identities := ids, ss_metrics := m\<rparr>))))"

definition routed ::
  "service \<Rightarrow> request_ctx \<Rightarrow> security_state option \<Rightarrow> request \<Rightarrow> service_state
   \<Rightarrow> service_reply \<times> service_state" where
  "routed sv rc sec r st =
     (case dispatch (sv_matches sv) (rq_method r) (rq_path r) (route_table (sv_config sv)) of
        None \<Rightarrow> (Answered 404, st)
      | Some (hs, h) \<Rightarrow>
          (if h = Protected_redirect_stream then stream_request sv rc sec r st
           else if h = Proxy_request then playback_request sv rc sec hs r st
           else (Elsewhere h, st)))"

subsection \<open>The whole of a request\<close>

definition opened :: "service \<Rightarrow> request \<Rightarrow> service_state \<Rightarrow> request_ctx middleware \<times> nat" where
  "opened sv r st =
     request_context_middleware (sv_sha sv) (sv_base32 sv) (sv_bases sv) (sv_config sv)
       (sv_extract sv r) (header r ''Host'') (ss_counter st)"

definition secured ::
  "service \<Rightarrow> request_ctx \<Rightarrow> request \<Rightarrow> identity_state \<Rightarrow> security_state option \<times> identity_state" where
  "secured sv rc r ids =
     security_context_middleware (sv_sha sv) (sv_identity sv) (sv_config sv) (sv_policy sv) (rq_path r) rc ids"

definition serve :: "service \<Rightarrow> request \<Rightarrow> service_state \<Rightarrow> service_reply \<times> service_state" where
  "serve sv r st =
     (case opened sv r st of
        (Reject n, c) \<Rightarrow> (Answered n, st\<lparr>ss_counter := c\<rparr>)
      | (Continue rc, c) \<Rightarrow>
          (case secured sv rc r (ss_identities st) of
             (sec, ids) \<Rightarrow> routed sv rc sec r (st\<lparr>ss_counter := c, ss_identities := ids\<rparr>)))"

subsection \<open>What the parts of a request give\<close>

lemma those_map_Some: "those (map Some xs) = Some xs"
  by (induction xs) simp_all

lemma opened_context: "opened sv r st = (Continue rc, c) \<Longrightarrow> rc_plex rc = sv_extract sv r"
  by (auto simp: opened_def request_context_middleware_def Let_def split: if_splits)

lemma client_ok_iff:
  "client_ok sv rc sec \<longleftrightarrow> cx_token (rc_plex rc) \<noteq> None \<and> cf_host (sv_config sv) \<noteq> None"
  by (auto simp: client_ok_def plex_client_from_depot_def depot_of_def from_context_with_state_def Let_def
      split: option.splits security_state.splits)

text \<open>The account that a request's token stands for.\<close>

abbreviation account_of ::
  "service \<Rightarrow> request_ctx \<Rightarrow> service_state \<Rightarrow> identity_error + resolved_identity" where
  "account_of sv rc st \<equiv>
     fst (get_current_identity (sv_sha sv) (sv_identity sv) (sv_config sv) (rc_upstream_host rc)
            (rc_plex rc) (ss_identities st))"

abbreviation rule_of :: "service \<Rightarrow> resolved_identity \<Rightarrow> resolution_policy" where
  "rule_of sv i \<equiv>
     resolve_policy (ps_entries (sv_policy sv)) (ps_default_limit (sv_policy sv))
       (ps_hidden_collections (sv_policy sv)) (ri_identity i)"

lemma account_token: "account_of sv rc st = Inr i \<Longrightarrow> cx_token (rc_plex rc) \<noteq> None"
  by (cases "cx_token (rc_plex rc)") (simp_all add: get_current_identity_def)

lemma secured_account:
  assumes "ps_enabled (sv_policy sv)" "requires_security_context (rq_path r)" "client_ok sv rc sec"
  shows "fst (secured sv rc r (ss_identities st)) =
    Some (case account_of sv rc st of
            Inl e \<Rightarrow> Unavailable (ps_fail_closed (sv_policy sv)) e
          | Inr i \<Rightarrow> Resolved \<lparr>sc_identity = ri_identity i, sc_token_scope = rc_token_scope rc,
              sc_policy = rule_of sv i, sc_identity_source = ri_source i\<rparr>)"
  using assms
  by (auto simp: secured_def security_context_middleware_def client_error_def client_ok_iff
      split: prod.splits sum.splits)

lemma asked_when_secured: "asked_user sv rc (Some s) ids = (Inl MissingToken, ids)"
  by (simp add: asked_user_def)

lemma secured_present:
  assumes "ps_enabled (sv_policy sv)" "requires_security_context (rq_path r)"
  shows "\<exists>s. fst (secured sv rc r ids) = Some s"
  using assms security_present unfolding secured_def by blast

subsection \<open>What a playback request meets\<close>

definition playback_path :: "service \<Rightarrow> string \<Rightarrow> bool" where
  "playback_path sv path \<longleftrightarrow>
     clear_of (sv_matches sv) [session_path, parts_path, related_path, queue_path] path
     \<and> (sv_matches sv decision_path path \<or> sv_matches sv start_path path \<or> sv_matches sv subtitles_path path)"

definition stream_path :: "service \<Rightarrow> string \<Rightarrow> bool" where
  "stream_path sv path \<longleftrightarrow> sv_matches sv parts_path path \<or> sv_matches sv session_path path"

definition reply_of :: "hoop_result \<Rightarrow> service_reply" where
  "reply_of h = (case h of Next r \<Rightarrow> Forwarded r | Stop n _ \<Rightarrow> Answered n | Fail \<Rightarrow> Route_failed)"

text \<open>The hoops of the route that a playback path takes.\<close>

definition route_hoops :: "service \<Rightarrow> play_env \<Rightarrow> string \<Rightarrow> (request \<Rightarrow> hoop_result) list" where
  "route_hoops sv ev path =
     (if sv_matches sv decision_path path then decision_hoops ev else start_hoops ev)"

lemma route_hoops_enforce:
  assumes "cf_resolution_policy_enabled (ev_config ev)"
  shows "\<exists>hs. route_hoops sv ev path = enforce_resolution_policy ev # hs"
  using decision_hoops_enforce [OF assms] start_hoops_enforce [OF assms] unfolding route_hoops_def by metis

lemma playback_dispatched:
  assumes "playback_path sv path"
  obtains hs where
    "dispatch (sv_matches sv) verb path (route_table (sv_config sv)) = Some (hs, Proxy_request)"
    "Enforce_policy \<in> set hs \<longleftrightarrow> cf_resolution_policy_enabled (sv_config sv)"
    "\<And>ev. ev_config ev = sv_config sv \<Longrightarrow>
      map (playback_hoop ev) hs = map Some (route_hoops sv ev path)"
proof -
  let ?c = "sv_config sv"
  let ?d = "shared_hoops ?c @ (if cf_video_transcode_fallback_for ?c \<noteq> None then [Transcode_fallback] else [])
    @ [Direct_stream]"
  have clear: "\<not> sv_matches sv session_path path" "\<not> sv_matches sv parts_path path"
    "\<not> sv_matches sv related_path path" "\<not> sv_matches sv queue_path path"
    using assms by (simp_all add: playback_path_def clear_of_def)
  have enforce: "Enforce_policy \<in> set (shared_hoops ?c) \<longleftrightarrow> cf_resolution_policy_enabled ?c"
    by (simp add: shared_hoops_def)
  have start: "map (playback_hoop ev) (shared_hoops ?c) = map Some (start_hoops ev)" if "ev_config ev = ?c" for ev
    using playback_hoops_start [of ev] that by simp
  have decision: "map (playback_hoop ev) ?d = map Some (decision_hoops ev)" if "ev_config ev = ?c" for ev
    using start [OF that] that by (simp add: decision_hoops_def playback_hoop_def)
  note d = dispatch_playback [where matches = "sv_matches sv" and path = path, OF clear, of verb ?c]
  show thesis
  proof (cases "sv_matches sv decision_path path")
    case True
    then have "dispatch (sv_matches sv) verb path (route_table ?c) = Some (?d, Proxy_request)"
      by (simp add: d playback_routes_def route_simps)
    then show thesis by (rule that) (use enforce decision True in \<open>auto simp: route_hoops_def\<close>)
  next
    case False
    then have "dispatch (sv_matches sv) verb path (route_table ?c) = Some (shared_hoops ?c, Proxy_request)"
      using assms by (auto simp: d playback_routes_def route_simps playback_path_def)
    then show thesis by (rule that) (use enforce start False in \<open>auto simp: route_hoops_def\<close>)
  qed
qed

text \<open>With the policy routed, a playback request of a secured path runs the hoops of its route, and
  leaves behind what the enforcement records.\<close>

lemma playback_routed:
  fixes rc s
  assumes "playback_path sv (rq_path r)" "cf_resolution_policy_enabled (sv_config sv)"
  defines "ev \<equiv> play_env_of sv rc (Some s) (Inl MissingToken)"
  shows "fst (routed sv rc (Some s) r st) = reply_of (run_hoops (route_hoops sv ev (rq_path r)) r)"
    and "ss_parts (snd (routed sv rc (Some s) r st)) =
      pb_parts (enforce_effects ev r \<lparr>pb_parts = ss_parts st, pb_metrics = ss_metrics st\<rparr>)"
    and "(\<forall>r'. run_hoops (route_hoops sv ev (rq_path r)) r \<noteq> Next r') \<Longrightarrow>
      ss_metrics (snd (routed sv rc (Some s) r st)) =
      pb_metrics (enforce_effects ev r \<lparr>pb_parts = ss_parts st, pb_metrics = ss_metrics st\<rparr>)"
proof -
  obtain hs where hs: "dispatch (sv_matches sv) (rq_method r) (rq_path r) (route_table (sv_config sv))
      = Some (hs, Proxy_request)" "Enforce_policy \<in> set hs"
    "map (playback_hoop ev) hs = map Some (route_hoops sv ev (rq_path r))"
    using playback_dispatched [OF assms(1), of "rq_method r"] assms(2)
    by (metis ev_def play_env.select_convs(1) play_env_of_def)
  from hs(3) have h: "those (map (playback_hoop ev) hs) = Some (route_hoops sv ev (rq_path r))"
    by (simp add: those_map_Some)
  note run = routed_def playback_request_def asked_when_secured pass_on_def reply_of_def Let_def
  show "fst (routed sv rc (Some s) r st) = reply_of (run_hoops (route_hoops sv ev (rq_path r)) r)"
    "ss_parts (snd (routed sv rc (Some s) r st)) =
      pb_parts (enforce_effects ev r \<lparr>pb_parts = ss_parts st, pb_metrics = ss_metrics st\<rparr>)"
    using hs(1,2) h by (simp_all add: run flip: ev_def split: hoop_result.split prod.split)
  show "ss_metrics (snd (routed sv rc (Some s) r st)) =
      pb_metrics (enforce_effects ev r \<lparr>pb_parts = ss_parts st, pb_metrics = ss_metrics st\<rparr>)"
    if "\<forall>r'. run_hoops (route_hoops sv ev (rq_path r)) r \<noteq> Next r'"
    using hs(1,2) h that by (simp add: run flip: ev_def split: hoop_result.split prod.split)
qed

lemma stream_routed:
  fixes rc s st
  assumes "stream_path sv (rq_path r)" "cf_resolution_policy_enabled (sv_config sv)"
  defines "ev \<equiv> stream_env_of sv rc (Some s) (Inl MissingToken) (ss_parts st) r"
  shows "fst (routed sv rc (Some s) r st) =
      (case fst (protected_redirect_stream ev (ss_metrics st)) of
         Proxied \<Rightarrow> Forwarded r | RedirectTo u \<Rightarrow> Redirected u | Refused n \<Rightarrow> Answered n)"
    and "ss_parts (snd (routed sv rc (Some s) r st)) = ss_parts st"
    and "ss_metrics (snd (routed sv rc (Some s) r st)) = snd (protected_redirect_stream ev (ss_metrics st))"
  using parts_gated [where matches = "sv_matches sv" and path = "rq_path r" and c = "sv_config sv",
      of "rq_method r"] assms(1,2)
  by (auto simp: routed_def stream_request_def asked_when_secured stream_path_def ev_def
      split: prod.split stream_reply.split)

text \<open>Once the security context stands, no route looks an account up.\<close>

lemma routed_identities: "ss_identities (snd (routed sv rc (Some s) r st)) = ss_identities st"
  by (simp add: routed_def playback_request_def stream_request_def asked_when_secured pass_on_def Let_def
      split: option.split prod.split hoop_result.split stream_reply.split)

subsection \<open>The composition\<close>

lemma serve_secured:
  assumes "opened sv r st = (Continue rc, c)" "secured sv rc r (ss_identities st) = (sec, ids)"
  shows "serve sv r st = routed sv rc sec r (st\<lparr>ss_counter := c, ss_identities := ids\<rparr>)"
  using assms by (simp add: serve_def)

lemma secured_identified:
  assumes "ps_enabled (sv_policy sv)" "requires_security_context (rq_path r)" "account_of sv rc st = Inr i"
    and "cf_host (sv_config sv) \<noteq> None"
  obtains sc ids where "secured sv rc r (ss_identities st) = (Some (Resolved sc), ids)"
    "sc_policy sc = rule_of sv i"
proof -
  have "client_ok sv rc None" using assms(4) account_token [OF assms(3)] by (simp add: client_ok_iff)
  from secured_account [OF assms(1,2) this, of st] assms(3) show thesis
    by (cases "secured sv rc r (ss_identities st)") (auto intro: that)
qed

lemma secured_unidentified:
  assumes "ps_enabled (sv_policy sv)" "requires_security_context (rq_path r)" "account_of sv rc st = Inl e"
  obtains e' ids where
    "secured sv rc r (ss_identities st) = (Some (Unavailable (ps_fail_closed (sv_policy sv)) e'), ids)"
proof (cases "client_ok sv rc None")
  case True
  from secured_account [OF assms(1,2) True, of st] assms(3) show thesis
    by (cases "secured sv rc r (ss_identities st)") (auto intro: that)
next
  case False
  then have "client_error (sv_config sv) (rc_plex rc) \<noteq> None" by (auto simp: client_error_def client_ok_iff)
  then show thesis using assms(1,2)
    by (auto simp: secured_def security_context_middleware_def intro: that)
qed

lemma play_env_of_fields [simp]:
  "ev_config (play_env_of sv rc sec user) = sv_config sv" "ev_snapshot (play_env_of sv rc sec user) = sv_policy sv"
  "ev_security (play_env_of sv rc sec user) = sec" "ev_client_ok (play_env_of sv rc sec user) = client_ok sv rc sec"
  "ev_item (play_env_of sv rc sec user) = sv_items sv rc"
  by (simp_all add: play_env_of_def)

lemma served_enforced_media:
  assumes "ps_enabled (sv_policy sv)" "client_ok sv rc (Some (Resolved sc))" "\<not> is_unrestricted (sc_policy sc)"
    and "Option.bind (mm_get (rq_query r) ''path'') (sv_items sv rc) = Some item"
    and "item_media item = Some ms" "ms \<noteq> []"
  shows "enforced_media (play_env_of sv rc (Some (Resolved sc)) user) r = Some (sc_policy sc, ms)"
  using assms by (simp add: enforced_media_def enforced_policy_def)

lemma forwarded_run: "reply_of h = Forwarded r' \<longleftrightarrow> h = Next r'"
  by (cases h) (simp_all add: reply_of_def)

text \<open>A playback request of an identified, restricted account that is sent on to Plex selects a
  permitted version.\<close>

lemma forwarded_selects:
  assumes "opened sv r st = (Continue rc, c)" "playback_path sv (rq_path r)"
    and "cf_resolution_policy_enabled (sv_config sv)" "ps_enabled (sv_policy sv)"
    and "requires_security_context (rq_path r)" "account_of sv rc st = Inr i" "\<not> is_unrestricted (rule_of sv i)"
    and "Option.bind (mm_get (rq_query r) ''path'') (sv_items sv rc) = Some item"
    and "item_media item = Some ms" "ms \<noteq> []" "rq_absolute r" "indexable ms"
    and "fst (serve sv r st) = Forwarded r'"
  shows "selects_allowed (rule_of sv i) ms (rq_query r')"
proof (cases "cf_host (sv_config sv)")
  case None
  then have bad: "\<not> client_ok sv rc sec" for sec by (simp add: client_ok_iff)
  obtain s ids where sec: "secured sv rc r (ss_identities st) = (Some s, ids)"
    using secured_present [OF assms(4,5), of rc "ss_identities st"] by (metis prod.collapse)
  let ?ev = "play_env_of sv rc (Some s) (Inl MissingToken)"
  have "enforce_resolution_policy ?ev r = Fail"
    using bad assms(4) by (simp add: enforce_resolution_policy_def)
  moreover obtain hs where "route_hoops sv ?ev (rq_path r) = enforce_resolution_policy ?ev # hs"
    using route_hoops_enforce [of ?ev] assms(3) by auto
  ultimately have "fst (serve sv r st) = Route_failed"
    using playback_routed(1) [OF assms(2,3)] serve_secured [OF assms(1) sec] by (simp add: reply_of_def)
  with assms(13) show ?thesis by simp
next
  case (Some host)
  then have "cf_host (sv_config sv) \<noteq> None" by simp
  from secured_identified [OF assms(4,5,6) this] obtain sc ids where
    sec: "secured sv rc r (ss_identities st) = (Some (Resolved sc), ids)" and p: "sc_policy sc = rule_of sv i"
    by blast
  let ?ev = "play_env_of sv rc (Some (Resolved sc)) (Inl MissingToken)"
  have run: "run_hoops (route_hoops sv ?ev (rq_path r)) r = Next r'"
    using playback_routed(1) [OF assms(2,3)] serve_secured [OF assms(1) sec] assms(13) forwarded_run by metis
  have ok: "client_ok sv rc (Some (Resolved sc))"
    using Some account_token [OF assms(6)] by (simp add: client_ok_iff)
  have media: "enforced_media ?ev r = Some (rule_of sv i, ms)"
    using served_enforced_media [OF assms(4) ok _ assms(8-10)] assms(7) p by simp
  have on: "cf_resolution_policy_enabled (ev_config ?ev)" "ev_security ?ev = Some (Resolved sc)"
    using assms(3) by simp_all
  show ?thesis
    using decision_route_allowed [OF on media assms(11,12)] start_route_allowed [OF on(1) media assms(11,12)]
      run by (simp add: route_hoops_def split: if_splits)
qed

text \<open>An account that is not identified gets nothing, while failing closed is configured: no playback
  and no stream is sent on or redirected, and nothing is recorded.\<close>

definition refusal :: "service \<Rightarrow> request_ctx \<Rightarrow> string \<Rightarrow> service_reply" where
  "refusal sv rc path =
     (if cx_token (rc_plex rc) \<noteq> None \<and> cf_host (sv_config sv) \<noteq> None then Answered 503
      else if stream_path sv path then Answered 401 else Route_failed)"

lemma unidentified_refused:
  assumes "opened sv r st = (Continue rc, c)" "playback_path sv (rq_path r) \<or> stream_path sv (rq_path r)"
    and "cf_resolution_policy_enabled (sv_config sv)" "ps_enabled (sv_policy sv)" "ps_fail_closed (sv_policy sv)"
    and "requires_security_context (rq_path r)" "account_of sv rc st = Inl e"
  shows "fst (serve sv r st) = refusal sv rc (rq_path r)
    \<and> ss_parts (snd (serve sv r st)) = ss_parts st \<and> ss_metrics (snd (serve sv r st)) = ss_metrics st"
proof -
  obtain e' ids where sec: "secured sv rc r (ss_identities st) = (Some (Unavailable True e'), ids)"
    using secured_unidentified [OF assms(4,6,7)] assms(5) by metis
  let ?s = "Unavailable True e'" and ?st = "st\<lparr>ss_counter := c, ss_identities := ids\<rparr>"
  note serve = serve_secured [OF assms(1) sec]
  show ?thesis
  proof (cases "stream_path sv (rq_path r)")
    case True
    let ?ev = "stream_env_of sv rc (Some ?s) (Inl MissingToken) (ss_parts st) r"
    have "protected_redirect_stream ?ev m = (if client_ok sv rc (Some ?s) then (Refused 503, m) else (Refused 401, m))" for m
      using assms(4) by (simp add: protected_redirect_stream_def stream_env_of_def)
    then show ?thesis
      using stream_routed [OF True assms(3), of rc ?s ?st] serve
      by (auto simp: refusal_def True client_ok_iff)
  next
    case False
    with assms(2) have path: "playback_path sv (rq_path r)" by simp
    let ?ev = "play_env_of sv rc (Some ?s) (Inl MissingToken)"
    have enforce: "enforce_resolution_policy ?ev r = (if client_ok sv rc (Some ?s) then Stop 503 r else Fail)"
      using assms(4) by (simp add: enforce_resolution_policy_def)
    have idle: "enforce_effects ?ev r pb = pb" for pb
      by (simp add: enforce_effects_def enforced_media_def enforced_policy_def)
    obtain hs where "route_hoops sv ?ev (rq_path r) = enforce_resolution_policy ?ev # hs"
      using route_hoops_enforce [of ?ev] assms(3) by auto
    then have "run_hoops (route_hoops sv ?ev (rq_path r)) r = (if client_ok sv rc (Some ?s) then Stop 503 r else Fail)"
      using enforce by simp
    with playback_routed [OF path assms(3), of rc ?s ?st] serve False show ?thesis
      by (auto simp: refusal_def reply_of_def client_ok_iff idle)
  qed
qed

end
