(* ===== verification/Samples.thy ===== *)
theory Samples
  imports Service
begin

text \<open>
  The inputs on which the properties are applied: two versions of an item, a policy that permits the
  smaller one, an account under it, and what a playback request of that account sees; a URL library and
  a file system that works.
\<close>

definition demo_4k :: media where
  "demo_4k = default_media\<lparr>m_id := 1, m_width := Some 3840, m_height := Some 2160,
     m_video_resolution := Some ''4k'', m_bitrate := Some 20000\<rparr>"

definition demo_1080 :: media where
  "demo_1080 = default_media\<lparr>m_id := 2, m_width := Some 1920, m_height := Some 1080,
     m_video_resolution := Some ''1080'', m_bitrate := Some 8000,
     m_parts := [default_part\<lparr>p_id := 7\<rparr>]\<rparr>"

definition demo_policy :: resolution_policy where
  "demo_policy = \<lparr>rp_limit = P1080, rp_max_bitrate = Some 10000, rp_hidden_collections = []\<rparr>"

definition demo_user :: user_identity where
  "demo_user = \<lparr>ui_id = 3, ui_uuid = ''u3'', ui_username = ''kid''\<rparr>"

definition demo_security :: security_context where
  "demo_security = \<lparr>sc_identity = demo_user, sc_token_scope = ''0123456789abcdef'',
     sc_policy = demo_policy, sc_identity_source = VerifiedPlex\<rparr>"

definition demo_config :: config where
  "demo_config = default_config\<lparr>cf_host := Some ''http://plex:32400'',
     cf_resolution_policy_enabled := True, cf_auto_select_version := True,
     cf_force_maximum_quality := True, cf_video_transcode_fallback_for := Some [''4k'']\<rparr>"

definition demo_snapshot :: policy_snapshot where
  "demo_snapshot = \<lparr>ps_enabled = True, ps_entries = [], ps_default_limit = P1080,
     ps_fail_closed = True, ps_hidden_collections = [], ps_generation = 1\<rparr>"

definition demo_item :: media_container where
  "demo_item = default_container\<lparr>mc_metadata :=
     [MetaData (default_attrs\<lparr>md_media := [demo_4k, demo_1080]\<rparr>) [] [] []]\<rparr>"

definition demo_play :: play_env where
  "demo_play = \<lparr>ev_config = demo_config, ev_snapshot = demo_snapshot,
     ev_security = Some (Resolved demo_security), ev_user = Inl MissingToken, ev_client_ok = True,
     ev_skip = False, ev_context = default_context, ev_item = (\<lambda>_. Some demo_item),
     ev_decision = (\<lambda>_. Some default_container),
     ev_decision_status = (\<lambda>_. (Some 200, Some default_container)), ev_f32 = (\<lambda>_. None)\<rparr>"

definition demo_request :: request where
  "demo_request = \<lparr>rq_method = ''GET'', rq_path = ''/video/:/transcode/universal/decision'',
     rq_query = [(''path'', ''/library/metadata/5''), (''mediaIndex'', ''0'')],
     rq_headers = [], rq_absolute = True\<rparr>"

text \<open>A plain reading of URLs: path, and query pairs without escapes.\<close>

fun demo_pairs :: "string list \<Rightarrow> (string \<times> string) list option" where
  "demo_pairs [] = Some []"
| "demo_pairs (w # ws) =
     (case (split_once CHR ''='' w, demo_pairs ws) of (Some p, Some ps) \<Rightarrow> Some (p # ps) | _ \<Rightarrow> None)"

definition demo_encode :: "(string \<times> string) list \<Rightarrow> string" where
  "demo_encode ps = join ''&'' (map (\<lambda>(k, v). k @ CHR ''='' # v) ps)"

definition demo_parse :: "string \<Rightarrow> url option" where
  "demo_parse s =
     (case strip_prefix s ''http://x'' of
        None \<Rightarrow> None
      | Some raw \<Rightarrow>
          (case split_once CHR ''?'' raw of
             None \<Rightarrow> Some \<lparr>ur_path = raw, ur_pairs = []\<rparr>
           | Some (p, q) \<Rightarrow>
               map_option (\<lambda>ps. \<lparr>ur_path = p, ur_pairs = ps\<rparr>) (demo_pairs (split_on CHR ''&'' q))))"

definition demo_urls :: url_lib where
  "demo_urls = \<lparr>ul_parse = demo_parse,
     ul_show = (\<lambda>u. ''http://x'' @ ur_path u @ ''?'' @ demo_encode (ur_pairs u)),
     ul_encode = demo_encode, ul_uri_ok = (\<lambda>_. True)\<rparr>"

definition demo_io :: disk_io where
  "demo_io = \<lparr>io_write = True, io_partial = None, io_rename = True, io_remove = (\<lambda>_. True),
     io_touch = True, io_now = 9, io_pid = 1\<rparr>"

definition passes :: "hoop_result \<Rightarrow> bool" where
  "passes h = (case h of Next _ \<Rightarrow> True | _ \<Rightarrow> False)"

lemma passesE: "passes h \<Longrightarrow> (\<And>r. h = Next r \<Longrightarrow> thesis) \<Longrightarrow> thesis"
  by (cases h) (simp_all add: passes_def)


lemmas demo_defs = demo_4k_def demo_1080_def demo_policy_def demo_user_def demo_security_def
  demo_config_def demo_snapshot_def demo_item_def demo_play_def demo_request_def

lemma demo_classify: "classify demo_4k = Some P2160" "classify demo_1080 = Some P1080"
  by (simp_all add: classify_def classify_dimensions_def demo_4k_def demo_1080_def limit_parse_def
      Let_def str_simps max_def limit_order)

lemma demo_allowed: "\<not> media_allowed demo_4k demo_policy" "media_allowed demo_1080 demo_policy"
  by (simp_all add: media_allowed_def demo_classify limit_order policy_simps demo_policy_def)

lemma demo_enforced: "enforced_media demo_play demo_request = Some (demo_policy, [demo_4k, demo_1080])"
  by (simp add: enforced_media_def enforced_policy_def demo_play_def demo_snapshot_def
      demo_security_def demo_request_def demo_item_def item_media_def mm_get_def demo_policy_def
      is_unrestricted_def limit_is_unrestricted_def)

lemma demo_indexable: "indexable [demo_4k, demo_1080]"
  by (simp add: indexable_def demo_4k_def demo_1080_def u64_max_def)

lemma demo_upstream: "upstream_answers demo_play"
  by (simp add: upstream_answers_def demo_play_def)

lemma demo_fields [simp]:
  "cf_resolution_policy_enabled (ev_config demo_play)" "rq_absolute demo_request"
  "ev_security demo_play = Some (Resolved demo_security)" "ev_client_ok demo_play"
  "ev_snapshot demo_play = demo_snapshot" "ps_enabled demo_snapshot" "ps_fail_closed demo_snapshot"
  "sc_policy demo_security = demo_policy" "rp_max_bitrate demo_policy = Some 10000"
  "\<not> is_unrestricted demo_policy"
  by (simp_all add: demo_defs is_unrestricted_def limit_is_unrestricted_def)

lemma demo_decision_passes: "\<exists>r'. run_hoops (decision_hoops demo_play) demo_request = Next r'"
  by (rule decision_route_serves [OF _ demo_upstream demo_enforced]) (use demo_allowed in auto)

subsection \<open>The plain URLs survive a change of their query\<close>

lemma demo_pairs_words:
  "demo_pairs ws = Some ps \<Longrightarrow> (k, v) \<in> set ps \<Longrightarrow> CHR ''='' \<notin> set k \<and> k @ CHR ''='' # v \<in> set ws"
  by (induction ws arbitrary: ps) (auto split: option.splits dest!: split_once_Some)

lemma demo_pairs_render:
  "\<forall>(k, v) \<in> set ps. CHR ''='' \<notin> set k \<Longrightarrow>
   demo_pairs (map (\<lambda>(k, v). k @ CHR ''='' # v) ps) = Some ps"
  by (induction ps) auto

lemma demo_encode_parsed:
  assumes "\<forall>(k, v) \<in> set ps. CHR ''='' \<notin> set k \<and> CHR ''&'' \<notin> set (k @ CHR ''='' # v)" "ps \<noteq> []"
  shows "demo_pairs (split_on CHR ''&'' (demo_encode ps)) = Some ps"
proof -
  have "split_on CHR ''&'' (demo_encode ps) = map (\<lambda>(k, v). k @ CHR ''='' # v) ps"
    unfolding demo_encode_def using assms by (intro split_on_join) auto
  moreover have "demo_pairs (map (\<lambda>(k, v). k @ CHR ''='' # v) ps) = Some ps"
    using assms(1) by (intro demo_pairs_render) auto
  ultimately show ?thesis by (simp only:)
qed

lemma demo_parsed_shape:
  assumes "demo_parse (''http://x'' @ raw) = Some u"
  shows "CHR ''?'' \<notin> set (ur_path u)"
    and "\<forall>(k, v) \<in> set (ur_pairs u). CHR ''='' \<notin> set k \<and> CHR ''&'' \<notin> set (k @ CHR ''='' # v)"
proof -
  have raw: "strip_prefix (''http://x'' @ raw) ''http://x'' = Some raw"
    by (simp only: strip_prefix_Some)
  show "CHR ''?'' \<notin> set (ur_path u)"
    using assms unfolding demo_parse_def raw
    by (auto simp: split_once_None split: option.splits dest!: split_once_Some)
  show "\<forall>(k, v) \<in> set (ur_pairs u). CHR ''='' \<notin> set k \<and> CHR ''&'' \<notin> set (k @ CHR ''='' # v)"
    using assms unfolding demo_parse_def raw
    by (auto split: option.splits dest!: demo_pairs_words) (auto dest!: split_on_no_sep)
qed

lemma demo_urls_roundtrip: "url_roundtrip demo_urls"
proof (unfold url_roundtrip_def, intro allI impI, elim conjE)
  fix raw u ps
  assume "ul_parse demo_urls (''http://x'' @ raw) = Some u" and sub: "set ps \<subseteq> set (ur_pairs u)"
  then have u: "demo_parse (''http://x'' @ raw) = Some u" by (simp add: demo_urls_def)
  have ok: "\<forall>(k, v) \<in> set ps. CHR ''='' \<notin> set k \<and> CHR ''&'' \<notin> set (k @ CHR ''='' # v)"
    using demo_parsed_shape(2) [OF u] sub by blast
  have strip: "strip_prefix (''http://x'' @ w) ''http://x'' = Some w" for w
    by (simp only: strip_prefix_Some)
  have enc: "demo_encode ps = [] \<longleftrightarrow> ps = []"
    by (cases ps; cases "tl ps") (auto simp: demo_encode_def)
  have "split_once CHR ''?'' (ur_path u) = None"
    using demo_parsed_shape(1) [OF u] by (simp add: split_once_None)
  moreover have "split_once CHR ''?'' (ur_path u @ CHR ''?'' # demo_encode ps) = Some (ur_path u, demo_encode ps)"
    using demo_parsed_shape(1) [OF u] by simp
  ultimately show "ul_parse demo_urls (''http://x'' @ fetch_form demo_urls (ur_path u) ps) = Some (u\<lparr>ur_pairs := ps\<rparr>)"
    using demo_encode_parsed [OF ok] enc
    by (cases "ps = []") (simp_all add: demo_urls_def fetch_form_def demo_parse_def strip [simplified])
qed

subsection \<open>A server\<close>

text \<open>A plain reading of the patterns that the witnesses use.\<close>

definition demo_matches :: "string \<Rightarrow> string \<Rightarrow> bool" where
  "demo_matches pattern path \<longleftrightarrow>
     pattern = rest_path
     \<or> pattern = decision_path \<and> path = ''/video/:/transcode/universal/decision''
     \<or> pattern = queue_path \<and> path = ''/playQueues''"

text \<open>A server on which the account \<open>kid\<close> is identified, or not, by the status of plex.tv.\<close>

definition ia_user_of :: "nat \<Rightarrow> identity_api" where
  "ia_user_of status =
     \<lparr>ia_user = (\<lambda>_ _ _. Reply status (Some \<lparr>ru_id = 3, ru_uuid = ''u3'', ru_username = Some ''kid'', ru_title = None\<rparr>)),
      ia_resources = (\<lambda>_ _ _. NoReply), ia_shared_servers = (\<lambda>_ _ _ _. NoReply), ia_root = (\<lambda>_. NoReply),
      ia_header_ok = (\<lambda>_. True)\<rparr>"

definition demo_client :: plex_context where
  "demo_client = default_context\<lparr>cx_token := Some ''kids-token''\<rparr>"

definition demo_service :: "identity_api \<Rightarrow> service" where
  "demo_service api =
     \<lparr>sv_config = demo_config, sv_policy = demo_snapshot, sv_sha = (\<lambda>s. s), sv_base32 = (\<lambda>_. None),
      sv_bases = \<lparr>bu_parse = (\<lambda>_. None), bu_print = (\<lambda>_. [])\<rparr>, sv_identity = api,
      sv_extract = (\<lambda>_. demo_client), sv_matches = demo_matches, sv_part = (\<lambda>_. None),
      sv_raw = rq_path, sv_items = (\<lambda>_ _. Some demo_item), sv_decision = (\<lambda>_ _. Some default_container),
      sv_decision_status = (\<lambda>_ _. (Some 200, Some default_container)), sv_proxied = (\<lambda>_ _. (0, True)),
      sv_f32 = (\<lambda>_. None)\<rparr>"

definition demo_state :: service_state where
  "demo_state = \<lparr>ss_counter = 1, ss_identities = \<lparr>id_identities = Map.empty, id_machines = Map.empty\<rparr>,
     ss_parts = Map.empty, ss_metrics = default_metrics, ss_hub = initial_hub\<rparr>"

definition demo_rc :: request_ctx where
  "demo_rc = \<lparr>rc_plex = demo_client, rc_upstream_host = ''http://plex:32400'', rc_request_id = 1,
     rc_token_scope = token_scope (\<lambda>s. s) (Some ''kids-token'')\<rparr>"

definition demo_kid :: resolved_identity where
  "demo_kid = \<lparr>ri_identity = demo_user, ri_source = VerifiedPlex\<rparr>"

lemma demo_opened: "opened (demo_service api) demo_request demo_state = (Continue demo_rc, 2)"
  by (simp add: opened_def request_context_middleware_def decoded_replex_stream_host_def header_def
      demo_service_def demo_request_def demo_state_def demo_rc_def demo_client_def demo_config_def Let_def)

lemma demo_secured: "requires_security_context (rq_path demo_request)"
  by (simp add: requires_security_context_def demo_request_def starts_with_code)

lemma demo_service_path: "playback_path (demo_service api) (rq_path demo_request)"
  by (simp add: playback_path_def clear_of_def demo_service_def demo_matches_def route_paths demo_request_def)

lemma demo_identified:
  "fst (get_current_identity (sv_sha (demo_service (ia_user_of 200))) (sv_identity (demo_service (ia_user_of 200)))
     (sv_config (demo_service (ia_user_of 200))) (rc_upstream_host demo_rc) (rc_plex demo_rc)
     (ss_identities demo_state)) = Inr demo_kid"
  by (simp add: get_current_identity_def fetch_current_identity_def demo_service_def ia_user_of_def demo_rc_def
      demo_state_def demo_client_def demo_kid_def demo_user_def)

lemma demo_forwarded: "\<exists>r'. fst (serve (demo_service (ia_user_of 200)) demo_request demo_state) = Forwarded r'"
proof -
  let ?sv = "demo_service (ia_user_of 200)"
  have sv: "ps_enabled (sv_policy ?sv)" "cf_host (sv_config ?sv) \<noteq> None"
    "cf_resolution_policy_enabled (sv_config ?sv)"
    by (simp_all add: demo_service_def demo_config_def)
  obtain sc ids where sec: "secured ?sv demo_rc demo_request (ss_identities demo_state) = (Some (Resolved sc), ids)"
    "sc_policy sc = rule_of ?sv demo_kid"
    using secured_identified [OF sv(1) demo_secured demo_identified sv(2)] by blast
  let ?ev = "play_env_of ?sv demo_rc (Some (Resolved sc)) (Inl MissingToken)"
  have p: "sc_policy sc = \<lparr>rp_limit = P1080, rp_max_bitrate = None, rp_hidden_collections = []\<rparr>"
    by (simp add: sec(2) demo_service_def demo_snapshot_def resolve_policy_def matching_entry_def)
  have ok: "client_ok ?sv demo_rc (Some (Resolved sc))"
    using sv(2) by (simp add: client_ok_iff demo_rc_def demo_client_def)
  have up: "upstream_answers ?ev" using ok by (simp add: upstream_answers_def) (simp add: play_env_of_def demo_service_def)
  have restricted: "\<not> is_unrestricted (sc_policy sc)" by (simp add: p policy_simps)
  have item: "Option.bind (mm_get (rq_query demo_request) ''path'') (sv_items ?sv demo_rc) = Some demo_item"
    "item_media demo_item = Some [demo_4k, demo_1080]" "[demo_4k, demo_1080] \<noteq> []"
    by (simp_all add: demo_request_def mm_get_def demo_service_def demo_item_def item_media_def)
  note media = served_enforced_media [OF sv(1) ok restricted item]
  have allowed: "media_allowed demo_1080 (sc_policy sc)"
    by (simp add: p media_allowed_def demo_classify limit_order policy_simps)
  have on: "cf_resolution_policy_enabled (ev_config ?ev)" "rq_absolute demo_request" using sv(3) by simp_all
  obtain r1 where decision: "run_hoops (decision_hoops ?ev) demo_request = Next r1"
    using decision_route_serves [OF on(1) up media on(2) _ allowed] by auto
  then obtain r2 where start: "run_hoops (start_hoops ?ev) demo_request = Next r2"
    by (auto simp: decision_hoops_def run_hoops_append split: hoop_result.splits)
  show ?thesis
    using playback_routed(1) [OF demo_service_path sv(3)] serve_secured [OF demo_opened sec(1)] decision start
    by (simp add: route_hoops_def forwarded_run)
qed

end
