(* ===== verification/Playback_Properties.thy ===== *)
theory Playback_Properties
  imports Samples
begin

text \<open>
  The properties of the playback routes and of the streams (\<open>src/routes.rs\<close>): what a restricted
  account plays, when it is refused, and that the route table sends the requests there.
\<close>

section \<open>Playback\<close>




lemma demo_start_passes: "\<exists>r'. run_hoops (start_hoops demo_play) demo_request = Next r'"
proof -
  obtain r' where "run_hoops (decision_hoops demo_play) demo_request = Next r'"
    using demo_decision_passes by blast
  then show ?thesis by (auto simp: decision_hoops_def run_hoops_append split: hoop_result.splits)
qed


text \<open>C3. A restricted request is refused with 403 exactly when the item has no permitted version,
  and exactly then the refusal is counted; the classification facts of the item are recorded
  either way.\<close>

theorem enforcement_refuses_iff_nothing_permitted:
  assumes "enforced_media ev r = Some (p, ms)" and "rq_absolute r"
  shows "(\<exists>r'. enforce_resolution_policy ev r = Stop 403 r') = (\<forall>m \<in> set ms. \<not> media_allowed m p)
    \<and> pb_metrics (enforce_effects ev r st) =
        (if \<forall>m \<in> set ms. \<not> media_allowed m p then policy_reject (pb_metrics st) else pb_metrics st)
    \<and> pb_parts (enforce_effects ev r st) = cache_part_classification ms (pb_parts st)"
  using assms enforce_selects [OF assms] enforce_rejects [OF assms]
  by (auto simp: select_version_rejects enforce_effects_def)

theorem enforcement_refuses_iff_nothing_permitted_witness:
  "\<not> (\<exists>r'. enforce_resolution_policy demo_play demo_request = Stop 403 r')
   \<and> pb_metrics (enforce_effects demo_play demo_request
       \<lparr>pb_parts = Map.empty, pb_metrics = default_metrics\<rparr>) = default_metrics"
  using enforcement_refuses_iff_nothing_permitted [OF demo_enforced, of "\<lparr>pb_parts = Map.empty, pb_metrics = default_metrics\<rparr>"]
    demo_allowed by simp

text \<open>C4. A restricted request for an item with a permitted version is not refused: it passes every
  hoop of the decision route, as long as Plex answers the decision requests.\<close>

theorem permitted_requests_pass:
  assumes "cf_resolution_policy_enabled (ev_config ev)" and "upstream_answers ev"
    and "enforced_media ev r = Some (p, ms)" and "rq_absolute r"
    and "m \<in> set ms" and "media_allowed m p"
  shows "\<exists>r'. run_hoops (decision_hoops ev) r = Next r'"
  by (rule decision_route_serves [OF assms])

theorem permitted_requests_pass_witness:
  "\<exists>r'. run_hoops (decision_hoops demo_play) demo_request = Next r'"
  by (rule permitted_requests_pass [OF _ demo_upstream demo_enforced, of demo_1080])
    (use demo_allowed in auto)

text \<open>C5. An account that cannot be identified gets nothing: with the policy enabled and failing closed
  configured, every playback and every stream request whose token is missing or stands for no account
  (or for none that can be looked up) is answered 503, or 401 or an error when no client can be built
  for it; it is not sent on to Plex nor redirected, and leaves no trace in the classification facts and
  the counters.\<close>

theorem unidentified_accounts_get_nothing:
  assumes "opened sv r st = (Continue rc, c)" "playback_path sv (rq_path r) \<or> stream_path sv (rq_path r)"
    and "cf_resolution_policy_enabled (sv_config sv)" "ps_enabled (sv_policy sv)" "ps_fail_closed (sv_policy sv)"
    and "requires_security_context (rq_path r)"
    and "fst (get_current_identity (sv_sha sv) (sv_identity sv) (sv_config sv) (rc_upstream_host rc)
           (rc_plex rc) (ss_identities st)) = Inl e"
  shows "fst (serve sv r st) =
      (if cx_token (rc_plex rc) \<noteq> None \<and> cf_host (sv_config sv) \<noteq> None then Answered 503
       else if stream_path sv (rq_path r) then Answered 401 else Route_failed)
    \<and> ss_parts (snd (serve sv r st)) = ss_parts st \<and> ss_metrics (snd (serve sv r st)) = ss_metrics st"
  using unidentified_refused [OF assms] by (simp add: refusal_def)

theorem unidentified_accounts_get_nothing_witness:
  "fst (serve (demo_service (ia_user_of 401)) demo_request demo_state) = Answered 503
   \<and> ss_parts (snd (serve (demo_service (ia_user_of 401)) demo_request demo_state)) = Map.empty"
proof -
  let ?sv = "demo_service (ia_user_of 401)"
  have "fst (get_current_identity (sv_sha ?sv) (sv_identity ?sv) (sv_config ?sv) (rc_upstream_host demo_rc)
      (rc_plex demo_rc) (ss_identities demo_state)) = Inl (UpstreamError ''server root request failed'')"
    by (simp add: get_current_identity_def fetch_current_identity_def rejected_identity_def
        resolve_shared_user_def server_machine_id_def demo_service_def ia_user_of_def demo_rc_def
        demo_state_def demo_client_def)
  from unidentified_accounts_get_nothing [OF demo_opened disjI1 [OF demo_service_path] _ _ _ demo_secured this]
  show ?thesis by (simp add: demo_service_def demo_state_def demo_rc_def demo_client_def demo_config_def)
qed


lemma demo_enforced_policy: "enforced_policy demo_play = Some demo_policy"
  by (simp add: enforced_policy_def)

lemma demo_enforce_passes: "\<exists>r'. enforce_resolution_policy demo_play demo_request = Next r'"
proof -
  obtain r' where "run_hoops (start_hoops demo_play) demo_request = Next r'"
    using demo_start_passes by blast
  moreover obtain hs where "start_hoops demo_play = enforce_resolution_policy demo_play # hs"
    using start_hoops_enforce [of demo_play] by auto
  ultimately show ?thesis by (auto split: hoop_result.splits)
qed




text \<open>C8. With the policy enabled, every method on a stream path meets the stream gate, and the
  responses for library items, library sections and play queues are filtered, unless the option
  that disables related items is set: its routes come first, and leave the related items of a
  library item and all play queues to the bare proxy.\<close>

theorem enabled_policy_is_routed:
  assumes "cf_resolution_policy_enabled c"
  shows "(matches parts_path path \<or> matches session_path path \<longrightarrow>
      dispatch matches verb path (route_table c) = Some ([], Protected_redirect_stream))
    \<and> (clear_of matches (queue_path # transcode_patterns) path \<and> matches metadata_path path
        \<and> verb \<in> {''GET'', ''POST''} \<longrightarrow>
      dispatch matches verb path (route_table c) =
        (if cf_disable_related c \<and> matches related_path path then Some ([Timeout_after 5], Proxy_request)
         else Some ([Proxy_for_transform], Transform_policy_response)))
    \<and> (clear_of matches ([related_path, metadata_path, sections_path] @ transcode_patterns) path
        \<and> matches queue_path path \<and> verb \<in> {''GET'', ''POST'', ''PUT''} \<longrightarrow>
      dispatch matches verb path (route_table c) =
        (if cf_disable_related c then Some ([Disable_related_query], Proxy_request)
         else Some ([Proxy_for_transform], Transform_policy_response)))
    \<and> (clear_of matches ([related_path, queue_path, metadata_path] @ transcode_patterns) path
        \<and> matches sections_path path \<longrightarrow>
      dispatch matches ''GET'' path (route_table c) =
        Some ([Library_cache_lookup, Proxy_for_transform, Library_cache_store], Transform_policy_response))"
proof -
  have clear: "clear_of matches transcode_patterns path" if "clear_of matches (ps @ transcode_patterns) path" for ps
    using that by (simp add: clear_of_def)
  have gate: "matches parts_path path \<or> matches session_path path \<longrightarrow>
      dispatch matches verb path (route_table c) = Some ([], Protected_redirect_stream)"
    using parts_gated [where matches = matches, OF assms] by blast
  have items: "dispatch matches verb path (route_table c) =
        (if cf_disable_related c \<and> matches related_path path then Some ([Timeout_after 5], Proxy_request)
         else Some ([Proxy_for_transform], Transform_policy_response))"
    if "clear_of matches (queue_path # transcode_patterns) path" "matches metadata_path path"
      "verb \<in> {''GET'', ''POST''}"
  proof (rule metadata_filtered [where matches = matches and path = path, OF assms that(2)])
    show "\<not> matches queue_path path" using that(1) by (simp add: clear_of_def)
  qed (use that clear_of_transcode [of matches path] in \<open>simp_all add: clear_of_def\<close>)
  have queues: "dispatch matches verb path (route_table c) =
        (if cf_disable_related c then Some ([Disable_related_query], Proxy_request)
         else Some ([Proxy_for_transform], Transform_policy_response))"
    if "clear_of matches ([related_path, metadata_path, sections_path] @ transcode_patterns) path"
      "matches queue_path path" "verb \<in> {''GET'', ''POST'', ''PUT''}"
    by (rule queues_filtered [where matches = matches and path = path, OF assms that(2)])
      (use that(1,3) clear_of_transcode [OF clear [OF that(1)]] in \<open>simp_all add: clear_of_def\<close>)
  have sections: "dispatch matches ''GET'' path (route_table c) =
        Some ([Library_cache_lookup, Proxy_for_transform, Library_cache_store], Transform_policy_response)"
    if "clear_of matches ([related_path, queue_path, metadata_path] @ transcode_patterns) path"
      "matches sections_path path"
    by (rule sections_filtered [where matches = matches and path = path, OF assms that(2)])
      (use that(1) clear_of_transcode [OF clear [OF that(1)]] in \<open>simp_all add: clear_of_def\<close>)
  show ?thesis using gate items queues sections by blast
qed

theorem enabled_policy_is_routed_witness:
  "dispatch demo_matches ''POST'' ''/playQueues'' (route_table (demo_config\<lparr>cf_disable_related := True\<rparr>))
   = Some ([Disable_related_query], Proxy_request)"
proof -
  have c: "cf_resolution_policy_enabled (demo_config\<lparr>cf_disable_related := True\<rparr>)"
    "cf_disable_related (demo_config\<lparr>cf_disable_related := True\<rparr>)"
    by (simp_all add: demo_config_def)
  have "clear_of demo_matches ([related_path, metadata_path, sections_path] @ transcode_patterns) ''/playQueues''"
    "demo_matches queue_path ''/playQueues''"
    by (simp_all add: clear_of_def transcode_patterns_def demo_matches_def route_paths)
  with enabled_policy_is_routed [OF c(1), of demo_matches "''/playQueues''" "''POST''"] c(2)
  show ?thesis by simp
qed

section \<open>Streams\<close>

definition demo_stream :: stream_env where
  "demo_stream = \<lparr>st_config = Some (demo_config\<lparr>cf_redirect_streams := True\<rparr>),
     st_snapshot = Some demo_snapshot, st_upstream = Some ''http://plex:32400'',
     st_client_ok = True, st_security = Some (Resolved demo_security), st_user = Inl MissingToken,
     st_parts = cache_part_classification [demo_4k, demo_1080] Map.empty,
     st_uri = ''/library/parts/1/7/file.mkv'', st_part = Some ''7'', st_proxied = (3, True)\<rparr>"

lemma demo_gate: "gate_policy demo_stream = Some demo_policy"
  by (simp add: gate_policy_def demo_stream_def)

lemma demo_stream_restricted: "stream_restricted demo_policy"
  by (simp add: stream_restricted_def)

lemma demo_part: "st_part demo_stream = Some ''7''" "parse_i64 ''7'' = Some 7"
  "p_id (default_part\<lparr>p_id := 7\<rparr>) = 7"
  by (simp_all add: demo_stream_def) code_simp

text \<open>C9. A restricted account never learns the origin: whatever the redirect mode, its streams are
  proxied or refused, and a part is proxied only when its recorded facts are within the policy;
  a part that Replex has not classified is refused.  A part id that is no number counts as none,
  as in a transcode session, and is proxied unchecked.\<close>

theorem restricted_streams_stay_behind_replex:
  assumes "gate_policy ev = Some p" and "stream_restricted p"
  shows "(\<nexists>u. fst (protected_redirect_stream ev m) = RedirectTo u)
    \<and> (\<forall>t part. st_part ev = Some t \<and> parse_i64 t = Some part \<longrightarrow>
         fst (protected_redirect_stream ev m) =
           (if \<exists>known. st_parts ev part = Some known \<and> part_classification_allowed known p
            then Proxied else Refused 403))
    \<and> (\<forall>t. st_part ev = Some t \<and> parse_i64 t = None \<longrightarrow>
         fst (protected_redirect_stream ev m) = Proxied)"
  using restricted_never_redirected [OF assms] restricted_part [OF assms] malformed_part_proxied [OF assms]
  by auto

theorem restricted_streams_stay_behind_replex_witness:
  "fst (protected_redirect_stream (demo_stream\<lparr>st_parts := Map.empty\<rparr>) default_metrics) = Refused 403"
proof -
  have "gate_policy (demo_stream\<lparr>st_parts := Map.empty\<rparr>) = Some demo_policy"
    by (simp add: gate_policy_def demo_stream_def)
  from restricted_streams_stay_behind_replex [OF this demo_stream_restricted] demo_part
  show ?thesis by simp
qed



text \<open>An account without any restriction gets what the redirect mode says: a redirect to the
  configured or the request's upstream host, keeping path and query and counted, or the proxy.\<close>

theorem unrestricted_streams_follow_the_mode:
  assumes "gate_policy ev = Some p" and "\<not> stream_restricted p" and "st_config ev = Some c"
    and "st_upstream ev = Some up"
  shows "protected_redirect_stream ev m =
         (if cf_redirect_streams c
          then (RedirectTo (unwrap_or (cf_redirect_streams_host c) up @ st_uri ev), count_redirect m)
          else (Proxied, proxied_metrics ev m))"
  by (rule unrestricted_delivery [OF assms])

theorem unrestricted_streams_follow_the_mode_witness:
  "fst (protected_redirect_stream
     (demo_stream\<lparr>st_security := Some (Resolved (demo_security\<lparr>sc_policy := policy_unrestricted\<rparr>))\<rparr>)
     default_metrics) = RedirectTo ''http://plex:32400/library/parts/1/7/file.mkv''"
proof -
  let ?ev = "demo_stream\<lparr>st_security := Some (Resolved (demo_security\<lparr>sc_policy := policy_unrestricted\<rparr>))\<rparr>"
  have "gate_policy ?ev = Some policy_unrestricted"
    by (simp add: gate_policy_def demo_stream_def)
  then show ?thesis
    using unrestricted_streams_follow_the_mode [of ?ev policy_unrestricted
        "demo_config\<lparr>cf_redirect_streams := True\<rparr>" "''http://plex:32400''" default_metrics]
    by (simp add: demo_stream_def stream_restricted_def policy_simps demo_config_def default_config_def)
qed

end
