(* ===== verification/Disk_Runs.thy ===== *)
theory Disk_Runs
  imports Disk_Cache
begin

text \<open>
  The disk cache as the tasks of the server use it at the same time (\<open>src/disk_cache.rs\<close>): a writer
  first writes its temporary file and then, under the commit lock, reads the old length, renames
  the file and adjusts the tracked size.  Each of these is a step; the steps of all tasks, of
  readers touching files, and of a restart of the process interleave.  The removals and the
  cleaner, which do not take the commit lock, are a second relation.
\<close>

named_theorems disk_simps \<open>equations of the tasks of the disk cache\<close>

subsection \<open>Writers\<close>

text \<open>\<open>Written\<close> waits for the lock with its path, record and temporary file; \<open>Locked\<close> has read the old
  length; \<open>Swapped\<close> has renamed and has not adjusted the size.\<close>

datatype writer =
  Written string bytes string
| Locked string bytes string "nat option"
| Swapped bytes "nat option"

definition holds_lock :: "writer \<Rightarrow> bool" where
  "holds_lock w = (case w of Written _ _ _ \<Rightarrow> False | _ \<Rightarrow> True)"

text \<open>What a writer is given: the path of a key, and the record of a text and a body of a length that
  Rust can address.\<close>

definition valid_record :: "bytes \<Rightarrow> bool" where
  "valid_record enc \<longleftrightarrow>
     (\<exists>ct body. encode_record ct body = Inr enc \<and> valid_utf8 (unwrap_or ct [])
        \<and> length body + 65550 \<le> u64_max)"

definition begin_write :: "disk_io \<Rightarrow> string \<Rightarrow> bytes \<Rightarrow> disk \<Rightarrow> disk" where
  "begin_write io path enc d =
     write_file io (tmp_path path (io_pid io) (dk_counter d)) enc
       (d\<lparr>dk_counter := (dk_counter d + 1) mod 18446744073709551616\<rparr>)"

definition adjust_size :: "bytes \<Rightarrow> nat option \<Rightarrow> disk \<Rightarrow> disk" where
  "adjust_size enc old d =
     d\<lparr>dk_size := sat_add64 (sat_sub (dk_size d) (unwrap_or old 0)) (min (length enc) u64_max)\<rparr>"

text \<open>The counter does not wrap while writers are waiting, and the cache never holds 2 to the 64
  bytes.\<close>

inductive writer_step :: "disk \<times> writer list \<Rightarrow> disk \<times> writer list \<Rightarrow> bool" where
  begin_ok: "io_write io \<Longrightarrow> is_cache_file path \<Longrightarrow> valid_record enc \<Longrightarrow> dk_counter d < u64_max \<Longrightarrow>
    writer_step (d, ws)
      (begin_write io path enc d, Written path enc (tmp_path path (io_pid io) (dk_counter d)) # ws)"
| begin_failed: "\<not> io_write io \<Longrightarrow> is_cache_file path \<Longrightarrow> dk_counter d < u64_max \<Longrightarrow>
    writer_step (d, ws)
      (remove_file io (tmp_path path (io_pid io) (dk_counter d)) (begin_write io path enc d), ws)"
| lock: "list_all (\<lambda>w. \<not> holds_lock w) (us @ vs) \<Longrightarrow>
    writer_step (d, us @ Written path enc tmp # vs) (d, us @ Locked path enc tmp (file_len d path) # vs)"
| swap: "lookup_file d tmp \<noteq> None \<Longrightarrow> total_len (cache_files d) + length enc \<le> u64_max \<Longrightarrow>
    writer_step (d, us @ Locked path enc tmp old # vs) (rename_file tmp path d, us @ Swapped enc old # vs)"
| swap_failed:
    "writer_step (d, us @ Locked path enc tmp old # vs) (remove_file io tmp d, us @ vs)"
| adjust: "writer_step (d, us @ Swapped enc old # vs) (adjust_size enc old d, us @ vs)"
| touch: "lookup_file d p = Some (t, bs) \<Longrightarrow>
    writer_step (d, ws) (d\<lparr>dk_files := AList.update p (now, bs) (dk_files d)\<rparr>, ws)"

text \<open>A restart forgets the writers and the lock, and counts the directory anew.\<close>

inductive commit_step :: "disk \<times> writer list \<Rightarrow> disk \<times> writer list \<Rightarrow> bool" where
  writing: "writer_step c c' \<Longrightarrow> commit_step c c'"
| restart: "commit_step (d, ws) (init_cache io (d\<lparr>dk_counter := 0\<rparr>), [])"

abbreviation commit_run :: "disk \<times> writer list \<Rightarrow> disk \<times> writer list \<Rightarrow> bool" where
  "commit_run \<equiv> commit_step\<^sup>*\<^sup>*"

subsection \<open>The invariant of the writers\<close>

definition own_tmp :: "nat \<Rightarrow> string \<Rightarrow> bool" where
  "own_tmp n tmp \<longleftrightarrow> (\<exists>path pid m. tmp = tmp_path path pid m \<and> m < n)"

definition writer_ok :: "disk \<Rightarrow> writer \<Rightarrow> bool" where
  "writer_ok d w =
     (case w of
        Written path enc tmp \<Rightarrow>
          is_cache_file path \<and> valid_record enc \<and> own_tmp (dk_counter d) tmp
          \<and> map_option snd (lookup_file d tmp) = Some enc
      | Locked path enc tmp old \<Rightarrow>
          is_cache_file path \<and> valid_record enc \<and> own_tmp (dk_counter d) tmp
          \<and> map_option snd (lookup_file d tmp) = Some enc \<and> old = file_len d path
      | Swapped enc old \<Rightarrow> length enc \<le> total_len (cache_files d))"

definition writer_tmp :: "writer \<Rightarrow> string list" where
  "writer_tmp w = (case w of Written _ _ tmp \<Rightarrow> [tmp] | Locked _ _ tmp _ \<Rightarrow> [tmp] | Swapped _ _ \<Rightarrow> [])"

definition tmps :: "writer list \<Rightarrow> string list" where
  "tmps ws = concat (map writer_tmp ws)"

text \<open>The size lags behind by what the swapped writer, if there is one, has still to do.\<close>

definition owed :: "writer list \<Rightarrow> int" where
  "owed ws = (\<Sum>w\<leftarrow>ws. case w of Swapped enc old \<Rightarrow> int (length enc) - int (unwrap_or old 0) | _ \<Rightarrow> 0)"

definition complete_files :: "disk \<Rightarrow> bool" where
  "complete_files d \<longleftrightarrow> (\<forall>(p, t, bs) \<in> set (cache_files d). decode_record bs \<noteq> None)"

definition commit_inv :: "disk \<times> writer list \<Rightarrow> bool" where
  "commit_inv c \<longleftrightarrow>
     (case c of (d, ws) \<Rightarrow>
        well_formed d \<and> total_len (cache_files d) \<le> u64_max
        \<and> list_all (writer_ok d) ws \<and> distinct (tmps ws)
        \<and> length (filter holds_lock ws) \<le> 1
        \<and> int (total_len (cache_files d)) = int (dk_size d) + owed ws)"

subsection \<open>Temporary files\<close>

lemma rev_split: "CHR ''.'' \<notin> set x \<Longrightarrow> takeWhile (\<lambda>c. c \<noteq> CHR ''.'') (rev (a @ CHR ''.'' # x)) = rev x"
  by (subst rev_append) (simp add: takeWhile_tail takeWhile_append)

lemma show_nat_no_dot: "CHR ''.'' \<notin> set (show_nat n)"
  by (auto dest!: show_nat_char simp: is_digit_def Let_def)

lemma show_nat_inject: "show_nat m = show_nat n \<longleftrightarrow> m = n"
  by (metis option.inject parse_digits_show_nat)

lemma tmp_path_inject: "tmp_path p pid m = tmp_path q pid' n \<Longrightarrow> m = n"
proof -
  assume "tmp_path p pid m = tmp_path q pid' n"
  then have "(p @ ''.tmp.'' @ show_nat pid) @ CHR ''.'' # show_nat m
      = (q @ ''.tmp.'' @ show_nat pid') @ CHR ''.'' # show_nat n"
    by (simp add: tmp_path_def)
  then have "rev (show_nat m) = rev (show_nat n)"
    by (metis rev_split show_nat_no_dot)
  then show "m = n" by (simp add: show_nat_inject)
qed

lemma own_tmp_temp: "own_tmp n tmp \<Longrightarrow> is_temp_file tmp"
  by (auto simp: own_tmp_def tmp_path_temp)

lemma own_tmp_fresh: "own_tmp n tmp \<Longrightarrow> tmp \<noteq> tmp_path path pid n"
  by (auto simp: own_tmp_def dest: tmp_path_inject)

lemma own_tmp_mono: "own_tmp m tmp \<Longrightarrow> m \<le> n \<Longrightarrow> own_tmp n tmp"
  by (auto simp: own_tmp_def intro: less_le_trans)

lemma cache_not_temp: "is_cache_file p \<Longrightarrow> is_temp_file q \<Longrightarrow> p \<noteq> q"
  by (auto simp: is_cache_file_def)

subsection \<open>What the steps do to the files\<close>

lemma lookup_ops [disk_simps]:
  "lookup_file (d\<lparr>dk_counter := n\<rparr>) q = lookup_file d q"
  "lookup_file (d\<lparr>dk_size := n\<rparr>) q = lookup_file d q"
  "p \<noteq> q \<Longrightarrow> lookup_file (write_file io p bs d) q = lookup_file d q"
  "p \<noteq> q \<Longrightarrow> lookup_file (remove_file io p d) q = lookup_file d q"
  "src \<noteq> q \<Longrightarrow> dst \<noteq> q \<Longrightarrow> lookup_file (rename_file src dst d) q = lookup_file d q"
  by (auto simp: lookup_file_def write_file_def remove_file_def rename_file_def update_conv'
      delete_conv' split: option.splits)

lemma lookup_write [disk_simps]:
  "io_write io \<Longrightarrow> lookup_file (write_file io p bs d) p = Some (io_now io, bs)"
  by (simp add: lookup_file_def write_file_def update_conv')

lemma counter_ops [disk_simps]:
  "dk_counter (write_file io p bs d) = dk_counter d" "dk_counter (remove_file io p d) = dk_counter d"
  "dk_counter (rename_file q p d) = dk_counter d"
  by (auto simp: write_file_def remove_file_def rename_file_def split: option.splits)

lemma begin_write_simps [disk_simps]:
  "cache_files (begin_write io path enc d) = cache_files d"
  "dk_size (begin_write io path enc d) = dk_size d"
  "dk_counter d < u64_max \<Longrightarrow> dk_counter (begin_write io path enc d) = dk_counter d + 1"
  "well_formed d \<Longrightarrow> well_formed (begin_write io path enc d)"
  "q \<noteq> tmp_path path (io_pid io) (dk_counter d) \<Longrightarrow>
     lookup_file (begin_write io path enc d) q = lookup_file d q"
  by (simp_all add: begin_write_def tmp_path_temp disk_simps u64_max_def file_ops_well_formed)

lemma touch_simps [disk_simps]:
  assumes "lookup_file d p = Some (t, bs)"
  shows "total_len (cache_files (d\<lparr>dk_files := AList.update p (now, bs) (dk_files d)\<rparr>)) = total_len (cache_files d)"
    and "map_option snd (lookup_file (d\<lparr>dk_files := AList.update p (now, bs) (dk_files d)\<rparr>) q)
      = map_option snd (lookup_file d q)"
    and "well_formed d \<Longrightarrow> well_formed (d\<lparr>dk_files := AList.update p (now, bs) (dk_files d)\<rparr>)"
proof -
  have "old_len (dk_files d) p = length bs"
    using assms by (simp add: old_len_def lookup_file_def)
  then show "total_len (cache_files (d\<lparr>dk_files := AList.update p (now, bs) (dk_files d)\<rparr>)) = total_len (cache_files d)"
    using total_update [of is_cache_file p now bs "dk_files d"]
    by (cases "is_cache_file p") (simp_all add: cache_files_def filter_update_other)
  show "map_option snd (lookup_file (d\<lparr>dk_files := AList.update p (now, bs) (dk_files d)\<rparr>) q)
      = map_option snd (lookup_file d q)"
    using assms by (simp add: lookup_file_def update_conv')
  show "well_formed d \<Longrightarrow> well_formed (d\<lparr>dk_files := AList.update p (now, bs) (dk_files d)\<rparr>)"
    by (simp add: well_formed_def distinct_update)
qed

lemma file_len_contents: "map_option snd (lookup_file d' p) = map_option snd (lookup_file d p) \<Longrightarrow> file_len d' p = file_len d p"
  by (cases "lookup_file d p"; cases "lookup_file d' p") (auto simp: file_len_def)

text \<open>The rename moves the record to its path and changes the total by the difference.\<close>

lemma rename_total:
  assumes "lookup_file d tmp = Some (t, enc)" "is_temp_file tmp" "is_cache_file path"
  shows "total_len (cache_files (rename_file tmp path d)) + unwrap_or (file_len d path) 0
      = total_len (cache_files d) + length enc"
proof -
  let ?fs = "AList.delete tmp (dk_files d)"
  have "filter (\<lambda>(q, _). is_cache_file q) ?fs = cache_files d"
    using assms(2) by (simp add: filter_delete_other cache_files_def is_cache_file_def)
  moreover have "old_len ?fs path = unwrap_or (file_len d path) 0"
    using cache_not_temp [OF assms(3,2)]
    by (simp add: old_len_def delete_conv' file_len_def lookup_file_def split: option.splits)
  ultimately show ?thesis
    using total_update [of is_cache_file path t enc ?fs] assms(1,3)
    by (simp add: rename_file_def cache_files_def)
qed

subsection \<open>Preservation\<close>

lemma owed_simps [disk_simps]:
  "owed [] = 0" "owed (us @ vs) = owed us + owed vs"
  "owed (Written path enc tmp # ws) = owed ws" "owed (Locked path enc tmp old # ws) = owed ws"
  "owed (Swapped enc old # ws) = int (length enc) - int (unwrap_or old 0) + owed ws"
  by (simp_all add: owed_def)

lemma tmps_simps [disk_simps]:
  "tmps [] = []" "tmps (us @ vs) = tmps us @ tmps vs" "tmps (w # ws) = writer_tmp w @ tmps ws"
  "writer_tmp (Written path enc tmp) = [tmp]" "writer_tmp (Locked path enc tmp old) = [tmp]"
  "writer_tmp (Swapped enc old) = []"
  by (simp_all add: tmps_def writer_tmp_def)

lemma holds_simps [disk_simps]:
  "\<not> holds_lock (Written path enc tmp)" "holds_lock (Locked path enc tmp old)"
  "holds_lock (Swapped enc old)"
  by (simp_all add: holds_lock_def)

lemma in_tmps: "w \<in> set ws \<Longrightarrow> tmp \<in> set (writer_tmp w) \<Longrightarrow> tmp \<in> set (tmps ws)"
  by (auto simp: tmps_def)

lemma writer_tmp_own: "writer_ok d w \<Longrightarrow> tmp \<in> set (writer_tmp w) \<Longrightarrow> own_tmp (dk_counter d) tmp"
  by (cases w) (auto simp: writer_ok_def writer_tmp_def)

lemma writer_ok_frame:
  assumes "writer_ok d w"
    and "\<And>tmp. tmp \<in> set (writer_tmp w) \<Longrightarrow>
      map_option snd (lookup_file d' tmp) = map_option snd (lookup_file d tmp)"
    and "holds_lock w \<Longrightarrow> (\<forall>p. is_cache_file p \<longrightarrow> file_len d' p = file_len d p)
      \<and> total_len (cache_files d) \<le> total_len (cache_files d')"
    and "dk_counter d \<le> dk_counter d'"
  shows "writer_ok d' w"
proof (cases w)
  case (Written path enc tmp)
  with assms show ?thesis by (auto simp: writer_ok_def disk_simps intro: own_tmp_mono)
next
  case (Locked path enc tmp old)
  with assms show ?thesis by (auto simp: writer_ok_def disk_simps intro: own_tmp_mono)
next
  case (Swapped enc old)
  with assms show ?thesis by (auto simp: writer_ok_def disk_simps)
qed

lemma writers_frame:
  assumes "list_all (writer_ok d) ws"
    and "\<And>tmp. tmp \<in> set (tmps ws) \<Longrightarrow> own_tmp (dk_counter d) tmp \<Longrightarrow>
      map_option snd (lookup_file d' tmp) = map_option snd (lookup_file d tmp)"
    and "list_all (\<lambda>w. \<not> holds_lock w) ws
      \<or> (\<forall>p. is_cache_file p \<longrightarrow> file_len d' p = file_len d p)
        \<and> total_len (cache_files d) \<le> total_len (cache_files d')"
    and "dk_counter d \<le> dk_counter d'"
  shows "list_all (writer_ok d') ws"
  unfolding list_all_iff
proof
  fix w assume w: "w \<in> set ws"
  with assms(1) have ok: "writer_ok d w" by (simp add: list_all_iff)
  show "writer_ok d' w"
  proof (rule writer_ok_frame [OF ok])
    show "map_option snd (lookup_file d' tmp) = map_option snd (lookup_file d tmp)"
      if "tmp \<in> set (writer_tmp w)" for tmp
      using assms(2) [OF in_tmps [OF w that] writer_tmp_own [OF ok that]] .
  qed (use assms(3,4) w in \<open>auto simp: list_all_iff\<close>)
qed

lemma owed_none: "list_all (\<lambda>w. \<not> holds_lock w) ws \<Longrightarrow> owed ws = 0"
  by (induction ws) (auto simp: owed_def holds_lock_def split: writer.splits)

lemma no_holders: "list_all (\<lambda>w. \<not> holds_lock w) ws \<longleftrightarrow> length (filter holds_lock ws) = 0"
  by (induction ws) auto

lemma single_holder:
  assumes "length (filter holds_lock (us @ w # vs)) \<le> 1" "holds_lock w"
  shows "list_all (\<lambda>w. \<not> holds_lock w) (us @ vs)"
  using assms unfolding no_holders by simp

lemma commit_invD:
  assumes "commit_inv (d, ws)"
  shows "well_formed d" "total_len (cache_files d) \<le> u64_max" "list_all (writer_ok d) ws"
    "distinct (tmps ws)" "length (filter holds_lock ws) \<le> 1"
    "int (total_len (cache_files d)) = int (dk_size d) + owed ws"
  using assms by (auto simp: commit_inv_def)

lemma commit_invI:
  assumes "well_formed d" "total_len (cache_files d) \<le> u64_max" "list_all (writer_ok d) ws"
    "distinct (tmps ws)" "length (filter holds_lock ws) \<le> 1"
    "int (total_len (cache_files d)) = int (dk_size d) + owed ws"
  shows "commit_inv (d, ws)"
  using assms by (simp add: commit_inv_def)

lemma other_tmps_fresh:
  assumes "commit_inv (d, ws)" shows "tmp_path path pid (dk_counter d) \<notin> set (tmps ws)"
proof
  assume "tmp_path path pid (dk_counter d) \<in> set (tmps ws)"
  then obtain w where "w \<in> set ws" "tmp_path path pid (dk_counter d) \<in> set (writer_tmp w)"
    by (auto simp: tmps_def)
  with commit_invD(3) [OF assms] writer_tmp_own own_tmp_fresh show False
    by (fastforce simp: list_all_iff)
qed

text \<open>The files of a directory in which only one temporary file changed.\<close>

lemma begin_frame:
  assumes "commit_inv (d, ws)" "dk_counter d < u64_max"
    and "\<And>q. q \<noteq> tmp_path path pid (dk_counter d) \<Longrightarrow> lookup_file d' q = lookup_file d q"
    and "cache_files d' = cache_files d" "dk_counter d' = dk_counter d + 1"
  shows "list_all (writer_ok d') ws"
proof (rule writers_frame [OF commit_invD(3) [OF assms(1)]])
  have "file_len d' p = file_len d p" if "is_cache_file p" for p
    using assms(3) cache_not_temp [OF that tmp_path_temp [of path pid "dk_counter d"]]
    by (simp add: file_len_def)
  then show "list_all (\<lambda>w. \<not> holds_lock w) ws
      \<or> (\<forall>p. is_cache_file p \<longrightarrow> file_len d' p = file_len d p)
        \<and> total_len (cache_files d) \<le> total_len (cache_files d')"
    by (simp add: assms(4))
  show "map_option snd (lookup_file d' tmp) = map_option snd (lookup_file d tmp)"
    if "own_tmp (dk_counter d) tmp" for tmp
    using assms(3) own_tmp_fresh [OF that, of path pid] by simp
qed (simp add: assms(5))

lemma begin_inv:
  assumes inv: "commit_inv (d, ws)" and "io_write io" "is_cache_file path" "valid_record enc"
    and bound: "dk_counter d < u64_max"
  shows "commit_inv (begin_write io path enc d,
    Written path enc (tmp_path path (io_pid io) (dk_counter d)) # ws)"
proof -
  let ?tmp = "tmp_path path (io_pid io) (dk_counter d)" and ?d = "begin_write io path enc d"
  have own: "own_tmp (dk_counter ?d) ?tmp"
    using bound by (auto simp: own_tmp_def begin_write_simps)
  have new: "lookup_file ?d ?tmp = Some (io_now io, enc)"
    using assms(2) by (simp add: begin_write_def lookup_write)
  have "list_all (writer_ok ?d) ws"
    using bound by (intro begin_frame [OF inv, of path "io_pid io"]) (simp_all add: begin_write_simps)
  with assms(3,4) own new have "list_all (writer_ok ?d) (Written path enc ?tmp # ws)"
    by (simp add: writer_ok_def)
  then show ?thesis
    using commit_invD [OF inv] other_tmps_fresh [OF inv, of path "io_pid io"]
    by (intro commit_invI) (simp_all add: begin_write_simps tmps_simps owed_simps holds_simps)
qed

lemma begin_failed_inv:
  assumes inv: "commit_inv (d, ws)" and bound: "dk_counter d < u64_max"
  shows "commit_inv (remove_file io (tmp_path path (io_pid io) (dk_counter d)) (begin_write io path enc d), ws)"
proof -
  let ?d = "remove_file io (tmp_path path (io_pid io) (dk_counter d)) (begin_write io path enc d)"
  have "list_all (writer_ok ?d) ws"
    using bound
    by (intro begin_frame [OF inv, of path "io_pid io"])
      (simp_all add: begin_write_simps lookup_ops counter_ops tmp_path_temp)
  then show ?thesis
    using commit_invD [OF inv]
    by (intro commit_invI)
      (simp_all add: begin_write_simps tmp_path_temp file_ops_well_formed(2))
qed

lemma swap_inv:
  assumes inv: "commit_inv (d, us @ Locked path enc tmp old # vs)"
    and room: "total_len (cache_files d) + length enc \<le> u64_max"
  shows "commit_inv (rename_file tmp path d, us @ Swapped enc old # vs)"
proof -
  let ?d = "rename_file tmp path d"
  have one: "list_all (\<lambda>w. \<not> holds_lock w) (us @ vs)"
    using commit_invD(5) [OF inv] by (rule single_holder) (simp add: holds_simps)
  have ok: "is_cache_file path" "own_tmp (dk_counter d) tmp" "old = file_len d path"
    "map_option snd (lookup_file d tmp) = Some enc"
    using commit_invD(3) [OF inv] by (simp_all add: writer_ok_def)
  then obtain t where t: "lookup_file d tmp = Some (t, enc)" by auto
  note total = rename_total [OF t own_tmp_temp [OF ok(2)] ok(1)]
  have "list_all (writer_ok ?d) (us @ vs)"
  proof (rule writers_frame [of d])
    show "map_option snd (lookup_file ?d x) = map_option snd (lookup_file d x)"
      if "x \<in> set (tmps (us @ vs))" "own_tmp (dk_counter d) x" for x
    proof -
      have "x \<noteq> tmp" using that(1) commit_invD(4) [OF inv] by (auto simp: tmps_simps)
      moreover have "x \<noteq> path" using cache_not_temp [OF ok(1) own_tmp_temp [OF that(2)]] by simp
      ultimately show ?thesis by (simp add: lookup_ops)
    qed
  qed (use commit_invD(3) [OF inv] one in \<open>simp_all add: counter_ops\<close>)
  moreover have "length enc \<le> total_len (cache_files ?d)"
  proof -
    have "lookup_file ?d path = Some (t, enc)"
      using t by (simp add: rename_file_def lookup_file_def update_conv')
    then have "old_len (dk_files ?d) path = length enc" by (simp add: old_len_def lookup_file_def)
    then show ?thesis
      using old_len_le [of is_cache_file path "dk_files ?d"] ok(1) by (simp add: cache_files_def)
  qed
  ultimately have oks: "list_all (writer_ok ?d) (us @ Swapped enc old # vs)"
    by (simp add: writer_ok_def)
  have "int (total_len (cache_files ?d)) = int (dk_size ?d) + owed (us @ Swapped enc old # vs)"
    using commit_invD(6) [OF inv] total ok(3) by (simp add: owed_simps)
  then show ?thesis
    using commit_invD [OF inv] total room oks
    by (intro commit_invI)
      (simp_all add: file_ops_well_formed(3) tmps_simps holds_simps)
qed

lemma swap_failed_inv:
  assumes inv: "commit_inv (d, us @ Locked path enc tmp old # vs)"
  shows "commit_inv (remove_file io tmp d, us @ vs)"
proof -
  let ?d = "remove_file io tmp d"
  have tmp: "is_temp_file tmp"
    using commit_invD(3) [OF inv] by (auto simp: writer_ok_def dest: own_tmp_temp)
  have one: "list_all (\<lambda>w. \<not> holds_lock w) (us @ vs)"
    using commit_invD(5) [OF inv] by (rule single_holder) (simp add: holds_simps)
  have "list_all (writer_ok ?d) (us @ vs)"
  proof (rule writers_frame [of d])
    show "map_option snd (lookup_file ?d x) = map_option snd (lookup_file d x)"
      if "x \<in> set (tmps (us @ vs))" for x
    proof -
      have "x \<noteq> tmp" using that commit_invD(4) [OF inv] by (auto simp: tmps_simps)
      then show ?thesis by (simp add: lookup_ops)
    qed
  qed (use commit_invD(3) [OF inv] one in \<open>simp_all add: counter_ops\<close>)
  then show ?thesis
    using commit_invD [OF inv] tmp
    by (intro commit_invI) (simp_all add: file_ops_well_formed(2) tmps_simps owed_simps holds_simps)
qed

lemma lock_inv:
  assumes inv: "commit_inv (d, us @ Written path enc tmp # vs)"
    and free: "list_all (\<lambda>w. \<not> holds_lock w) (us @ vs)"
  shows "commit_inv (d, us @ Locked path enc tmp (file_len d path) # vs)"
proof -
  have "length (filter holds_lock (us @ vs)) = 0" using free by (simp only: no_holders)
  then have "length (filter holds_lock (us @ Locked path enc tmp (file_len d path) # vs)) \<le> 1"
    by (simp add: holds_simps)
  with commit_invD [OF inv] show ?thesis
    by (intro commit_invI) (simp_all add: writer_ok_def tmps_simps owed_simps)
qed

lemma adjust_inv:
  assumes inv: "commit_inv (d, us @ Swapped enc old # vs)"
  shows "commit_inv (adjust_size enc old d, us @ vs)"
proof -
  let ?d = "adjust_size enc old d" and ?t = "total_len (cache_files d)"
  have one: "list_all (\<lambda>w. \<not> holds_lock w) (us @ vs)"
    using commit_invD(5) [OF inv] by (rule single_holder) (simp add: holds_simps)
  have none: "owed us = 0" "owed vs = 0" using one by (auto intro: owed_none)
  have le: "length enc \<le> ?t" "?t \<le> u64_max"
    using commit_invD(2,3) [OF inv] by (simp_all add: writer_ok_def)
  have "int ?t = int (dk_size d) + int (length enc) - int (unwrap_or old 0)"
    using commit_invD(6) [OF inv] none by (simp add: owed_simps)
  then have size: "dk_size ?d = ?t"
    using le by (simp add: adjust_size_def sat_add64_def sat_sub_def)
  have files: "dk_files ?d = dk_files d" "dk_counter ?d = dk_counter d"
    by (simp_all add: adjust_size_def)
  then have same: "cache_files ?d = cache_files d" "lookup_file ?d q = lookup_file d q"
      "well_formed ?d = well_formed d" for q
    by (simp_all add: cache_files_def lookup_file_def well_formed_def)
  have "list_all (writer_ok ?d) (us @ vs)"
    by (rule writers_frame [of d]) (use commit_invD(3) [OF inv] one in \<open>simp_all add: same files\<close>)
  then show ?thesis
    using commit_invD [OF inv] size none
    by (intro commit_invI) (simp_all add: same tmps_simps owed_simps holds_simps)
qed

lemma touch_inv:
  assumes inv: "commit_inv (d, ws)" and p: "lookup_file d p = Some (t, bs)"
  shows "commit_inv (d\<lparr>dk_files := AList.update p (now, bs) (dk_files d)\<rparr>, ws)"
proof -
  let ?d = "d\<lparr>dk_files := AList.update p (now, bs) (dk_files d)\<rparr>"
  note same = touch_simps [OF p, of now]
  have "list_all (writer_ok ?d) ws"
    by (rule writers_frame [OF commit_invD(3) [OF inv]])
      (simp_all add: same(1,2) file_len_contents [OF same(2)])
  then show ?thesis
    using commit_invD [OF inv] same(3) by (intro commit_invI) (simp_all add: same(1))
qed

lemma restart_inv:
  assumes inv: "commit_inv (d, ws)"
  shows "commit_inv (init_cache io (d\<lparr>dk_counter := 0\<rparr>), [])"
proof -
  let ?d = "init_cache io (d\<lparr>dk_counter := 0\<rparr>)"
  note i = commit_invD [OF inv]
  have acc: "accounted ?d" by (rule init_accounted) (simp add: i(2))
  have files: "cache_files ?d = cache_files d"
    by (auto simp: init_cache_def Let_def cache_files_def is_cache_file_def filter_filter
        intro!: filter_cong)
  have "well_formed ?d"
    using i(1) by (auto simp: init_cache_def Let_def well_formed_def intro: distinct_map_filter)
  with acc i(2) show ?thesis
    by (intro commit_invI) (simp_all add: accounted_def files tmps_simps owed_simps)
qed

lemma writer_step_inv:
  assumes "writer_step c c'" "commit_inv c" shows "commit_inv c'"
  using assms
proof cases
  case (begin_ok io path enc d ws)
  with assms(2) begin_inv show ?thesis by simp
next
  case (begin_failed io path d ws enc)
  with assms(2) begin_failed_inv show ?thesis by simp
next
  case (lock us vs d path enc tmp)
  with assms(2) lock_inv show ?thesis by simp
next
  case (swap d tmp enc us path old vs)
  with assms(2) swap_inv show ?thesis by simp
next
  case (swap_failed d us path enc tmp old vs io)
  with assms(2) swap_failed_inv show ?thesis by simp
next
  case (adjust d us enc old vs)
  with assms(2) adjust_inv show ?thesis by simp
next
  case (touch d p t bs ws now)
  with assms(2) touch_inv show ?thesis by simp
qed

lemma commit_step_inv: "commit_step c c' \<Longrightarrow> commit_inv c \<Longrightarrow> commit_inv c'"
  by (induction rule: commit_step.induct) (auto intro: writer_step_inv restart_inv)

lemma commit_run_inv: "commit_run c c' \<Longrightarrow> commit_inv c \<Longrightarrow> commit_inv c'"
  by (induction rule: rtranclp_induct) (auto intro: commit_step_inv)

lemma idle_inv:
  "well_formed d \<Longrightarrow> accounted d \<Longrightarrow> total_len (cache_files d) \<le> u64_max \<Longrightarrow> commit_inv (d, [])"
  by (intro commit_invI) (simp_all add: accounted_def tmps_simps owed_simps)

lemma settled_accounted:
  assumes "commit_inv (d, ws)" "\<forall>enc old. Swapped enc old \<notin> set ws"
  shows "accounted d"
proof -
  have "owed ws = 0"
    using assms(2) by (induction ws) (auto simp: owed_def split: writer.splits)
  with commit_invD(6) [OF assms(1)] show ?thesis by (simp add: accounted_def)
qed

subsection \<open>No half-written record is visible\<close>

lemma valid_record_decodes: "valid_record enc \<Longrightarrow> decode_record enc \<noteq> None"
  by (auto simp: valid_record_def decode_encode)

lemma rename_files:
  assumes "lookup_file d tmp = Some (t, enc)"
  shows "set (cache_files (rename_file tmp path d)) \<subseteq> insert (path, t, enc) (set (cache_files d))"
proof -
  have "set (AList.update path (t, enc) fs) \<subseteq> insert (path, t, enc) (set fs)" for fs
    by (induction fs) auto
  moreover have "set (AList.delete tmp (dk_files d)) \<subseteq> set (dk_files d)"
    by (auto simp: AList.delete_eq)
  ultimately show ?thesis
    using assms by (fastforce simp: rename_file_def cache_files_def)
qed

lemma touch_files:
  assumes "lookup_file d p = Some (t, bs)"
  shows "(q, u, cs) \<in> set (cache_files (d\<lparr>dk_files := AList.update p (now, bs) (dk_files d)\<rparr>)) \<Longrightarrow>
    \<exists>u. (q, u, cs) \<in> set (cache_files d)"
proof -
  have "set (AList.update p (now, bs) fs) \<subseteq> insert (p, now, bs) (set fs)" for fs
    by (induction fs) auto
  moreover have "(p, t, bs) \<in> set (dk_files d)"
    using assms by (simp add: lookup_file_def map_of_SomeD)
  ultimately show "(q, u, cs) \<in> set (cache_files (d\<lparr>dk_files := AList.update p (now, bs) (dk_files d)\<rparr>)) \<Longrightarrow>
    \<exists>u. (q, u, cs) \<in> set (cache_files d)"
    by (fastforce simp: cache_files_def)
qed

lemma writer_step_complete:
  assumes "writer_step c c'" "commit_inv c" "complete_files (fst c)"
  shows "complete_files (fst c')"
  using assms
proof cases
  case (swap d tmp enc us path old vs)
  have "valid_record enc" "map_option snd (lookup_file d tmp) = Some enc"
    using commit_invD(3) [of d "us @ Locked path enc tmp old # vs"] assms(2) swap
    by (simp_all add: writer_ok_def)
  then obtain t where "lookup_file d tmp = Some (t, enc)" "decode_record enc \<noteq> None"
    using valid_record_decodes by auto
  with rename_files [of d tmp t enc path] assms(3) swap show ?thesis
    by (force simp: complete_files_def)
next
  case (swap_failed d us path enc tmp old vs io)
  have "own_tmp (dk_counter d) tmp"
    using commit_invD(3) [of d "us @ Locked path enc tmp old # vs"] assms(2) swap_failed
    by (simp add: writer_ok_def)
  with assms(3) swap_failed show ?thesis
    by (simp add: complete_files_def own_tmp_temp)
next
  case (touch d p t bs ws now)
  with assms(3) touch_files [OF touch(3), of _ _ _ now] show ?thesis
    by (fastforce simp: complete_files_def)
qed (simp_all add: complete_files_def begin_write_simps tmp_path_temp adjust_size_def)

lemma restart_files: "cache_files (init_cache io (d\<lparr>dk_counter := 0\<rparr>)) = cache_files d"
  by (auto simp: init_cache_def Let_def cache_files_def is_cache_file_def filter_filter
      intro!: filter_cong)

lemma commit_step_complete:
  assumes "commit_step c c'" "commit_inv c" "complete_files (fst c)"
  shows "complete_files (fst c')"
  using assms
proof cases
  case writing
  with assms writer_step_complete show ?thesis by blast
next
  case (restart d ws io)
  with assms(3) show ?thesis by (simp add: complete_files_def restart_files)
qed

lemma commit_run_complete:
  assumes "commit_run c c'" "commit_inv c" "complete_files (fst c)"
  shows "complete_files (fst c')"
  using assms
  by (induction rule: rtranclp_induct) (auto dest: commit_run_inv intro: commit_step_complete)

subsection \<open>The code's commit is a run\<close>

lemma commit_record_writes:
  assumes "is_cache_file path" "valid_record enc" "dk_counter d < u64_max"
    and "total_len (cache_files d) + length enc \<le> u64_max"
  shows "writer_step\<^sup>*\<^sup>* (d, []) (snd (commit_record io path enc d), [])"
proof -
  let ?tmp = "tmp_path path (io_pid io) (dk_counter d)" and ?d = "begin_write io path enc d"
  have to_lock: "writer_step\<^sup>*\<^sup>* (d, []) (?d, [Locked path enc ?tmp (file_len ?d path)])" if "io_write io"
    using begin_ok [OF that assms(1-3), of "[]"] lock [of "[]" "[]" ?d path enc ?tmp]
    by (auto intro: converse_rtranclp_into_rtranclp)
  consider "\<not> io_write io" | "io_write io" "\<not> io_rename io" | "io_write io" "io_rename io" by blast
  then show ?thesis
  proof cases
    case 1
    with begin_failed [OF 1 assms(1,3), of "[]" enc] show ?thesis
      by (auto simp: commit_record_def begin_write_def Let_def)
  next
    case 2
    then show ?thesis
      using to_lock swap_failed [of ?d "[]" path enc ?tmp "file_len ?d path" "[]" io]
      by (simp add: commit_record_def begin_write_def Let_def)
  next
    case 3
    have "lookup_file ?d ?tmp = Some (io_now io, enc)"
      using 3(1) by (simp add: begin_write_def lookup_write)
    then have "writer_step\<^sup>*\<^sup>* (?d, [Locked path enc ?tmp (file_len ?d path)])
        (adjust_size enc (file_len ?d path) (rename_file ?tmp path ?d), [])"
      using swap [of ?d ?tmp enc "[]" path "file_len ?d path" "[]"]
        adjust [of "rename_file ?tmp path ?d" "[]" enc "file_len ?d path" "[]"] assms(4)
      by (auto simp: begin_write_simps intro: converse_rtranclp_into_rtranclp)
    with 3 to_lock show ?thesis
      by (simp add: commit_record_def begin_write_def adjust_size_def Let_def)
  qed
qed

lemma commit_record_is_run:
  assumes "is_cache_file path" "valid_record enc" "dk_counter d < u64_max"
    and "total_len (cache_files d) + length enc \<le> u64_max"
  shows "commit_run (d, []) (snd (commit_record io path enc d), [])"
  using commit_record_writes [OF assms] by (rule rtranclp_mono [THEN predicate2D, rotated]) (auto intro: writing)

subsection \<open>Removals and the cleaner\<close>

text \<open>\<open>Measured\<close> is \<open>remove\<close> after it has read the length, \<open>Unlinked\<close> after it has removed the file.  The
  cleaner has scanned the directory, or evicts the listed files, of which it has just removed one
  of a length.  \<open>Clearing\<close> is \<open>clear_all\<close> before it resets the size.\<close>

datatype remover =
  Measured string nat
| Unlinked nat
| Scanned "(string \<times> nat \<times> bytes) list"
| Evicting "(string \<times> nat \<times> bytes) list"
| Evicted nat "(string \<times> nat \<times> bytes) list"
| Clearing

definition cleaning :: "remover \<Rightarrow> bool" where
  "cleaning r = (case r of Scanned _ \<Rightarrow> True | Evicting _ \<Rightarrow> True | Evicted _ _ \<Rightarrow> True | _ \<Rightarrow> False)"

definition shrink :: "nat \<Rightarrow> disk \<Rightarrow> disk" where
  "shrink len d = d\<lparr>dk_size := sat_sub (dk_size d) len\<rparr>"

definition scan_total :: "(string \<times> nat \<times> bytes) list \<Rightarrow> nat" where
  "scan_total fs = total_len fs mod 18446744073709551616"

inductive disk_step ::
  "nat \<Rightarrow> disk \<times> writer list \<times> remover list \<Rightarrow> disk \<times> writer list \<times> remover list \<Rightarrow> bool" for mx where
  commit: "writer_step (d, ws) (d', ws') \<Longrightarrow> disk_step mx (d, ws, rs) (d', ws', rs)"
| measure: "file_len d p = Some len \<Longrightarrow> disk_step mx (d, ws, rs) (d, ws, Measured p len # rs)"
| unlink: "lookup_file d p \<noteq> None \<Longrightarrow> io_remove (io :: disk_io) p \<Longrightarrow>
    disk_step mx (d, ws, xs @ Measured p len # ys) (remove_file io p d, ws, xs @ Unlinked len # ys)"
| unlink_failed: "lookup_file d p = None \<or> \<not> io_remove (io :: disk_io) p \<Longrightarrow>
    disk_step mx (d, ws, xs @ Measured p len # ys) (d, ws, xs @ ys)"
| unlinked: "disk_step mx (d, ws, xs @ Unlinked len # ys) (shrink len d, ws, xs @ ys)"
| scan: "mx \<le> dk_size d \<Longrightarrow> list_all (\<lambda>r. \<not> cleaning r) rs \<Longrightarrow>
    disk_step mx (d, ws, rs) (d, ws, Scanned (cache_files d) # rs)"
| reconcile: "disk_step mx (d, ws, xs @ Scanned fs # ys) (d\<lparr>dk_size := scan_total fs\<rparr>, ws,
    if scan_total fs < clean_threshold mx then xs @ ys
    else xs @ Evicting (sort_key (\<lambda>(_, t, _). t) fs) # ys)"
| enough: "fs = [] \<or> dk_size d < clean_threshold mx \<Longrightarrow>
    disk_step mx (d, ws, xs @ Evicting fs # ys) (d, ws, xs @ ys)"
| evict_file: "clean_threshold mx \<le> dk_size d \<Longrightarrow> lookup_file d p \<noteq> None \<Longrightarrow> io_remove (io :: disk_io) p \<Longrightarrow>
    disk_step mx (d, ws, xs @ Evicting ((p, t, bs) # fs) # ys)
      (remove_file io p d, ws, xs @ Evicted (length bs) fs # ys)"
| evict_failed: "clean_threshold mx \<le> dk_size d \<Longrightarrow> lookup_file d p = None \<or> \<not> io_remove (io :: disk_io) p \<Longrightarrow>
    disk_step mx (d, ws, xs @ Evicting ((p, t, bs) # fs) # ys) (d, ws, xs @ Evicting fs # ys)"
| evicted: "disk_step mx (d, ws, xs @ Evicted len fs # ys) (shrink len d, ws, xs @ Evicting fs # ys)"
| clear_files: "disk_step mx (d, ws, rs)
    (d\<lparr>dk_files := filter (\<lambda>(p, _). \<not> io_remove (io :: disk_io) p) (dk_files d)\<rparr>, ws, Clearing # rs)"
| reboot: "disk_step mx (d, ws, rs) (init_cache io (d\<lparr>dk_counter := 0\<rparr>), [], [])"
| cleared: "disk_step mx (d, ws, xs @ Clearing # ys) (d\<lparr>dk_size := 0\<rparr>, ws, xs @ ys)"

abbreviation disk_run ::
  "nat \<Rightarrow> disk \<times> writer list \<times> remover list \<Rightarrow> disk \<times> writer list \<times> remover list \<Rightarrow> bool" where
  "disk_run mx \<equiv> (disk_step mx)\<^sup>*\<^sup>*"

text \<open>Alone, a removal and the cleaner do what the sequential definitions say.\<close>

lemma remove_entry_is_run: "disk_run mx (d, ws, rs) (remove_entry io p d, ws, rs)"
proof (cases "file_len d p")
  case None
  then show ?thesis by (simp add: remove_entry_def)
next
  case (Some len)
  then have there: "lookup_file d p \<noteq> None" by (auto simp: file_len_def)
  show ?thesis
  proof (cases "io_remove io p")
    case True
    have "disk_run mx (d, ws, Measured p len # rs) (shrink len (remove_file io p d), ws, rs)"
      using unlink [OF there True, of mx ws "[]" len rs] unlinked [of mx "remove_file io p d" ws "[]" len rs]
      by (auto intro: converse_rtranclp_into_rtranclp)
    with measure [OF Some, of mx ws rs] True Some show ?thesis
      by (simp add: remove_entry_def shrink_def converse_rtranclp_into_rtranclp)
  next
    case False
    with measure [OF Some, of mx ws rs] unlink_failed [of d p io mx ws "[]" len rs] Some show ?thesis
      by (auto simp: remove_entry_def intro: converse_rtranclp_into_rtranclp)
  qed
qed

lemma evict_is_run:
  "listed fs d \<Longrightarrow> well_formed d \<Longrightarrow> accounted d \<Longrightarrow>
   disk_run mx (d, ws, Evicting fs # rs) (evict io mx fs d, ws, rs)"
proof (induction io mx fs d rule: evict.induct)
  case (1 io mx d)
  with enough [of "[]" d mx ws "[]" rs] show ?case by auto
next
  case (2 io mx p t bs fs d)
  have there: "lookup_file d p \<noteq> None"
    using "2.prems"(1) weak_map_of_SomeI [of p "(t, bs)" "dk_files d"]
    by (auto simp: listed_def cache_files_def lookup_file_def)
  consider "dk_size d < clean_threshold mx" | "clean_threshold mx \<le> dk_size d" "\<not> io_remove io p"
    | "clean_threshold mx \<le> dk_size d" "io_remove io p" by linarith
  then show ?case
  proof cases
    case 1
    with enough [of "(p, t, bs) # fs" d mx ws "[]" rs] show ?thesis by auto
  next
    case 2
    have "listed fs d" using "2.prems"(1) by (simp add: listed_def)
    with 2 "2.IH" "2.prems"(2,3) have "disk_run mx (d, ws, Evicting fs # rs) (evict io mx ((p, t, bs) # fs) d, ws, rs)"
      by simp
    with evict_failed [of mx d p io ws "[]" t bs fs rs] 2 show ?thesis
      by (auto intro: converse_rtranclp_into_rtranclp)
  next
    case 3
    let ?d = "shrink (length bs) (remove_file io p d)"
    have d: "(remove_file io p d)\<lparr>dk_size := sat_sub (dk_size d) (length bs)\<rparr> = ?d"
      by (simp add: shrink_def)
    from listed_remove [OF "2.prems" 3(2)]
    have "disk_run mx (?d, ws, Evicting fs # rs) (evict io mx ((p, t, bs) # fs) d, ws, rs)"
      using "2.IH" 3 by (simp add: d)
    moreover have "disk_run mx (d, ws, Evicting ((p, t, bs) # fs) # rs) (?d, ws, Evicting fs # rs)"
      using evict_file [OF 3(1) there 3(2), of ws "[]" t bs fs rs]
        evicted [of mx "remove_file io p d" ws "[]" "length bs" fs rs]
      by (auto intro: converse_rtranclp_into_rtranclp)
    ultimately show ?thesis by simp
  qed
qed

lemma ensure_capacity_is_run:
  assumes "well_formed d" "total_len (cache_files d) \<le> u64_max" "list_all (\<lambda>r. \<not> cleaning r) rs"
  shows "disk_run mx (d, ws, rs) (ensure_capacity io mx d, ws, rs)"
proof (cases "dk_size d < mx")
  case True
  then show ?thesis by (simp add: ensure_capacity_def)
next
  case False
  let ?d = "d\<lparr>dk_size := scan_total (cache_files d)\<rparr>"
  let ?fs = "sort_key (\<lambda>(_, t, _). t) (cache_files d)"
  have n: "scan_total (cache_files d) = total_len (cache_files d)"
    using assms(2) by (simp add: scan_total_def u64_max_def)
  have "accounted ?d" by (simp add: accounted_def n)
  then have "disk_run mx (?d, ws, Evicting ?fs # rs) (evict io mx ?fs ?d, ws, rs)"
    using assms(1) by (intro evict_is_run listed_cache_files) simp_all
  moreover have "disk_step mx (d, ws, rs) (d, ws, Scanned (cache_files d) # rs)"
    using False assms(3) by (intro scan) simp_all
  ultimately show ?thesis
    using False reconcile [of mx d ws "[]" "cache_files d" rs]
    by (auto simp: ensure_capacity_def Let_def scan_total_def split: if_splits
        intro: converse_rtranclp_into_rtranclp)
qed

subsection \<open>A removal that races with a commit\<close>

text \<open>\<open>remove\<close> reads the length without the commit lock: when the entry is replaced before it is
  unlinked, the new file is removed, and the size stays wrong by the difference of the lengths.\<close>

lemma writer_run_disk: "writer_step\<^sup>*\<^sup>* c c' \<Longrightarrow> disk_run mx (fst c, snd c, rs) (fst c', snd c', rs)"
proof (induction rule: rtranclp_induct)
  case (step c' c'')
  then show ?case
    by (cases c'; cases c'') (auto intro: rtranclp.rtrancl_into_rtrancl commit)
qed simp

lemma removal_race:
  fixes io io' :: disk_io and enc path d len
  defines "d1 \<equiv> snd (commit_record io path enc d)"
  defines "d2 \<equiv> shrink len (remove_file io' path d1)"
  assumes wf: "well_formed d" "accounted d" and path: "is_cache_file path" "file_len d path = Some len"
    and enc: "valid_record enc" and bound: "dk_counter d < u64_max"
    and room: "total_len (cache_files d) + length enc \<le> u64_max"
    and io: "io_write io" "io_rename io" "io_remove io' path"
  shows "disk_run mx (d, [], []) (d2, [], [])"
    and "dk_size d2 = total_len (cache_files d2) + length enc - len"
    and "lookup_file d2 path = None"
proof -
  have l1: "lookup_file d1 path = Some (io_now io, enc)"
    using commit_files [OF io(1,2)] by (simp add: d1_def lookup_file_def update_conv')
  have "disk_run mx (d, [], [Measured path len]) (d1, [], [Measured path len])"
    using writer_run_disk [OF commit_record_writes [OF path(1) enc bound room]] by (simp add: d1_def)
  moreover have "disk_step mx (d1, [], [Measured path len]) (remove_file io' path d1, [], [Unlinked len])"
    using unlink [of d1 path io' mx "[]" "[]" len "[]"] l1 io(3) by simp
  moreover have "disk_step mx (remove_file io' path d1, [], [Unlinked len]) (d2, [], [])"
    using unlinked [of mx "remove_file io' path d1" "[]" "[]" len "[]"] by (simp add: d2_def)
  ultimately show "disk_run mx (d, [], []) (d2, [], [])"
    using measure [OF path(2), of mx "[]" "[]"] by (meson converse_rtranclp_into_rtranclp rtranclp.rtrancl_into_rtrancl)
  have "accounted d1"
    unfolding d1_def by (rule commit_accounted [OF wf(2) path(1) room])
  moreover have "well_formed d1" unfolding d1_def by (rule commit_well_formed [OF wf(1)])
  moreover have "old_len (dk_files d1) path = length enc"
    using l1 by (simp add: old_len_def lookup_file_def)
  moreover have "cache_files d2 = filter (\<lambda>(q, _). is_cache_file q) (AList.delete path (dk_files d1))"
    using io(3) by (simp add: d2_def shrink_def remove_file_def cache_files_def)
  ultimately show "dk_size d2 = total_len (cache_files d2) + length enc - len"
    using total_delete [of is_cache_file path "dk_files d1"] path(1)
    by (simp add: d2_def shrink_def accounted_def well_formed_def cache_files_def [of d1] sat_sub_def)
  show "lookup_file d2 path = None"
    using io(3) by (simp add: d2_def shrink_def remove_file_def lookup_file_def delete_conv')
qed

subsection \<open>No task shows a half-written record\<close>

text \<open>With removals and the cleaner a waiting writer may lose its temporary file, but it never finds
  another's there.\<close>

definition writer_sound :: "disk \<Rightarrow> writer \<Rightarrow> bool" where
  "writer_sound d w =
     (case w of
        Written path enc tmp \<Rightarrow>
          valid_record enc \<and> own_tmp (dk_counter d) tmp \<and> is_cache_file path
          \<and> map_option snd (lookup_file d tmp) \<in> {None, Some enc}
      | Locked path enc tmp old \<Rightarrow>
          valid_record enc \<and> own_tmp (dk_counter d) tmp \<and> is_cache_file path
          \<and> map_option snd (lookup_file d tmp) \<in> {None, Some enc}
      | Swapped enc old \<Rightarrow> True)"

definition sound_inv :: "disk \<times> writer list \<Rightarrow> bool" where
  "sound_inv c \<longleftrightarrow>
     (case c of (d, ws) \<Rightarrow> list_all (writer_sound d) ws \<and> distinct (tmps ws) \<and> complete_files d)"

lemma writer_sound_own: "writer_sound d w \<Longrightarrow> tmp \<in> set (writer_tmp w) \<Longrightarrow> own_tmp (dk_counter d) tmp"
  by (cases w) (auto simp: writer_sound_def writer_tmp_def)

lemma sound_frame:
  assumes "list_all (writer_sound d) ws"
    and "\<And>tmp. tmp \<in> set (tmps ws) \<Longrightarrow> own_tmp (dk_counter d) tmp \<Longrightarrow>
      map_option snd (lookup_file d' tmp) \<in> {None, map_option snd (lookup_file d tmp)}"
    and "dk_counter d \<le> dk_counter d'"
  shows "list_all (writer_sound d') ws"
  unfolding list_all_iff
proof
  fix w assume w: "w \<in> set ws"
  with assms(1) have ok: "writer_sound d w" by (simp add: list_all_iff)
  have "map_option snd (lookup_file d' tmp) \<in> {None, map_option snd (lookup_file d tmp)}"
    if "tmp \<in> set (writer_tmp w)" for tmp
    using assms(2) [OF in_tmps [OF w that] writer_sound_own [OF ok that]] .
  with ok assms(3) show "writer_sound d' w"
    by (cases w) (fastforce simp: writer_sound_def tmps_simps intro: own_tmp_mono)+
qed

lemma sound_fresh:
  assumes "list_all (writer_sound d) ws" shows "tmp_path path pid (dk_counter d) \<notin> set (tmps ws)"
proof
  assume "tmp_path path pid (dk_counter d) \<in> set (tmps ws)"
  then obtain w where "w \<in> set ws" "tmp_path path pid (dk_counter d) \<in> set (writer_tmp w)"
    by (auto simp: tmps_def)
  with assms writer_sound_own own_tmp_fresh show False by (fastforce simp: list_all_iff)
qed

lemma complete_subset:
  "complete_files d \<Longrightarrow> set (cache_files d') \<subseteq> set (cache_files d) \<Longrightarrow> complete_files d'"
  by (auto simp: complete_files_def)

lemma sound_invD:
  assumes "sound_inv (d, ws)"
  shows "list_all (writer_sound d) ws" "distinct (tmps ws)" "complete_files d"
  using assms by (simp_all add: sound_inv_def)

lemma begin_sound:
  assumes inv: "sound_inv (d, ws)" and "io_write io" "is_cache_file path" "valid_record enc"
    and bound: "dk_counter d < u64_max"
  shows "sound_inv (begin_write io path enc d,
    Written path enc (tmp_path path (io_pid io) (dk_counter d)) # ws)"
proof -
  let ?d = "begin_write io path enc d" and ?tmp = "tmp_path path (io_pid io) (dk_counter d)"
  note ws = sound_invD [OF inv]
  have "lookup_file ?d tmp = lookup_file d tmp" if "own_tmp (dk_counter d) tmp" for tmp
    using own_tmp_fresh [OF that, of path "io_pid io"] by (simp add: begin_write_simps)
  then have "list_all (writer_sound ?d) ws"
    using bound by (intro sound_frame [OF ws(1)]) (simp_all add: begin_write_simps)
  moreover have "lookup_file ?d ?tmp = Some (io_now io, enc)"
    using assms(2) by (simp add: begin_write_def lookup_write)
  moreover have "own_tmp (dk_counter ?d) ?tmp"
    using bound by (auto simp: own_tmp_def begin_write_simps)
  moreover have "complete_files ?d"
    using ws(3) by (simp add: complete_files_def begin_write_simps)
  ultimately show ?thesis
    using assms(3,4) ws(2) sound_fresh [OF ws(1)]
    by (simp add: sound_inv_def writer_sound_def tmps_simps)
qed

lemma begin_failed_sound:
  assumes inv: "sound_inv (d, ws)" and bound: "dk_counter d < u64_max"
  shows "sound_inv (remove_file io (tmp_path path (io_pid io) (dk_counter d)) (begin_write io path enc d), ws)"
proof -
  let ?d = "remove_file io (tmp_path path (io_pid io) (dk_counter d)) (begin_write io path enc d)"
  note ws = sound_invD [OF inv]
  have "lookup_file ?d tmp = lookup_file d tmp" if "own_tmp (dk_counter d) tmp" for tmp
    using own_tmp_fresh [OF that, of path "io_pid io"] by (simp add: lookup_ops begin_write_simps)
  then have "list_all (writer_sound ?d) ws"
    using bound by (intro sound_frame [OF ws(1)]) (simp_all add: counter_ops begin_write_simps)
  with ws(2,3) show ?thesis
    by (simp add: sound_inv_def complete_files_def begin_write_simps tmp_path_temp)
qed

lemma locked_sound:
  assumes "sound_inv (d, us @ Locked path enc tmp old # vs)"
  shows "list_all (writer_sound d) (us @ vs)" "valid_record enc" "own_tmp (dk_counter d) tmp"
    "is_cache_file path" "map_option snd (lookup_file d tmp) \<in> {None, Some enc}"
    "tmp \<notin> set (tmps (us @ vs))" "distinct (tmps (us @ vs))" "complete_files d"
  using sound_invD [OF assms] by (auto simp: writer_sound_def tmps_simps)

lemma swap_sound:
  assumes inv: "sound_inv (d, us @ Locked path enc tmp old # vs)" and "lookup_file d tmp \<noteq> None"
  shows "sound_inv (rename_file tmp path d, us @ Swapped enc old # vs)"
proof -
  let ?d = "rename_file tmp path d"
  note ws = locked_sound [OF inv]
  obtain t where t: "lookup_file d tmp = Some (t, enc)" using ws(5) assms(2) by auto
  have "lookup_file ?d x = lookup_file d x" if "x \<in> set (tmps (us @ vs))" "own_tmp (dk_counter d) x" for x
    using that(1) ws(6) cache_not_temp [OF ws(4) own_tmp_temp [OF that(2)]]
    by (intro lookup_ops(5)) auto
  then have "list_all (writer_sound ?d) (us @ vs)"
    by (intro sound_frame [OF ws(1)]) (simp_all add: counter_ops)
  moreover have "complete_files ?d"
    using rename_files [OF t, of path] ws(8) valid_record_decodes [OF ws(2)]
    by (force simp: complete_files_def)
  ultimately show ?thesis
    using ws(7) by (simp add: sound_inv_def writer_sound_def tmps_simps)
qed

lemma swap_failed_sound:
  assumes inv: "sound_inv (d, us @ Locked path enc tmp old # vs)"
  shows "sound_inv (remove_file io tmp d, us @ vs)"
proof -
  note ws = locked_sound [OF inv]
  have "lookup_file (remove_file io tmp d) x = lookup_file d x" if "x \<in> set (tmps (us @ vs))" for x
    using that ws(6) by (intro lookup_ops(4)) auto
  then have "list_all (writer_sound (remove_file io tmp d)) (us @ vs)"
    by (intro sound_frame [OF ws(1)]) (simp_all add: counter_ops)
  then show ?thesis
    using ws(7,8) own_tmp_temp [OF ws(3)] by (simp add: sound_inv_def complete_files_def)
qed

lemma resize_sound: "sound_inv (d\<lparr>dk_size := n\<rparr>, ws) = sound_inv (d, ws)"
proof -
  have "writer_sound (d\<lparr>dk_size := n\<rparr>) = writer_sound d"
    by (rule ext) (simp add: writer_sound_def lookup_ops split: writer.split)
  then show ?thesis by (simp add: sound_inv_def complete_files_def)
qed

lemma drop_sound: "sound_inv (d, us @ w # vs) \<Longrightarrow> sound_inv (d, us @ vs)"
  by (auto simp: sound_inv_def tmps_simps)

lemma touch_sound:
  assumes inv: "sound_inv (d, ws)" and p: "lookup_file d p = Some (t, bs)"
  shows "sound_inv (d\<lparr>dk_files := AList.update p (now, bs) (dk_files d)\<rparr>, ws)"
proof -
  let ?d = "d\<lparr>dk_files := AList.update p (now, bs) (dk_files d)\<rparr>"
  note ws = sound_invD [OF inv]
  have "list_all (writer_sound ?d) ws"
    using touch_simps(2) [OF p, of now] by (intro sound_frame [OF ws(1)]) simp_all
  moreover have "complete_files ?d"
    using ws(3) touch_files [OF p, of _ _ _ now] by (fastforce simp: complete_files_def)
  ultimately show ?thesis using ws(2) by (simp add: sound_inv_def)
qed

lemma writer_step_sound: "writer_step c c' \<Longrightarrow> sound_inv c \<Longrightarrow> sound_inv c'"
proof (induction rule: writer_step.induct)
  case (lock us vs d path enc tmp)
  then show ?case by (simp add: sound_inv_def writer_sound_def tmps_simps)
next
  case (adjust d us enc old vs)
  then show ?case using drop_sound by (simp add: adjust_size_def resize_sound)
qed (simp_all add: begin_sound begin_failed_sound swap_sound swap_failed_sound touch_sound)

lemma fewer_files_sound:
  assumes inv: "sound_inv (d, ws)" and "dk_counter d' = dk_counter d"
    and "\<And>q. lookup_file d' q \<in> {None, lookup_file d q}" and "set (dk_files d') \<subseteq> set (dk_files d)"
  shows "sound_inv (d', ws)"
proof -
  note ws = sound_invD [OF inv]
  have "map_option snd (lookup_file d' q) \<in> {None, map_option snd (lookup_file d q)}" for q
    using assms(3) [of q] by auto
  then have "list_all (writer_sound d') ws"
    by (intro sound_frame [OF ws(1)]) (simp_all add: assms(2))
  moreover have "complete_files d'"
    using assms(4) by (intro complete_subset [OF ws(3)]) (auto simp: cache_files_def)
  ultimately show ?thesis using ws(2) by (simp add: sound_inv_def)
qed

lemma in_delete: "x \<in> set (AList.delete p fs) \<Longrightarrow> x \<in> set fs"
  by (induction fs) (auto split: if_splits)

lemma remove_sound: "sound_inv (d, ws) \<Longrightarrow> sound_inv (remove_file io p d, ws)"
  by (erule fewer_files_sound) (auto simp: remove_file_def lookup_file_def delete_conv' dest: in_delete)

lemma map_of_filter_key: "map_of (filter (\<lambda>(p, _). P p) fs) q = (if P q then map_of fs q else None)"
  by (induction fs) auto

lemma clear_sound:
  "sound_inv (d, ws) \<Longrightarrow> sound_inv (d\<lparr>dk_files := filter (\<lambda>(p, _). P p) (dk_files d)\<rparr>, ws)"
  by (erule fewer_files_sound) (auto simp: lookup_file_def map_of_filter_key)

lemma disk_step_sound:
  "disk_step mx c c' \<Longrightarrow> sound_inv (fst c, fst (snd c)) \<Longrightarrow> sound_inv (fst c', fst (snd c'))"
proof (induction rule: disk_step.induct)
  case (commit d ws d' ws' rs)
  then show ?case using writer_step_sound by simp
next
  case (reboot d ws rs io)
  then show ?case by (simp add: sound_inv_def tmps_simps complete_files_def restart_files)
qed (simp_all add: remove_sound clear_sound shrink_def resize_sound)

lemma disk_run_sound:
  "disk_run mx c c' \<Longrightarrow> sound_inv (fst c, fst (snd c)) \<Longrightarrow> sound_inv (fst c', fst (snd c'))"
  by (induction rule: rtranclp_induct) (auto dest: disk_step_sound)

lemma disk_run_complete:
  assumes "disk_run mx (d, [], []) (d', ws, rs)" "complete_files d" shows "complete_files d'"
  using disk_run_sound [OF assms(1)] assms(2) by (simp add: sound_inv_def tmps_simps)

end
