(* ===== verification/Global_Cache.thy ===== *)
theory Global_Cache
  imports Client_Cache Requests Disk_Cache
begin

text \<open>
  \<open>src/cache.rs\<close> and \<open>src/web_assets.rs\<close>: the process-wide cache of serialised values with its
  expirations, the key and the handler of the response cache, and the Plex Web assets served
  from it; with the status codes of \<open>src/error.rs\<close>.

  The store is a map from keys to an expiration, the time of insertion and the serialised bytes;
  serialisation is a pair of parameters.  An entry past its duration is not returned.  The
  capacity bound of the library is not modelled.
\<close>

subsection \<open>Expirations\<close>

datatype expiration = Never | Global | Month | Day

text \<open>\<open>ttl\<close> is the configured lifetime of \<open>Global\<close> entries, in seconds.\<close>

definition as_duration :: "nat \<Rightarrow> expiration \<Rightarrow> nat option" where
  "as_duration ttl e =
     (case e of
        Never \<Rightarrow> None
      | Global \<Rightarrow> Some ttl
      | Month \<Rightarrow> Some (30 * 24 * 60 * 60)
      | Day \<Rightarrow> Some (60 * 60 * 24))"

text \<open>The duration is fixed when the entry is created: \<open>CacheExpiry\<close> overrides \<open>expire_after_create\<close> only, so
  the replacement of a live entry keeps its deadline.\<close>

type_synonym global_cache = "string \<Rightarrow> (nat option \<times> bytes) option"

definition expire_after_create :: "nat \<Rightarrow> nat \<Rightarrow> expiration \<Rightarrow> nat option" where
  "expire_after_create ttl now e = map_option (\<lambda>d. now + d) (as_duration ttl e)"

definition live_at :: "nat \<Rightarrow> nat option \<Rightarrow> bool" where
  "live_at now deadline = (case deadline of None \<Rightarrow> True | Some t \<Rightarrow> now < t)"

definition deadline_of :: "nat \<Rightarrow> nat \<Rightarrow> expiration \<Rightarrow> (nat option \<times> bytes) option \<Rightarrow> nat option" where
  "deadline_of ttl now e old =
     (case old of
        Some (deadline, _) \<Rightarrow> if live_at now deadline then deadline else expire_after_create ttl now e
      | None \<Rightarrow> expire_after_create ttl now e)"

subsection \<open>The manager\<close>

definition manager_get ::
  "(bytes \<Rightarrow> 'v option) \<Rightarrow> nat \<Rightarrow> string \<Rightarrow> global_cache \<Rightarrow> 'v option \<times> global_cache" where
  "manager_get decode now k cache =
     (case cache k of
        Some (deadline, data) \<Rightarrow>
          (if \<not> live_at now deadline then (None, cache)
           else (case decode data of
                   Some v \<Rightarrow> (Some v, cache)
                 | None \<Rightarrow> (None, cache(k := None))))
      | None \<Rightarrow> (None, cache))"

definition manager_insert ::
  "('v \<Rightarrow> bytes option) \<Rightarrow> nat \<Rightarrow> nat \<Rightarrow> string \<Rightarrow> 'v \<Rightarrow> expiration \<Rightarrow> global_cache
   \<Rightarrow> bool \<times> global_cache" where
  "manager_insert encode ttl now k v e cache =
     (case encode v of
        None \<Rightarrow> (False, cache)
      | Some data \<Rightarrow> (True, cache(k \<mapsto> (deadline_of ttl now e (cache k), data))))"

definition manager_delete :: "string \<Rightarrow> global_cache \<Rightarrow> global_cache" where
  "manager_delete k cache = cache(k := None)"

definition manager_clear :: "global_cache \<Rightarrow> global_cache" where
  "manager_clear cache = (\<lambda>_. None)"

text \<open>Without a lifetime the store is the interface that the metadata cache has too.\<close>

interpretation global_store: cache_store
  "\<lambda>s k. map_option snd (s k)" "\<lambda>k v s. s(k \<mapsto> (None, v))" manager_delete manager_clear
  by unfold_locales (simp_all add: manager_delete_def manager_clear_def)

subsection \<open>Keys of cached responses\<close>

record request_issuer =
  is_scheme :: bool
  is_authority :: bool
  is_local_addr :: bool
  is_path :: bool
  is_strip_last :: bool
  is_query :: bool
  is_method :: bool
  is_mime :: bool
  is_headers :: "string list"

definition new_issuer :: request_issuer where
  "new_issuer = \<lparr>is_scheme = True, is_authority = True, is_local_addr = False, is_path = True,
     is_strip_last = False, is_query = True, is_method = True, is_mime = False, is_headers = []\<rparr>"

definition with_plex_defaults :: request_issuer where
  "with_plex_defaults = new_issuer\<lparr>is_headers :=
     [''accept'', ''accept-encoding'', ''x-plex-token'', ''x-plex-language'',
      ''x-plex-client-identifier'']\<rparr>"

definition use_scheme :: "bool \<Rightarrow> request_issuer \<Rightarrow> request_issuer" where
  "use_scheme v i = i\<lparr>is_scheme := v\<rparr>"

definition use_authority :: "bool \<Rightarrow> request_issuer \<Rightarrow> request_issuer" where
  "use_authority v i = i\<lparr>is_authority := v\<rparr>"

definition use_local_addr :: "bool \<Rightarrow> request_issuer \<Rightarrow> request_issuer" where
  "use_local_addr v i = i\<lparr>is_local_addr := v\<rparr>"

definition use_path :: "bool \<Rightarrow> request_issuer \<Rightarrow> request_issuer" where
  "use_path v i = i\<lparr>is_path := v\<rparr>"

definition use_query :: "bool \<Rightarrow> request_issuer \<Rightarrow> request_issuer" where
  "use_query v i = i\<lparr>is_query := v\<rparr>"

definition use_method :: "bool \<Rightarrow> request_issuer \<Rightarrow> request_issuer" where
  "use_method v i = i\<lparr>is_method := v\<rparr>"

definition use_headers :: "string list \<Rightarrow> request_issuer \<Rightarrow> request_issuer" where
  "use_headers v i = i\<lparr>is_headers := v\<rparr>"

definition path_strip_last_segment :: "bool \<Rightarrow> request_issuer \<Rightarrow> request_issuer" where
  "path_strip_last_segment v i = i\<lparr>is_strip_last := v\<rparr>"

text \<open>The parts of a request that the key is made of.  \<open>iq_header\<close> is the text of a header that is
  present; one that is no text is \<open>Some None\<close>, on which the code panics.\<close>

record issued_request =
  iq_scheme :: "string option"
  iq_authority :: "string option"
  iq_local_addr :: string
  iq_path :: string
  iq_query :: "string option"
  iq_method :: string
  iq_first_accept :: "string option"
  iq_no_headers :: bool
  iq_header :: "string \<Rightarrow> string option option"

definition issue_header :: "issued_request \<Rightarrow> string \<Rightarrow> string option" where
  "issue_header q h =
     (case iq_header q h of
        None \<Rightarrow> Some []
      | Some None \<Rightarrow> None
      | Some (Some v) \<Rightarrow>
          Some (''::'' @ (if h = ''accept'' then unwrap_or (iq_first_accept q) [] else h) @ '':'' @ v))"

fun issue_headers :: "issued_request \<Rightarrow> string list \<Rightarrow> string option" where
  "issue_headers q [] = Some []"
| "issue_headers q (h # hs) =
     (case issue_header q h of
        None \<Rightarrow> None
      | Some a \<Rightarrow> map_option (\<lambda>b. a @ b) (issue_headers q hs))"

definition issue :: "request_issuer \<Rightarrow> issued_request \<Rightarrow> string option" where
  "issue i q =
     (let key =
        (if is_scheme i then (case iq_scheme q of Some s \<Rightarrow> s @ ''://'' | None \<Rightarrow> []) else [])
        @ (if is_authority i then unwrap_or (iq_authority q) [] else [])
        @ (if is_local_addr i then replace_str (iq_local_addr q) ''socket://'' [] else [])
        @ (if is_path i then (if is_strip_last i then iq_path q else iq_path q) else [])
        @ (if is_query i then (case iq_query q of Some s \<Rightarrow> ''?'' @ s | None \<Rightarrow> []) else [])
        @ (if is_method i then ''|method::'' @ iq_method q else [])
        @ (if is_mime i then (case iq_first_accept q of Some m \<Rightarrow> ''|mime::'' @ m | None \<Rightarrow> []) else [])
      in if is_headers i \<noteq> [] \<and> \<not> iq_no_headers q
         then map_option (\<lambda>hs. key @ ''|headers::'' @ hs) (issue_headers q (is_headers i))
         else Some key)"

subsection \<open>The caching handler\<close>

text \<open>\<open>'r\<close> is a response; \<open>plain\<close> whether its body is neither a stream nor an error and converts.
  \<open>key\<close> is the issued key, \<open>None\<close> when there is none or the method is skipped.\<close>

definition cache_handle ::
  "(string \<Rightarrow> 's \<Rightarrow> 'r option) \<Rightarrow> (string \<Rightarrow> 'r \<Rightarrow> 's \<Rightarrow> 's) \<Rightarrow> ('r \<Rightarrow> bool) \<Rightarrow> string option \<Rightarrow> 'r \<Rightarrow> 's
   \<Rightarrow> 'r option \<times> 's" where
  "cache_handle load save plain key fresh s =
     (case key of
        None \<Rightarrow> (None, s)
      | Some k \<Rightarrow>
          (case load k s of
             Some r \<Rightarrow> (Some r, s)
           | None \<Rightarrow> (Some fresh, if plain fresh then save k fresh s else s)))"

subsection \<open>Web assets\<close>

record cached_asset =
  as_content_type :: "string option"
  as_body :: bytes

definition asset_cache_prefix :: string where "asset_cache_prefix = ''webasset:''"

definition cache_policy_for :: "string \<Rightarrow> string" where
  "cache_policy_for path =
     (if path = ''/web'' \<or> path = ''/web/'' \<or> ends_with path ''/index.html''
         \<or> contains path ''/translations/''
      then ''no-cache'' else ''public, max-age=31536000, immutable'')"

text \<open>\<open>get url\<close> is the upstream's status, content type and body.\<close>

definition fetch_asset ::
  "(string \<Rightarrow> (nat \<times> string option \<times> bytes option) option) \<Rightarrow> string option \<Rightarrow> string
   \<Rightarrow> nat + cached_asset" where
  "fetch_asset get host path =
     (case get (trim_end_of CHR ''/'' (unwrap_or host []) @ path) of
        None \<Rightarrow> Inl 502
      | Some (status, ct, body) \<Rightarrow>
          (if status \<noteq> 200 then Inl 502
           else (case body of
                   None \<Rightarrow> Inl 502
                 | Some bs \<Rightarrow> Inr \<lparr>as_content_type = ct, as_body = bs\<rparr>)))"

record asset_codec =
  ac_encode :: "cached_asset \<Rightarrow> bytes option"
  ac_decode :: "bytes \<Rightarrow> cached_asset option"

text \<open>The reply is a status, or the asset with its cache policy.\<close>

definition serve_web_asset ::
  "asset_codec \<Rightarrow> nat \<Rightarrow> nat \<Rightarrow> (string \<Rightarrow> (nat \<times> string option \<times> bytes option) option)
   \<Rightarrow> string option \<Rightarrow> string \<Rightarrow> global_cache \<Rightarrow> (nat + cached_asset \<times> string) \<times> global_cache" where
  "serve_web_asset codec ttl now get host path cache =
     (case manager_get (ac_decode codec) now (asset_cache_prefix @ path) cache of
        (Some a, cache') \<Rightarrow> (Inr (a, cache_policy_for path), cache')
      | (None, cache') \<Rightarrow>
          (case fetch_asset get host path of
             Inl status \<Rightarrow> (Inl status, cache')
           | Inr a \<Rightarrow>
               (Inr (a, cache_policy_for path),
                snd (manager_insert (ac_encode codec) ttl now (asset_cache_prefix @ path) a Month cache'))))"

subsection \<open>Errors\<close>

datatype app_error =
  Authentication string | Forbidden string | InvalidClientInput string | UpstreamTransport string
| UpstreamParse string | Configuration string | Internal string

definition status_code :: "app_error \<Rightarrow> nat" where
  "status_code e =
     (case e of
        Authentication _ \<Rightarrow> 401
      | Forbidden _ \<Rightarrow> 403
      | InvalidClientInput _ \<Rightarrow> 400
      | UpstreamTransport _ \<Rightarrow> 502
      | UpstreamParse _ \<Rightarrow> 502
      | Configuration _ \<Rightarrow> 500
      | Internal _ \<Rightarrow> 500)"

subsection \<open>Laws\<close>

lemma manager_insert_get:
  assumes "manager_insert encode ttl now k v e cache = (True, cache')"
    and "\<And>w data. encode w = Some data \<Longrightarrow> decode data = Some w"
    and "live_at now' (deadline_of ttl now e (cache k))"
  shows "manager_get decode now' k cache' = (Some v, cache')"
  using assms by (auto simp: manager_insert_def manager_get_def split: option.splits)

lemma replacement_keeps_deadline:
  assumes "cache k = Some (deadline, old)" "live_at now deadline"
    and "manager_insert encode ttl now k v e cache = (True, cache')"
  shows "map_option fst (cache' k) = Some deadline"
  using assms by (auto simp: manager_insert_def deadline_of_def split: option.splits)

lemma manager_insert_other:
  "manager_insert encode ttl now k v e cache = (b, cache') \<Longrightarrow> j \<noteq> k \<Longrightarrow> cache' j = cache j"
  by (auto simp: manager_insert_def split: option.splits)

lemma manager_expires:
  assumes "cache k = Some (expire_after_create ttl now e, data)" and "as_duration ttl e = Some d"
    and "now + d \<le> now'"
  shows "manager_get decode now' k cache = (None, cache)"
  using assms by (simp add: manager_get_def expire_after_create_def live_at_def)

lemma corrupt_evicted:
  assumes "cache k = Some (deadline, data)" "live_at now deadline" "decode data = None"
  shows "manager_get decode now k cache = (None, manager_delete k cache)"
  using assms by (simp add: manager_get_def manager_delete_def)

lemma asset_served_again:
  assumes "serve_web_asset codec ttl now get host path cache = (Inr (a, pol), cache')"
    and "\<And>w. fetch_asset get host path = Inr w \<Longrightarrow>
      \<exists>data. ac_encode codec w = Some data \<and> ac_decode codec data = Some w"
    and "cache (asset_cache_prefix @ path) = None" and "now' < now + 30 * 24 * 60 * 60"
  shows "serve_web_asset codec ttl now' other host' path cache' = (Inr (a, pol), cache')"
proof -
  let ?k = "asset_cache_prefix @ path"
  have a: "fetch_asset get host path = Inr a" "pol = cache_policy_for path"
    "cache' = snd (manager_insert (ac_encode codec) ttl now ?k a Month cache)"
    using assms(1,3) by (auto simp: serve_web_asset_def manager_get_def split: sum.splits)
  obtain data where d: "ac_encode codec a = Some data" "ac_decode codec data = Some a"
    using assms(2) [OF a(1)] by blast
  then have "cache' ?k = Some (expire_after_create ttl now Month, data)"
    using a(3) assms(3) by (simp add: manager_insert_def deadline_of_def)
  then have "manager_get (ac_decode codec) now' ?k cache' = (Some a, cache')"
    using d(2) assms(4) by (simp add: manager_get_def expire_after_create_def as_duration_def live_at_def)
  then show ?thesis using a(2) by (simp add: serve_web_asset_def)
qed

lemma asset_failure_not_cached:
  assumes "serve_web_asset codec ttl now get host path cache = (Inl status, cache')"
  shows "status = 502 \<and> (\<forall>k v. cache' k = Some v \<longrightarrow> cache k = Some v)"
  using assms
  by (auto simp: serve_web_asset_def manager_get_def fetch_asset_def
      split: option.splits sum.splits if_splits)

lemma strip_option_no_effect: "issue (path_strip_last_segment b i) q = issue i q"
  by (simp add: issue_def path_strip_last_segment_def Let_def)

text \<open>A key is always issued, unless a header the key uses is no text: there the code unwraps.\<close>

lemma issue_headers_None: "issue_headers q hs = None \<longleftrightarrow> (\<exists>h \<in> set hs. iq_header q h = Some None)"
  by (induction hs) (auto simp: issue_header_def split: option.splits)

lemma issue_panics_iff:
  "issue i q = None \<longleftrightarrow> \<not> iq_no_headers q \<and> (\<exists>h \<in> set (is_headers i). iq_header q h = Some None)"
  by (auto simp: issue_def Let_def issue_headers_None)

lemma handler_repeats:
  assumes "cache_handle load save plain (Some k) fresh s = (Some r, s')"
    and "plain fresh" and "\<And>k v s. load k (save k v s) = Some v"
  shows "cache_handle load save plain (Some k) other s' = (Some r, s')"
  using assms by (auto simp: cache_handle_def split: option.splits)

end
