(* ===== verification/Cache_Properties.thy ===== *)
theory Cache_Properties
  imports Samples Cached_Routes Disk_Runs Global_Cache
begin

text \<open>
  The properties of the cached pages and their keys (\<open>src/routes.rs\<close>, \<open>src/hub_cache.rs\<close>), of
  the disk cache (\<open>src/disk_cache.rs\<close>) and of the web assets (\<open>src/cache.rs\<close>).
\<close>

section \<open>Cached pages and their keys\<close>

definition demo_sha :: "string \<Rightarrow> string" where
  "demo_sha t = (if t = ''alice'' then replicate 64 CHR ''a'' else replicate 64 CHR ''b'')"

lemma demo_sha_hex: "hex_digest demo_sha"
  by (auto simp: hex_digest_def demo_sha_def list_all_iff is_hexdigit_def)

definition demo_page :: request where
  "demo_page = \<lparr>rq_method = ''GET'', rq_path = ''/library/sections/1/all'',
     rq_query = [(''type'', ''1''), (''excludeFields'', ''summary''), (''X-Plex-Token'', ''alice'')],
     rq_headers = [], rq_absolute = False\<rparr>"

definition demo_raw :: string where
  "demo_raw = ''/library/sections/1/all?type=1&excludeFields=summary&X-Plex-Token=alice''"

definition demo_route :: route_env where
  "demo_route = \<lparr>re_sha = demo_sha, re_urls = demo_urls, re_dir = ''/data'', re_max = 1000,
     re_io = demo_io, re_parse = (\<lambda>bs. if bs = [1] then Some demo_item else None),
     re_render = (\<lambda>_ c. map (\<lambda>h. word_of_int (m_id h))
                          (concat (map all_media (mc_metadata c)))),
     re_upstream = (\<lambda>_ _. \<lparr>an_status = Some 200, an_type = None, an_control = None, an_body = Once [1]\<rparr>),
     re_elapsed = 0, re_current = Some (demo_policy, demo_user), re_fail_closed = True,
     re_client_ok = True, re_skip = False\<rparr>"

definition demo_web :: "(string \<times> nat \<times> bytes) list \<Rightarrow> web_state" where
  "demo_web files = \<lparr>ws_disk = \<lparr>dk_files = files, dk_size = total_len files, dk_counter = 0\<rparr>,
     ws_photos = [], ws_hub = initial_hub, ws_parts = Map.empty, ws_metrics = default_metrics\<rparr>"


lemma demo_single: "re_parse demo_route bs = Some c \<Longrightarrow> single_list c"
  by (auto simp: demo_route_def demo_item_def single_list_def item_total_def mc_children_mut_def
      default_container_def split: if_splits)

lemma demo_page_served:
  "\<exists>b ws'. library_cache_lookup demo_route demo_page demo_raw (demo_web []) = (Served b, ws')
     \<and> unwrap_or (an_status b) 200 = 200"
proof -
  have "starts_with (rq_path demo_page) library_prefix"
    by (simp add: demo_page_def library_prefix_def starts_with_code)
  then show ?thesis
    by (simp add: library_cache_lookup_def get_body_def get_full_def demo_web_def lookup_file_def
        library_miss_def library_live_def library_cache_store_def proxy_for_transform_def
        transform_policy_response_def apply_policy_transforms_def take_bytes_def status_success_def
        demo_route_def Let_def)
qed


text \<open>C16. A hit on the disk cache answers with exactly the body that the live path makes of the same
  payload under the policy in force now: the stored bytes carry no decision.\<close>

theorem cached_pages_answer_as_live_ones:
  assumes "starts_with (rq_path r) library_prefix"
    and "get_body (re_sha ev) (re_dir ev) (re_io ev) (page_key ev raw r) (ws_disk ws) = (Some data, d)"
    and "transform_policy_response ev r \<lparr>an_status = Some 200, an_type = t, an_control = cc,
           an_body = Once data\<rparr> ws2 = (Served live, ws3)"
  shows "\<exists>a ws'. library_cache_lookup ev r raw ws = (Served a, ws') \<and> an_body a = an_body live"
  using hit_as_live [OF assms] by blast

definition demo_files :: "(string \<times> nat \<times> bytes) list" where
  "demo_files =
     [(path_for_key demo_sha ''/data'' (page_key demo_route demo_raw demo_page), 0, [1])]"

lemma demo_hit:
  "\<exists>d. get_body (re_sha demo_route) (re_dir demo_route) (re_io demo_route)
     (page_key demo_route demo_raw demo_page) (ws_disk (demo_web demo_files)) = (Some [1], d)"
proof -
  have "decode_record [1] = Some \<lparr>cr_content_type = None, cr_body = [1]\<rparr>"
    by (simp add: decode_record_def)
  then show ?thesis
    by (simp add: get_body_def get_full_def demo_web_def demo_files_def lookup_file_def Let_def)
      (simp add: demo_route_def)
qed

theorem cached_pages_answer_as_live_ones_witness:
  "\<exists>a ws'. library_cache_lookup demo_route demo_page demo_raw (demo_web demo_files) = (Served a, ws')
     \<and> an_body a = Once (re_render demo_route (request_content_type demo_page)
                      (apply_to (policy_transforms demo_route) demo_item))"
proof -
  obtain d where d: "get_body (re_sha demo_route) (re_dir demo_route) (re_io demo_route)
      (page_key demo_route demo_raw demo_page) (ws_disk (demo_web demo_files)) = (Some [1], d)"
    using demo_hit by blast
  have p: "starts_with (rq_path demo_page) library_prefix"
    by (simp add: demo_page_def library_prefix_def starts_with_code)
  have "transform_policy_response demo_route demo_page \<lparr>an_status = Some 200, an_type = None,
      an_control = None, an_body = Once [1]\<rparr> (demo_web []) =
    (Served (rendered demo_route demo_page (apply_to (policy_transforms demo_route) demo_item)
        \<lparr>an_status = Some 200, an_type = None, an_control = None, an_body = Once [1]\<rparr>),
     (demo_web [])\<lparr>ws_parts := walk_parts demo_route demo_item (ws_parts (demo_web []))\<rparr>)"
    by (simp add: transform_policy_response_def apply_policy_transforms_def take_bytes_def)
      (simp add: demo_route_def)
  from cached_pages_answer_as_live_ones [OF p d this] show ?thesis by simp
qed

text \<open>C17. Accounts never share a key of a library page, of artwork, or of a hub that is not one of
  the global ones: two requests whose tokens have different scopes have different keys, whatever
  they ask for.  The promoted and home hubs are the exception: they have one key for all.\<close>

theorem accounts_have_their_own_keys:
  assumes "hex_digest sha" and "token_scope sha t \<noteq> token_scope sha t'"
  shows "library_cache_key_for sha ul raw t \<noteq> library_cache_key_for sha ul raw' t'
    \<and> photo_cache_key_for sha ul raw t \<noteq> photo_cache_key_for sha ul raw' t'
    \<and> (\<not> global_hub p \<and> \<not> global_hub p' \<longrightarrow> hub_cache_key sha p t \<noteq> hub_cache_key sha p' t')
    \<and> (global_hub p \<longrightarrow> hub_cache_key sha p t = hub_cache_key sha p t')"
proof -
  have "hub_cache_key sha p t \<noteq> hub_cache_key sha p' t'" if "\<not> global_hub p" "\<not> global_hub p'"
    using hub.isolated [OF assms(1), of "Abs_scoped_path p" t "Abs_scoped_path p'" t'] that assms(2)
    by (auto simp: Abs_scoped_path_inverse)
  then show ?thesis
    using library.isolated [OF assms(1)] photo.isolated [OF assms(1)] assms(2) hub_key_global by metis
qed

theorem accounts_have_their_own_keys_witness:
  "library_cache_key_for demo_sha demo_urls demo_raw (Some ''alice'')
     \<noteq> library_cache_key_for demo_sha demo_urls demo_raw (Some ''bob'')"
  using accounts_have_their_own_keys [OF demo_sha_hex, of "Some ''alice''" "Some ''bob''"]
  by (simp add: token_scope_def token_fingerprint_def demo_sha_def)

text \<open>C18. Filtering an item keeps exactly the permitted versions of its whole tree of children, in
  their order, and filtering again changes nothing.\<close>

theorem filtering_keeps_exactly_the_permitted_versions:
  "all_media (filter_media_recursive p it) = filter (\<lambda>m. media_allowed m p) (all_media it)
   \<and> filter_media_recursive p (filter_media_recursive p it) = filter_media_recursive p it
   \<and> count_media (filter_media_recursive p it) \<le> count_media it"
  by (simp add: all_media_filter filter_media_idem count_media_length)

section \<open>The disk cache\<close>

text \<open>C19. Decoding an encoded record gives the body and the content type back (an empty content type
  reads as none); every proper prefix of the record that still has its magic number is rejected.\<close>

theorem records_round_trip:
  assumes "encode_record ct body = Inr e" and "valid_utf8 (unwrap_or ct [])"
    and "length body + 65550 \<le> u64_max"
  shows "decode_record e = Some \<lparr>cr_content_type = (if unwrap_or ct [] = [] then None else ct), cr_body = body\<rparr>
    \<and> (\<forall>k. 4 \<le> k \<and> k < length e \<longrightarrow> decode_record (take k e) = None)"
  using decode_encode [OF assms] decode_truncated [OF assms(1) _ _ assms(3)] by blast

theorem records_round_trip_witness:
  "\<exists>e. encode_record (Some [105, 109]) [1, 2, 3] = Inr e
     \<and> decode_record e = Some \<lparr>cr_content_type = Some [105, 109], cr_body = [1, 2, 3]\<rparr>"
proof -
  let ?ct = "Some [105, 109 :: 8 word]"
  obtain e where e: "encode_record ?ct [1, 2, 3] = Inr e"
    by (auto simp: encode_record_def u64_max_def)
  have "decode_record e = Some \<lparr>cr_content_type = (if unwrap_or ?ct [] = [] then None else ?ct),
      cr_body = [1, 2, 3]\<rparr>"
    by (rule conjunct1 [OF records_round_trip [OF e]]) (simp_all add: u64_max_def)
  with e show ?thesis by simp
qed

text \<open>C20. The tracked size is the length of the cache files: storing and reading entries, with every
  write, rename and removal failing or not and with the eviction that a store may start, keep the
  accounting exact and the directory free of duplicates.\<close>

theorem disk_accounting_is_exact:
  assumes "well_formed d" "accounted d" "list_all is_hexdigit (sha key)"
    and "total_len (cache_files d) + length data + 65550 \<le> u64_max"
  shows "accounted (snd (put_full sha dir mx io key data ct d))
    \<and> well_formed (snd (put_full sha dir mx io key data ct d))
    \<and> accounted (snd (get_full sha dir io key d)) \<and> well_formed (snd (get_full sha dir io key d))"
  using put_full_accounted [where sha = sha and key = key, OF assms]
    get_full_accounted [where sha = sha and key = key, OF assms(1-3)] by simp

definition demo_disk :: disk where
  "demo_disk = \<lparr>dk_files = [(''/data/ab/abc'', 4, [1, 2, 3])], dk_size = 3, dk_counter = 0\<rparr>"

lemma demo_disk_ok: "well_formed demo_disk" "accounted demo_disk" "cache_files demo_disk = dk_files demo_disk"
proof -
  show files: "cache_files demo_disk = dk_files demo_disk"
    by (simp add: cache_files_def demo_disk_def) code_simp
  show "well_formed demo_disk" by (simp add: well_formed_def demo_disk_def)
  show "accounted demo_disk" unfolding accounted_def files by (simp add: demo_disk_def)
qed

theorem disk_accounting_is_exact_witness:
  "accounted (snd (put_full demo_sha ''/data'' 2 demo_io ''k'' [7, 8] None demo_disk))"
  using disk_accounting_is_exact [OF demo_disk_ok(1,2), of demo_sha "''k''" "[7, 8]" "''/data''" 2 demo_io None]
    demo_sha_hex demo_disk_ok(3)
  by (simp add: hex_digest_def demo_disk_def u64_max_def)

text \<open>C21. Writers do not disturb each other or a reader: however the temporary writes, the steps under
  the commit lock, failures, reads and restarts of the process interleave, at most one writer holds
  the lock, and whenever no writer is between its rename and its adjustment of the size, the tracked
  size is exact. No half-written record is ever visible under a key, whatever removals, evictions and
  clearings do meanwhile. (They do not take the lock, and can make the size wrong:
  \<open>Disk_Runs.removal_race\<close>.)\<close>

theorem interleaved_writes_keep_the_accounting:
  assumes "well_formed d" "accounted d" "total_len (cache_files d) \<le> u64_max" "complete_files d"
  shows "(\<forall>d' ws. commit_run (d, []) (d', ws) \<longrightarrow>
      well_formed d' \<and> complete_files d' \<and> length (filter holds_lock ws) \<le> 1
      \<and> ((\<forall>enc old. Swapped enc old \<notin> set ws) \<longrightarrow> accounted d'))
    \<and> (\<forall>mx d' ws rs. disk_run mx (d, [], []) (d', ws, rs) \<longrightarrow> complete_files d')"
proof (intro conjI allI impI)
  fix d' ws assume run: "commit_run (d, []) (d', ws)"
  note inv = commit_run_inv [OF run idle_inv [OF assms(1-3)]]
  show "well_formed d'" "length (filter holds_lock ws) \<le> 1" using commit_invD(1,5) [OF inv] .
  show "complete_files d'" using commit_run_complete [OF run idle_inv [OF assms(1-3)]] assms(4) by simp
  show "accounted d'" if "\<forall>enc old. Swapped enc old \<notin> set ws" using settled_accounted [OF inv that] .
next
  fix mx d' ws rs assume "disk_run mx (d, [], []) (d', ws, rs)"
  then show "complete_files d'" using assms(4) by (rule disk_run_complete)
qed

definition demo_record :: bytes where
  "demo_record = (case encode_record None [] of Inr e \<Rightarrow> e | Inl _ \<Rightarrow> [])"

lemma demo_record_valid: "valid_record demo_record" "length demo_record = 14"
proof -
  have e: "encode_record None [] = Inr demo_record"
    by (simp add: demo_record_def encode_record_def)
  then show "valid_record demo_record"
    unfolding valid_record_def by (intro exI [of _ None] exI [of _ "[]"]) (simp add: u64_max_def)
  show "length demo_record = 14"
    using arg_cong [where f = length, OF conjunct2 [OF conjunct2 [OF encode_record_layout [OF e]]]]
    by (simp add: cache_magic_def)
qed

definition demo_empty :: disk where
  "demo_empty = \<lparr>dk_files = [], dk_size = 0, dk_counter = 0\<rparr>"

theorem interleaved_writes_keep_the_accounting_witness:
  "\<exists>d'. commit_run (demo_empty, []) (d', []) \<and> file_len d' ''/data/ab/abc'' = Some 14 \<and> accounted d'"
proof -
  let ?d = "snd (commit_record demo_io ''/data/ab/abc'' demo_record demo_empty)"
  have path: "is_cache_file ''/data/ab/abc''" by code_simp
  have e: "well_formed demo_empty" "accounted demo_empty" "cache_files demo_empty = []"
    by (simp_all add: demo_empty_def well_formed_def accounted_def cache_files_def total_len_def)
  have run: "commit_run (demo_empty, []) (?d, [])"
    by (rule commit_record_is_run [OF path demo_record_valid(1)])
      (simp_all add: demo_empty_def cache_files_def total_len_def demo_record_valid(2) u64_max_def)
  have "io_write demo_io" "io_rename demo_io" by (simp_all add: demo_io_def)
  then have "file_len ?d ''/data/ab/abc'' = Some 14"
    by (simp add: file_len_def lookup_file_def commit_files update_conv' demo_record_valid(2))
  moreover have "accounted ?d"
    using interleaved_writes_keep_the_accounting [OF e(1,2)] run e(3)
    by (auto simp: complete_files_def total_len_def)
  ultimately show ?thesis using run by blast
qed

text \<open>C22. When the size has reached the maximum and files can be removed, the eviction brings it
  below the cleaning threshold or leaves no cache file, and it removes the least recently used
  files: no file that is evicted is newer than one that is kept.\<close>

theorem eviction_bounds_and_is_lru:
  assumes "well_formed d" "total_len (cache_files d) \<le> u64_max" and "\<forall>p. io_remove io p"
    and "mx \<le> dk_size d"
  shows "(dk_size (ensure_capacity io mx d) < clean_threshold mx \<or> cache_files (ensure_capacity io mx d) = [])
    \<and> (\<forall>p t bs q u cs. (p, t, bs) \<in> set (cache_files d)
         \<and> (p, t, bs) \<notin> set (dk_files (ensure_capacity io mx d))
         \<and> (q, u, cs) \<in> set (cache_files d) \<and> (q, u, cs) \<in> set (dk_files (ensure_capacity io mx d))
         \<longrightarrow> t \<le> u)"
proof -
  have rm: "io_remove io p" for p using assms(3) by simp
  show ?thesis
    using ensure_capacity_bound [OF assms(1,2) rm assms(4)] ensure_capacity_lru [OF assms(1) rm]
    by blast
qed

theorem eviction_bounds_and_is_lru_witness:
  "dk_size (ensure_capacity demo_io 2 demo_disk) < clean_threshold 2
   \<or> cache_files (ensure_capacity demo_io 2 demo_disk) = []"
  using eviction_bounds_and_is_lru [OF demo_disk_ok(1), of demo_io 2] demo_disk_ok(3)
  by (simp add: demo_disk_def demo_io_def u64_max_def)

text \<open>C23. What was stored is what is read back, as long as the store did not have to evict.\<close>

theorem stored_bodies_are_read_back:
  assumes "put_full sha dir mx io key data ct d = (Inr (), d')"
    and "io_write io" "io_rename io" and "list_all is_hexdigit (sha key)"
    and "dk_size d' < mx" "length data + 65550 \<le> u64_max"
    and "dk_size (snd (commit_record io (path_for_key sha dir key)
                (case encode_record ct data of Inr e \<Rightarrow> e) d)) < mx"
    and "valid_utf8 (unwrap_or ct [])"
  shows "fst (get_full sha dir io' key d') =
    Some \<lparr>cr_content_type = (if unwrap_or ct [] = [] then None else ct), cr_body = data\<rparr>"
  by (rule put_get [OF assms])

theorem stored_bodies_are_read_back_witness:
  "fst (get_full demo_sha ''/data'' demo_io ''k''
     (snd (put_full demo_sha ''/data'' 1000 demo_io ''k'' [7] None demo_disk)))
   = Some \<lparr>cr_content_type = None, cr_body = [7]\<rparr>"
proof -
  let ?path = "path_for_key demo_sha ''/data'' ''k''"
  obtain enc where enc: "encode_record None [7] = Inr enc" and len: "length enc = 15"
    by (auto simp: encode_record_def u64_max_def cache_magic_def)
  have hex: "list_all is_hexdigit (demo_sha ''k'')" using demo_sha_hex by (simp add: hex_digest_def)
  have path: "is_cache_file ?path"
    using hex by (rule hex_name_cache)
  have io: "io_write demo_io" "io_rename demo_io" by (simp_all add: demo_io_def)
  have small: "dk_size (snd (commit_record demo_io ?path enc demo_disk)) < 1000"
    by (simp add: commit_size [OF io path] len sat_add64_def u64_max_def demo_disk_def)
  have put: "put_full demo_sha ''/data'' 1000 demo_io ''k'' [7] None demo_disk =
      (Inr (), snd (commit_record demo_io ?path enc demo_disk))"
    using small commit_files(1) [OF io, of ?path enc demo_disk]
    by (cases "commit_record demo_io ?path enc demo_disk")
      (simp add: put_full_def enc ensure_capacity_def)
  have "fst (get_full demo_sha ''/data'' demo_io ''k'' (snd (commit_record demo_io ?path enc demo_disk))) =
      Some \<lparr>cr_content_type = (if unwrap_or None [] = ([] :: bytes) then None else None), cr_body = [7]\<rparr>"
    by (rule stored_bodies_are_read_back [OF put io hex small])
      (use small in \<open>simp_all add: enc u64_max_def\<close>)
  then show ?thesis by (simp add: put)
qed

section \<open>Web assets\<close>

text \<open>A web asset that was fetched is served from the cache for a month, with the same body and
  cache policy, whatever the upstream answers; a failed fetch is answered 502 and nothing is stored.\<close>

theorem web_assets_are_cached:
  assumes "\<forall>w. fetch_asset get host path = Inr w \<longrightarrow>
      (\<exists>data. ac_encode codec w = Some data \<and> ac_decode codec data = Some w)"
    and "cache (asset_cache_prefix @ path) = None"
    and "serve_web_asset codec ttl now get host path cache = (reply, cache')"
  shows "case reply of
      Inr served \<Rightarrow> \<forall>now' other. now' < now + 30 * 24 * 60 * 60 \<longrightarrow>
        serve_web_asset codec ttl now' other host path cache' = (Inr served, cache')
    | Inl status \<Rightarrow> status = 502 \<and> (\<forall>k v. cache' k = Some v \<longrightarrow> cache k = Some v)"
proof (cases reply)
  case (Inl status)
  with asset_failure_not_cached assms(3) show ?thesis by simp
next
  case (Inr served)
  then show ?thesis
    using asset_served_again [of codec ttl now get host path cache "fst served" "snd served" cache'] assms
    by auto
qed

definition demo_codec :: asset_codec where
  "demo_codec = \<lparr>ac_encode = (\<lambda>a. Some (as_body a)),
     ac_decode = (\<lambda>bs. Some \<lparr>as_content_type = None, as_body = bs\<rparr>)\<rparr>"

theorem web_assets_are_cached_witness:
  "\<exists>a cache'. serve_web_asset demo_codec 60 0 (\<lambda>_. Some (200, None, Some [1])) None ''/web/x.js'' Map.empty
       = (Inr a, cache')
     \<and> serve_web_asset demo_codec 60 1000 (\<lambda>_. None) None ''/web/x.js'' cache' = (Inr a, cache')"
proof -
  let ?get = "\<lambda>_. Some (200, None, Some [1])"
  have f: "fetch_asset ?get None ''/web/x.js'' = Inr \<lparr>as_content_type = None, as_body = [1]\<rparr>"
    by (simp add: fetch_asset_def)
  obtain a cache' where s: "serve_web_asset demo_codec 60 0 ?get None ''/web/x.js'' Map.empty = (Inr a, cache')"
    by (simp add: serve_web_asset_def manager_get_def f)
  have "case (Inr a :: nat + cached_asset \<times> string) of
      Inr served \<Rightarrow> \<forall>now' other. now' < 0 + 30 * 24 * 60 * 60 \<longrightarrow>
        serve_web_asset demo_codec 60 now' other None ''/web/x.js'' cache' = (Inr served, cache')
    | Inl status \<Rightarrow> status = 502 \<and> (\<forall>k v. cache' k = Some v \<longrightarrow> Map.empty k = Some v)"
    by (rule web_assets_are_cached [OF _ _ s]) (simp_all add: f demo_codec_def)
  then have "serve_web_asset demo_codec 60 1000 (\<lambda>_. None) None ''/web/x.js'' cache' = (Inr a, cache')"
    by simp
  with s show ?thesis by blast
qed

end
