(* ===== verification/Hub_Transforms.thy ===== *)
theory Hub_Transforms
  imports Transform Client_Cache
begin

text \<open>
  The hub transforms of \<open>src/transform/\<close> (restrictions, interleaving, watched items, limits, user
  state, keys, section directories, library interleaving), with the collection helpers of
  \<open>src/utils.rs\<close>.

  What a transform fetches through the cached client is an argument: \<open>collection\<close> for the
  details of a collection, \<open>sections\<close> for the collections of a section, \<open>kids\<close> for the
  children of a collection; \<open>None\<close> is an error.
\<close>

subsection \<open>Collection ids and keys\<close>

definition get_collection_id_from_child_path :: "string \<Rightarrow> i32 option" where
  "get_collection_id_from_child_path path =
     parse_i32 (replace_str (replace_str path ''/library/collections/'' '''') ''/children'' '''')"

definition get_collection_id_from_hub :: "metadata \<Rightarrow> i32 option" where
  "get_collection_id_from_hub it =
     Option.bind (md_hub_identifier (attrs it)) (\<lambda>h. parse_i32 (last (split_on CHR ''.'' h)))"

definition strip_collection_key :: "string \<Rightarrow> string" where
  "strip_collection_key k =
     replace_str (replace_str (replace_str k ''/hubs/library/collections/'' '''')
       ''/library/collections/'' '''') ''/children'' ''''"

definition merge_children_keys :: "string \<Rightarrow> string \<Rightarrow> string" where
  "merge_children_keys l r =
     ''/library/collections/'' @ strip_collection_key l @ '','' @ strip_collection_key r
       @ ''/children''"

subsection \<open>Questions that need the collection\<close>

definition collection_label :: "string \<Rightarrow> media_container \<Rightarrow> bool" where
  "collection_label name c =
     (case first_opt (mc_metadata c) of Some it \<Rightarrow> has_label name it | None \<Rightarrow> False)"

definition is_hero :: "config \<Rightarrow> (i32 \<Rightarrow> media_container option) \<Rightarrow> metadata \<Rightarrow> bool option" where
  "is_hero c collection it =
     (if \<not> is_hub it then Some False
      else if md_style (attrs it) = Some ''hero'' then Some True
      else if (case (cf_hero_rows c, md_hub_identifier (attrs it)) of
                 (Some rows, Some i) \<Rightarrow> list_ex (\<lambda>row. row \<noteq> [] \<and> contains i row) rows
               | _ \<Rightarrow> False) then Some True
      else if \<not> is_collection_hub it then Some False
      else (case get_collection_id_from_hub it of
              None \<Rightarrow> Some False
            | Some cid \<Rightarrow>
                (case collection cid of
                   None \<Rightarrow> None
                 | Some details \<Rightarrow>
                     Some (case first_opt (mc_children details) of
                             Some m \<Rightarrow> has_label ''REPLEXHERO'' m | None \<Rightarrow> False))))"

definition exclude_watched :: "config \<Rightarrow> (i32 \<Rightarrow> media_container option) \<Rightarrow> metadata \<Rightarrow> bool option" where
  "exclude_watched c collection it =
     (if \<not> is_collection_hub it then Some (cf_exclude_watched c)
      else (case get_collection_id_from_hub it of
              None \<Rightarrow> Some (cf_exclude_watched c)
            | Some cid \<Rightarrow>
                (case collection cid of
                   None \<Rightarrow> None
                 | Some details \<Rightarrow>
                     Some (cf_exclude_watched c
                       \<or> collection_label ''REPLEX_EXCLUDE_WATCHED'' details))))"

subsection \<open>Transforms of single hubs\<close>

definition nth_split :: "nat \<Rightarrow> string \<Rightarrow> string option" where
  "nth_split n s = nth_opt (split_on CHR ''.'' s) n"

definition restriction_filter ::
  "config \<Rightarrow> (i64 \<Rightarrow> media_container option) \<Rightarrow> metadata \<Rightarrow> bool" where
  "restriction_filter c sections it =
     (if \<not> cf_hub_restrictions c then True
      else if is_hub it \<and> \<not> is_collection_hub it then True
      else if \<not> is_hub it then True
      else if unwrap_or (md_size (attrs it)) 0 = 0 then False
      else (case opt_or (md_library_section_id (attrs it))
                   (Option.bind (md_hub_identifier (attrs it))
                      (\<lambda>h. Option.bind (nth_split 2 h) parse_i64)) of
              None \<Rightarrow> True
            | Some section_id \<Rightarrow>
                (case sections section_id of
                   None \<Rightarrow> True
                 | Some collections \<Rightarrow>
                     (let ids = List.map_filter (\<lambda>m. md_rating_key (attrs m)) (mc_children collections)
                      in (case md_hub_identifier (attrs it) of
                            None \<Rightarrow> True
                          | Some h \<Rightarrow> list_ex (\<lambda>i. i = last (split_on CHR ''.'' h)) ids)))))"

definition hub_restriction_transform :: "config \<Rightarrow> (i64 \<Rightarrow> media_container option) \<Rightarrow> transform" where
  "hub_restriction_transform c sections =
     identity_transform\<lparr>tf_filter := restriction_filter c sections\<rparr>"

definition hub_watched_transform :: "config \<Rightarrow> (i32 \<Rightarrow> media_container option) \<Rightarrow> transform" where
  "hub_watched_transform c collection =
     identity_transform\<lparr>tf_item := (\<lambda>it.
       if is_hub it \<and> unwrap_or (exclude_watched c collection it) False
       then update_children (filter (\<lambda>x. \<not> is_watched x)) it else it)\<rparr>"

text \<open>The limit is an \<open>i32\<close> read as \<open>usize\<close>.\<close>

definition hub_children_limit_transform :: "i32 \<Rightarrow> transform" where
  "hub_children_limit_transform limit =
     identity_transform\<lparr>tf_item := (\<lambda>it.
       if is_collection_hub it then set_children (take (as_usize limit) (children it)) it else it)\<rparr>"

fun move_directory :: "metadata \<Rightarrow> metadata" where
  "move_directory (MetaData a m d v) = MetaData a m [] (children (MetaData a m d v))"

definition hub_section_directory_transform :: transform where
  "hub_section_directory_transform =
     identity_transform\<lparr>tf_item := (\<lambda>it.
       if is_collection_hub it \<and> directory it \<noteq> [] then move_directory it else it)\<rparr>"

definition hide_user_state :: "config \<Rightarrow> md_attrs \<Rightarrow> md_attrs" where
  "hide_user_state c a =
     (let a = (if cf_disable_user_state c then a\<lparr>md_user_state := Some False\<rparr> else a)
      in if cf_disable_leaf_count c then a\<lparr>md_leaf_count := None\<rparr> else a)"

definition user_state_transform :: "config \<Rightarrow> transform" where
  "user_state_transform c =
     identity_transform\<lparr>tf_item := (\<lambda>it.
       if \<not> cf_disable_user_state c \<and> \<not> cf_disable_leaf_count c then it
       else if is_hub it then update_children (map (map_attrs (hide_user_state c))) it
       else map_attrs (hide_user_state c) it)\<rparr>"

definition hub_key_transform :: transform where
  "hub_key_transform =
     identity_transform\<lparr>tf_item := (\<lambda>it.
       (case md_key (attrs it) of
          Some old \<Rightarrow>
            if is_hub it \<and> \<not> starts_with old ''/replex''
            then map_attrs (\<lambda>a. a\<lparr>md_key := Some (''/replex/''
                   @ unwrap_or (md_style a) (to_lower (style_name Shelf)) @ old)\<rparr>) it
            else it
        | None \<Rightarrow> it))\<rparr>"

subsection \<open>Interleaving\<close>

definition merge_hub :: "metadata \<Rightarrow> metadata \<Rightarrow> string \<Rightarrow> string \<Rightarrow> metadata" where
  "merge_hub left right l r =
     (let left' = map_attrs (\<lambda>a. a\<lparr>md_key := Some (merge_children_keys l r)\<rparr>) left
      in set_children (interleave (children left') (children right)) left')"

definition interleave_step :: "metadata list \<Rightarrow> metadata \<Rightarrow> metadata list" where
  "interleave_step hubs hub =
     (if unwrap_or (md_size (attrs hub)) 0 = 0 then hubs
      else if \<not> is_collection_hub hub then hubs @ [hub]
      else (case position (\<lambda>v. md_title (attrs v) = md_title (attrs hub)) hubs of
              None \<Rightarrow> hubs @ [hub]
            | Some i \<Rightarrow>
                (case (md_key (attrs (hubs ! i)), md_key (attrs hub)) of
                   (Some l, Some r) \<Rightarrow> hubs[i := merge_hub (hubs ! i) hub l r]
                 | _ \<Rightarrow> hubs @ [hub])))"

definition interleave_container :: "config \<Rightarrow> media_container \<Rightarrow> media_container" where
  "interleave_container c mc =
     (if \<not> cf_interleave c then mc
      else mc_set_children_mut (foldl interleave_step [] (mc_children_mut mc)) mc)"

definition hub_interleave_transform :: "config \<Rightarrow> transform" where
  "hub_interleave_transform c = identity_transform\<lparr>tf_container := interleave_container c\<rparr>"

text \<open>The sum of the sizes is an \<open>i32\<close>.\<close>

definition wrap32 :: "int \<Rightarrow> i32" where
  "wrap32 x = (x + 2147483648) mod 4294967296 - 2147483648"

fun library_interleave_loop ::
  "config \<Rightarrow> (i32 \<Rightarrow> media_container option) \<Rightarrow> (int \<Rightarrow> media_container option) \<Rightarrow> nat list
   \<Rightarrow> metadata list \<times> i32 \<Rightarrow> metadata list \<times> i32" where
  "library_interleave_loop c collection kids [] acc = acc"
| "library_interleave_loop c collection kids (i # ids) (out, n) =
     (case collection (wrap32 (int i)) of
        None \<Rightarrow> library_interleave_loop c collection kids ids (out, n)
      | Some details \<Rightarrow>
          (case kids (int i) of
             None \<Rightarrow> library_interleave_loop c collection kids ids (out, n)
           | Some k \<Rightarrow>
               (let k = (if cf_exclude_watched c
                            \<or> collection_label ''REPLEX_EXCLUDE_WATCHED'' details
                         then mc_update_children (filter (\<lambda>x. \<not> is_watched x)) k else k);
                    xs = mc_children k
                in library_interleave_loop c collection kids ids
                     (if out = [] then xs else interleave out xs,
                      wrap32 (n + int (length xs))))))"

definition library_interleave_container ::
  "config \<Rightarrow> (i32 \<Rightarrow> media_container option) \<Rightarrow> (int \<Rightarrow> media_container option) \<Rightarrow> nat list
   \<Rightarrow> media_container \<Rightarrow> media_container" where
  "library_interleave_container c collection kids ids mc =
     (if \<not> cf_interleave c then mc
      else (case library_interleave_loop c collection kids ids ([], 0) of
              (out, n) \<Rightarrow> mc\<lparr>mc_total_size := Some n, mc_metadata := out\<rparr>))"

definition library_interleave_transform ::
  "config \<Rightarrow> (i32 \<Rightarrow> media_container option) \<Rightarrow> (int \<Rightarrow> media_container option) \<Rightarrow> nat list
   \<Rightarrow> transform" where
  "library_interleave_transform c collection kids ids =
     identity_transform\<lparr>tf_container := library_interleave_container c collection kids ids\<rparr>"

subsection \<open>The transforms add no media\<close>

lemma items_media_children [simp]: "items_media (children it) \<subseteq> set (all_media it)"
  by (cases it) (auto simp: items_media_def)

lemma items_media_children_mut [simp]: "items_media (children_mut it) \<subseteq> set (all_media it)"
  by (cases it) (auto simp: items_media_def)

lemma media_set_children:
  "set (all_media (set_children xs it)) \<subseteq> set (all_media it) \<union> items_media xs"
  by (cases it) (auto simp: Let_def items_media_def)

lemma media_update_children:
  "items_media (f (children_mut it)) \<subseteq> items_media (children_mut it) \<Longrightarrow>
   set (all_media (update_children f it)) \<subseteq> set (all_media it)"
  by (cases it) (auto simp: items_media_def split: if_splits)

lemma media_map_attrs:
  "(\<And>a. md_media (f a) = md_media a) \<Longrightarrow> all_media (map_attrs f it) = all_media it"
  by (cases it) simp

lemma items_media_map:
  "(\<And>x. x \<in> set xs \<Longrightarrow> set (all_media (f x)) \<subseteq> set (all_media x)) \<Longrightarrow>
   items_media (map f xs) \<subseteq> items_media xs"
  by (auto simp: items_media_def)

lemma items_media_filter: "items_media (filter P xs) \<subseteq> items_media xs"
  by (auto simp: items_media_def)

lemma items_media_interleave [simp]:
  "items_media (interleave xs ys) = items_media xs \<union> items_media ys"
  by (auto simp: items_media_def)

lemma hide_user_state_media [simp]: "md_media (hide_user_state c a) = md_media a"
  by (simp add: hide_user_state_def Let_def)

lemma media_set_children_sub:
  assumes "items_media xs \<subseteq> set (all_media it)"
  shows "set (all_media (set_children xs it)) \<subseteq> set (all_media it)"
  using media_set_children [of xs it] assms by auto

lemma items_media_take: "items_media (take n xs) \<subseteq> items_media xs"
  by (rule items_media_mono) (auto dest: in_set_takeD)

lemma identity_transform_sel [simp]:
  "tf_item identity_transform = (\<lambda>x. x)" "tf_container identity_transform = (\<lambda>c. c)"
  "tf_filter identity_transform = (\<lambda>_. True)"
  by (simp_all add: identity_transform_def)

interpretation restriction: media_safe "hub_restriction_transform c sections" for c sections
  by unfold_locales (simp_all add: hub_restriction_transform_def)

interpretation watched: media_safe "hub_watched_transform c collection" for c collection
  by unfold_locales
    (auto simp: hub_watched_transform_def
      dest: subsetD [OF media_update_children [where f = "filter P" for P, OF items_media_filter]])

interpretation limit: media_safe "hub_children_limit_transform n" for n
  by unfold_locales
    (auto simp: hub_children_limit_transform_def
      dest: subsetD [OF media_set_children_sub [OF subset_trans [OF items_media_take items_media_children]]])

lemma move_directory_media: "set (all_media (move_directory it)) \<subseteq> set (all_media it)"
  by (cases it) (auto simp: items_media_def)

interpretation section_directory: media_safe hub_section_directory_transform
  by unfold_locales
    (auto simp: hub_section_directory_transform_def dest: subsetD [OF move_directory_media])

lemma items_media_hide:
  "items_media (map (map_attrs (hide_user_state c)) xs) \<subseteq> items_media xs"
  by (rule items_media_map) (simp add: media_map_attrs)

interpretation user_state: media_safe "user_state_transform c" for c
  by unfold_locales
    (auto simp: user_state_transform_def media_map_attrs
      dest: subsetD [OF media_update_children [where f = "map (map_attrs (hide_user_state c))" for c,
        OF items_media_hide]])

interpretation hub_key: media_safe hub_key_transform
  by unfold_locales
    (auto simp: hub_key_transform_def media_map_attrs split: option.splits if_splits)

lemma merge_hub_media:
  "set (all_media (merge_hub l r a b)) \<subseteq> set (all_media l) \<union> set (all_media r)"
  using media_set_children items_media_children [of l] items_media_children [of r]
  by (fastforce simp: merge_hub_def Let_def media_map_attrs)

lemma interleave_step_media:
  "items_media (interleave_step hubs hub) \<subseteq> items_media hubs \<union> set (all_media hub)"
proof (cases "position (\<lambda>v. md_title (attrs v) = md_title (attrs hub)) hubs")
  case (Some i)
  then have i: "i < length hubs" using position_Some by blast
  have upd: "items_media (hubs[i := merge_hub (hubs ! i) hub l r])
      \<subseteq> items_media hubs \<union> set (all_media hub)" for l r
  proof -
    have "items_media (hubs[i := merge_hub (hubs ! i) hub l r])
        \<subseteq> items_media hubs \<union> set (all_media (merge_hub (hubs ! i) hub l r))"
      using set_update_subset_insert [of hubs i "merge_hub (hubs ! i) hub l r"]
      unfolding items_media_def by blast
    moreover have "set (all_media (hubs ! i)) \<subseteq> items_media hubs"
      using nth_mem [OF i] by (auto simp: items_media_def)
    ultimately show ?thesis using merge_hub_media [of "hubs ! i" hub l r] by blast
  qed
  have app: "items_media (hubs @ [hub]) \<subseteq> items_media hubs \<union> set (all_media hub)" by simp
  show ?thesis
    using Some upd app
    by (simp add: interleave_step_def split: option.split)
qed (simp add: interleave_step_def)

lemma interleave_fold_media:
  "items_media (foldl interleave_step hubs xs) \<subseteq> items_media hubs \<union> items_media xs"
proof (induction xs arbitrary: hubs)
  case (Cons x xs)
  from Cons [of "interleave_step hubs x"] interleave_step_media [of hubs x] show ?case by auto
qed simp

interpretation hub_interleave: media_safe "hub_interleave_transform c" for c
proof
  fix mc
  have "items_media (foldl interleave_step [] (mc_children_mut mc)) \<subseteq> container_media mc"
    using interleave_fold_media [of "[]"] container_media_children_mut by fastforce
  with container_media_set_children [of "foldl interleave_step [] (mc_children_mut mc)" mc]
  show "container_media (tf_container (hub_interleave_transform c) mc) \<subseteq> container_media mc"
    by (auto simp: hub_interleave_transform_def interleave_container_def mc_set_children_mut_eq)
qed (simp add: hub_interleave_transform_def)

subsection \<open>Laws\<close>

lemma replace_child_path:
  assumes "CHR ''/'' \<notin> set w" "CHR ''h'' \<notin> set w"
  shows "strip_collection_key (''/library/collections/'' @ w @ ''/children'') = w"
    and "replace_str (replace_str (''/library/collections/'' @ w @ ''/children'')
           ''/library/collections/'' []) ''/children'' [] = w"
proof -
  have tail: "replace_str ''/children'' ''/hubs/library/collections/'' [] = ''/children''"
    "replace_str ''/children'' ''/library/collections/'' [] = ''/children''" by code_simp+
  have head: "replace_str (''/library/collections/'' @ w @ ''/children'')
      ''/hubs/library/collections/'' [] = ''/library/collections/'' @ w @ ''/children''"
  proof -
    have skip: "replace_str (''/library/collections/'' @ s) ''/hubs/library/collections/'' []
        = ''/library/collections'' @ replace_str (CHR ''/'' # s) ''/hubs/library/collections/'' []" for s
      by (simp add: replace_str_def starts_with_code)
    have "replace_str (CHR ''/'' # w @ ''/children'') ''/hubs/library/collections/'' []
        = CHR ''/'' # w @ ''/children''"
      using replace_str_word [of "''/hubs/library/collections/''" w "''/children''" "[]"] assms tail
      by (cases w) (auto simp: replace_str_def starts_with_code)
    with skip [of "w @ ''/children''"] show ?thesis by simp
  qed
  have second: "replace_str (''/library/collections/'' @ w @ ''/children'') ''/library/collections/'' []
      = w @ ''/children''"
  proof -
    have "replace_str (w @ ''/children'') ''/library/collections/'' [] = w @ ''/children''"
      using replace_str_word [of "''/library/collections/''" w "''/children''" "[]"] assms tail by simp
    then show ?thesis
      using replace_str_match [of "''/library/collections/''" "w @ ''/children''" "[]"] by simp
  qed
  have third: "replace_str (w @ ''/children'') ''/children'' [] = w"
    using assms replace_str_word [of "''/children''" w "''/children''" "[]"]
      replace_str_match [of "''/children''" "[]" "[]"] by simp
  show "strip_collection_key (''/library/collections/'' @ w @ ''/children'') = w"
    unfolding strip_collection_key_def head second by (rule third)
  show "replace_str (replace_str (''/library/collections/'' @ w @ ''/children'')
           ''/library/collections/'' []) ''/children'' [] = w"
    unfolding second by (rule third)
qed

lemma merged_key:
  assumes "CHR ''/'' \<notin> set a" "CHR ''h'' \<notin> set a" "CHR ''/'' \<notin> set b" "CHR ''h'' \<notin> set b"
  shows "merge_children_keys (''/library/collections/'' @ a @ ''/children'')
           (''/library/collections/'' @ b @ ''/children'')
       = ''/library/collections/'' @ (a @ '','' @ b) @ ''/children''"
  unfolding merge_children_keys_def replace_child_path(1) [OF assms(1,2)]
    replace_child_path(1) [OF assms(3,4)] by simp

lemma collection_id_roundtrip:
  assumes "- 2147483648 \<le> i" "i \<le> 2147483647"
  shows "get_collection_id_from_child_path (''/library/collections/'' @ show_int i @ ''/children'')
       = Some i"
proof -
  have "CHR ''/'' \<notin> set (show_int i)" "CHR ''h'' \<notin> set (show_int i)"
    by (auto simp: show_int_def is_digit_def Let_def dest!: show_nat_char split: if_splits)
  then show ?thesis
    unfolding get_collection_id_from_child_path_def
    using replace_child_path(2) [of "show_int i"] parse_int_show_int [OF assms]
    by (simp add: parse_i32_def)
qed

lemma attrs_set_children:
  "attrs (set_children xs it) = (attrs it)\<lparr>md_size := Some (min (int (length xs)) 2147483647)\<rparr>"
  by (cases it) (auto simp: Let_def)

lemma limited_children:
  assumes "is_collection_hub it" "1 \<le> n" "n \<le> 2147483647"
  shows "children (tf_item (hub_children_limit_transform n) it) = take (nat n) (children it)"
proof (cases "children it = []")
  case True
  then show ?thesis by (simp add: hub_children_limit_transform_def set_children_dropped)
next
  case False
  have "as_usize n = nat n" using assms(2,3) by (simp add: as_usize_def)
  with False assms show ?thesis
    by (simp add: hub_children_limit_transform_def children_set_children)
qed

lemma update_children_children_mut:
  "children_mut it \<noteq> [] \<Longrightarrow> f (children_mut it) \<noteq> [] \<Longrightarrow>
   children_mut (update_children f it) = f (children_mut it)"
  by (cases it) (auto split: if_splits)

lemma watched_removed:
  assumes "is_hub it" "exclude_watched c collection it = Some True"
    and "\<exists>x \<in> set (children_mut it). \<not> is_watched x"
  shows "children_mut (tf_item (hub_watched_transform c collection) it) =
    filter (\<lambda>x. \<not> is_watched x) (children_mut it)"
proof -
  have ne: "children_mut it \<noteq> []" "filter (\<lambda>x. \<not> is_watched x) (children_mut it) \<noteq> []"
    using assms(3) by (auto simp: filter_empty_conv)
  from update_children_children_mut [where f = "filter (\<lambda>x. \<not> is_watched x)", OF ne] assms(1,2)
  show ?thesis by (simp add: hub_watched_transform_def)
qed

definition hub_titles :: "metadata list \<Rightarrow> string set" where
  "hub_titles hs = (\<lambda>h. md_title (attrs h)) ` set hs"

definition sized :: "metadata \<Rightarrow> bool" where
  "sized h \<longleftrightarrow> unwrap_or (md_size (attrs h)) 0 \<noteq> 0"

lemma merge_hub_title [simp]: "md_title (attrs (merge_hub l r a b)) = md_title (attrs l)"
  by (simp add: merge_hub_def Let_def attrs_set_children)

lemma interleave_step_titles:
  "hub_titles (interleave_step hubs hub) =
     (if sized hub then insert (md_title (attrs hub)) (hub_titles hubs) else hub_titles hubs)"
proof (cases "position (\<lambda>v. md_title (attrs v) = md_title (attrs hub)) hubs")
  case None
  then show ?thesis by (auto simp: interleave_step_def hub_titles_def sized_def)
next
  case (Some i)
  then have i: "i < length hubs" "md_title (attrs (hubs ! i)) = md_title (attrs hub)"
    using position_Some by blast+
  have upd: "hub_titles (hubs[i := merge_hub (hubs ! i) hub l r]) = hub_titles hubs" for l r
  proof -
    have "map (\<lambda>h. md_title (attrs h)) (hubs[i := merge_hub (hubs ! i) hub l r])
        = map (\<lambda>h. md_title (attrs h)) hubs"
      using i(1) by (simp add: map_update list_update_same_conv)
    then show ?thesis unfolding hub_titles_def by (metis set_map)
  qed
  have "md_title (attrs hub) \<in> hub_titles hubs"
    unfolding hub_titles_def using nth_mem [OF i(1)] i(2) by (metis image_eqI)
  with Some upd show ?thesis
    by (auto simp: interleave_step_def sized_def hub_titles_def split: option.splits)
qed

lemma interleave_titles:
  "hub_titles (foldl interleave_step hubs xs) = hub_titles hubs \<union> hub_titles (filter sized xs)"
proof (induction xs arbitrary: hubs)
  case (Cons x xs)
  have "hub_titles (filter sized (x # xs)) =
      (if sized x then insert (md_title (attrs x)) (hub_titles (filter sized xs))
       else hub_titles (filter sized xs))"
    by (simp add: hub_titles_def)
  with Cons [of "interleave_step hubs x"] show ?case
    by (simp add: interleave_step_titles)
qed (simp add: hub_titles_def)

lemma merge_hub_children:
  assumes "children l \<noteq> []"
  shows "children (merge_hub l r a b) = interleave (children l) (children r)"
proof -
  have "interleave (children l) (children r) \<noteq> []"
    using assms by (cases "children l") simp_all
  with assms show ?thesis by (simp add: merge_hub_def Let_def children_set_children)
qed

text \<open>With no children on the left, the children of the right are lost.\<close>

lemma merge_hub_drops:
  "children l = [] \<Longrightarrow> children (merge_hub l r a b) = []"
  by (simp add: merge_hub_def Let_def set_children_dropped)

lemma hub_key_prefixed:
  "is_hub it \<Longrightarrow> md_key (attrs it) = Some k \<Longrightarrow>
   \<exists>k'. md_key (attrs (tf_item hub_key_transform it)) = Some k' \<and> starts_with k' ''/replex''"
  by (auto simp: hub_key_transform_def starts_with_prefix)

lemma hub_key_idempotent:
  "tf_item hub_key_transform (tf_item hub_key_transform it) = tf_item hub_key_transform it"
  by (auto simp: hub_key_transform_def starts_with_prefix split: option.splits if_splits)

end
