(* ===== verification/Style_Transforms.thy ===== *)
theory Style_Transforms
  imports Hub_Transforms
begin

text \<open>
  The style transforms: \<open>src/transform/hub_style.rs\<close>, \<open>media_style.rs\<close> and
  \<open>collection_style.rs\<close>.
\<close>

subsection \<open>Client profiles\<close>

record hero_style =
  hero_enabled :: bool
  hero_include_meta :: bool
  hero_type :: string
  hero_style_name :: "string option"
  hero_child_type :: "string option"
  hero_cover_art_as_thumb :: bool
  hero_cover_art_as_art :: bool

definition default_hero_style :: hero_style where
  "default_hero_style =
     \<lparr>hero_enabled = True, hero_include_meta = True, hero_type = ''mixed'',
      hero_style_name = Some ''hero'', hero_child_type = None,
      hero_cover_art_as_thumb = True, hero_cover_art_as_art = False\<rparr>"

datatype device_type = Tv | Mobile

definition device_type_from_context :: "plex_context \<Rightarrow> device_type" where
  "device_type_from_context cx =
     (let product = to_lower (unwrap_or (cx_product cx) []);
          device = to_lower (unwrap_or (cx_device cx) []);
          model = to_lower (unwrap_or (cx_model cx) [])
      in if contains product ''(tv)'' \<or> contains product ''apple tv''
            \<or> contains product ''android tv'' \<or> contains device ''apple tv''
            \<or> contains model ''appletv''
         then Tv else Mobile)"

definition roku_style :: hero_style where
  "roku_style = default_hero_style\<lparr>hero_style_name := Some ''hero''\<rparr>"

definition web_style :: hero_style where
  "web_style = default_hero_style\<lparr>hero_include_meta := True, hero_cover_art_as_art := True,
     hero_cover_art_as_thumb := True\<rparr>"

definition ios_style :: hero_style where
  "ios_style = default_hero_style\<lparr>hero_cover_art_as_art := True, hero_cover_art_as_thumb := False\<rparr>"

definition tvos_style :: hero_style where
  "tvos_style = default_hero_style\<lparr>hero_cover_art_as_art := True, hero_cover_art_as_thumb := False\<rparr>"

definition hero_style_from_context :: "plex_context \<Rightarrow> hero_style" where
  "hero_style_from_context cx =
     (let product = unwrap_or (cx_product cx) [] in
      (case unwrap_or (cx_platform cx) Generic of
         Android \<Rightarrow>
           (case device_type_from_context cx of
              Tv \<Rightarrow> default_hero_style\<lparr>hero_style_name := Some ''hero'', hero_type := ''clip'',
                     hero_child_type := Some ''clip'', hero_cover_art_as_art := True,
                     hero_cover_art_as_thumb := True\<rparr>
            | Mobile \<Rightarrow> default_hero_style\<lparr>hero_style_name := None, hero_type := ''clip'',
                     hero_child_type := Some ''clip'', hero_cover_art_as_art := True\<rparr>)
       | Roku \<Rightarrow> roku_style
       | Ios \<Rightarrow> ios_style
       | TvOS \<Rightarrow> tvos_style
       | _ \<Rightarrow> if to_lower product = ''plex web'' then web_style else default_hero_style))"

subsection \<open>Cover art\<close>

fun keep_first :: "('a \<Rightarrow> bool) \<Rightarrow> 'a list \<Rightarrow> 'a list" where
  "keep_first P [] = []"
| "keep_first P (x # xs) = x # (if P x then filter (\<lambda>y. \<not> P y) xs else keep_first P xs)"

fun update_first :: "('a \<Rightarrow> bool) \<Rightarrow> ('a \<Rightarrow> 'a) \<Rightarrow> 'a list \<Rightarrow> 'a list" where
  "update_first P f [] = []"
| "update_first P f (x # xs) = (if P x then f x # xs else x # update_first P f xs)"

definition is_cover :: "image \<Rightarrow> bool" where "is_cover i \<longleftrightarrow> img_type i = ''coverArt''"

definition upsert_cover_art :: "string \<Rightarrow> string \<Rightarrow> image list \<Rightarrow> image list" where
  "upsert_cover_art title art imgs =
     (if list_ex is_cover imgs
      then keep_first is_cover
             (update_first is_cover (\<lambda>i. i\<lparr>img_url := art, img_alt := Some title\<rparr>) imgs)
      else imgs @ [\<lparr>img_alt = Some title, img_type = ''coverArt'', img_url = art\<rparr>])"

definition hero_guid :: "md_attrs \<Rightarrow> string option" where
  "hero_guid a =
     (case md_guid a of
        None \<Rightarrow> None
      | Some g \<Rightarrow>
          Some (replace_str
            (if starts_with g ''plex://episode'' then unwrap_or (md_parent_guid a) g else g)
            ''plex://'' []))"

text \<open>The address of the hero image; \<open>None\<close> where the code returns early.\<close>

definition cover_art_url :: "plex_context \<Rightarrow> metadata \<Rightarrow> string option" where
  "cover_art_url cx it =
     (case get_label_value ''REPLEXHEROURL'' it of
        Some u \<Rightarrow> Some u
      | None \<Rightarrow>
          (case (hero_guid (attrs it), cx_token cx, opt_or (cx_forwarded_host cx) (cx_host cx)) of
             (Some g, Some token, Some host) \<Rightarrow>
               Some (unwrap_or (cx_forwarded_proto cx) ''http'' @ ''://'' @ host
                 @ ''/replex/image/hero/'' @ g @ ''?X-Plex-Token='' @ token)
           | _ \<Rightarrow> None))"

definition set_cover_art :: "hero_style \<Rightarrow> string \<Rightarrow> md_attrs \<Rightarrow> md_attrs" where
  "set_cover_art st art a =
     (let a = a\<lparr>md_images := upsert_cover_art (md_title a) art (md_images a)\<rparr>;
          a = (if hero_cover_art_as_art st then a\<lparr>md_art := Some art\<rparr> else a)
      in if hero_cover_art_as_thumb st then a\<lparr>md_thumb := Some art\<rparr> else a)"

definition set_child_type :: "hero_style \<Rightarrow> metadata \<Rightarrow> metadata" where
  "set_child_type st it =
     (case hero_child_type st of
        Some t \<Rightarrow> map_attrs (\<lambda>a. a\<lparr>md_type := t\<rparr>) it | None \<Rightarrow> it)"

definition media_style_item :: "style \<Rightarrow> plex_context \<Rightarrow> metadata \<Rightarrow> metadata" where
  "media_style_item sty cx it =
     (if sty = Hero
      then (let st = hero_style_from_context cx;
                it = set_child_type st it
            in (case cover_art_url cx it of
                  Some art \<Rightarrow> map_attrs (set_cover_art st art) it
                | None \<Rightarrow> it))
      else it)"

definition media_style_transform :: "style \<Rightarrow> plex_context \<Rightarrow> transform" where
  "media_style_transform sty cx =
     identity_transform\<lparr>tf_item := media_style_item sty cx,
       tf_container := (\<lambda>c. if sty = Hero then c\<lparr>mc_meta := Some hero_meta\<rparr> else c)\<rparr>"

subsection \<open>Hubs and collections\<close>

definition hero_children :: "plex_context \<Rightarrow> metadata list \<Rightarrow> metadata list" where
  "hero_children cx xs =
     map (\<lambda>ch. media_style_item Hero cx (set_child_type (hero_style_from_context cx) ch)) xs"

definition hub_style_item ::
  "config \<Rightarrow> (i32 \<Rightarrow> media_container option) \<Rightarrow> plex_context \<Rightarrow> metadata \<Rightarrow> metadata" where
  "hub_style_item c collection cx it =
     (if is_hub it \<and> unwrap_or (is_hero c collection it) False
      then (let st = hero_style_from_context cx;
                it = map_attrs (\<lambda>a. a\<lparr>md_style := hero_style_name st, md_type := hero_type st\<rparr>) it;
                it = (if hero_include_meta st then map_attrs (\<lambda>a. a\<lparr>md_meta := Some hero_meta\<rparr>) it
                      else it)
            in set_children (hero_children cx (children it)) it)
      else it)"

definition hub_style_transform ::
  "config \<Rightarrow> (i32 \<Rightarrow> media_container option) \<Rightarrow> plex_context \<Rightarrow> transform" where
  "hub_style_transform c collection cx =
     identity_transform\<lparr>tf_item := hub_style_item c collection cx\<rparr>"

definition collection_style_container ::
  "(i32 \<Rightarrow> media_container option) \<Rightarrow> plex_context \<Rightarrow> nat list \<Rightarrow> media_container \<Rightarrow> media_container" where
  "collection_style_container collection cx ids mc =
     (case first_opt ids of
        None \<Rightarrow> mc
      | Some i \<Rightarrow>
          (if (case Option.bind (collection (wrap32 (int i))) (\<lambda>d. first_opt (mc_children d)) of
                 Some m \<Rightarrow> has_label ''REPLEXHERO'' m | None \<Rightarrow> False)
           then mc_set_children (hero_children cx (mc_children (mc\<lparr>mc_meta := Some hero_meta\<rparr>)))
                  (mc\<lparr>mc_meta := Some hero_meta\<rparr>)
           else mc))"

definition collection_style_transform ::
  "(i32 \<Rightarrow> media_container option) \<Rightarrow> plex_context \<Rightarrow> nat list \<Rightarrow> transform" where
  "collection_style_transform collection cx ids =
     identity_transform\<lparr>tf_container := collection_style_container collection cx ids\<rparr>"

subsection \<open>Laws\<close>

lemma keep_first_filter_other:
  "filter (\<lambda>y. \<not> P y) (keep_first P xs) = filter (\<lambda>y. \<not> P y) xs"
  by (induction xs) auto

lemma keep_first_count:
  "list_ex P xs \<Longrightarrow> length (filter P (keep_first P xs)) = 1"
  by (induction xs) (auto simp: filter_empty_conv)

lemma update_first_filter:
  "(\<And>x. P x \<Longrightarrow> P (f x)) \<Longrightarrow>
   filter (\<lambda>y. \<not> P y) (update_first P f xs) = filter (\<lambda>y. \<not> P y) xs
   \<and> list_ex P (update_first P f xs) = list_ex P xs"
  by (induction xs) auto

lemma update_first_first:
  "(\<And>x. P x \<Longrightarrow> P (f x)) \<Longrightarrow> list_ex P xs \<Longrightarrow>
   \<exists>x. filter P (keep_first P (update_first P f xs)) = [f x] \<and> P x"
  by (induction xs) (auto simp: filter_empty_conv)

lemma upsert_cover_art_others:
  "filter (\<lambda>i. \<not> is_cover i) (upsert_cover_art title art imgs) = filter (\<lambda>i. \<not> is_cover i) imgs"
proof -
  have "filter (\<lambda>i. \<not> is_cover i)
      (update_first is_cover (\<lambda>i. i\<lparr>img_url := art, img_alt := Some title\<rparr>) imgs)
    = filter (\<lambda>i. \<not> is_cover i) imgs"
    using update_first_filter [of is_cover "\<lambda>i. i\<lparr>img_url := art, img_alt := Some title\<rparr>" imgs]
    by (simp add: is_cover_def)
  then show ?thesis
    by (simp add: upsert_cover_art_def keep_first_filter_other) (simp add: is_cover_def)
qed

lemma upsert_cover_art_single:
  "\<exists>i. filter is_cover (upsert_cover_art title art imgs) = [i]
     \<and> img_url i = art \<and> img_alt i = Some title"
proof (cases "list_ex is_cover imgs")
  case True
  from update_first_first [of is_cover "\<lambda>i. i\<lparr>img_url := art, img_alt := Some title\<rparr>", OF _ True]
  show ?thesis by (auto simp: upsert_cover_art_def True is_cover_def)
next
  case False
  then have "filter is_cover imgs = []" by (simp add: filter_empty_conv list_ex_iff)
  with False show ?thesis by (simp add: upsert_cover_art_def is_cover_def)
qed

lemma set_child_type_media [simp]: "all_media (set_child_type st it) = all_media it"
  by (simp add: set_child_type_def media_map_attrs split: option.split)

lemma set_cover_art_media [simp]: "md_media (set_cover_art st art a) = md_media a"
  by (simp add: set_cover_art_def Let_def)

lemma media_style_media [simp]: "all_media (media_style_item sty cx it) = all_media it"
  by (simp add: media_style_item_def Let_def media_map_attrs split: option.split)

lemma hero_children_media [simp]: "items_media (hero_children cx xs) = items_media xs"
  by (simp add: hero_children_def items_media_def)

interpretation media_style: media_safe "media_style_transform sty cx" for sty cx
  by unfold_locales
    (auto simp: media_style_transform_def container_media_def container_items_def)

interpretation hub_style: media_safe "hub_style_transform c collection cx" for c collection cx
proof
  fix it
  let ?st = "hero_style_from_context cx"
  let ?i1 = "map_attrs (\<lambda>a. a\<lparr>md_style := hero_style_name ?st, md_type := hero_type ?st\<rparr>) it"
  let ?i2 = "if hero_include_meta ?st then map_attrs (\<lambda>a. a\<lparr>md_meta := Some hero_meta\<rparr>) ?i1 else ?i1"
  have "set (all_media (set_children (hero_children cx (children ?i2)) ?i2)) \<subseteq> set (all_media ?i2)"
    by (rule media_set_children_sub) simp
  moreover have "all_media ?i2 = all_media it" by (simp add: media_map_attrs)
  ultimately show "set (all_media (tf_item (hub_style_transform c collection cx) it)) \<subseteq> set (all_media it)"
    by (simp add: hub_style_transform_def hub_style_item_def Let_def)
qed (simp add: hub_style_transform_def)

lemma mc_children_media: "items_media (mc_children c) \<subseteq> container_media c"
  using container_media_children_mut [of c] by (simp add: mc_children_mut_eq)

interpretation collection_style: media_safe "collection_style_transform collection cx ids"
  for collection cx ids
proof
  fix c :: media_container
  let ?c = "c\<lparr>mc_meta := Some hero_meta\<rparr>"
  have eq: "container_media ?c = container_media c" by (simp add: container_media_def container_items_def)
  have "container_media (mc_set_children (hero_children cx (mc_children ?c)) ?c) \<subseteq> container_media c"
    using container_media_set_children [of "hero_children cx (mc_children ?c)" ?c]
      mc_children_media [of ?c] eq by auto
  then show "container_media (tf_container (collection_style_transform collection cx ids) c)
      \<subseteq> container_media c"
    by (simp add: collection_style_transform_def collection_style_container_def split: option.split)
qed (simp add: collection_style_transform_def)

lemma hero_style_android_tv:
  "cx_platform cx = Some Android \<Longrightarrow> device_type_from_context cx = Tv \<Longrightarrow>
   hero_style_name (hero_style_from_context cx) = Some ''hero''
   \<and> hero_child_type (hero_style_from_context cx) = Some ''clip''"
  by (simp add: hero_style_from_context_def Let_def)

lemma hero_style_includes_meta:
  "hero_include_meta (hero_style_from_context cx)"
  by (simp add: hero_style_from_context_def Let_def default_hero_style_def roku_style_def
      web_style_def ios_style_def tvos_style_def split: platform.split device_type.split)

end
