(* ===== verification/Hub_Routes.thy ===== *)
theory Hub_Routes
  imports Cached_Routes Hub_Transforms Style_Transforms
begin

text \<open>
  The hub and collection routes of \<open>src/routes.rs\<close>: the request rewriting in front of them, the
  cached hub response with stale-while-revalidate, the shaping for a client, the collection pages
  and the default transform, the empty container, and the Plex webhook.

  The pure parts are functions on containers; \<open>hub_env\<close> holds what they ask Plex for and the
  request's context.  A background refresh that is spawned runs, in this model, before the next
  request; \<open>Hub_Cache\<close> has the interleaved one.
\<close>

subsection \<open>The environment\<close>

record hub_env =
  he_config :: config
  he_context :: plex_context
  he_sha :: "string \<Rightarrow> string"
  he_current :: "(resolution_policy \<times> user_identity) option"
  he_client_ok :: bool
  he_skip :: bool
  he_hubs :: "string \<Rightarrow> upstream"
  he_collection :: "i32 \<Rightarrow> media_container option"
  he_sections :: "i64 \<Rightarrow> media_container option"
  he_children :: "int \<Rightarrow> media_container option"
  he_request :: "request \<Rightarrow> response"
  he_now :: nat

subsection \<open>Rewriting requests\<close>

datatype 'a hoop_reply = Pass request | Render 'a | Status nat

definition empty_container :: media_container where
  "empty_container = default_container\<lparr>mc_identifier := Some ''com.plexapp.plugins.library''\<rparr>"

definition is_first_slot :: "string \<Rightarrow> string list option \<Rightarrow> bool" where
  "is_first_slot first_pinned ids =
     (case ids of
        None \<Rightarrow> True
      | Some c \<Rightarrow> if length c > 1 then True
                  else (case first_opt c of Some x \<Rightarrow> x = first_pinned | None \<Rightarrow> False))"

definition mobile_client :: "plex_context \<Rightarrow> bool" where
  "mobile_client cx \<longleftrightarrow> unwrap_or (cx_platform cx) Generic \<in> {Ios, Android, TvOS}"

definition transform_req_content_directory :: "hub_env \<Rightarrow> request \<Rightarrow> media_container hoop_reply" where
  "transform_req_content_directory ev r =
     (if he_skip ev \<or> \<not> cf_interleave (he_config ev) then Pass r
      else if \<not> he_client_ok ev then Status 401
      else (case cx_pinned_content_directory_id (he_context ev) of
              None \<Rightarrow> Pass r
            | Some pinned \<Rightarrow>
                (case first_opt pinned of
                   None \<Rightarrow> Pass r
                 | Some p \<Rightarrow>
                     (if \<not> is_first_slot p (cx_content_directory_id (he_context ev))
                         \<and> \<not> mobile_client (he_context ev)
                      then Render (empty_container\<lparr>mc_size := Some 0\<rparr>)
                      else Pass (add_query_param_salvo ''contentDirectoryID'' (join '','' pinned) r)))))"

definition transform_req_include_guids :: "bool \<Rightarrow> request \<Rightarrow> request" where
  "transform_req_include_guids skip r =
     (if skip then r else add_query_param_salvo ''includeGuids'' ''1'' r)"

definition android_count :: "config \<Rightarrow> plex_context \<Rightarrow> i32" where
  "android_count c cx =
     (let n = unwrap_or (cx_count cx) 25;
          n = (if unwrap_or (cx_platform cx) Generic = Android then 50 else n)
      in if cf_exclude_watched c \<and> n < 50 then 50 else n)"

definition transform_req_android :: "hub_env \<Rightarrow> request \<Rightarrow> request" where
  "transform_req_android ev r =
     (if he_skip ev then r
      else add_query_param_salvo ''count'' (show_int (android_count (he_config ev) (he_context ev))) r)"

subsection \<open>Shaping\<close>

definition is_continue :: "metadata \<Rightarrow> bool" where
  "is_continue h =
     (case md_hub_identifier (attrs h) of Some i \<Rightarrow> starts_with i ''home.continue'' | None \<Rightarrow> False)"

definition limit_hub :: "i32 \<Rightarrow> metadata \<Rightarrow> metadata" where
  "limit_hub n h =
     (if length (children_mut h) > as_usize n
      then map_attrs (\<lambda>a. a\<lparr>md_size := Some n\<rparr>) (update_children (take (as_usize n)) h)
      else h)"

definition shape_canonical_hubs :: "plex_context \<Rightarrow> media_container \<Rightarrow> media_container" where
  "shape_canonical_hubs cx c =
     mc_update_children
       (\<lambda>hubs.
          (let kept = (if cx_exclude_continue_watching cx then filter (\<lambda>h. \<not> is_continue h) hubs else hubs)
           in (case cx_count cx of Some n \<Rightarrow> map (limit_hub n) kept | None \<Rightarrow> kept))) c"

subsection \<open>Hub responses\<close>

definition hub_transforms :: "hub_env \<Rightarrow> transform list" where
  "hub_transforms ev =
     (let c = he_config ev in
      [hub_restriction_transform c (he_sections ev),
       hub_style_transform c (he_collection ev) (he_context ev),
       hub_watched_transform c (he_collection ev), hub_interleave_transform c,
       user_state_transform c, hub_key_transform])"

definition present_hubs :: "hub_env \<Rightarrow> media_container \<Rightarrow> media_container" where
  "present_hubs ev c =
     (let visible = apply_to [collection_visibility_transform (he_current ev)] c in
      if he_skip ev then visible
      else shape_canonical_hubs (he_context ev) (apply_to (hub_transforms ev) visible))"

text \<open>The payload of a request: from the cache, or fetched and cached.\<close>

definition hub_payload ::
  "hub_env \<Rightarrow> string \<Rightarrow> string \<Rightarrow> hub_state \<times> metrics \<Rightarrow> media_container option \<times> hub_state \<times> metrics" where
  "hub_payload ev key fetch sm =
     (case sm of (s, m) \<Rightarrow>
        (case hs_payloads s key of
           Some cached \<Rightarrow>
             (Some cached,
              (if cf_hub_stale_ttl (he_config ev) > 0
                  \<and> is_stale (he_now ev) key (cf_hub_stale_ttl (he_config ev)) s
               then spawn_hub_refresh (he_hubs ev) (he_now ev) fetch key s else s),
              cache_hit m)
         | None \<Rightarrow>
             (case fetch_hubs_payload (he_hubs ev) fetch of
                None \<Rightarrow> (None, s, cache_miss m)
              | Some parsed \<Rightarrow>
                  (Some parsed,
                   track_fetched (he_now ev) key (s\<lparr>hs_payloads := (hs_payloads s)(key \<mapsto> parsed)\<rparr>),
                   cache_miss m))))"

definition cached_hubs_response ::
  "hub_env \<Rightarrow> request \<Rightarrow> hub_state \<times> metrics \<Rightarrow> media_container option \<times> hub_state \<times> metrics" where
  "cached_hubs_response ev r sm =
     (if \<not> he_client_ok ev then (None, sm)
      else (let key_path = cache_key_for_request r;
                key = hub_cache_key (he_sha ev) key_path (cx_token (he_context ev))
            in (case hub_payload ev key (canonical_fetch_path r key_path) sm of
                  (payload, sm') \<Rightarrow> (map_option (present_hubs ev) payload, sm'))))"

definition transform_hubs_response :: "hub_env \<Rightarrow> media_container option \<Rightarrow> media_container option" where
  "transform_hubs_response ev parsed =
     (if \<not> he_client_ok ev then None
      else map_option (apply_to (collection_visibility_transform (he_current ev) # hub_transforms ev)) parsed)"

subsection \<open>Collections and the default transform\<close>

definition parse_u32 :: "string \<Rightarrow> nat option" where "parse_u32 s = parse_uint u32_max s"

definition page_bounds :: "config \<Rightarrow> plex_context \<Rightarrow> i32 \<times> i32" where
  "page_bounds c cx =
     (if \<not> cf_exclude_watched c
      then (unwrap_or (cx_container_start cx) 0, unwrap_or (cx_container_size cx) 50)
      else (0, 250))"

text \<open>\<open>children_page i offset limit\<close> is \<open>get_collection_children\<close>.\<close>

definition get_collections_children ::
  "hub_env \<Rightarrow> (int \<Rightarrow> i32 \<Rightarrow> i32 \<Rightarrow> media_container option) \<Rightarrow> string option \<Rightarrow> media_container option" where
  "get_collections_children ev children_page ids_param =
     (case ids_param of
        None \<Rightarrow> None
      | Some text \<Rightarrow>
          (if \<not> he_client_ok ev then None
           else (let c = he_config ev;
                     ids = List.map_filter parse_u32 (split_on CHR '','' text);
                     (offset, limit) = page_bounds c (he_context ev);
                     stub = default_container\<lparr>mc_size := Some 0, mc_offset := Some offset\<rparr>
                 in Some (apply_to
                      [library_interleave_transform c (he_collection ev)
                         (\<lambda>i. children_page i offset limit) ids,
                       hub_restriction_transform c (he_sections ev),
                       collection_style_transform (he_collection ev) (he_context ev) ids,
                       user_state_transform c] stub))))"

text \<open>\<open>url_path\<close> is what the \<open>url\<close> crate makes of a path set on the request's URL; \<open>uri_ok\<close> is whether the
  request's URI parses as an absolute one.\<close>

definition default_transform ::
  "hub_env \<Rightarrow> (string \<Rightarrow> string) \<Rightarrow> style option \<Rightarrow> string option \<Rightarrow> bool \<Rightarrow> request \<Rightarrow> media_container option" where
  "default_transform ev url_path sty rest_path uri_ok r =
     (if \<not> he_client_ok ev \<or> \<not> uri_ok then None
      else (case (sty, rest_path) of
              (Some st, Some path) \<Rightarrow>
                (let r1 = r\<lparr>rq_path := url_path path\<rparr>;
                     r2 = replace_query (mm_remove ''contentDirectoryID'' (rq_query r1)) r1;
                     c = he_config ev
                 in (case he_request ev r2 of
                       Http status (Some parsed) \<Rightarrow>
                         (if status \<noteq> 200 then None
                          else Some (apply_to
                            [hub_restriction_transform c (he_sections ev),
                             media_style_transform st (he_context ev), user_state_transform c,
                             hub_watched_transform c (he_collection ev), hub_key_transform] parsed))
                     | _ \<Rightarrow> None))
            | _ \<Rightarrow> None))"

definition get_library_item_metadata :: "hub_env \<Rightarrow> request \<Rightarrow> nat + media_container" where
  "get_library_item_metadata ev r =
     (if \<not> he_client_ok ev then Inl 401
      else (let r' = (if cf_disable_related (he_config ev)
                      then add_query_param_salvo ''includeRelated'' ''0'' r else r)
            in (case he_request ev r' of
                  NoResponse \<Rightarrow> Inl 502
                | Http _ None \<Rightarrow> Inl 500
                | Http _ (Some parsed) \<Rightarrow> Inr (apply_to [] parsed))))"

text \<open>The webhook; \<open>event\<close> is the event name of a payload that parses.\<close>

definition webhook_plex :: "string option \<Rightarrow> hub_state \<Rightarrow> hub_state" where
  "webhook_plex event s =
     (case event of
        Some e \<Rightarrow> if starts_with e ''media.'' then mark_all_hubs_stale s else s
      | None \<Rightarrow> s)"

subsection \<open>Laws\<close>

lemma content_directory_expands:
  assumes "transform_req_content_directory ev r = Pass r'" and "rq_absolute r"
    and "\<not> he_skip ev" "cf_interleave (he_config ev)"
    and "cx_pinned_content_directory_id (he_context ev) = Some pinned" "pinned \<noteq> []"
  shows "mm_get (rq_query r') ''contentDirectoryID'' = Some (join '','' pinned)"
  using assms
  by (cases pinned) (auto simp: transform_req_content_directory_def add_query_param_get split: if_splits)

lemma content_directory_one_slot:
  assumes "\<not> he_skip ev" "cf_interleave (he_config ev)" "he_client_ok ev"
    and "cx_pinned_content_directory_id (he_context ev) = Some (p # ps)"
    and "cx_content_directory_id (he_context ev) = Some [d]" "\<not> mobile_client (he_context ev)"
  shows "(\<exists>r'. transform_req_content_directory ev r = Pass r') \<longleftrightarrow> d = p"
  using assms by (simp add: transform_req_content_directory_def is_first_slot_def)

lemma android_count_bounds:
  "cf_exclude_watched c \<Longrightarrow> 50 \<le> android_count c cx"
  "cx_platform cx = Some Android \<Longrightarrow> android_count c cx = 50"
  by (simp_all add: android_count_def Let_def)

lemma children_mut_update:
  "f [] = [] \<Longrightarrow> length (f (children_mut it)) > 0 \<Longrightarrow>
   children_mut (update_children f it) = f (children_mut it)"
  by (cases it) (auto split: if_splits)

lemma children_mut_map_attrs [simp]: "children_mut (map_attrs f it) = children_mut it"
  by (cases it) simp

lemma limit_hub_length:
  assumes "0 < n" "n \<le> 2147483647"
  shows "length (children_mut (limit_hub n h)) \<le> nat n"
proof -
  have n: "as_usize n = nat n" using assms by (simp add: as_usize_def)
  show ?thesis
  proof (cases "length (children_mut h) > nat n")
    case True
    then have "children_mut (update_children (take (nat n)) h) = take (nat n) (children_mut h)"
      using assms by (intro children_mut_update) simp_all
    with n show ?thesis by (simp add: limit_hub_def)
  qed (simp add: limit_hub_def n)
qed

lemma shape_rows:
  assumes "h \<in> set (mc_children_mut (shape_canonical_hubs cx c))" and "single_list c"
    and "cx_count cx = Some n" "0 < n" "n \<le> 2147483647"
  shows "length (children_mut h) \<le> nat n"
  using assms limit_hub_length [OF assms(4,5)]
  by (auto simp: shape_canonical_hubs_def Let_def mc_update_children_def mc_children_mut_def
      single_list_def item_total_def split: if_splits)

lemma cached_hub_repeats:
  assumes "cached_hubs_response ev r sm = (Some c, sm')" and "cf_hub_stale_ttl (he_config ev) = 0"
  shows "\<exists>m. cached_hubs_response (ev\<lparr>he_hubs := other\<rparr>) r sm' = (Some c, fst sm', m)"
proof -
  define key where "key = hub_cache_key (he_sha ev) (cache_key_for_request r) (cx_token (he_context ev))"
  obtain s m where sm: "sm = (s, m)" by (cases sm)
  obtain payload where p: "hub_payload ev key (canonical_fetch_path r (cache_key_for_request r)) sm
      = (Some payload, sm')" "c = present_hubs ev payload"
    using assms(1)
    by (auto simp: cached_hubs_response_def Let_def key_def split: if_splits prod.splits)
  then have "hs_payloads (fst sm') key = Some payload"
    using sm assms(2) by (auto simp: hub_payload_def track_fetched_def split: option.splits)
  then have "hub_payload (ev\<lparr>he_hubs := other\<rparr>) key f sm' = (Some payload, fst sm', cache_hit (snd sm'))" for f
    using assms(2) by (cases sm') (simp add: hub_payload_def)
  moreover have "present_hubs (ev\<lparr>he_hubs := other\<rparr>) payload = present_hubs ev payload"
    by (cases "he_skip ev") (simp_all add: present_hubs_def hub_transforms_def Let_def)
  moreover have "he_client_ok ev" using assms(1) by (auto simp: cached_hubs_response_def split: if_splits)
  ultimately show ?thesis using p(2)
    by (simp add: cached_hubs_response_def Let_def flip: key_def)
qed

lemma hub_miss_failure:
  assumes "hub_payload ev key fetch (s, m) = (None, s', m')"
  shows "s' = s \<and> hs_payloads s key = None"
  using assms by (auto simp: hub_payload_def split: option.splits)

text \<open>Before anything else is done to it, a payload loses the collections the account may not see;
  the compatibility flag of Plexamp and Live TV requests does not change that.\<close>

lemma hidden_collections_removed:
  assumes "he_skip ev" and "he_current ev = Some (p, i)" and "single_list c"
    and "h \<in> set (mc_children_mut (present_hubs ev c))"
  shows "\<not> is_hidden p h"
  using assms visibility_walk [OF assms(3), of p i]
  by (simp add: present_hubs_def apply_to_def Let_def)

lemma webhook_marks:
  "starts_with e ''media.'' \<Longrightarrow> is_stale now k ttl (webhook_plex (Some e) s)"
  by (simp add: webhook_plex_def mark_all_hubs_stale_def is_stale_def is_older_than_def)

lemma cached_hub_present:
  assumes "he_client_ok ev"
    and "hs_payloads s (hub_cache_key (he_sha ev) (cache_key_for_request r) (cx_token (he_context ev))) \<noteq> None"
  shows "fst (cached_hubs_response ev r (s, m)) \<noteq> None"
  using assms by (auto simp: cached_hubs_response_def hub_payload_def Let_def)

end
