(* ===== verification/Warmer.thy ===== *)
theory Warmer
  imports Cached_Routes Auth_Context
begin

text \<open>
  The background warmer of \<open>src/hub_cache.rs\<close>: for every configured token it fetches the hubs,
  the posters of their rows and the first library pages, and stores them under the keys that the
  requests of that account look up.

  The warmer works on the same \<open>web_state\<close> as the routes.  A cycle sees one state of Plex: the
  reply to a path is a function of the token and the path, and the clock stands still during it.
\<close>

subsection \<open>What a cycle sees\<close>

record page_reply =
  pr_status :: nat
  pr_type :: "string option"
  pr_body :: "bytes option"  \<comment> \<open>\<open>None\<close>: reading it fails\<close>

record warm_env =
  wm_config :: config
  wm_sha :: "string \<Rightarrow> string"
  wm_urls :: url_lib
  wm_dir :: string
  wm_max :: nat
  wm_io :: disk_io
  wm_request :: "string \<Rightarrow> request"  \<comment> \<open>the request a path parses to\<close>
  wm_get :: "string \<Rightarrow> string \<Rightarrow> page_reply option"  \<comment> \<open>of a token and a path\<close>
  wm_container :: "bytes \<Rightarrow> media_container option"
  wm_sections :: "bytes \<Rightarrow> string list option"  \<comment> \<open>the keys of the listed sections\<close>
  wm_now :: nat

definition hub_upstream :: "warm_env \<Rightarrow> string \<Rightarrow> string \<Rightarrow> upstream" where
  "hub_upstream ev token path =
     (case wm_get ev token path of
        None \<Rightarrow> Failed
      | Some r \<Rightarrow> Response (pr_status r) (Option.bind (pr_body r) (wm_container ev)))"

text \<open>A reply whose status is not 200 is no page.\<close>

definition page_reply_ok :: "warm_env \<Rightarrow> string \<Rightarrow> string \<Rightarrow> page_reply option" where
  "page_reply_ok ev token path =
     (case wm_get ev token path of
        None \<Rightarrow> None
      | Some r \<Rightarrow> if pr_status r = 200 then Some r else None)"

subsection \<open>The hub paths and the tokens\<close>

text \<open>The listing is parsed whatever its status.\<close>

definition warm_paths :: "warm_env \<Rightarrow> string \<Rightarrow> string list" where
  "warm_paths ev token =
     (case Option.bind (wm_get ev token ''/library/sections'')
             (\<lambda>r. Option.bind (pr_body r) (wm_sections ev)) of
        None \<Rightarrow> []
      | Some all \<Rightarrow>
          (if all = [] then []
           else let joined = join '','' (sort all) in
             [''/hubs/promoted?contentdirectoryid='' @ joined @ ''&pinnedcontentdirectoryid='' @ joined,
              ''/hubs/home'',
              ''/hubs/continueWatching?contentdirectoryid='' @ joined]
             @ map (\<lambda>s. ''/hubs/promoted?contentdirectoryid='' @ s
                         @ ''&pinnedcontentdirectoryid='' @ joined) all))"

definition warm_token_list :: "config \<Rightarrow> string list" where
  "warm_token_list c =
     (case (case cf_warm_tokens c of
              Some ts \<Rightarrow> if ts \<noteq> [] then Some ts else None
            | None \<Rightarrow> None) of
        Some ts \<Rightarrow> ts
      | None \<Rightarrow> (case cf_token c of Some t \<Rightarrow> [t] | None \<Rightarrow> []))"

definition is_global_warm_path :: "string \<Rightarrow> bool" where
  "is_global_warm_path p \<longleftrightarrow> starts_with p ''/hubs/promoted'' \<or> starts_with p ''/hubs/home''"

definition warm_context :: "string \<Rightarrow> plex_context" where
  "warm_context token =
     default_context\<lparr>cx_token := Some token, cx_client_identifier := Some ''replex-warmer''\<rparr>"

subsection \<open>Hubs\<close>

definition warm_fetch_path :: "string \<Rightarrow> string" where
  "warm_fetch_path path =
     (if contains path ''?'' then path @ ''&includeGuids=1&count=50''
      else path @ ''?includeGuids=1&count=50'')"

definition warm_key :: "warm_env \<Rightarrow> string \<Rightarrow> string \<Rightarrow> string" where
  "warm_key ev token path =
     hub_cache_key (wm_sha ev) (cache_key_for_request (wm_request ev (warm_fetch_path path))) (Some token)"

definition warm_hub ::
  "warm_env \<Rightarrow> string \<Rightarrow> string \<Rightarrow> hub_state \<times> media_container list
   \<Rightarrow> hub_state \<times> media_container list" where
  "warm_hub ev token path acc =
     (case acc of (s, warmed) \<Rightarrow>
        let k = warm_key ev token path in
        (case claim_refresh k s of
           (False, s') \<Rightarrow> (s', warmed)
         | (True, s') \<Rightarrow>
             (case fetch_hubs_payload (hub_upstream ev token) (warm_fetch_path path) of
                Some payload \<Rightarrow>
                  (release_refresh k
                     (track_fetched (wm_now ev) k (s'\<lparr>hs_payloads := (hs_payloads s')(k \<mapsto> payload)\<rparr>)),
                   warmed @ [payload])
              | None \<Rightarrow> (release_refresh k s', warmed))))"

subsection \<open>Posters\<close>

definition posters_per_row :: nat where "posters_per_row = 12"
definition poster_budget :: nat where "poster_budget = 400"

definition build_transcode_query :: "url_lib \<Rightarrow> string \<Rightarrow> string" where
  "build_transcode_query ul thumb =
     ul_encode ul [(''width'', ''240''), (''height'', ''360''), (''minSize'', ''1''),
       (''upscale'', ''1''), (''url'', thumb)]"

definition poster_path :: "warm_env \<Rightarrow> string \<Rightarrow> string" where
  "poster_path ev thumb = ''/photo/:/transcode?'' @ build_transcode_query (wm_urls ev) thumb"

definition poster_key :: "warm_env \<Rightarrow> string \<Rightarrow> string \<Rightarrow> string" where
  "poster_key ev token thumb =
     photo_cache_key_for (wm_sha ev) (wm_urls ev) (poster_path ev thumb) (Some token)"

text \<open>What is stored for a poster that is not cached yet, if it can be fetched and is small enough.\<close>

definition poster_fetch :: "warm_env \<Rightarrow> string \<Rightarrow> string \<Rightarrow> (string option \<times> bytes) option" where
  "poster_fetch ev token thumb =
     (case page_reply_ok ev token (poster_path ev thumb) of
        None \<Rightarrow> None
      | Some r \<Rightarrow>
          (case pr_body r of
             Some bs \<Rightarrow> if length bs \<le> 4 * 1024 * 1024 then Some (pr_type r, bs) else None
           | None \<Rightarrow> None))"

definition store_poster ::
  "warm_env \<Rightarrow> string \<Rightarrow> string option \<times> bytes \<Rightarrow> web_state \<Rightarrow> web_state" where
  "store_poster ev key fetched ws =
     (case fetched of (ct, bs) \<Rightarrow>
        ws\<lparr>ws_photos := AList.update key
             \<lparr>im_content_type = ct, im_cache_control = Some ''public, max-age=259200'', im_body = bs\<rparr>
             (ws_photos ws),
           ws_disk := snd (put_full (wm_sha ev) (wm_dir ev) (wm_max ev) (wm_io ev) key bs
                         (map_option text_bytes ct) (ws_disk ws))\<rparr>)"

fun warm_posters ::
  "warm_env \<Rightarrow> string \<Rightarrow> metadata list \<Rightarrow> nat \<Rightarrow> web_state \<Rightarrow> web_state" where
  "warm_posters ev token [] budget ws = ws"
| "warm_posters ev token (it # items) budget ws =
     (if budget = 0 then ws
      else (case md_thumb (attrs it) of
              None \<Rightarrow> warm_posters ev token items budget ws
            | Some thumb \<Rightarrow>
                (let key = poster_key ev token thumb in
                 if map_of (ws_photos ws) key \<noteq> None
                 then warm_posters ev token items budget ws
                 else (case poster_fetch ev token thumb of
                         None \<Rightarrow> warm_posters ev token items budget ws
                       | Some fetched \<Rightarrow>
                           warm_posters ev token items (budget - 1) (store_poster ev key fetched ws)))))"

text \<open>The items in the order of the two loops over the rows of the warmed payloads.\<close>

definition poster_items :: "media_container list \<Rightarrow> metadata list" where
  "poster_items warmed =
     concat (map (\<lambda>payload. concat (map (\<lambda>h. take posters_per_row (children h))
                                      (mc_children_mut payload))) warmed)"

definition warm_hubs_for_token ::
  "warm_env \<Rightarrow> string list \<Rightarrow> string \<Rightarrow> web_state \<Rightarrow> web_state" where
  "warm_hubs_for_token ev paths token ws =
     (case foldl (\<lambda>acc p. warm_hub ev token p acc) (ws_hub ws, []) paths of
        (s, warmed) \<Rightarrow>
          warm_posters ev token (poster_items warmed) poster_budget (ws\<lparr>ws_hub := s\<rparr>))"

subsection \<open>Library pages\<close>

definition section_page :: "string \<Rightarrow> nat \<Rightarrow> string" where
  "section_page section_id start =
     ''/library/sections/'' @ section_id @ ''/all?X-Plex-Container-Start='' @ show_nat start
       @ ''&X-Plex-Container-Size=50''"

fun warm_section :: "warm_env \<Rightarrow> string \<Rightarrow> string \<Rightarrow> nat list \<Rightarrow> disk \<Rightarrow> disk" where
  "warm_section ev token section_id [] d = d"
| "warm_section ev token section_id (start # starts) d =
     (let path = section_page section_id start;
          key = library_cache_key_for (wm_sha ev) (wm_urls ev) path (Some token)
      in (case get_body (wm_sha ev) (wm_dir ev) (wm_io ev) key d of
            (Some _, d1) \<Rightarrow> warm_section ev token section_id starts d1
          | (None, d1) \<Rightarrow>
              (case Option.bind (page_reply_ok ev token path) pr_body of
                 None \<Rightarrow> d1
               | Some bs \<Rightarrow>
                   (let d2 = snd (put_body (wm_sha ev) (wm_dir ev) (wm_max ev) (wm_io ev) key bs d1)
                    in if length bs < 1000 then d2
                       else warm_section ev token section_id starts d2))))"

definition page_starts :: "nat list" where "page_starts = [0, 50, 100, 150, 200]"

definition warm_library_pages :: "warm_env \<Rightarrow> string \<Rightarrow> web_state \<Rightarrow> web_state" where
  "warm_library_pages ev token ws =
     (case Option.bind (page_reply_ok ev token ''/library/sections'')
             (\<lambda>r. Option.bind (pr_body r) (wm_sections ev)) of
        None \<Rightarrow> ws
      | Some sections \<Rightarrow>
          ws\<lparr>ws_disk := foldl (\<lambda>d s. warm_section ev token s page_starts d) (ws_disk ws) sections\<rparr>)"

subsection \<open>The cycle\<close>

text \<open>The shared hubs, with the first token.\<close>

definition warm_globals :: "warm_env \<Rightarrow> string list \<Rightarrow> web_state \<Rightarrow> web_state" where
  "warm_globals ev tokens ws =
     (case first_opt tokens of
        None \<Rightarrow> ws
      | Some t \<Rightarrow>
          (if client_error (wm_config ev) (warm_context t) \<noteq> None then ws
           else let paths = filter is_global_warm_path (warm_paths ev t) in
             if paths \<noteq> [] then warm_hubs_for_token ev paths t ws else ws))"

definition warm_account :: "warm_env \<Rightarrow> string \<Rightarrow> web_state \<Rightarrow> web_state" where
  "warm_account ev t ws =
     (if client_error (wm_config ev) (warm_context t) \<noteq> None then ws
      else let paths = filter (\<lambda>p. \<not> is_global_warm_path p) (warm_paths ev t)
        in warm_library_pages ev t
             (if paths \<noteq> [] then warm_hubs_for_token ev paths t ws else ws))"

definition warm_cycle :: "warm_env \<Rightarrow> web_state \<Rightarrow> web_state" where
  "warm_cycle ev ws =
     (if cf_warm_interval (wm_config ev) = 0 then ws
      else let tokens = warm_token_list (wm_config ev) in
        if tokens = [] then ws
        else foldl (\<lambda>w t. warm_account ev t w) (warm_globals ev tokens ws) tokens)"

text \<open>The loop of \<open>spawn_warmer\<close>, which never ends, up to a number of cycles; each sees the
  world as it then is.\<close>

definition spawn_warmer :: "config \<Rightarrow> warm_env list \<Rightarrow> web_state \<Rightarrow> web_state" where
  "spawn_warmer c evs ws = (if cf_warm_interval c = 0 then ws else foldl (\<lambda>w ev. warm_cycle ev w) ws evs)"

subsection \<open>A relation that every part keeps\<close>

text \<open>The shared hubs belong to the first token.\<close>

definition may_warm :: "warm_env \<Rightarrow> string \<Rightarrow> string \<Rightarrow> bool" where
  "may_warm ev t p \<longleftrightarrow>
     t \<in> set (warm_token_list (wm_config ev))
     \<and> (is_global_warm_path p \<longrightarrow> first_opt (warm_token_list (wm_config ev)) = Some t)"

text \<open>What holds between the states before and after each hub, poster and section holds between
  those before and after a cycle.\<close>

locale warm_relation =
  fixes ev :: warm_env and R :: "web_state \<Rightarrow> web_state \<Rightarrow> bool"
  assumes refl: "R ws ws"
    and trans: "R a b \<Longrightarrow> R b c \<Longrightarrow> R a c"
    and hub: "may_warm ev t p \<Longrightarrow> R ws (ws\<lparr>ws_hub := fst (warm_hub ev t p (ws_hub ws, w))\<rparr>)"
    and poster: "t \<in> set (warm_token_list (wm_config ev)) \<Longrightarrow>
      map_of (ws_photos ws) (poster_key ev t thumb) = None \<Longrightarrow>
      poster_fetch ev t thumb = Some f \<Longrightarrow>
      R ws (store_poster ev (poster_key ev t thumb) f ws)"
    and page: "t \<in> set (warm_token_list (wm_config ev)) \<Longrightarrow>
      R ws (ws\<lparr>ws_disk := warm_section ev t sec starts (ws_disk ws)\<rparr>)"
begin

lemma posters:
  "t \<in> set (warm_token_list (wm_config ev)) \<Longrightarrow> R ws (warm_posters ev t items budget ws)"
proof (induction items arbitrary: budget ws)
  case (Cons it items)
  then show ?case
    by (auto simp: Let_def refl split: option.splits intro: trans [OF poster])
qed (simp add: refl)

lemma hubs:
  "(\<And>p. p \<in> set paths \<Longrightarrow> may_warm ev t p) \<Longrightarrow>
   R ws (ws\<lparr>ws_hub := fst (foldl (\<lambda>acc p. warm_hub ev t p acc) (ws_hub ws, w) paths)\<rparr>)"
proof (induction paths arbitrary: ws w)
  case (Cons p paths)
  obtain s' w' where s': "warm_hub ev t p (ws_hub ws, w) = (s', w')" by fastforce
  have "R ws (ws\<lparr>ws_hub := s'\<rparr>)" using hub [of t p ws w] Cons.prems s' by simp
  from trans [OF this Cons.IH [of "ws\<lparr>ws_hub := s'\<rparr>" w']] Cons.prems s' show ?case by simp
qed (simp add: refl)

lemma hubs_for_token:
  assumes "\<And>p. p \<in> set paths \<Longrightarrow> may_warm ev t p" and "t \<in> set (warm_token_list (wm_config ev))"
  shows "R ws (warm_hubs_for_token ev paths t ws)"
proof -
  obtain s w where s: "foldl (\<lambda>acc p. warm_hub ev t p acc) (ws_hub ws, []) paths = (s, w)" by fastforce
  have "R ws (ws\<lparr>ws_hub := s\<rparr>)" using hubs [where paths = paths and w = "[]" and ws = ws, OF assms(1)] s by simp
  from trans [OF this posters [OF assms(2)]] show ?thesis by (simp add: warm_hubs_for_token_def s)
qed

lemma pages:
  "t \<in> set (warm_token_list (wm_config ev)) \<Longrightarrow> R ws (warm_library_pages ev t ws)"
proof -
  assume t: "t \<in> set (warm_token_list (wm_config ev))"
  have "R ws (ws\<lparr>ws_disk := foldl (\<lambda>d s. warm_section ev t s page_starts d) (ws_disk ws) secs\<rparr>)" for secs
  proof (induction secs arbitrary: ws)
    case (Cons s secs)
    show ?case
      using trans [OF page [OF t, of ws s page_starts]
          Cons.IH [of "ws\<lparr>ws_disk := warm_section ev t s page_starts (ws_disk ws)\<rparr>"]] by simp
  qed (simp add: refl)
  then show ?thesis by (auto simp: warm_library_pages_def refl split: option.splits)
qed

lemma globals: "R ws (warm_globals ev (warm_token_list (wm_config ev)) ws)"
proof (cases "first_opt (warm_token_list (wm_config ev))")
  case (Some t)
  then have t: "t \<in> set (warm_token_list (wm_config ev))" by (auto simp: first_opt_def split: list.splits)
  show ?thesis
    unfolding warm_globals_def
    using Some t by (auto simp: Let_def refl may_warm_def intro!: hubs_for_token)
qed (simp add: warm_globals_def refl)

lemma account:
  assumes "t \<in> set (warm_token_list (wm_config ev))"
  shows "R ws (warm_account ev t ws)"
  using assms
  by (auto simp: warm_account_def Let_def refl may_warm_def
      intro!: trans [OF hubs_for_token pages] pages)

lemma cycle: "R ws (warm_cycle ev ws)"
proof -
  have "R ws (foldl (\<lambda>w t. warm_account ev t w) ws ts)"
    if "set ts \<subseteq> set (warm_token_list (wm_config ev))" for ts ws
    using that by (induction ts arbitrary: ws) (auto simp: refl intro: trans [OF account])
  from this [OF subset_refl] show ?thesis
    by (auto simp: warm_cycle_def Let_def refl intro: trans [OF globals])
qed

end

subsection \<open>A cycle is a run of the hub cache\<close>

lemma hub_upstream_refresh:
  "refresh_hub_entry (hub_upstream ev t) now (warm_fetch_path p) k s =
     (case fetch_hubs_payload (hub_upstream ev t) (warm_fetch_path p) of
        Some payload \<Rightarrow> track_fetched now k (s\<lparr>hs_payloads := (hs_payloads s)(k \<mapsto> payload)\<rparr>)
      | None \<Rightarrow> s)"
  by (simp add: refresh_hub_entry_def)

lemma warm_hub_cases:
  obtains (skipped) "claim_refresh (warm_key ev t p) s = (False, s)" "warm_hub ev t p (s, w) = (s, w)"
  | (run) s' where "claim_refresh (warm_key ev t p) s = (True, s')"
      "fst (warm_hub ev t p (s, w)) = release_refresh (warm_key ev t p)
         (refresh_hub_entry (hub_upstream ev t) (wm_now ev) (warm_fetch_path p) (warm_key ev t p) s')"
proof (cases "warm_key ev t p \<in> set (hs_inflight s)")
  case True
  then have c: "claim_refresh (warm_key ev t p) s = (False, s)" by (simp add: claim_refresh_def)
  then show ?thesis by (intro skipped) (simp_all add: warm_hub_def Let_def)
next
  case False
  then obtain s' where c: "claim_refresh (warm_key ev t p) s = (True, s')"
    by (simp add: claim_refresh_def)
  then show ?thesis
    by (intro run [OF c]) (simp add: warm_hub_def Let_def hub_upstream_refresh split: option.split)
qed

lemma warm_hub_runs:
  "hub_step\<^sup>*\<^sup>* (wm_now ev, s, ts) (wm_now ev, fst (warm_hub ev t p (s, w)), ts)"
proof (cases rule: warm_hub_cases [of ev t p s w])
  case (run s')
  let ?k = "warm_key ev t p"
  let ?s = "refresh_hub_entry (hub_upstream ev t) (wm_now ev) (warm_fetch_path p) ?k s'"
  have "hub_step\<^sup>*\<^sup>* (wm_now ev, s, ts) (wm_now ev, s', (?k, Recorded) # ts)"
    using hub_step.warm_claim [OF run(1)] by (rule r_into_rtranclp)
  also have "hub_step\<^sup>*\<^sup>* \<dots> (wm_now ev, ?s, (?k, Refreshed) # ts)"
    using hub_step.store [where s = s' and xs = "[]" and ys = ts and k = ?k, OF refl]
    by (simp add: r_into_rtranclp)
  also have "hub_step\<^sup>*\<^sup>* \<dots> (wm_now ev, release_refresh ?k ?s, ts)"
    using hub_step.finish [of "wm_now ev" ?s "[]" ?k ts] by (simp add: r_into_rtranclp)
  finally show ?thesis by (simp only: run(2))
qed simp

lemma store_poster_hub [simp]: "ws_hub (store_poster ev k f ws) = ws_hub ws"
  by (simp add: store_poster_def split: prod.split)

interpretation warm_runs: warm_relation ev
  "\<lambda>a b. hub_step\<^sup>*\<^sup>* (wm_now ev, ws_hub a, ts) (wm_now ev, ws_hub b, ts)" for ev ts
  by unfold_locales (simp_all add: warm_hub_runs)

subsection \<open>A cycle writes only its own keys\<close>

definition warm_writes :: "warm_env \<Rightarrow> web_state \<Rightarrow> web_state \<Rightarrow> bool" where
  "warm_writes ev a b \<longleftrightarrow>
     (\<forall>k. hs_payloads (ws_hub b) k \<noteq> hs_payloads (ws_hub a) k \<longrightarrow>
        (\<exists>t p. may_warm ev t p \<and> k = warm_key ev t p))
     \<and> (\<forall>k. map_of (ws_photos b) k \<noteq> map_of (ws_photos a) k \<longrightarrow>
        map_of (ws_photos a) k = None
        \<and> (\<exists>t thumb. t \<in> set (warm_token_list (wm_config ev)) \<and> k = poster_key ev t thumb))"

lemma warm_hub_payloads:
  "k \<noteq> warm_key ev t p \<Longrightarrow> hs_payloads (fst (warm_hub ev t p (s, w))) k = hs_payloads s k"
  by (cases rule: warm_hub_cases [of ev t p s w])
    (auto simp: hub_defs split: option.splits if_splits)

lemma warm_writes_trans: "warm_writes ev a b \<Longrightarrow> warm_writes ev b c \<Longrightarrow> warm_writes ev a c"
  unfolding warm_writes_def by metis

interpretation warm_own: warm_relation ev "warm_writes ev" for ev
proof unfold_locales
  show "warm_writes ev ws ws" for ws by (simp add: warm_writes_def)
  show "warm_writes ev a b \<Longrightarrow> warm_writes ev b c \<Longrightarrow> warm_writes ev a c" for a b c
    by (rule warm_writes_trans)
  show "warm_writes ev ws (ws\<lparr>ws_hub := fst (warm_hub ev t p (ws_hub ws, w))\<rparr>)"
    if "may_warm ev t p" for t p ws w
  proof -
    have "k = warm_key ev t p"
      if "hs_payloads (fst (warm_hub ev t p (ws_hub ws, w))) k \<noteq> hs_payloads (ws_hub ws) k" for k
      using that warm_hub_payloads by blast
    with that show ?thesis unfolding warm_writes_def by auto
  qed
  show "warm_writes ev ws (store_poster ev (poster_key ev t thumb) f ws)"
    if "t \<in> set (warm_token_list (wm_config ev))" "map_of (ws_photos ws) (poster_key ev t thumb) = None"
    for t ws thumb f
    using that by (auto simp: warm_writes_def store_poster_def update_conv' split: prod.split)
  show "warm_writes ev ws (ws\<lparr>ws_disk := warm_section ev t sec starts (ws_disk ws)\<rparr>)" for t sec starts ws
    by (simp add: warm_writes_def)
qed

lemma warm_cycle_foreign:
  assumes "hex_digest (wm_sha ev)"
    and "\<And>t. t \<in> set (warm_token_list (wm_config ev)) \<Longrightarrow>
      token_scope (wm_sha ev) (Some t) \<noteq> token_scope (wm_sha ev) u"
  shows "\<not> global_hub p \<Longrightarrow>
      hs_payloads (ws_hub (warm_cycle ev ws)) (hub_cache_key (wm_sha ev) p u)
      = hs_payloads (ws_hub ws) (hub_cache_key (wm_sha ev) p u)"
    and "map_of (ws_photos (warm_cycle ev ws)) (photo_cache_key_for (wm_sha ev) (wm_urls ev) raw u)
      = map_of (ws_photos ws) (photo_cache_key_for (wm_sha ev) (wm_urls ev) raw u)"
proof -
  have w: "warm_writes ev ws (warm_cycle ev ws)" by (rule warm_own.cycle)
  show "hs_payloads (ws_hub (warm_cycle ev ws)) (hub_cache_key (wm_sha ev) p u)
      = hs_payloads (ws_hub ws) (hub_cache_key (wm_sha ev) p u)" if "\<not> global_hub p"
  proof (rule ccontr)
    assume "\<not> ?thesis"
    with w obtain t q where t: "may_warm ev t q" "hub_cache_key (wm_sha ev) p u = warm_key ev t q"
      unfolding warm_writes_def by blast
    let ?r = "cache_key_for_request (wm_request ev (warm_fetch_path q))"
    have ne: "token_scope (wm_sha ev) (Some t) \<noteq> token_scope (wm_sha ev) u"
      using assms(2) t(1) by (simp add: may_warm_def)
    show False
    proof (cases "global_hub ?r")
      case True
      with t(2) \<open>\<not> global_hub p\<close> show False
        by (simp add: warm_key_def hub_key_global hub_key_scoped)
    next
      case False
      with that hub.isolated [OF assms(1), of "Abs_scoped_path p" u "Abs_scoped_path ?r" "Some t"] t(2) ne
      show False by (auto simp: warm_key_def Abs_scoped_path_inverse)
    qed
  qed
  show "map_of (ws_photos (warm_cycle ev ws)) (photo_cache_key_for (wm_sha ev) (wm_urls ev) raw u)
      = map_of (ws_photos ws) (photo_cache_key_for (wm_sha ev) (wm_urls ev) raw u)"
  proof (rule ccontr)
    assume "\<not> ?thesis"
    with w obtain t thumb where "t \<in> set (warm_token_list (wm_config ev))"
      "photo_cache_key_for (wm_sha ev) (wm_urls ev) raw u = poster_key ev t thumb"
      unfolding warm_writes_def by blast
    with photo.isolated [OF assms(1)] assms(2) show False by (metis poster_key_def)
  qed
qed

subsection \<open>What was fetched is there\<close>

lemma warm_hub_inflight: "set (hs_inflight (fst (warm_hub ev t p (s, w)))) = set (hs_inflight s)"
  by (cases rule: warm_hub_cases [of ev t p s w])
    (auto simp: claim_refresh_def release_refresh_def split: if_splits)

lemma warm_hub_stores:
  assumes "fetch_hubs_payload (hub_upstream ev t) (warm_fetch_path p) = Some payload"
    and "warm_key ev t p \<notin> set (hs_inflight s)"
  shows "hs_payloads (fst (warm_hub ev t p (s, w))) (warm_key ev t p) = Some payload"
  using assms by (simp add: warm_hub_def Let_def hub_defs)

lemma warm_hub_keeps:
  "hs_payloads s k \<noteq> None \<Longrightarrow> hs_payloads (fst (warm_hub ev t p (s, w))) k \<noteq> None"
  using hub_run_keeps_payloads [OF warm_hub_runs [of ev s "[]" t p w]] by simp

lemma warm_hubs_fold:
  assumes "fetch_hubs_payload (hub_upstream ev t) (warm_fetch_path p) = Some payload"
    and "warm_key ev t p \<notin> set (hs_inflight s)"
    and "p \<in> set paths \<or> hs_payloads s (warm_key ev t p) \<noteq> None"
  shows "hs_payloads (fst (foldl (\<lambda>acc p. warm_hub ev t p acc) (s, w) paths)) (warm_key ev t p) \<noteq> None"
  using assms(2,3)
proof (induction paths arbitrary: s w)
  case (Cons q paths)
  obtain s' w' where s': "warm_hub ev t q (s, w) = (s', w')" by fastforce
  have "warm_key ev t p \<notin> set (hs_inflight s')"
    using Cons.prems(1) warm_hub_inflight [of ev t q s w] s' by simp
  moreover have "p \<in> set paths \<or> hs_payloads s' (warm_key ev t p) \<noteq> None"
    using Cons.prems s' warm_hub_keeps [of s "warm_key ev t p" ev t q w]
      warm_hub_stores [OF assms(1) Cons.prems(1), of w] by auto
  ultimately show ?case using Cons.IH s' by simp
qed simp

lemma warm_posters_hub [simp]: "ws_hub (warm_posters ev t items budget ws) = ws_hub ws"
  by (induction items arbitrary: budget ws) (auto simp: Let_def split: option.splits)

lemma warmed_global:
  assumes "cf_warm_interval (wm_config ev) \<noteq> 0" "cf_host (wm_config ev) \<noteq> None"
    and "first_opt (warm_token_list (wm_config ev)) = Some t"
    and "p \<in> set (warm_paths ev t)" "is_global_warm_path p"
    and "fetch_hubs_payload (hub_upstream ev t) (warm_fetch_path p) = Some payload"
    and "warm_key ev t p \<notin> set (hs_inflight (ws_hub ws))"
  shows "hs_payloads (ws_hub (warm_cycle ev ws)) (warm_key ev t p) \<noteq> None"
proof -
  let ?ts = "warm_token_list (wm_config ev)" and ?k = "warm_key ev t p"
  let ?ps = "filter is_global_warm_path (warm_paths ev t)"
  have ok: "client_error (wm_config ev) (warm_context t) = None"
    using assms(2) by (simp add: client_error_def warm_context_def)
  obtain s w where f: "foldl (\<lambda>acc p. warm_hub ev t p acc) (ws_hub ws, []) ?ps = (s, w)" by fastforce
  have "hs_payloads s ?k \<noteq> None"
    using warm_hubs_fold [OF assms(6,7), of ?ps "[]"] assms(4,5) f by simp
  moreover have "?ps \<noteq> []" using assms(4,5) by (auto simp: filter_empty_conv)
  ultimately have g: "hs_payloads (ws_hub (warm_globals ev ?ts ws)) ?k \<noteq> None"
    using ok f assms(3) by (simp add: warm_globals_def warm_hubs_for_token_def)
  have acc: "hs_payloads (ws_hub (warm_account ev u x)) ?k \<noteq> None"
    if "u \<in> set ?ts" "hs_payloads (ws_hub x) ?k \<noteq> None" for u x
    using hub_run_keeps_payloads [OF warm_runs.account [where ts = "[]", OF that(1)]] that(2) by simp
  have "hs_payloads (ws_hub (foldl (\<lambda>w t. warm_account ev t w) x us)) ?k \<noteq> None"
    if "set us \<subseteq> set ?ts" "hs_payloads (ws_hub x) ?k \<noteq> None" for us x
    using that
  proof (induction us arbitrary: x)
    case (Cons u us)
    then show ?case using Cons.IH [of "warm_account ev u x"] acc [of u x] by (simp del: not_None_eq)
  qed simp
  from this [OF subset_refl g] assms(1,3) show ?thesis
    by (cases "?ts = []") (simp_all add: warm_cycle_def Let_def first_opt_def)
qed

subsection \<open>Bounds\<close>

lemma store_poster_length: "length (ws_photos (store_poster ev k f ws)) \<le> length (ws_photos ws) + 1"
proof -
  have "length (AList.update k v c) \<le> length c + 1" for v :: cached_image and c
    by (induction c) auto
  then show ?thesis by (auto simp: store_poster_def split: prod.split)
qed

lemma warm_posters_budget:
  "length (ws_photos (warm_posters ev t items budget ws)) \<le> length (ws_photos ws) + budget"
proof (induction items arbitrary: budget ws)
  case (Cons it items)
  have "length (ws_photos (warm_posters ev t items (budget - Suc 0) (store_poster ev k f ws)))
      \<le> length (ws_photos ws) + budget" if "0 < budget" for k f
    using Cons.IH [of "budget - Suc 0" "store_poster ev k f ws"] store_poster_length [of ev k f ws] that
    by linarith
  then show ?case by (auto simp: Let_def Cons.IH split: option.splits)
qed simp

lemma warm_hubs_photos:
  "length (ws_photos (warm_hubs_for_token ev paths t ws)) \<le> length (ws_photos ws) + poster_budget"
proof -
  obtain s w where "foldl (\<lambda>acc p. warm_hub ev t p acc) (ws_hub ws, []) paths = (s, w)" by fastforce
  then show ?thesis
    using warm_posters_budget [of ev t "poster_items w" poster_budget "ws\<lparr>ws_hub := s\<rparr>"]
    by (simp add: warm_hubs_for_token_def)
qed

lemma warm_pages_photos [simp]: "ws_photos (warm_library_pages ev t ws) = ws_photos ws"
  by (simp add: warm_library_pages_def split: option.split)

lemma warm_cycle_photos:
  "length (ws_photos (warm_cycle ev ws))
   \<le> length (ws_photos ws) + poster_budget * (1 + length (warm_token_list (wm_config ev)))"
proof -
  have g: "length (ws_photos (warm_globals ev ts ws)) \<le> length (ws_photos ws) + poster_budget" for ts
    using warm_hubs_photos [of ev _ _ ws]
    by (auto simp: warm_globals_def Let_def split: option.split)
  have a: "length (ws_photos (warm_account ev t x)) \<le> length (ws_photos x) + poster_budget" for t x
    using warm_hubs_photos [of ev _ t x] by (auto simp: warm_account_def Let_def)
  have f: "length (ws_photos (foldl (\<lambda>w t. warm_account ev t w) x ts))
      \<le> length (ws_photos x) + poster_budget * length ts" for x ts
  proof (induction ts arbitrary: x)
    case (Cons t ts)
    show ?case using Cons.IH [of "warm_account ev t x"] a [of t x] by simp
  qed simp
  show ?thesis
    using f [of "warm_globals ev (warm_token_list (wm_config ev)) ws" "warm_token_list (wm_config ev)"]
      g [of "warm_token_list (wm_config ev)"]
    by (simp add: warm_cycle_def Let_def)
qed

end
