(* ===== verification/Background_Properties.thy ===== *)
theory Background_Properties
  imports Cache_Properties Hub_Routes Warmer Plex_Client
begin

text \<open>
  The properties of the hub cache with its refreshes and its warmer (\<open>src/hub_cache.rs\<close>), of the
  background jobs (\<open>src/jobs.rs\<close>), and of the rows that are merged (\<open>src/transform/\<close>).
\<close>

section \<open>Hub payloads and background work\<close>

text \<open>C24. However the background refreshes, the warmer, foreground fetches and invalidations
  interleave, no two tasks hold the claim of one hub key, and the keys marked as in flight are
  exactly the claimed ones: nothing is refreshed twice at a time and no claim is left behind.\<close>

theorem one_refresh_per_hub:
  assumes "hub_reachable (now, s, ts)"
  shows "distinct (claimed ts) \<and> set (claimed ts) = set (hs_inflight s)"
  using hub_reachable_inv [OF assms] by (simp add: flight_inv_def)

theorem one_refresh_per_hub_witness:
  "\<exists>s ts. hub_reachable (5, s, ts) \<and> claimed ts = [''k''] \<and> set (hs_inflight s) = {''k''}"
proof -
  have claim: "claim_refresh ''k'' initial_hub = (True, initial_hub\<lparr>hs_inflight := [''k'']\<rparr>)"
    by (simp add: claim_refresh_def initial_hub_def)
  have "hub_reachable (5, initial_hub\<lparr>hs_inflight := [''k'']\<rparr>, [(''k'', Recorded)])"
    by (rule hub_reachable.step [OF hub_reachable.start hub_step.warm_claim [OF claim]])
  moreover from one_refresh_per_hub [OF this]
  have "set (hs_inflight (initial_hub\<lparr>hs_inflight := [''k'']\<rparr>)) = {''k''}" by simp
  ultimately show ?thesis by (intro exI conjI) (assumption, simp_all)
qed



definition demo_hub_env :: hub_env where
  "demo_hub_env = \<lparr>he_config = demo_config\<lparr>cf_hub_stale_ttl := 0\<rparr>, he_context = default_context,
     he_sha = demo_sha, he_current = Some (demo_policy, demo_user), he_client_ok = True, he_skip = True,
     he_hubs = (\<lambda>_. Response 200 (Some demo_item)), he_collection = (\<lambda>_. None),
     he_sections = (\<lambda>_. None), he_children = (\<lambda>_. None), he_request = (\<lambda>_. NoResponse), he_now = 0\<rparr>"

text \<open>C26. The background work is a run of the interleaved hub cache: a refresh that the code spawns,
  when no one holds its key (check, claim, attempt, fetch, release), and a whole cycle of the warmer,
  from any state and beside any other tasks, are sequences of its steps, so all that holds of the runs
  (C24, C25) holds of them. A key whose last attempt is less than the interval ago is left alone.\<close>

theorem background_work_is_a_run:
  shows "(k \<notin> set (hs_inflight s) \<longrightarrow>
      hub_step\<^sup>*\<^sup>* (now, s, ts) (now, spawn_hub_refresh get now path k s, ts))
    \<and> (\<forall>t. hs_last_attempt s k = Some t \<and> now < t + refresh_min_interval \<longrightarrow>
         spawn_hub_refresh get now path k s = s)
    \<and> hub_step\<^sup>*\<^sup>* (wm_now ev, ws_hub ws, ts) (wm_now ev, ws_hub (warm_cycle ev ws), ts)"
  using spawn_refines [of k s now ts get path] spawn_rate_limit warm_runs.cycle by blast

theorem background_work_is_a_run_witness:
  "hub_step\<^sup>*\<^sup>* (0, initial_hub, []) (0, spawn_hub_refresh (\<lambda>_. Failed) 0 ''/hubs'' ''k'' initial_hub, [])"
  using background_work_is_a_run [of "''k''" initial_hub 0 "[]" "\<lambda>_. Failed" "''/hubs''"]
  by (simp add: initial_hub_def)

definition demo_warm :: warm_env where
  "demo_warm = \<lparr>wm_config = demo_config\<lparr>cf_token := Some ''alice''\<rparr>, wm_sha = demo_sha,
     wm_urls = demo_urls, wm_dir = ''/data'', wm_max = 1000, wm_io = demo_io,
     wm_request = (\<lambda>raw. \<lparr>rq_method = ''GET'', rq_path = url_path_getter raw, rq_query = [],
                           rq_headers = [], rq_absolute = False\<rparr>),
     wm_get = (\<lambda>_ path. Some \<lparr>pr_status = 200, pr_type = None,
                 pr_body = Some (if path = ''/library/sections'' then [2] else [1])\<rparr>),
     wm_container = (\<lambda>bs. if bs = [1] then Some demo_item else None),
     wm_sections = (\<lambda>bs. if bs = [2] then Some [''1''] else None), wm_now = 7\<rparr>"

definition demo_ws :: web_state where
  "demo_ws = demo_web []"

lemma demo_warm_tokens: "warm_token_list (wm_config demo_warm) = [''alice'']"
  by (simp add: warm_token_list_def demo_warm_def demo_config_def default_config_def)







section \<open>Presentation\<close>



end
