(* ===== verification/Policy_Properties.thy ===== *)
theory Policy_Properties
  imports Playback_Properties Cache_Properties Plex_Client
begin

text \<open>
  The properties of who is asking (\<open>src/plex_client.rs\<close>, \<open>src/auth/context.rs\<close>) and of the
  policy and the choice of versions (\<open>src/resolution_policy.rs\<close>, \<open>src/playback_selection.rs\<close>).
\<close>

section \<open>Who is asking\<close>


definition demo_bases :: base_urls where
  "demo_bases = \<lparr>bu_parse = (\<lambda>_. None), bu_print = (\<lambda>_. [])\<rparr>"


text \<open>C32. One request, one policy: the policy that playback, the stream gate and the filtering of a
  response enforce is the one that the rules gave, when the middleware ran, to the account of the
  request's token, however often the policy has been reloaded since. (A reload that switches the
  policy on or off is refused, C40.)\<close>

theorem enforced_policy_is_the_accounts:
  assumes "fst (security_context_middleware sha api c snap path rc st) = Some (Resolved sc)"
    and "\<forall>next_c \<in> set cs. cf_resolution_policy_enabled next_c = ps_enabled snap"
    and "ev_security ev = Some (Resolved sc)" "ev_snapshot ev = reloads cs snap" "ev_client_ok ev"
    and "st_security sv = Some (Resolved sc)" "st_snapshot sv = Some (reloads cs snap)"
    and "st_config sv \<noteq> None" "st_upstream sv \<noteq> None" "st_client_ok sv"
  shows "\<exists>r p. fst (get_current_identity sha api c (rc_upstream_host rc) (rc_plex rc) st) = Inr r
    \<and> p = resolve_policy (ps_entries snap) (ps_default_limit snap) (ps_hidden_collections snap) (ri_identity r)
    \<and> enforced_policy ev = Some p \<and> gate_policy sv = Some p
    \<and> current_policy (reloads cs snap) (Some sc) None (Inr r) = Some (p, ri_identity r)"
proof -
  note s = security_resolved [OF assms(1)]
  have "ps_enabled (reloads cs snap)" using reloads_enabled [OF assms(2)] s(4) by simp
  with s assms(3-10) show ?thesis
    by (auto simp: enforced_policy_def gate_policy_def current_policy_def)
qed

definition demo_api :: identity_api where
  "demo_api = \<lparr>ia_user = (\<lambda>_ _ _. NoReply), ia_resources = (\<lambda>_ _ _. NoReply),
     ia_shared_servers = (\<lambda>_ _ _ _. NoReply), ia_root = (\<lambda>_. NoReply), ia_header_ok = (\<lambda>_. True)\<rparr>"

definition demo_context :: request_ctx where
  "demo_context = \<lparr>rc_plex = default_context\<lparr>cx_token := Some ''alice''\<rparr>,
     rc_upstream_host = ''http://plex:32400'', rc_request_id = 0, rc_token_scope = ''s''\<rparr>"

definition demo_resolved :: resolved_identity where
  "demo_resolved = \<lparr>ri_identity = demo_user, ri_source = VerifiedPlex\<rparr>"

definition demo_identities :: identity_state where
  "demo_identities = \<lparr>id_identities = [demo_sha ''alice'' \<mapsto> demo_resolved], id_machines = Map.empty\<rparr>"

lemma demo_identity:
  "get_current_identity demo_sha demo_api demo_config ''http://plex:32400''
     (rc_plex demo_context) demo_identities = (Inr demo_resolved, demo_identities)"
  by (rule get_identity_cached)
    (simp_all add: demo_context_def demo_identities_def token_fingerprint_def)

definition demo_next :: config where
  "demo_next = demo_config\<lparr>cf_resolution_policy_enabled := True, cf_resolution_default := P480\<rparr>"

theorem enforced_policy_is_the_accounts_witness:
  "\<exists>sc. fst (security_context_middleware demo_sha demo_api demo_config demo_snapshot ''/video/x''
       demo_context demo_identities) = Some (Resolved sc)
     \<and> enforced_policy (demo_play\<lparr>ev_security := Some (Resolved sc), ev_snapshot := reloads [demo_next] demo_snapshot\<rparr>)
         = Some \<lparr>rp_limit = P1080, rp_max_bitrate = None, rp_hidden_collections = []\<rparr>
     \<and> ps_default_limit (reloads [demo_next] demo_snapshot) = P480"
proof -
  have "requires_security_context ''/video/x''" by code_simp
  then obtain sc where sc: "fst (security_context_middleware demo_sha demo_api demo_config demo_snapshot
      ''/video/x'' demo_context demo_identities) = Some (Resolved sc)"
    using demo_identity
    by (simp add: security_context_middleware_def client_error_def)
      (simp add: demo_context_def demo_config_def)
  let ?later = "reloads [demo_next] demo_snapshot"
  have same: "\<forall>c \<in> set [demo_next]. cf_resolution_policy_enabled c = ps_enabled demo_snapshot"
    by (simp add: demo_next_def demo_snapshot_def)
  have "enforced_policy (demo_play\<lparr>ev_security := Some (Resolved sc), ev_snapshot := ?later\<rparr>)
      = Some (resolve_policy [] P1080 [] demo_user)"
    using enforced_policy_is_the_accounts [OF sc same,
        of "demo_play\<lparr>ev_security := Some (Resolved sc), ev_snapshot := ?later\<rparr>"
           "demo_stream\<lparr>st_security := Some (Resolved sc), st_snapshot := Some ?later\<rparr>"] demo_identity
    by (simp add: demo_context_def) (simp add: demo_snapshot_def demo_resolved_def demo_stream_def demo_play_def)
  moreover have "ps_default_limit ?later = P480"
    by (simp add: reloads_def reload_store_def snapshot_from_config_def demo_next_def Let_def)
  ultimately show ?thesis
    using sc by (simp add: resolve_policy_def matching_entry_def)
qed



section \<open>Policies and the choice of versions\<close>

text \<open>C34. The policy of an account comes from a rule that names its uuid, else from one that names its
  user name, else it is the default limit without a cap; the collections hidden from it are
  among the configured ones.\<close>

theorem policy_comes_from_the_matching_rule:
  "(case matching_entry ps i of
      Some e \<Rightarrow> e \<in> set ps \<and> rp_limit (resolve_policy ps d hid i) = pe_max_resolution e
        \<and> rp_max_bitrate (resolve_policy ps d hid i) = pe_max_bitrate e
        \<and> (pe_uuid e = Some (ui_uuid i)
           \<or> pe_username e = Some (ui_username i) \<and> (\<forall>p \<in> set ps. pe_uuid p \<noteq> Some (ui_uuid i)))
    | None \<Rightarrow> rp_limit (resolve_policy ps d hid i) = d \<and> rp_max_bitrate (resolve_policy ps d hid i) = None
        \<and> (\<forall>p \<in> set ps. pe_uuid p \<noteq> Some (ui_uuid i) \<and> pe_username p \<noteq> Some (ui_username i)))
   \<and> set (rp_hidden_collections (resolve_policy ps d hid i)) \<subseteq> set hid"
proof (cases "matching_entry ps i")
  case None
  then show ?thesis
    using resolve_policy_fields [of ps d hid i] matching_entry_None [of ps i] by simp
next
  case (Some e)
  have "pe_uuid e = Some (ui_uuid i)
      \<or> pe_username e = Some (ui_username i) \<and> (\<forall>p \<in> set ps. pe_uuid p \<noteq> Some (ui_uuid i))"
  proof (cases "find (\<lambda>p. pe_uuid p = Some (ui_uuid i)) ps")
    case None
    with Some have "find (\<lambda>p. pe_username p = Some (ui_username i)) ps = Some e"
      by (simp add: matching_entry_def)
    from find_SomeD [OF this] None show ?thesis by (auto simp: find_None_iff)
  next
    case (Some x)
    then show ?thesis using \<open>matching_entry ps i = Some e\<close> find_SomeD by (fastforce simp: matching_entry_def)
  qed
  then show ?thesis
    using Some resolve_policy_fields [of ps d hid i] matching_entry_in [OF Some] by simp
qed

definition demo_rules :: "policy_entry list" where
  "demo_rules =
     [\<lparr>pe_username = Some ''kid'', pe_uuid = None, pe_max_resolution = P480, pe_max_bitrate = None,
       pe_visible_collections = []\<rparr>,
      \<lparr>pe_username = None, pe_uuid = Some ''u3'', pe_max_resolution = P720, pe_max_bitrate = Some 4000,
       pe_visible_collections = []\<rparr>]"

theorem policy_comes_from_the_matching_rule_witness:
  "rp_limit (resolve_policy demo_rules Unlimited [] demo_user) = P720"
proof -
  have "matching_entry demo_rules demo_user = Some (demo_rules ! 1)"
    by (simp add: matching_entry_def demo_rules_def demo_user_def)
  with policy_comes_from_the_matching_rule [where ps = demo_rules and i = demo_user and d = Unlimited and hid = "[]"]
  have "rp_limit (resolve_policy demo_rules Unlimited [] demo_user) = pe_max_resolution (demo_rules ! 1)"
    by simp
  then show ?thesis by (simp only:) (simp add: demo_rules_def)
qed





text \<open>The candidates of the transcode fallback are exactly the other versions with another
  resolution label that the policy permits, each once, the densest first.\<close>

theorem fallback_candidates:
  "set (fallback_indexes ms sel fr pol) =
     {i. i < length ms \<and> i \<noteq> sel
       \<and> (case m_video_resolution (ms ! i) of Some v \<Rightarrow> \<not> eq_ignore_case v fr | None \<Rightarrow> False)
       \<and> (case pol of Some p \<Rightarrow> media_allowed (ms ! i) p | None \<Rightarrow> True)}
   \<and> distinct (fallback_indexes ms sel fr pol)
   \<and> sorted (map (\<lambda>i. - int (unwrap_or (density (ms ! i)) 0)) (fallback_indexes ms sel fr pol))"
proof -
  have "set (fallback_indexes ms sel fr pol) = {i. i < length ms \<and> fallback_candidate sel fr pol (i, ms ! i)}"
    using fallback_indexes_set by blast
  then show ?thesis
    by (simp add: fallback_candidate_def fallback_indexes_distinct fallback_indexes_sorted
        cong: option.case_cong)
qed

end
