(* ===== verification/Admin.thy ===== *)
theory Admin
  imports Playback Cached_Routes Metrics
begin

text \<open>
  The administration routes of \<open>src/routes.rs\<close>: the authorisation by the configured token, the
  readiness probe, the cache purge, the policy reload, and the playback explanation.

  The caches of a running server are association lists; iterating one visits each of its keys.
  A reply keeps what the JSON of the source carries.
\<close>

subsection \<open>State and replies\<close>

record admin_state =
  ad_metadata :: "(string \<times> media_container) list"
  ad_identity :: "(string \<times> resolved_identity) list"
  ad_parts :: "(i64 \<times> part_classification) list"
  ad_photos :: "(string \<times> cached_image) list"
  ad_global :: "(string \<times> bytes) list"
  ad_disk :: disk
  ad_policy :: policy_snapshot
  ad_jobs :: job_snapshot
  ad_metrics :: metrics

text \<open>\<open>am_state\<close> is whether the application state is in the depot, \<open>am_token\<close> the token and
  \<open>am_scope\<close> the token scope of the request context, which may be missing.\<close>

record admin_env =
  am_state :: bool
  am_config :: config
  am_context :: "plex_context option"

text \<open>The body of a readiness answer, whose status is 200 when ready and 503 otherwise: whether Plex
  answered with a success, its status, the entries of the metadata, identity and part caches, the
  bytes on disk, the jobs, and the policy.\<close>

record readiness_report =
  rd_ready :: bool
  rd_plex :: "nat option"
  rd_metadata :: nat
  rd_identity :: nat
  rd_parts :: nat
  rd_disk_bytes :: nat
  rd_jobs :: job_snapshot
  rd_policy :: policy_snapshot

datatype admin_reply =
  AdminStatus nat | Alive | Ready readiness_report | Exposition string
| Counts "nat list" | Purged string nat | PurgeRefused | ReloadRefused nat
| Reloaded policy_snapshot

subsection \<open>Authorisation\<close>

definition admin_authorized :: "(string \<Rightarrow> string) \<Rightarrow> admin_env \<Rightarrow> bool" where
  "admin_authorized sha ev =
     (am_state ev
      \<and> (case am_context ev of
           None \<Rightarrow> False
         | Some cx \<Rightarrow>
             (case (cf_token (am_config ev), cx_token cx) of
                (Some configured, Some presented) \<Rightarrow>
                  token_fingerprint sha configured = token_fingerprint sha presented
              | _ \<Rightarrow> False)))"

definition require_admin ::
  "(string \<Rightarrow> string) \<Rightarrow> admin_env \<Rightarrow> (admin_state \<Rightarrow> admin_reply \<times> admin_state) \<Rightarrow> admin_state
   \<Rightarrow> admin_reply \<times> admin_state" where
  "require_admin sha ev act st = (if admin_authorized sha ev then act st else (AdminStatus 403, st))"

subsection \<open>Probes\<close>

definition liveness :: admin_reply where "liveness = Alive"

text \<open>\<open>probe\<close> is the status of a request with a URL and a token; no answer is \<open>None\<close>.\<close>

definition readiness_action ::
  "admin_env \<Rightarrow> (string \<Rightarrow> string option \<Rightarrow> nat option) \<Rightarrow> admin_state \<Rightarrow> admin_reply \<times> admin_state" where
  "readiness_action ev probe st =
     (case cf_host (am_config ev) of
        None \<Rightarrow> (AdminStatus 503, st)
      | Some host \<Rightarrow>
          (let status = probe (trim_end_of CHR ''/'' host @ ''/:/identity'') (cf_token (am_config ev));
               ready = (case status of Some s \<Rightarrow> 200 \<le> s \<and> s < 300 | None \<Rightarrow> False)
           in (Ready \<lparr>rd_ready = ready, rd_plex = status, rd_metadata = length (ad_metadata st),
                 rd_identity = length (ad_identity st), rd_parts = length (ad_parts st),
                 rd_disk_bytes = dk_size (ad_disk st), rd_jobs = ad_jobs st, rd_policy = ad_policy st\<rparr>,
               if ready then st else st\<lparr>ad_metrics := upstream_failure (ad_metrics st)\<rparr>)))"

definition readiness ::
  "(string \<Rightarrow> string) \<Rightarrow> admin_env \<Rightarrow> (string \<Rightarrow> string option \<Rightarrow> nat option) \<Rightarrow> admin_state
   \<Rightarrow> admin_reply \<times> admin_state" where
  "readiness sha ev probe st = require_admin sha ev (readiness_action ev probe) st"

definition metrics_route ::
  "(string \<Rightarrow> string) \<Rightarrow> admin_env \<Rightarrow> admin_state \<Rightarrow> admin_reply \<times> admin_state" where
  "metrics_route sha ev st =
     require_admin sha ev (\<lambda>s. (Exposition (prometheus (ad_metrics s)), s)) st"

definition cache_status ::
  "(string \<Rightarrow> string) \<Rightarrow> admin_env \<Rightarrow> admin_state \<Rightarrow> admin_reply \<times> admin_state" where
  "cache_status sha ev st =
     require_admin sha ev
       (\<lambda>s. (Counts [length (ad_metadata s), length (ad_identity s), length (ad_parts s),
                     length (ad_photos s), length (ad_global s), dk_size (ad_disk s)], s)) st"

subsection \<open>Purging\<close>

definition scope_marker :: "string \<Rightarrow> string" where
  "scope_marker scope = '':u:'' @ scope @ '':''"

definition purge_scope :: "string \<Rightarrow> (string \<times> 'a) list \<Rightarrow> (string \<times> 'a) list \<times> nat" where
  "purge_scope scope cache =
     (filter (\<lambda>(k, _). \<not> contains k (scope_marker scope)) cache,
      length (filter (\<lambda>(k, _). contains k (scope_marker scope)) cache))"

definition request_scope :: "(string \<Rightarrow> string) \<Rightarrow> admin_env \<Rightarrow> string" where
  "request_scope sha ev =
     (case am_context ev of Some cx \<Rightarrow> token_scope sha (cx_token cx) | None \<Rightarrow> ''anon'')"

text \<open>\<open>cleared\<close> is the outcome of \<open>disk_cache::clear_all\<close>, which may fail to read the directory.\<close>

definition purge_action ::
  "(string \<Rightarrow> string) \<Rightarrow> admin_env \<Rightarrow> string \<Rightarrow> bool \<Rightarrow> (disk \<Rightarrow> (nat \<times> disk) option) \<Rightarrow> admin_state
   \<Rightarrow> admin_reply \<times> admin_state" where
  "purge_action sha ev class all_accounts cleared st =
     (if class = ''metadata'' then
        (if all_accounts then (Purged class (length (ad_metadata st)), st\<lparr>ad_metadata := []\<rparr>)
         else (case purge_scope (request_scope sha ev) (ad_metadata st) of
                 (kept, n) \<Rightarrow> (Purged class n, st\<lparr>ad_metadata := kept\<rparr>)))
      else if class = ''identity'' then
        (if all_accounts then (Purged class (length (ad_identity st)), st\<lparr>ad_identity := []\<rparr>)
         else (case Option.bind (am_context ev) cx_token of
                 Some t \<Rightarrow>
                   (Purged class 1,
                    st\<lparr>ad_identity := AList.delete (token_fingerprint sha t) (ad_identity st)\<rparr>)
               | None \<Rightarrow> (Purged class 0, st)))
      else if class = ''photos'' then
        (if all_accounts then (Purged class (length (ad_photos st)), st\<lparr>ad_photos := []\<rparr>)
         else (case purge_scope (request_scope sha ev) (ad_photos st) of
                 (kept, n) \<Rightarrow> (Purged class n, st\<lparr>ad_photos := kept\<rparr>)))
      else if class = ''parts'' \<and> all_accounts then
        (Purged class (length (ad_parts st)), st\<lparr>ad_parts := []\<rparr>)
      else if class = ''global'' \<and> all_accounts then
        (Purged class (length (ad_global st)), st\<lparr>ad_global := []\<rparr>)
      else if class = ''disk'' \<and> all_accounts then
        (case cleared (ad_disk st) of
           Some (n, d) \<Rightarrow> (Purged class n, st\<lparr>ad_disk := d\<rparr>)
         | None \<Rightarrow> (AdminStatus 500, st))
      else if class \<in> {''parts'', ''global'', ''disk''} then (PurgeRefused, st)
      else (AdminStatus 404, st))"

definition cache_purge ::
  "(string \<Rightarrow> string) \<Rightarrow> admin_env \<Rightarrow> string option \<Rightarrow> string option
   \<Rightarrow> (disk \<Rightarrow> (nat \<times> disk) option) \<Rightarrow> admin_state \<Rightarrow> admin_reply \<times> admin_state" where
  "cache_purge sha ev class account cleared st =
     require_admin sha ev
       (purge_action sha ev (unwrap_or class []) (account = Some ''all'') cleared) st"

subsection \<open>Reloading the policy\<close>

text \<open>\<open>extracted\<close> is the configuration as it reads now, \<open>valid\<close> the outcome of its validation.\<close>

definition reload_action ::
  "admin_env \<Rightarrow> config option \<Rightarrow> (config \<Rightarrow> bool) \<Rightarrow> admin_state \<Rightarrow> admin_reply \<times> admin_state" where
  "reload_action ev extracted valid st =
     (case extracted of
        None \<Rightarrow> (ReloadRefused 400, st)
      | Some next_c \<Rightarrow>
          (if \<not> valid next_c then (ReloadRefused 400, st)
           else if cf_resolution_policy_enabled next_c \<noteq> cf_resolution_policy_enabled (am_config ev)
           then (ReloadRefused 409, st)
           else (case reload_store next_c (ad_policy st) of
                   (snap, stored) \<Rightarrow> (Reloaded snap, st\<lparr>ad_policy := stored\<rparr>))))"

definition policy_reload ::
  "(string \<Rightarrow> string) \<Rightarrow> admin_env \<Rightarrow> config option \<Rightarrow> (config \<Rightarrow> bool) \<Rightarrow> admin_state
   \<Rightarrow> admin_reply \<times> admin_state" where
  "policy_reload sha ev extracted valid st =
     require_admin sha ev (reload_action ev extracted valid) st"

subsection \<open>Explaining playback\<close>

record version_note =
  vn_index :: nat
  vn_id :: i64
  vn_resolution :: "string option"
  vn_width :: "i64 option"
  vn_height :: "i64 option"
  vn_allowed :: "bool option"
  vn_rejection :: "string option"

record explanation =
  ex_path :: string
  ex_generation :: nat
  ex_source :: string
  ex_selected :: "nat option"
  ex_versions :: "version_note list"

definition explanation_policy :: "security_state option \<Rightarrow> resolution_policy option" where
  "explanation_policy s = (case s of Some (Resolved sc) \<Rightarrow> Some (sc_policy sc) | _ \<Rightarrow> None)"

definition rejection_reason :: "resolution_policy option \<Rightarrow> media \<Rightarrow> string option" where
  "rejection_reason policy m =
     Option.bind policy (\<lambda>p.
       if media_allowed m p then None else Some ''exceeds policy or has unknown resolution'')"

definition explain_playback ::
  "(string \<Rightarrow> string) \<Rightarrow> admin_env \<Rightarrow> policy_snapshot \<Rightarrow> security_state option
   \<Rightarrow> (string \<Rightarrow> media_container option) \<Rightarrow> bool \<Rightarrow> string option \<Rightarrow> nat + explanation" where
  "explain_playback sha ev runtime security items client_ok path =
     (if \<not> admin_authorized sha ev then Inl 403
      else (case (path, am_context ev) of
              (Some key, Some cx) \<Rightarrow>
                (if \<not> client_ok then Inl 500
                 else (case items key of
                         None \<Rightarrow> Inl 502
                       | Some item \<Rightarrow>
                           (let ms = unwrap_or (item_media item) [];
                                policy = explanation_policy security
                            in Inr \<lparr>ex_path = key, ex_generation = ps_generation runtime,
                                 ex_source = (if security = None then ''unavailable'' else ''request_identity''),
                                 ex_selected =
                                   Option.bind policy (\<lambda>p.
                                     Option.bind (best_allowed_media ms p (screen_of cx))
                                       (\<lambda>best. position (\<lambda>m. m_id m = m_id best) ms)),
                                 ex_versions =
                                   map (\<lambda>(i, m). \<lparr>vn_index = i, vn_id = m_id m,
                                       vn_resolution = m_video_resolution m, vn_width = m_width m,
                                       vn_height = m_height m,
                                       vn_allowed = map_option (media_allowed m) policy,
                                       vn_rejection = rejection_reason policy m\<rparr>)
                                     (enumerate 0 ms)\<rparr>)))
            | _ \<Rightarrow> Inl 400))"

subsection \<open>Laws\<close>

lemma require_admin_denied:
  "\<not> admin_authorized sha ev \<Longrightarrow> require_admin sha ev act st = (AdminStatus 403, st)"
  by (simp add: require_admin_def)

lemma unauthorized_changes_nothing:
  assumes "\<not> admin_authorized sha ev"
  shows "cache_purge sha ev class account cleared st = (AdminStatus 403, st)"
    and "policy_reload sha ev extracted valid st = (AdminStatus 403, st)"
    and "readiness sha ev probe st = (AdminStatus 403, st)"
    and "metrics_route sha ev st = (AdminStatus 403, st)"
    and "cache_status sha ev st = (AdminStatus 403, st)"
  using assms
  by (simp_all add: require_admin_denied cache_purge_def policy_reload_def readiness_def
      metrics_route_def cache_status_def)

text \<open>Under a digest that tells the two tokens apart, only the configured token is an admin's.\<close>

lemma admin_token:
  assumes "admin_authorized sha ev"
  obtains cx configured presented where "am_context ev = Some cx"
    "cf_token (am_config ev) = Some configured" "cx_token cx = Some presented"
    "sha configured = sha presented"
  using assms
  by (auto simp: admin_authorized_def token_fingerprint_def split: option.splits)

lemma scope_in_key: "contains (a @ '':u:'' @ scope @ '':'' @ b) (scope_marker scope)"
  using contains_self [of a "scope_marker scope" b] by (simp add: scope_marker_def)

lemma purge_scope_kept:
  "map_of (fst (purge_scope scope cache)) k =
     (if contains k (scope_marker scope) then None else map_of cache k)"
  by (induction cache) (auto simp: purge_scope_def)

lemma purge_scope_count:
  "length (fst (purge_scope scope cache)) + snd (purge_scope scope cache) = length cache"
  using sum_length_filter_compl [of "\<lambda>(k, _). contains k (scope_marker scope)" cache]
  by (simp add: purge_scope_def case_prod_unfold)

lemma purged_photos:
  assumes "admin_authorized sha ev" and "am_context ev = Some cx" and "account \<noteq> Some ''all''"
  shows "map_of (ad_photos (snd (cache_purge sha ev (Some ''photos'') account cleared st)))
           (photo_cache_key_for sha ul raw (cx_token cx)) = None"
proof -
  have key: "photo_cache_key_for sha ul raw (cx_token cx) =
      ''photo'' @ '':u:'' @ token_scope sha (cx_token cx) @ '':'' @ canonical_photo_key ul raw"
    using photo.key_form [of sha ul raw "cx_token cx"] by simp
  have "ad_photos (snd (cache_purge sha ev (Some ''photos'') account cleared st)) =
      fst (purge_scope (token_scope sha (cx_token cx)) (ad_photos st))"
    using assms by (simp add: cache_purge_def require_admin_def purge_action_def request_scope_def
        split: prod.split)
  then show ?thesis
    unfolding key by (simp only: purge_scope_kept scope_in_key if_True)
qed

lemma purged_identity:
  assumes "admin_authorized sha ev" and "am_context ev = Some cx" "cx_token cx = Some t"
    and "account \<noteq> Some ''all''"
  shows "map_of (ad_identity (snd (cache_purge sha ev (Some ''identity'') account cleared st))) k =
    (if k = token_fingerprint sha t then None else map_of (ad_identity st) k)"
  using assms by (simp add: cache_purge_def require_admin_def purge_action_def delete_conv')

text \<open>An account purge of the metadata leaves the responses cached under the raw token.\<close>

lemma purge_keeps_other_keys:
  assumes "admin_authorized sha ev" and "account \<noteq> Some ''all''"
    and "\<not> contains k (scope_marker (request_scope sha ev))"
  shows "map_of (ad_metadata (snd (cache_purge sha ev (Some ''metadata'') account cleared st))) k =
    map_of (ad_metadata st) k"
proof -
  have "ad_metadata (snd (cache_purge sha ev (Some ''metadata'') account cleared st)) =
      fst (purge_scope (request_scope sha ev) (ad_metadata st))"
    using assms by (simp add: cache_purge_def require_admin_def purge_action_def split: prod.split)
  with assms(3) show ?thesis by (simp add: purge_scope_kept)
qed

lemma reload_outcome:
  assumes "policy_reload sha ev extracted valid st = (Reloaded snap, st')"
  obtains c where "extracted = Some c" "valid c"
    "cf_resolution_policy_enabled c = cf_resolution_policy_enabled (am_config ev)"
    "ad_policy st' = snap" "snap\<lparr>ps_generation := 0\<rparr> = snapshot_from_config c 0"
    "admin_authorized sha ev"
  using assms
  by (auto simp: policy_reload_def require_admin_def reload_action_def reload_store_def Let_def
      snapshot_from_config_def split: option.splits if_splits)

lemma reload_refused_keeps:
  "\<forall>s. fst (policy_reload sha ev extracted valid st) \<noteq> Reloaded s \<Longrightarrow>
   snd (policy_reload sha ev extracted valid st) = st"
  by (auto simp: policy_reload_def require_admin_def reload_action_def split: option.splits prod.splits)

text \<open>No security context is built for the path of the explanation, so it knows no policy.\<close>

lemma explain_path_unresolved:
  "fst (security_context_middleware sha api c snap ''/replex/admin/playback/explain'' rc ids) = None"
proof -
  have "\<not> requires_security_context ''/replex/admin/playback/explain''"
    by code_simp
  then show ?thesis by (simp add: security_context_middleware_def)
qed

lemma explain_without_policy:
  assumes "explain_playback sha ev runtime None items ok path = Inr e"
  shows "ex_selected e = None \<and> (\<forall>v \<in> set (ex_versions e). vn_allowed v = None)"
  using assms
  by (auto simp: explain_playback_def explanation_policy_def Let_def split: if_splits option.splits)

lemma explain_selects_allowed:
  assumes "explain_playback sha ev runtime security items ok path = Inr e"
    and "ex_selected e = Some i" and "security = Some (Resolved sc)"
    and "path = Some key" "items key = Some item" "item_media item = Some ms" "indexable ms"
  shows "i < length ms \<and> media_allowed (ms ! i) (sc_policy sc)"
proof -
  obtain cx b where "best_allowed_media ms (sc_policy sc) (screen_of cx) = Some b"
    "position (\<lambda>m. m_id m = m_id b) ms = Some i"
    using assms(1-6)
    by (auto simp: explain_playback_def explanation_policy_def Let_def
        split: if_splits option.splits Option.bind_splits)
  with best_position [OF assms(7)] show ?thesis by (metis option.inject)
qed

end
