(* ===== verification/App_State.thy ===== *)
theory App_State
  imports Single_Flight Policy_Store
begin

text \<open>
  The shared state of the process (\<open>src/state.rs\<close>) and the request timeout (\<open>src/timeout.rs\<close>):
  what a start builds from a configuration, and when it refuses.  HTTP clients and caches of the
  libraries appear by their parameters; \<open>clients_ok\<close> is whether the HTTP clients can be built.
  Times are seconds.
\<close>

record http_spec =
  ht_gzip :: bool  \<comment> \<open>asked for explicitly\<close>
  ht_connect_timeout :: nat
  ht_timeout :: nat
  ht_pool_idle_timeout :: nat
  ht_tcp_keepalive :: nat

record cache_spec =
  ca_max_capacity :: nat
  ca_time_to_live :: "nat option"

record app_state =
  as_config :: config
  as_plex_http :: http_spec
  as_proxy_http :: http_spec
  as_identity_http :: http_spec
  as_asset_http :: http_spec
  as_metadata_cache :: cache_spec
  as_identity_cache :: cache_spec
  as_part_media_cache :: cache_spec
  as_server_machine_ids :: cache_spec
  as_metrics :: metrics
  as_jobs :: jobs
  as_policy :: policy_snapshot
  as_global_cache_ttl :: nat  \<comment> \<open>set in \<open>src/cache.rs\<close> on the way\<close>

datatype state_error = Invalid_configuration config_error | Client_build_failed

definition http_client :: "bool \<Rightarrow> nat \<Rightarrow> http_spec" where
  "http_client gzip timeout =
     \<lparr>ht_gzip = gzip, ht_connect_timeout = 10, ht_timeout = timeout, ht_pool_idle_timeout = 90,
      ht_tcp_keepalive = 60\<rparr>"

definition new_state :: "bool \<Rightarrow> base_urls \<Rightarrow> string option \<Rightarrow> config \<Rightarrow> state_error + app_state" where
  "new_state clients_ok bus env c =
     (case validate bus env c of
        Some e \<Rightarrow> Inl (Invalid_configuration e)
      | None \<Rightarrow>
          (if \<not> clients_ok then Inl Client_build_failed
           else Inr \<lparr>as_config = c,
             as_plex_http = http_client True 120, as_proxy_http = http_client False (60 * 200),
             as_identity_http = http_client False 30, as_asset_http = http_client False 30,
             as_metadata_cache = \<lparr>ca_max_capacity = 10000, ca_time_to_live = Some (cf_cache_ttl c)\<rparr>,
             as_identity_cache =
               \<lparr>ca_max_capacity = 1000, ca_time_to_live = Some (cf_identity_cache_ttl c)\<rparr>,
             as_part_media_cache =
               \<lparr>ca_max_capacity = 100000, ca_time_to_live = Some (cf_identity_cache_ttl c)\<rparr>,
             as_server_machine_ids = \<lparr>ca_max_capacity = 10, ca_time_to_live = None\<rparr>,
             as_metrics = default_metrics, as_jobs = new_jobs default_metrics,
             as_policy = new_store c, as_global_cache_ttl = cf_cache_ttl c\<rparr>))"

text \<open>The first hoop of every route puts the state into the depot, where the handlers find it.\<close>

definition APP_STATE_KEY :: string where "APP_STATE_KEY = ''replex.app_state''"

type_synonym shared_depot = "string \<Rightarrow> app_state option"

definition app_state_middleware :: "app_state \<Rightarrow> shared_depot \<Rightarrow> shared_depot" where
  "app_state_middleware st d = d(APP_STATE_KEY \<mapsto> st)"

definition from_depot :: "shared_depot \<Rightarrow> string + app_state" where
  "from_depot d =
     (case d APP_STATE_KEY of
        Some st \<Rightarrow> Inr st
      | None \<Rightarrow> Inl ''shared application state missing from request'')"

text \<open>The timeout hoop races the rest of the route, which takes \<open>took\<close> or never ends, against its
  limit; a timeout answers 500 and skips the rest.  When both end together the code may take either; the model
  takes the timeout.\<close>

datatype 'a timed = In_time 'a | Timed_out nat

definition timeout_hoop :: "nat \<Rightarrow> nat option \<Rightarrow> 'a \<Rightarrow> 'a timed" where
  "timeout_hoop limit took answer =
     (case took of
        Some t \<Rightarrow> if t < limit then In_time answer else Timed_out 500
      | None \<Rightarrow> Timed_out 500)"

subsection \<open>Laws\<close>

lemma new_state_valid:
  assumes "new_state clients_ok bus env c = Inr st"
  shows "validate bus env c = None" and "as_config st = c"
    and "as_policy st = snapshot_from_config c 1" and "jb_inflight (as_jobs st) = []"
  using assms by (auto simp: new_state_def new_store_def new_jobs_def split: option.splits if_splits)

lemma new_state_refuses:
  "validate bus env c = Some e \<Longrightarrow> new_state clients_ok bus env c = Inl (Invalid_configuration e)"
  by (simp add: new_state_def)

lemma state_is_found: "from_depot (app_state_middleware st d) = Inr st"
  by (simp add: from_depot_def app_state_middleware_def)

lemma timeout_bounds: "timeout_hoop limit took answer = In_time x \<Longrightarrow> \<exists>t. took = Some t \<and> t < limit"
  by (auto simp: timeout_hoop_def split: option.splits if_splits)

end
