(* ===== verification/Startup.thy ===== *)
theory Startup
  imports App_State Router Auth_Context
begin

text \<open>
  The start of the process (\<open>src/main.rs\<close>) and the request log (\<open>src/logging.rs\<close>): what is
  built, in which order, before the server listens, and what an entry of the log holds.
\<close>

subsection \<open>The start\<close>

text \<open>The state, the disk cache after \<open>disk_cache::init\<close>, whether the warmer was started (its first
  cycle runs later), the routes, the domain of the certificate, and the port.\<close>

record server =
  sv_state :: app_state
  sv_disk :: disk
  sv_warming :: bool
  sv_routes :: "route list"
  sv_tls :: "string option"
  sv_port :: nat

text \<open>\<open>extracted\<close> is the configuration as \<open>figment\<close> reads it.  A start that fails returns from \<open>main\<close>
  before it touches the disk cache.\<close>

definition start_server ::
  "config option \<Rightarrow> bool \<Rightarrow> base_urls \<Rightarrow> string option \<Rightarrow> disk_io \<Rightarrow> disk \<Rightarrow> server option" where
  "start_server extracted clients_ok bus env io d =
     (case extracted of
        None \<Rightarrow> None
      | Some read_config \<Rightarrow>
          (case new_state clients_ok bus env read_config of
             Inl _ \<Rightarrow> None
           | Inr st \<Rightarrow>
               (let c = as_config st;
                    tls = cf_ssl_enable c \<and> cf_ssl_domain c \<noteq> None
                in Some \<lparr>sv_state = st, sv_disk = init_cache io d, sv_warming = (cf_warm_interval c \<noteq> 0),
                     sv_routes = route_table c, sv_tls = (if tls then cf_ssl_domain c else None),
                     sv_port = unwrap_or (cf_port c) (if tls then 443 else 80)\<rparr>)))"

lemma start_server_Some:
  assumes "start_server extracted clients_ok bus env io d = Some sv"
  obtains c st where "extracted = Some c" "new_state clients_ok bus env c = Inr st" "as_config st = c"
    "sv_state sv = st" "sv_disk sv = init_cache io d" "sv_routes sv = route_table c"
    "sv_tls sv = (if cf_ssl_enable c \<and> cf_ssl_domain c \<noteq> None then cf_ssl_domain c else None)"
    "sv_port sv = unwrap_or (cf_port c) (if cf_ssl_enable c \<and> cf_ssl_domain c \<noteq> None then 443 else 80)"
proof -
  obtain c st where c: "extracted = Some c" "new_state clients_ok bus env c = Inr st"
    using assms by (auto simp: start_server_def split: option.splits sum.splits)
  have config: "as_config st = c" by (rule new_state_valid(2) [OF c(2)])
  show ?thesis
    by (rule that [OF c config])
      (use assms in \<open>simp_all add: start_server_def c config Let_def, auto\<close>)
qed

lemma start_server_port:
  assumes "start_server extracted clients_ok bus env io d = Some sv"
  shows "1 \<le> sv_port sv \<and> sv_port sv \<le> 65535"
proof -
  from assms obtain c st where c: "new_state clients_ok bus env c = Inr st"
    "sv_port sv = unwrap_or (cf_port c) (if cf_ssl_enable c \<and> cf_ssl_domain c \<noteq> None then 443 else 80)"
    by (rule start_server_Some)
  then show ?thesis
    using validated_port [OF new_state_valid(1) [OF c(1)]] by (cases "cf_port c") simp_all
qed

text \<open>TLS is asked for exactly when it is enabled: a validated configuration has a domain then.\<close>

lemma start_server_tls:
  assumes "start_server extracted clients_ok bus env io d = Some sv"
  shows "sv_tls sv \<noteq> None \<longleftrightarrow> cf_ssl_enable (as_config (sv_state sv))"
proof -
  from assms obtain c st where c: "new_state clients_ok bus env c = Inr st" "as_config st = c"
    "sv_state sv = st"
    "sv_tls sv = (if cf_ssl_enable c \<and> cf_ssl_domain c \<noteq> None then cf_ssl_domain c else None)"
    by (rule start_server_Some)
  have "cf_ssl_domain c \<noteq> None" if "cf_ssl_enable c"
    using new_state_valid(1) [OF c(1)] that
    by (cases "cf_ssl_domain c") (simp_all add: validate_None config_checks_def)
  with c show ?thesis by auto
qed

lemma start_server_accounted:
  assumes "start_server extracted clients_ok bus env io d = Some sv"
    and "total_len (cache_files d) \<le> u64_max"
  shows "accounted (sv_disk sv)"
  using assms(1) init_accounted [OF assms(2)] by (auto elim: start_server_Some)

subsection \<open>The log\<close>

text \<open>The text of a request id, \<open>r\<close> and the 16 hexadecimal digits of the counter.\<close>

definition request_id_text :: "nat \<Rightarrow> string" where
  "request_id_text n = CHR ''r'' # hex (be_bytes 8 n)"

datatype logged_identity =
  Logged_account string string string resolution_limit "i64 option"
| Logged_unavailable bool identity_error
| Logged_nobody

record log_event =
  le_request_id :: string
  le_status :: nat
  le_path :: string
  le_token_scope :: string
  le_media_index :: string
  le_identity :: logged_identity
  le_client :: "(string \<times> string) option"  \<comment> \<open>platform and product\<close>

definition log_response ::
  "request_ctx option \<Rightarrow> security_state option \<Rightarrow> request \<Rightarrow> nat option \<Rightarrow> log_event" where
  "log_response ctx security r status =
     (let request_id = (case ctx of Some rc \<Rightarrow> request_id_text (rc_request_id rc) | None \<Rightarrow> ''unknown'');
          scope = (case ctx of Some rc \<Rightarrow> rc_token_scope rc | None \<Rightarrow> ''anon'');
          index = unwrap_or (mm_get (rq_query r) ''mediaIndex'') ''-'';
          event = \<lparr>le_request_id = request_id, le_status = unwrap_or status 200, le_path = rq_path r,
            le_token_scope = scope, le_media_index = index, le_identity = Logged_nobody,
            le_client = None\<rparr>
      in (case security of
            Some (Resolved sc) \<Rightarrow>
              event\<lparr>le_token_scope := sc_token_scope sc,
                le_identity := Logged_account (ui_username (sc_identity sc)) (ui_uuid (sc_identity sc))
                  (identity_source_str (sc_identity_source sc)) (rp_limit (sc_policy sc))
                  (rp_max_bitrate (sc_policy sc)),
                le_client := Some (unwrap_or (header r ''X-Plex-Platform'') ''-'',
                                   unwrap_or (header r ''X-Plex-Product'') ''-'')\<rparr>
          | Some (Unavailable fail_closed reason) \<Rightarrow>
              event\<lparr>le_identity := Logged_unavailable fail_closed reason\<rparr>
          | None \<Rightarrow> event))"

lemma length_request_id: "length (request_id_text n) = 17"
  by (simp add: request_id_text_def length_hex)

text \<open>Requests of one process have different ids, until the counter wraps.\<close>

lemma request_ids_differ:
  assumes "m \<le> u64_max" "n \<le> u64_max" shows "request_id_text m = request_id_text n \<longleftrightarrow> m = n"
proof
  assume "request_id_text m = request_id_text n"
  then have "from_be_bytes (be_bytes 8 m) = from_be_bytes (be_bytes 8 n)"
    by (simp add: request_id_text_def hex_inject)
  with assms show "m = n" by (simp add: from_be_bytes_id u64_max_def)
qed simp

text \<open>What is logged of the token is its scope.\<close>

lemma log_hides_token:
  "log_response (Some (rc\<lparr>rc_plex := (rc_plex rc)\<lparr>cx_token := t\<rparr>\<rparr>)) security r status
    = log_response (Some rc) security r status"
  by (simp add: log_response_def)

end
