(* ===== verification/Operation_Properties.thy ===== *)
theory Operation_Properties
  imports Cache_Properties Admin Startup
begin

text \<open>
  The properties of the configuration and the start (\<open>src/config.rs\<close>, \<open>src/main.rs\<close>) and of the
  administration routes (\<open>src/routes.rs\<close>).
\<close>

section \<open>Configuration and administration\<close>

text \<open>C37. The loop that normalises the path of a base URL ends for every path, and what it leaves is the
  root or has no trailing slash; running it again changes nothing.\<close>

theorem base_path_loop_terminates:
  "while_option trim_more trim_round p = Some (normalize_path p)
   \<and> \<not> (length (normalize_path p) > 1 \<and> ends_with (normalize_path p) ''/'')
   \<and> normalize_path (normalize_path p) = normalize_path p"
  using normalize_path_while normalize_path_done normalize_path_same by (simp add: trim_more_def)


definition demo_http :: base_urls where
  "demo_http = \<lparr>bu_parse = (\<lambda>s. Some \<lparr>bu_scheme = ''http'', bu_host = Some s, bu_path = ''/'',
       bu_query = None, bu_fragment = None\<rparr>),
     bu_print = (\<lambda>u. ''http://'' @ unwrap_or (bu_host u) [] @ bu_path u)\<rparr>"


text \<open>C39. Without the configured token the administration does nothing: every route answers 403 and
  changes no cache, no policy and no counter, and the playback explanation tells nothing.\<close>

theorem administration_needs_the_configured_token:
  assumes "case (Option.bind (am_context ev) cx_token, cf_token (am_config ev)) of
      (Some presented, Some configured) \<Rightarrow> sha presented \<noteq> sha configured | _ \<Rightarrow> True"
  shows "cache_purge sha ev class account cleared st = (AdminStatus 403, st)
    \<and> policy_reload sha ev extracted valid st = (AdminStatus 403, st)
    \<and> readiness sha ev probe st = (AdminStatus 403, st)
    \<and> metrics_route sha ev st = (AdminStatus 403, st)
    \<and> cache_status sha ev st = (AdminStatus 403, st)
    \<and> explain_playback sha ev runtime security items ok path = Inl 403"
proof -
  have no: "\<not> admin_authorized sha ev"
    using assms
    by (auto simp: admin_authorized_def token_fingerprint_def split: option.splits Option.bind_splits)
  show ?thesis using unauthorized_changes_nothing [OF no] no by (simp add: explain_playback_def)
qed

definition demo_admin :: admin_state where
  "demo_admin = \<lparr>ad_metadata = [], ad_identity = [], ad_parts = [], ad_photos = [], ad_global = [],
     ad_disk = demo_disk, ad_policy = demo_snapshot,
     ad_jobs = \<lparr>js_inflight = 0, js_cooling_down = 0\<rparr>, ad_metrics = default_metrics\<rparr>"

definition demo_admin_env :: "string \<Rightarrow> admin_env" where
  "demo_admin_env t = \<lparr>am_state = True, am_config = demo_config\<lparr>cf_token := Some ''alice''\<rparr>,
     am_context = Some (default_context\<lparr>cx_token := Some t\<rparr>)\<rparr>"

theorem administration_needs_the_configured_token_witness:
  "cache_purge demo_sha (demo_admin_env ''bob'') (Some ''disk'') (Some ''all'')
     (\<lambda>d. Some (clear_all demo_io d)) demo_admin = (AdminStatus 403, demo_admin)"
  by (rule conjunct1 [OF administration_needs_the_configured_token])
    (simp add: demo_admin_env_def demo_sha_def)

text \<open>C40. A policy reload is all or nothing: it takes effect only for a configuration that reads,
  validates and keeps the policy routing as it is; then the store is exactly that
  configuration's snapshot in the next generation, and otherwise the state is unchanged.\<close>

theorem policy_reload_is_atomic:
  assumes "ps_generation (ad_policy st) < u64_max" and "admin_authorized sha ev"
  shows "snd (policy_reload sha ev extracted valid st) =
    (case extracted of
       Some c \<Rightarrow>
         if valid c \<and> cf_resolution_policy_enabled c = cf_resolution_policy_enabled (am_config ev)
         then st\<lparr>ad_policy := snapshot_from_config c (ps_generation (ad_policy st) + 1)\<rparr> else st
     | None \<Rightarrow> st)"
  using assms
  by (auto simp: policy_reload_def require_admin_def reload_action_def reload_store_def Let_def
      u64_max_def split: option.split)

theorem policy_reload_is_atomic_witness:
  "ps_generation (ad_policy (snd (policy_reload demo_sha (demo_admin_env ''alice'')
     (Some (demo_config\<lparr>cf_resolution_default := P480\<rparr>)) (\<lambda>_. True) demo_admin))) = 2"
proof -
  have "admin_authorized demo_sha (demo_admin_env ''alice'')"
    by (simp add: admin_authorized_def demo_admin_env_def)
  from policy_reload_is_atomic [OF _ this, of demo_admin "Some (demo_config\<lparr>cf_resolution_default := P480\<rparr>)" "\<lambda>_. True"]
  show ?thesis
    by (simp add: demo_admin_env_def demo_config_def)
      (simp add: demo_admin_def demo_snapshot_def u64_max_def snapshot_from_config_def)
qed

end
