(* ===== verification/Disk_Contents.thy ===== *)
theory Disk_Contents
  imports Disk_Cache
begin

text \<open>
  What the files of the disk cache (\<open>src/disk_cache.rs\<close>) hold, as the set of pairs of a path and
  the bytes under it, whatever the times of access.  Every operation leaves this set, shrinks it, or
  adds the one record that it was asked to store; and a record that is read back has the body that
  was encoded, without a bound on its length.
\<close>

named_theorems contents_le \<open>operations that add nothing to the contents\<close>

definition contents :: "disk \<Rightarrow> (string \<times> bytes) set" where
  "contents d = (\<lambda>(p, t, bs). (p, bs)) ` set (cache_files d)"

lemma in_contents: "(p, bs) \<in> contents d \<longleftrightarrow> is_cache_file p \<and> (\<exists>t. (p, t, bs) \<in> set (dk_files d))"
  by (force simp: contents_def cache_files_def)

lemma contents_mono: "set (dk_files d') \<subseteq> set (dk_files d) \<Longrightarrow> contents d' \<subseteq> contents d"
  by (fastforce simp: in_contents)

lemma set_delete_subset: "set (AList.delete k xs) \<subseteq> set xs"
  by (auto simp: AList.delete_eq)

lemma set_update_subset: "set (AList.update k v xs) \<subseteq> insert (k, v) (set xs)"
  by (induction xs) auto

lemma contents_fields [simp]:
  "contents (d\<lparr>dk_size := n\<rparr>) = contents d" "contents (d\<lparr>dk_counter := n\<rparr>) = contents d"
  by (simp_all add: contents_def)

subsection \<open>Operations that only remove\<close>

lemma contents_remove_file [contents_le]: "contents (remove_file io p d) \<subseteq> contents d"
  by (rule contents_mono) (simp add: remove_file_def set_delete_subset)

lemma contents_remove_entry [contents_le]: "contents (remove_entry io p d) \<subseteq> contents d"
  using contents_remove_file by (auto simp: remove_entry_def split: option.splits)

lemma contents_evict [contents_le]: "contents (evict io mx fs d) \<subseteq> contents d"
proof (induction io mx fs d rule: evict.induct)
  case (2 io mx p t bs fs d)
  let ?d = "if io_remove io p then (remove_file io p d)\<lparr>dk_size := sat_sub (dk_size d) (length bs)\<rparr> else d"
  have "contents ?d \<subseteq> contents d" using contents_remove_file [of io p d] by simp
  moreover have "contents (evict io mx fs ?d) \<subseteq> contents ?d" if "\<not> dk_size d < clean_threshold mx"
    using 2 that by blast
  ultimately show ?case by (cases "dk_size d < clean_threshold mx") simp_all
qed simp

lemma contents_capacity [contents_le]: "contents (ensure_capacity io mx d) \<subseteq> contents d"
  using contents_evict [of io mx _ "d\<lparr>dk_size := _\<rparr>"] by (auto simp: ensure_capacity_def Let_def)

lemma contents_init [contents_le]: "contents (init_cache io d) \<subseteq> contents d"
  by (rule contents_mono) (auto simp: init_cache_def Let_def)

lemma contents_clear [contents_le]: "contents (snd (clear_all io d)) \<subseteq> contents d"
  by (rule contents_mono) (auto simp: clear_all_def)

lemma contents_get [contents_le]: "contents (snd (get_full sha dir io key d)) \<subseteq> contents d"
proof (cases "lookup_file d (path_for_key sha dir key)")
  case (Some f)
  obtain t bs where f: "f = (t, bs)" by (cases f)
  let ?p = "path_for_key sha dir key"
  have "(?p, t, bs) \<in> set (dk_files d)"
    using Some f by (simp add: lookup_file_def map_of_SomeD)
  then have "contents (d\<lparr>dk_files := AList.update ?p (n, bs) (dk_files d)\<rparr>) \<subseteq> contents d" for n
    using set_update_subset [of ?p "(n, bs)" "dk_files d"] by (fastforce simp: in_contents)
  with Some f contents_remove_entry show ?thesis
    by (auto simp: get_full_def Let_def split: option.splits)
qed (simp add: get_full_def)

lemma contents_get_body [contents_le]: "contents (snd (get_body sha dir io key d)) \<subseteq> contents d"
  using contents_get [of sha dir io key d] by (cases "get_full sha dir io key d") (simp add: get_body_def)

subsection \<open>Storing\<close>

lemma contents_commit:
  "contents (snd (commit_record io path enc d)) \<subseteq> insert (path, enc) (contents d)"
proof (cases "io_write io \<and> io_rename io")
  case True
  let ?tmp = "tmp_path path (io_pid io) (dk_counter d)"
  let ?fs = "AList.delete ?tmp (AList.update ?tmp (io_now io, enc) (dk_files d))"
  have "set ?fs \<subseteq> insert (?tmp, io_now io, enc) (set (dk_files d))"
    using set_update_subset set_delete_subset by fastforce
  moreover have "set (AList.update path (io_now io, enc) ?fs) \<subseteq> insert (path, io_now io, enc) (set ?fs)"
    by (rule set_update_subset)
  moreover have "\<not> is_cache_file ?tmp" by (simp add: is_cache_file_def tmp_path_temp)
  ultimately show ?thesis
    using commit_files(2) [of io path enc d] True by (fastforce simp: in_contents)
next
  case False
  then have "cache_files (snd (commit_record io path enc d)) = cache_files d"
    using commit_failed by blast
  then have "contents (snd (commit_record io path enc d)) = contents d" by (simp only: contents_def)
  then show ?thesis by blast
qed

lemma contents_put:
  "contents (snd (put_full sha dir mx io key data ct d))
   \<subseteq> contents d \<union> {(path_for_key sha dir key, enc) |enc. encode_record ct data = Inr enc}"
proof (cases "encode_record ct data")
  case (Inr enc)
  have "contents (ensure_capacity io mx d') \<subseteq> contents d'" for d' by (rule contents_capacity)
  with Inr contents_commit [of io "path_for_key sha dir key" enc d] show ?thesis
    by (fastforce simp: put_full_def split: prod.splits sum.splits)
qed (simp add: put_full_def)

subsection \<open>Reading back\<close>

lemma decode_encoded_body:
  assumes "encode_record ct body = Inr e" "decode_record e = Some r"
  shows "cr_body r = body"
proof (cases "14 + length (unwrap_or ct []) + length body \<le> u64_max")
  case True
  note l = encode_record_layout [OF assms(1)]
  from decode_header [OF _ _ _ True, of e body] l assms(2) show ?thesis by (auto split: if_splits)
next
  case False
  let ?ct = "unwrap_or ct []"
  note l = encode_record_layout [OF assms(1)]
  let ?a = "cache_magic @ be_bytes 2 (length ?ct)"
  have e: "e = (?a @ ?ct) @ be_bytes 8 (length body) @ body" using l by simp
  have la: "length (?a @ ?ct) = 6 + length ?ct" by (simp add: cache_magic_def)
  have "[e ! 4, e ! 5] = be_bytes 2 (length ?ct)"
    using l by (simp add: cache_magic_def numeral_2_eq_2 nth_append)
  then have two: "from_be_bytes [e ! 4, e ! 5] = length ?ct"
    using l by (simp add: from_be_bytes_id)
  have "slice (length (?a @ ?ct)) (length (?a @ ?ct) + length (be_bytes 8 (length body))) e
      = be_bytes 8 (length body)"
    using slice_middle [of "?a @ ?ct" "be_bytes 8 (length body)" body] by (simp only: e)
  then have "from_be_bytes (slice (6 + length ?ct) (14 + length ?ct) e) = length body"
    using la l by (simp add: from_be_bytes_id u64_max_def)
  then have "decode_body e (length ?ct) (6 + length ?ct) (14 + length ?ct) = None"
    using False by (simp add: decode_body_def usize_checked_add_def)
  moreover have "take 4 e = cache_magic" "6 \<le> length e" using l by (simp_all add: cache_magic_def)
  ultimately have "decode_record e = None"
    using two by (auto simp: decode_record_def usize_checked_add_def Let_def split: option.splits if_splits)
  with assms(2) show ?thesis by simp
qed

lemma get_from_contents:
  assumes "fst (get_full sha dir io key d) = Some r" and "list_all is_hexdigit (sha key)"
  obtains enc where "(path_for_key sha dir key, enc) \<in> contents d" "decode_record enc = Some r"
proof -
  from assms(1) obtain t enc where f: "lookup_file d (path_for_key sha dir key) = Some (t, enc)"
    "decode_record enc = Some r"
    by (auto simp: get_full_def Let_def split: option.splits prod.splits)
  moreover have "is_cache_file (path_for_key sha dir key)"
    using assms(2) by (rule hex_name_cache)
  ultimately show thesis
    using that by (auto simp: in_contents lookup_file_def dest: map_of_SomeD)
qed

lemma path_for_key_digest:
  assumes "list_all is_hexdigit (sha k)" "list_all is_hexdigit (sha k')"
    and "path_for_key sha dir k = path_for_key sha dir k'"
  shows "sha k = sha k'"
proof -
  have "file_name (path_for_key sha dir k) = sha k" if "list_all is_hexdigit (sha k)" for k
  proof -
    have "CHR ''/'' \<notin> set (sha k)" using that by (auto simp: list_all_iff is_hexdigit_def Let_def)
    then show ?thesis
      using last_split_on_sep [of "CHR ''/''" "sha k" "dir @ ''/'' @ take 2 (sha k)"]
      by (simp add: file_name_def path_for_key_def Let_def)
  qed
  with assms show ?thesis by metis
qed

end
