(* ===== verification/Provenance.thy ===== *)
theory Provenance
  imports Disk_Contents Hub_Routes Streams Playback Warmer
begin

text \<open>
  Where what the caches hold came from.  The caches and counters that the routes of \<open>src/routes.rs\<close>,
  the refreshes and the warmer of \<open>src/hub_cache.rs\<close> and the restarts of the process change are one
  transition system; beside its state stands the set of what Plex has delivered so far.  A step writes
  one cache, and what it writes was delivered.  The handlers are shown to be runs of these steps, so
  that whatever holds of the runs holds however handlers, background work, evictions and
  restarts follow on one another or interleave between their writes.
\<close>

subsection \<open>Deliveries\<close>

text \<open>What all requests to one server share.\<close>

record deployment =
  de_sha :: "string \<Rightarrow> string"
  de_urls :: url_lib
  de_dir :: string
  de_max :: nat
  de_parse :: "bytes \<Rightarrow> media_container option"

text \<open>A page or an image is delivered for the text of a URI and a token, a hub for a canonical path and
  a token; \<open>Versions\<close> are the versions of an item.\<close>

datatype delivery =
  Page string "string option" bytes
| Artwork string "string option" bytes
| Hub_reply string "string option" media_container
| Versions "media list"

fun disk_entry :: "deployment \<Rightarrow> delivery \<Rightarrow> (string \<times> bytes) option" where
  "disk_entry de (Page raw t bs) = Some (library_cache_key_for (de_sha de) (de_urls de) raw t, bs)"
| "disk_entry de (Artwork raw t bs) = Some (photo_cache_key_for (de_sha de) (de_urls de) raw t, bs)"
| "disk_entry de _ = None"

definition page_versions :: "deployment \<Rightarrow> bytes \<Rightarrow> media list set" where
  "page_versions de bs =
     (case de_parse de bs of
        Some c \<Rightarrow> (\<lambda>it. md_media (attrs it)) ` set (mc_children_mut c) | None \<Rightarrow> {})"

definition reported :: "deployment \<Rightarrow> delivery set \<Rightarrow> media list set" where
  "reported de L =
     {ms. Versions ms \<in> L}
     \<union> (\<Union>x\<in>L. case disk_entry de x of Some (_, bs) \<Rightarrow> page_versions de bs | None \<Rightarrow> {})"

subsection \<open>Steps\<close>

definition fresh_web :: "disk \<Rightarrow> web_state" where
  "fresh_web d = \<lparr>ws_disk = d, ws_photos = [], ws_hub = initial_hub, ws_parts = Map.empty,
     ws_metrics = default_metrics\<rparr>"

definition put_entry :: "deployment \<Rightarrow> disk_io \<Rightarrow> string \<Rightarrow> bytes \<Rightarrow> bytes option \<Rightarrow> disk \<Rightarrow> disk" where
  "put_entry de io k bs ct d = snd (put_full (de_sha de) (de_dir de) (de_max de) io k bs ct d)"

text \<open>The caches in memory may lose entries at any time; the bookkeeping of the hub cache is that of
  \<open>Hub_Cache\<close> and is left open here.\<close>

inductive web_step ::
  "deployment \<Rightarrow> delivery set \<times> web_state \<Rightarrow> delivery set \<times> web_state \<Rightarrow> bool" for de where
  deliver: "web_step de (L, ws) (insert x L, ws)"
| store_disk: "x \<in> L \<Longrightarrow> disk_entry de x = Some (k, bs) \<Longrightarrow>
    web_step de (L, ws) (L, ws\<lparr>ws_disk := put_entry de io k bs ct (ws_disk ws)\<rparr>)"
| read_disk:
    "web_step de (L, ws) (L, ws\<lparr>ws_disk := snd (get_full (de_sha de) (de_dir de) io k (ws_disk ws))\<rparr>)"
| remove_disk: "web_step de (L, ws) (L, ws\<lparr>ws_disk := remove_entry io p (ws_disk ws)\<rparr>)"
| clear_disk: "web_step de (L, ws) (L, ws\<lparr>ws_disk := snd (clear_all io (ws_disk ws))\<rparr>)"
| remember: "Artwork raw t (im_body img) \<in> L \<Longrightarrow>
    web_step de (L, ws)
      (L, ws\<lparr>ws_photos := AList.update (photo_cache_key_for (de_sha de) (de_urls de) raw t) img (ws_photos ws)\<rparr>)"
| forget_photos: "web_step de (L, ws) (L, ws\<lparr>ws_photos := filter P (ws_photos ws)\<rparr>)"
| store_hub: "Hub_reply path t c \<in> L \<Longrightarrow>
    hs_payloads s = (hs_payloads (ws_hub ws))(hub_cache_key (de_sha de) path t \<mapsto> c) \<Longrightarrow>
    web_step de (L, ws) (L, ws\<lparr>ws_hub := s\<rparr>)"
| manage_hub: "hs_payloads s \<subseteq>\<^sub>m hs_payloads (ws_hub ws) \<Longrightarrow> web_step de (L, ws) (L, ws\<lparr>ws_hub := s\<rparr>)"
| record_facts: "ms \<in> reported de L \<Longrightarrow>
    web_step de (L, ws) (L, ws\<lparr>ws_parts := cache_part_classification ms (ws_parts ws)\<rparr>)"
| forget_facts: "web_step de (L, ws) (L, ws\<lparr>ws_parts := ws_parts ws |` A\<rparr>)"
| count: "web_step de (L, ws) (L, ws\<lparr>ws_metrics := m\<rparr>)"
| restart: "web_step de (L, ws) (L, fresh_web (init_cache io (ws_disk ws\<lparr>dk_counter := 0\<rparr>)))"

abbreviation web_run ::
  "deployment \<Rightarrow> delivery set \<times> web_state \<Rightarrow> delivery set \<times> web_state \<Rightarrow> bool" where
  "web_run de \<equiv> (web_step de)\<^sup>*\<^sup>*"

subsection \<open>The invariant\<close>

definition disk_sourced :: "deployment \<Rightarrow> delivery set \<Rightarrow> disk \<Rightarrow> bool" where
  "disk_sourced de L d \<longleftrightarrow>
     (\<forall>(p, enc) \<in> contents d. \<exists>x \<in> L. \<exists>k bs ct. disk_entry de x = Some (k, bs)
        \<and> p = path_for_key (de_sha de) (de_dir de) k \<and> encode_record ct bs = Inr enc)"

definition photos_sourced :: "deployment \<Rightarrow> delivery set \<Rightarrow> (string \<times> cached_image) list \<Rightarrow> bool" where
  "photos_sourced de L ps \<longleftrightarrow>
     (\<forall>(k, img) \<in> set ps. \<exists>raw t. Artwork raw t (im_body img) \<in> L
        \<and> k = photo_cache_key_for (de_sha de) (de_urls de) raw t)"

definition hubs_sourced :: "deployment \<Rightarrow> delivery set \<Rightarrow> hub_state \<Rightarrow> bool" where
  "hubs_sourced de L s \<longleftrightarrow>
     (\<forall>k c. hs_payloads s k = Some c \<longrightarrow>
        (\<exists>path t. Hub_reply path t c \<in> L \<and> k = hub_cache_key (de_sha de) path t))"

definition parts_sourced :: "deployment \<Rightarrow> delivery set \<Rightarrow> part_cache \<Rightarrow> bool" where
  "parts_sourced de L parts \<longleftrightarrow>
     (\<forall>i f. parts i = Some f \<longrightarrow>
        (\<exists>ms \<in> reported de L. \<exists>m \<in> set ms. i \<in> p_id ` set (m_parts m) \<and> f = classification_of m))"

definition sourced :: "deployment \<Rightarrow> delivery set \<times> web_state \<Rightarrow> bool" where
  "sourced de c \<longleftrightarrow>
     (case c of (L, ws) \<Rightarrow>
        disk_sourced de L (ws_disk ws) \<and> photos_sourced de L (ws_photos ws)
        \<and> hubs_sourced de L (ws_hub ws) \<and> parts_sourced de L (ws_parts ws))"

lemmas sourced_defs = disk_sourced_def photos_sourced_def hubs_sourced_def parts_sourced_def

lemma reported_mono: "L \<subseteq> L' \<Longrightarrow> reported de L \<subseteq> reported de L'"
  by (auto simp: reported_def)

lemma sourced_mono:
  "L \<subseteq> L' \<Longrightarrow> disk_sourced de L d \<Longrightarrow> disk_sourced de L' d"
  "L \<subseteq> L' \<Longrightarrow> photos_sourced de L ps \<Longrightarrow> photos_sourced de L' ps"
  "L \<subseteq> L' \<Longrightarrow> hubs_sourced de L s \<Longrightarrow> hubs_sourced de L' s"
  "L \<subseteq> L' \<Longrightarrow> parts_sourced de L parts \<Longrightarrow> parts_sourced de L' parts"
  unfolding sourced_defs using reported_mono [of L L' de] by fast+

lemma disk_sourced_subset: "contents d' \<subseteq> contents d \<Longrightarrow> disk_sourced de L d \<Longrightarrow> disk_sourced de L d'"
  unfolding disk_sourced_def by blast

lemma disk_sourced_put:
  assumes "disk_sourced de L d" "x \<in> L" "disk_entry de x = Some (k, bs)"
  shows "disk_sourced de L (put_entry de io k bs ct d)"
  using assms contents_put [of "de_sha de" "de_dir de" "de_max de" io k bs ct d]
  unfolding disk_sourced_def put_entry_def by blast

lemmas disk_sourced_removal = contents_le [THEN disk_sourced_subset]

lemma parts_sourced_forget: "parts_sourced de L parts \<Longrightarrow> parts_sourced de L (parts |` A)"
  by (auto simp: parts_sourced_def restrict_map_def split: if_splits)

lemma parts_sourced_record:
  "ms \<in> reported de L \<Longrightarrow> parts_sourced de L parts \<Longrightarrow>
   parts_sourced de L (cache_part_classification ms parts)"
  unfolding parts_sourced_def by (meson cache_part_classification_sound)

lemma web_step_sourced: "web_step de c c' \<Longrightarrow> sourced de c \<Longrightarrow> sourced de c'"
proof (induction rule: web_step.induct)
  case (deliver L ws x)
  have "L \<subseteq> insert x L" by blast
  with deliver sourced_mono show ?case by (simp add: sourced_def)
next
  case (store_disk x L k bs ws io ct)
  then show ?case by (simp add: sourced_def disk_sourced_put)
next
  case (remember raw t img L ws)
  then show ?case
    using set_update_subset [of "photo_cache_key_for (de_sha de) (de_urls de) raw t" img "ws_photos ws"]
    by (simp add: sourced_def photos_sourced_def) blast
next
  case (manage_hub s ws L)
  then show ?case by (auto simp: sourced_def hubs_sourced_def map_le_def dom_def)
next
  case (restart L ws io)
  have "contents (init_cache io (ws_disk ws\<lparr>dk_counter := 0\<rparr>)) \<subseteq> contents (ws_disk ws)"
    using contents_init [of io "ws_disk ws\<lparr>dk_counter := 0\<rparr>"] by simp
  with restart show ?case
    by (auto simp: sourced_def fresh_web_def photos_sourced_def hubs_sourced_def parts_sourced_def
        initial_hub_def intro: disk_sourced_subset)
qed (simp_all add: sourced_def parts_sourced_record parts_sourced_forget disk_sourced_removal,
    auto simp: photos_sourced_def hubs_sourced_def)

lemma web_run_sourced: "web_run de c c' \<Longrightarrow> sourced de c \<Longrightarrow> sourced de c'"
  by (induction rule: rtranclp_induct) (auto intro: web_step_sourced)

lemma fresh_sourced: "contents d = {} \<Longrightarrow> sourced de (L, fresh_web d)"
  by (simp add: sourced_def fresh_web_def sourced_defs initial_hub_def)

subsection \<open>Runs\<close>

text \<open>Everything below works on one server.\<close>

definition on_site :: "deployment \<Rightarrow> route_env \<Rightarrow> bool" where
  "on_site de ev \<longleftrightarrow> re_sha ev = de_sha de \<and> re_urls ev = de_urls de \<and> re_dir ev = de_dir de
     \<and> re_max ev = de_max de \<and> re_parse ev = de_parse de"

lemma run_step: "web_step de c c' \<Longrightarrow> web_run de c c'"
  by (rule r_into_rtranclp)

lemma run_then: "web_run de c c' \<Longrightarrow> web_step de c' c'' \<Longrightarrow> web_run de c c''"
  by (rule rtranclp.rtrancl_into_rtrancl)

lemma run_trans: "web_run de c c' \<Longrightarrow> web_run de c' c'' \<Longrightarrow> web_run de c c''"
  by (rule rtranclp_trans)

lemma run_count: "web_run de (L, ws) (L, ws\<lparr>ws_metrics := m\<rparr>)"
  by (rule run_step [OF web_step.count])

lemma run_read:
  "web_run de (L, ws) (L, ws\<lparr>ws_disk := snd (get_full (de_sha de) (de_dir de) io k (ws_disk ws))\<rparr>)"
  by (rule run_step [OF web_step.read_disk])

lemma run_remove: "web_run de (L, ws) (L, ws\<lparr>ws_disk := remove_entry io p (ws_disk ws)\<rparr>)"
  by (rule run_step [OF web_step.remove_disk])

lemma run_manage: "hs_payloads s = hs_payloads (ws_hub ws) \<Longrightarrow> web_run de (L, ws) (L, ws\<lparr>ws_hub := s\<rparr>)"
  by (rule run_step [OF web_step.manage_hub]) (simp add: map_le_def)

lemma run_put:
  assumes "disk_entry de x = Some (k, bs)"
  shows "web_run de (L, ws) (insert x L, ws\<lparr>ws_disk := put_entry de io k bs ct (ws_disk ws)\<rparr>)"
  by (rule run_then [OF run_step [OF web_step.deliver [of de L ws x]]
        web_step.store_disk [OF insertI1 assms]])

lemma run_hub:
  assumes "hs_payloads s = (hs_payloads (ws_hub ws))(hub_cache_key (de_sha de) path t \<mapsto> c)"
  shows "web_run de (L, ws) (insert (Hub_reply path t c) L, ws\<lparr>ws_hub := s\<rparr>)"
  by (rule run_then [OF run_step [OF web_step.deliver [of de L ws]]
        web_step.store_hub [OF insertI1 assms]])

lemma run_facts:
  "set mss \<subseteq> reported de L \<Longrightarrow>
   web_run de (L, ws) (L, ws\<lparr>ws_parts := fold cache_part_classification mss (ws_parts ws)\<rparr>)"
proof (induction mss arbitrary: ws)
  case (Cons ms mss)
  let ?w = "ws\<lparr>ws_parts := cache_part_classification ms (ws_parts ws)\<rparr>"
  have "web_step de (L, ws) (L, ?w)" using Cons.prems by (intro web_step.record_facts) simp
  moreover have "web_run de (L, ?w) (L, ?w\<lparr>ws_parts := fold cache_part_classification mss (ws_parts ?w)\<rparr>)"
    using Cons.prems by (intro Cons.IH) simp
  ultimately show ?case by (simp add: converse_rtranclp_into_rtranclp)
qed simp

lemma walk_parts_facts:
  "\<exists>mss. walk_parts ev c parts = fold cache_part_classification mss parts
     \<and> set mss \<subseteq> (\<lambda>it. md_media (attrs it)) ` set (mc_children_mut c)"
proof (cases "re_current ev")
  case None
  then have "fold (policy_transform_cache (re_current ev)) its parts = parts" for its
    by (induction its) (simp_all add: policy_transform_cache_def)
  then show ?thesis by (intro exI [of _ "[]"]) (simp add: walk_parts_def)
next
  case (Some p)
  let ?its = "filter (policy_transform_filter (re_current ev) (re_fail_closed ev)) (mc_children_mut c)"
  have "fold (policy_transform_cache (re_current ev)) its parts =
      fold cache_part_classification (map (\<lambda>it. md_media (attrs it)) its) parts" for its
    using Some by (induction its arbitrary: parts) (simp_all add: policy_transform_cache_def)
  then show ?thesis
    by (intro exI [of _ "map (\<lambda>it. md_media (attrs it)) ?its"]) (auto simp: walk_parts_def)
qed

subsection \<open>The pages of a library and of its items\<close>

text \<open>What Plex answers to the fetch of a page; a body that cannot be read counts as empty.\<close>

definition page_answer :: "route_env \<Rightarrow> request \<Rightarrow> string \<Rightarrow> delivery" where
  "page_answer ev r raw =
     Page raw (request_token r) (unwrap_or (take_bytes (an_body (proxy_for_transform ev r raw))) [])"

lemma page_entry:
  "on_site de ev \<Longrightarrow> disk_entry de (page_answer ev r raw) =
     Some (page_key ev raw r, unwrap_or (take_bytes (an_body (proxy_for_transform ev r raw))) [])"
  by (simp add: page_answer_def on_site_def page_key_def library_cache_key_def)

lemma transforms_run:
  assumes "on_site de ev"
    and "\<And>bs. take_bytes (an_body a) = Some bs \<Longrightarrow> page_versions de bs \<subseteq> reported de L"
  shows "web_run de (L, ws) (L, snd (apply_policy_transforms ev r a ws))"
proof (cases "Option.bind (take_bytes (an_body a)) (re_parse ev)")
  case (Some c)
  obtain mss where mss: "walk_parts ev c (ws_parts ws) = fold cache_part_classification mss (ws_parts ws)"
    "set mss \<subseteq> (\<lambda>it. md_media (attrs it)) ` set (mc_children_mut c)"
    using walk_parts_facts by blast
  from Some obtain bs where bs: "take_bytes (an_body a) = Some bs" "re_parse ev bs = Some c"
    by (auto simp: Option.bind_eq_Some_conv)
  then have "set mss \<subseteq> reported de L"
    using mss(2) assms by (auto simp: page_versions_def on_site_def)
  with run_facts [of mss de L ws] Some mss(1) show ?thesis by (simp add: apply_policy_transforms_def)
qed (simp add: apply_policy_transforms_def)

lemma transform_response_run:
  assumes "on_site de ev"
    and "\<And>bs. take_bytes (an_body a) = Some bs \<Longrightarrow> page_versions de bs \<subseteq> reported de L"
  shows "web_run de (L, ws) (L, snd (transform_policy_response ev r a ws))"
  using transforms_run [where a = a and r = r and ws = ws, OF assms(1)] assms(2)
  by (auto simp: transform_policy_response_def split: prod.splits option.splits)

lemma page_reported:
  assumes "on_site de ev" "page_answer ev r raw \<in> L"
    and "bs = unwrap_or (take_bytes (an_body (proxy_for_transform ev r raw))) []"
  shows "page_versions de bs \<subseteq> reported de L"
  using assms page_entry [OF assms(1), of r raw] by (force simp: reported_def)

lemma library_store_run:
  assumes "on_site de ev" and "library_cache_store ev r raw (proxy_for_transform ev r raw) ws = (a, ws')"
  shows "web_run de (L, ws) (insert (page_answer ev r raw) L, ws')"
    and "take_bytes (an_body a) = Some bs \<Longrightarrow>
      bs = unwrap_or (take_bytes (an_body (proxy_for_transform ev r raw))) []"
proof -
  have put: "put_body (re_sha ev) (re_dir ev) (re_max ev) (re_io ev) k bs d =
      put_full (de_sha de) (de_dir de) (de_max de) (re_io ev) k bs None d" for k bs d
    using assms(1) by (simp add: put_body_def on_site_def)
  show "web_run de (L, ws) (insert (page_answer ev r raw) L, ws')"
  proof (cases "ws' = ws")
    case True
    then show ?thesis using run_step [OF web_step.deliver] by simp
  next
    case False
    then obtain bs where "take_bytes (an_body (proxy_for_transform ev r raw)) = Some bs"
      "ws' = ws\<lparr>ws_disk := put_entry de (re_io ev) (page_key ev raw r) bs None (ws_disk ws)\<rparr>"
      using assms(2)
      by (auto simp: library_cache_store_def put put_entry_def split: if_splits option.splits)
    then show ?thesis using run_put page_entry [OF assms(1), of r raw] by simp
  qed
  show "bs = unwrap_or (take_bytes (an_body (proxy_for_transform ev r raw))) []"
    if "take_bytes (an_body a) = Some bs"
    using that assms(2)
    by (auto simp: library_cache_store_def take_bytes_def split: if_splits option.splits)
qed

lemma library_live_run:
  assumes "on_site de ev"
  shows "web_run de (L, ws) (insert (page_answer ev r raw) L, snd (library_live ev r raw ws))"
proof -
  obtain a ws1 where s: "library_cache_store ev r raw (proxy_for_transform ev r raw) ws = (a, ws1)"
    by fastforce
  note st = library_store_run [OF assms s]
  have "page_versions de bs \<subseteq> reported de (insert (page_answer ev r raw) L)"
    if "take_bytes (an_body a) = Some bs" for bs
    using page_reported [OF assms insertI1 st(2) [OF that]] .
  then have "web_run de (insert (page_answer ev r raw) L, ws1)
      (insert (page_answer ev r raw) L, snd (transform_policy_response ev r a ws1))"
    using transform_response_run [where a = a, OF assms] by blast
  with st(1) s show ?thesis
    by (auto simp: library_live_def intro: run_trans)
qed

text \<open>The route of an item or a play queue is proxied and transformed, and stores nothing.\<close>

definition transformed_route :: "route_env \<Rightarrow> request \<Rightarrow> string \<Rightarrow> web_state \<Rightarrow> outcome \<times> web_state" where
  "transformed_route ev r raw ws = transform_policy_response ev r (proxy_for_transform ev r raw) ws"

lemma transformed_route_run:
  assumes "on_site de ev"
  shows "web_run de (L, ws) (insert (page_answer ev r raw) L, snd (transformed_route ev r raw ws))"
proof -
  have "page_versions de bs \<subseteq> reported de (insert (page_answer ev r raw) L)"
    if "take_bytes (an_body (proxy_for_transform ev r raw)) = Some bs" for bs
    by (rule page_reported [OF assms insertI1]) (simp add: that)
  then have "web_run de (insert (page_answer ev r raw) L, ws)
      (insert (page_answer ev r raw) L, snd (transformed_route ev r raw ws))"
    using transform_response_run [where a = "proxy_for_transform ev r raw", OF assms]
    unfolding transformed_route_def by blast
  then show ?thesis using converse_rtranclp_into_rtranclp [of "web_step de", OF web_step.deliver] by blast
qed

text \<open>A hit reads what an earlier delivery put under a path; its versions were reported then.\<close>

lemma disk_hit_delivered:
  assumes "disk_sourced de L d" "list_all is_hexdigit (de_sha de k)"
    and "fst (get_full (de_sha de) (de_dir de) io k d) = Some r"
  obtains x k' where "x \<in> L" "disk_entry de x = Some (k', cr_body r)"
    "path_for_key (de_sha de) (de_dir de) k = path_for_key (de_sha de) (de_dir de) k'"
proof -
  from assms(3,2) obtain enc where enc: "(path_for_key (de_sha de) (de_dir de) k, enc) \<in> contents d"
    "decode_record enc = Some r"
    by (rule get_from_contents)
  from assms(1) enc(1) obtain x k' bs ct where x: "x \<in> L" "disk_entry de x = Some (k', bs)"
    "path_for_key (de_sha de) (de_dir de) k = path_for_key (de_sha de) (de_dir de) k'"
    "encode_record ct bs = Inr enc"
    unfolding disk_sourced_def by blast
  with decode_encoded_body [OF x(4) enc(2)] that show thesis by blast
qed

lemma library_lookup_run:
  assumes "on_site de ev" "hex_digest (de_sha de)" "sourced de (L, ws)"
  shows "\<exists>D. D \<subseteq> {page_answer ev r raw, page_answer ev (normalized_request ev raw r) (normalized ev raw)}
    \<and> web_run de (L, ws) (L \<union> D, snd (library_cache_lookup ev r raw ws))"
proof (cases "starts_with (rq_path r) library_prefix")
  case False
  then show ?thesis
    using library_live_run [OF assms(1), of L ws r raw]
    by (intro exI [of _ "{page_answer ev r raw}"]) (simp add: library_cache_lookup_def)
next
  case True
  let ?n = "page_answer ev (normalized_request ev raw r) (normalized ev raw)"
  obtain o1 d where g: "get_full (re_sha ev) (re_dir ev) (re_io ev) (page_key ev raw r) (ws_disk ws) = (o1, d)"
    by fastforce
  have site: "re_sha ev = de_sha de" "re_dir ev = de_dir de" using assms(1) by (simp_all add: on_site_def)
  have read: "web_run de (L, ws) (L, ws\<lparr>ws_disk := d\<rparr>)"
    using run_read [of de L ws "re_io ev" "page_key ev raw r"] g site by simp
  have miss: "web_run de (L, w) (insert ?n L, snd (library_miss ev r raw w))" for w
    unfolding library_miss_def
    by (rule run_trans [OF run_count library_live_run [OF assms(1)]])
  show ?thesis
  proof (cases o1)
    case None
    with g True have "snd (library_cache_lookup ev r raw ws) = snd (library_miss ev r raw (ws\<lparr>ws_disk := d\<rparr>))"
      by (simp add: library_cache_lookup_def get_body_def)
    with run_trans [OF read miss [of "ws\<lparr>ws_disk := d\<rparr>"]] show ?thesis
      by (intro exI [of _ "{?n}"]) simp
  next
    case (Some rc)
    let ?w = "ws\<lparr>ws_disk := d, ws_metrics := cache_hit (ws_metrics ws)\<rparr>"
    let ?a = "apply_policy_transforms ev r (cached_page (cr_body rc)) ?w"
    have hex: "list_all is_hexdigit (de_sha de (page_key ev raw r))"
      using assms(2) by (simp add: hex_digest_def)
    have fst: "fst (get_full (de_sha de) (de_dir de) (re_io ev) (page_key ev raw r) (ws_disk ws)) = Some rc"
      using g site Some by simp
    have "disk_sourced de L (ws_disk ws)" using assms(3) by (simp add: sourced_def)
    from disk_hit_delivered [OF this hex fst] obtain x k' where "x \<in> L"
      "disk_entry de x = Some (k', cr_body rc)" by blast
    then have "page_versions de (cr_body rc) \<subseteq> reported de L" by (force simp: reported_def)
    then have hit: "web_run de (L, ?w) (L, snd ?a)"
      using transforms_run [where a = "cached_page (cr_body rc)", OF assms(1)]
      by (simp add: cached_page_def take_bytes_def)
    have start: "web_run de (L, ws) (L, snd ?a)"
      by (rule run_trans [OF read run_trans [OF run_count hit]])
    show ?thesis
    proof (cases "fst ?a")
      case None
      let ?v = "(snd ?a)\<lparr>ws_disk := remove_entry (re_io ev)
          (path_for_key (re_sha ev) (re_dir ev) (page_key ev raw r)) (ws_disk (snd ?a))\<rparr>"
      have "snd (library_cache_lookup ev r raw ws) = snd (library_miss ev r raw ?v)"
        using g True Some None by (cases ?a) (simp add: library_cache_lookup_def get_body_def)
      moreover have "web_run de (L, ws) (insert ?n L, snd (library_miss ev r raw ?v))"
        by (rule run_trans [OF start run_trans [OF run_remove miss]])
      ultimately show ?thesis by (intro exI [of _ "{?n}"]) simp
    next
      case (Some a)
      with g True \<open>o1 = Some rc\<close> have "snd (library_cache_lookup ev r raw ws) = snd ?a"
        by (cases ?a) (simp add: library_cache_lookup_def get_body_def)
      with start show ?thesis by (intro exI [of _ "{}"]) simp
    qed
  qed
qed

subsection \<open>Artwork, playback, hubs\<close>

lemma proxy_run: "web_run de (L, ws) (L, snd (proxy_request ev r raw ws))"
proof -
  let ?w = "if is_playback_invalidation (rq_path r) (raw_query raw)
      then ws\<lparr>ws_hub := mark_all_hubs_stale (ws_hub ws)\<rparr> else ws"
  have "web_run de (L, ws) (L, ?w)" by (simp add: run_manage mark_all_hubs_stale_def)
  then show ?thesis
    using run_trans [OF _ run_count [of de L ?w]] by (simp add: proxy_request_def do_proxy_request_def Let_def)
qed

definition image_answer :: "route_env \<Rightarrow> request \<Rightarrow> string \<Rightarrow> delivery" where
  "image_answer ev r raw =
     Artwork raw (photo_request_token r) (unwrap_or (take_bytes (an_body (re_upstream ev r raw))) [])"

lemma photo_fill_run:
  assumes "on_site de ev"
  shows "web_run de (L, ws) (insert (image_answer ev r raw) L,
    photo_fill ev (photo_cache_key (re_sha ev) (re_urls ev) raw r) (re_upstream ev r raw) ws)"
proof (cases "an_body (re_upstream ev r raw)")
  case (Once bs)
  let ?x = "Artwork raw (photo_request_token r) bs" and ?a = "re_upstream ev r raw"
  let ?k = "photo_cache_key_for (de_sha de) (de_urls de) raw (photo_request_token r)"
  let ?img = "\<lparr>im_content_type = an_type ?a, im_cache_control = an_control ?a, im_body = bs\<rparr>"
  let ?w = "ws\<lparr>ws_photos := AList.update ?k ?img (ws_photos ws)\<rparr>"
  have x: "image_answer ev r raw = ?x" by (simp add: image_answer_def Once take_bytes_def)
  have d: "web_run de (L, ws) (insert ?x L, ws)" by (rule run_step [OF web_step.deliver])
  have m: "web_step de (insert ?x L, ws) (insert ?x L, ?w)"
    using web_step.remember [of raw "photo_request_token r" ?img "insert ?x L" de ws] by simp
  have s: "web_step de (insert ?x L, ?w) (insert ?x L,
      ?w\<lparr>ws_disk := put_entry de (re_io ev) ?k bs (map_option text_bytes (an_type ?a)) (ws_disk ?w)\<rparr>)"
    by (rule web_step.store_disk [OF insertI1]) simp
  let ?v = "?w\<lparr>ws_disk := put_entry de (re_io ev) ?k bs (map_option text_bytes (an_type ?a)) (ws_disk ?w)\<rparr>"
  have run: "web_run de (L, ws) (insert ?x L, ?v)"
    by (rule run_then [OF run_then [OF d m] s])
  have "photo_fill ev (photo_cache_key (re_sha ev) (re_urls ev) raw r) ?a ws
      = (if status_success ?a \<and> is_image ?a \<and> length bs \<le> photo_limit then ?v else ws)"
    using assms by (simp add: photo_fill_def Once on_site_def photo_cache_key_def put_entry_def)
  then show ?thesis
    unfolding x using run d by (simp only: split: if_split) blast
qed (auto simp: photo_fill_def intro: run_step [OF web_step.deliver])

lemma photo_hoop_run:
  assumes "on_site de ev"
  shows "\<exists>D. D \<subseteq> {image_answer ev r raw}
    \<and> web_run de (L, ws) (L \<union> D, snd (snd (photo_cache_hoop ev r raw ws)))"
proof (cases "re_skip ev")
  case True
  then show ?thesis
    using run_count by (intro exI [of _ "{}"]) (simp add: photo_cache_hoop_def do_proxy_request_def Let_def)
next
  case False
  let ?k = "photo_cache_key (re_sha ev) (re_urls ev) raw r"
  obtain o1 d where g: "get_full (re_sha ev) (re_dir ev) (re_io ev) ?k (ws_disk ws) = (o1, d)" by fastforce
  have read: "web_run de (L, ws) (L, ws\<lparr>ws_disk := d, ws_metrics := m\<rparr>)" for m
    using run_trans [OF run_read [of de L ws "re_io ev" ?k] run_count] g assms
    by (simp add: on_site_def)
  show ?thesis
  proof (cases "o1 = None \<and> map_of (ws_photos ws) ?k = None")
    case True
    let ?m = "observe_upstream (min (re_elapsed ev) u64_max) (status_success (re_upstream ev r raw))
        (cache_miss (ws_metrics ws))"
    have "web_run de (L, ws) (insert (image_answer ev r raw) L,
        photo_fill ev ?k (re_upstream ev r raw) (ws\<lparr>ws_disk := d, ws_metrics := ?m\<rparr>))"
      by (rule run_trans [OF read photo_fill_run [OF assms]])
    with True g False show ?thesis
      by (intro exI [of _ "{image_answer ev r raw}"])
        (simp add: photo_cache_hoop_def Let_def do_proxy_request_def)
  next
    case hit: False
    have "snd (snd (photo_cache_hoop ev r raw ws)) = ws\<lparr>ws_disk := d, ws_metrics := cache_hit (ws_metrics ws)\<rparr>"
    proof (cases o1)
      case None
      with hit obtain img where "map_of (ws_photos ws) ?k = Some img" by auto
      with None g False show ?thesis by (simp add: photo_cache_hoop_def Let_def)
    next
      case (Some rc)
      with g False show ?thesis by (simp add: photo_cache_hoop_def Let_def)
    qed
    with read show ?thesis by (intro exI [of _ "{}"]) simp
  qed
qed

lemma photo_route_run:
  assumes "on_site de ev"
  shows "\<exists>D. D \<subseteq> {image_answer ev r raw}
    \<and> web_run de (L, ws) (L \<union> D, snd (photo_route ev rewrite r raw ws))"
proof -
  obtain D where D: "D \<subseteq> {image_answer ev r raw}"
    "web_run de (L, ws) (L \<union> D, snd (snd (photo_cache_hoop ev r raw ws)))"
    using photo_hoop_run [OF assms, of r raw L ws] by blast
  let ?h = "photo_cache_hoop ev r raw ws"
  have "snd (photo_route ev rewrite r raw ws) = snd (snd ?h)
      \<or> snd (photo_route ev rewrite r raw ws)
         = snd (proxy_request ev (fst (rewrite r)) (snd (rewrite r)) (snd (snd ?h)))"
    by (simp add: photo_route_def case_prod_beta)
  with D(2) run_trans [OF D(2) proxy_run] D(1) show ?thesis by metis
qed

text \<open>The enforcement works on the part facts and the counters of the same state.\<close>

definition playback_effects :: "play_env \<Rightarrow> request \<Rightarrow> web_state \<Rightarrow> web_state" where
  "playback_effects ev r ws =
     (let st = enforce_effects ev r \<lparr>pb_parts = ws_parts ws, pb_metrics = ws_metrics ws\<rparr>
      in ws\<lparr>ws_parts := pb_parts st, ws_metrics := pb_metrics st\<rparr>)"

lemma playback_run:
  "web_run de (L, ws) (L \<union> {Versions ms |p ms. enforced_media ev r = Some (p, ms)},
     playback_effects ev r ws)"
proof (cases "enforced_media ev r")
  case (Some pm)
  obtain p ms where pm: "pm = (p, ms)" by (cases pm)
  let ?L = "insert (Versions ms) L"
  have "ms \<in> reported de ?L" by (simp add: reported_def)
  then have "web_run de (?L, ws) (?L, ws\<lparr>ws_parts := cache_part_classification ms (ws_parts ws)\<rparr>)"
    by (intro run_step [OF web_step.record_facts])
  from run_trans [OF run_step [OF web_step.deliver] run_trans [OF this run_count]] Some pm
  show ?thesis by (simp add: playback_effects_def enforce_effects_def Let_def)
qed (simp add: playback_effects_def enforce_effects_def)

text \<open>The hubs work on the hub cache and the counters.\<close>

definition hub_answer :: "hub_env \<Rightarrow> request \<Rightarrow> delivery set" where
  "hub_answer ev r =
     {Hub_reply (cache_key_for_request r) (cx_token (he_context ev)) c |c.
        fetch_hubs_payload (he_hubs ev) (canonical_fetch_path r (cache_key_for_request r)) = Some c}"

definition hubs_route :: "hub_env \<Rightarrow> request \<Rightarrow> web_state \<Rightarrow> media_container option \<times> web_state" where
  "hubs_route ev r ws =
     (case cached_hubs_response ev r (ws_hub ws, ws_metrics ws) of
        (c, s, m) \<Rightarrow> (c, ws\<lparr>ws_hub := s, ws_metrics := m\<rparr>))"

lemma refresh_payloads:
  "hs_payloads (spawn_hub_refresh get now path k s) = hs_payloads s
   \<or> (\<exists>c. fetch_hubs_payload get path = Some c
        \<and> hs_payloads (spawn_hub_refresh get now path k s) = (hs_payloads s)(k \<mapsto> c))"
  by (auto simp: spawn_hub_refresh_def hub_defs Let_def split: option.split)

lemma hubs_route_run:
  assumes "he_sha ev = de_sha de"
  shows "\<exists>D. D \<subseteq> hub_answer ev r \<and> web_run de (L, ws) (L \<union> D, snd (hubs_route ev r ws))"
proof -
  let ?k = "hub_cache_key (de_sha de) (cache_key_for_request r) (cx_token (he_context ev))"
  let ?f = "canonical_fetch_path r (cache_key_for_request r)"
  obtain c s m where h: "cached_hubs_response ev r (ws_hub ws, ws_metrics ws) = (c, s, m)"
    by (metis prod_cases3)
  have "hs_payloads s = hs_payloads (ws_hub ws)
      \<or> (\<exists>p. fetch_hubs_payload (he_hubs ev) ?f = Some p \<and> hs_payloads s = (hs_payloads (ws_hub ws))(?k \<mapsto> p))"
    using h assms refresh_payloads [of "he_hubs ev" "he_now ev" ?f ?k "ws_hub ws"]
    by (auto simp: cached_hubs_response_def hub_payload_def track_fetched_def Let_def
        split: if_splits option.splits prod.splits)
  then consider "hs_payloads s = hs_payloads (ws_hub ws)"
    | p where "fetch_hubs_payload (he_hubs ev) ?f = Some p" "hs_payloads s = (hs_payloads (ws_hub ws))(?k \<mapsto> p)"
    by blast
  then show ?thesis
  proof cases
    case 1
    with run_trans [OF run_manage [OF 1] run_count] h show ?thesis
      by (intro exI [of _ "{}"]) (simp add: hubs_route_def)
  next
    case 2
    from run_trans [OF run_hub [OF 2(2)] run_count] h 2(1) show ?thesis
      by (intro exI [of _ "{Hub_reply (cache_key_for_request r) (cx_token (he_context ev)) p}"])
        (simp add: hubs_route_def hub_answer_def)
  qed
qed

subsection \<open>The warmer\<close>

text \<open>What Plex delivers to a cycle: pages, images and hubs, each for one of the configured tokens.\<close>

definition warm_delivered :: "warm_env \<Rightarrow> delivery set" where
  "warm_delivered ev =
     {Page path (Some t) bs |path t bs. t \<in> set (warm_token_list (wm_config ev))
        \<and> Option.bind (page_reply_ok ev t path) pr_body = Some bs}
     \<union> {Artwork (poster_path ev thumb) (Some t) bs |thumb t bs. t \<in> set (warm_token_list (wm_config ev))
        \<and> Option.bind (page_reply_ok ev t (poster_path ev thumb)) pr_body = Some bs}
     \<union> {Hub_reply (cache_key_for_request (wm_request ev (warm_fetch_path p))) (Some t) c |p t c.
        may_warm ev t p \<and> fetch_hubs_payload (hub_upstream ev t) (warm_fetch_path p) = Some c}"

definition warm_site :: "deployment \<Rightarrow> warm_env \<Rightarrow> bool" where
  "warm_site de ev \<longleftrightarrow> wm_sha ev = de_sha de \<and> wm_urls ev = de_urls de \<and> wm_dir ev = de_dir de
     \<and> wm_max ev = de_max de"

text \<open>A relation for the parts of a cycle: a run that adds only what was delivered.\<close>

definition warm_progress :: "deployment \<Rightarrow> warm_env \<Rightarrow> web_state \<Rightarrow> web_state \<Rightarrow> bool" where
  "warm_progress de ev a b \<longleftrightarrow>
     (warm_site de ev \<longrightarrow> (\<forall>L. \<exists>D. D \<subseteq> warm_delivered ev \<and> web_run de (L, a) (L \<union> D, b)))"

lemma progressI:
  assumes "\<And>L. warm_site de ev \<Longrightarrow> D \<subseteq> warm_delivered ev \<and> web_run de (L, a) (L \<union> D, b)"
  shows "warm_progress de ev a b"
  using assms unfolding warm_progress_def by blast

lemma progress_refl: "warm_progress de ev a a"
  by (rule progressI [of _ _ "{}"]) simp

lemma progress_trans:
  assumes "warm_progress de ev a b" "warm_progress de ev b c" shows "warm_progress de ev a c"
  unfolding warm_progress_def
proof (intro impI allI)
  fix L assume w: "warm_site de ev"
  obtain D where D: "D \<subseteq> warm_delivered ev" "web_run de (L, a) (L \<union> D, b)"
    using assms(1) w unfolding warm_progress_def by blast
  obtain E where E: "E \<subseteq> warm_delivered ev" "web_run de (L \<union> D, b) (L \<union> D \<union> E, c)"
    using assms(2) w unfolding warm_progress_def by blast
  have "web_run de (L, a) (L \<union> (D \<union> E), c)"
    using run_trans [OF D(2) E(2)] by (simp add: Un_assoc)
  moreover have "D \<union> E \<subseteq> warm_delivered ev" using D(1) E(1) by blast
  ultimately show "\<exists>D. D \<subseteq> warm_delivered ev \<and> web_run de (L, a) (L \<union> D, c)" by (intro exI conjI)
qed

lemma warm_hub_progress:
  assumes "may_warm ev t p"
  shows "warm_progress de ev ws (ws\<lparr>ws_hub := fst (warm_hub ev t p (ws_hub ws, w))\<rparr>)"
proof (cases rule: warm_hub_cases [of ev t p "ws_hub ws" w])
  case skipped
  then show ?thesis by (simp add: progress_refl)
next
  case (run s)
  let ?r = "cache_key_for_request (wm_request ev (warm_fetch_path p))"
  have s: "hs_payloads s = hs_payloads (ws_hub ws)"
    using run(1) by (auto simp: claim_refresh_def split: if_splits)
  show ?thesis
  proof (cases "fetch_hubs_payload (hub_upstream ev t) (warm_fetch_path p)")
    case None
    with run s have "hs_payloads (fst (warm_hub ev t p (ws_hub ws, w))) = hs_payloads (ws_hub ws)"
      by (simp add: hub_defs)
    from run_manage [OF this] show ?thesis by (intro progressI [of _ _ "{}"]) simp
  next
    case (Some c)
    have "hs_payloads (fst (warm_hub ev t p (ws_hub ws, w)))
        = (hs_payloads (ws_hub ws))(hub_cache_key (de_sha de) ?r (Some t) \<mapsto> c)" if "warm_site de ev"
      using run s Some that by (simp add: hub_defs warm_key_def warm_site_def)
    from run_hub [OF this] Some assms show ?thesis
      by (intro progressI [of _ _ "{Hub_reply ?r (Some t) c}"]) (auto simp: warm_delivered_def)
  qed
qed

lemma poster_progress:
  assumes "t \<in> set (warm_token_list (wm_config ev))" and "poster_fetch ev t thumb = Some f"
  shows "warm_progress de ev ws (store_poster ev (poster_key ev t thumb) f ws)"
proof -
  obtain ct bs where f: "f = (ct, bs)" by (cases f)
  let ?x = "Artwork (poster_path ev thumb) (Some t) bs"
  let ?k = "photo_cache_key_for (de_sha de) (de_urls de) (poster_path ev thumb) (Some t)"
  let ?img = "\<lparr>im_content_type = ct, im_cache_control = Some ''public, max-age=259200'', im_body = bs\<rparr>"
  let ?w = "ws\<lparr>ws_photos := AList.update ?k ?img (ws_photos ws)\<rparr>"
  let ?v = "?w\<lparr>ws_disk := put_entry de (wm_io ev) ?k bs (map_option text_bytes ct) (ws_disk ?w)\<rparr>"
  have x: "?x \<in> warm_delivered ev"
    using assms by (auto simp: warm_delivered_def poster_fetch_def f split: option.splits if_splits)
  have "web_run de (L, ws) (insert ?x L, ?v)" for L
  proof (rule run_then [OF run_then [OF run_step [OF web_step.deliver]]])
    show "web_step de (insert ?x L, ws) (insert ?x L, ?w)"
      using web_step.remember [of "poster_path ev thumb" "Some t" ?img "insert ?x L" de ws] by simp
    show "web_step de (insert ?x L, ?w) (insert ?x L, ?v)"
      by (rule web_step.store_disk [OF insertI1]) simp
  qed
  moreover have "store_poster ev (poster_key ev t thumb) f ws = ?v" if "warm_site de ev"
    using that by (simp add: store_poster_def f poster_key_def warm_site_def put_entry_def)
  ultimately show ?thesis
    using x by (intro progressI [of _ _ "{?x}"]) simp
qed

lemma section_progress:
  assumes "t \<in> set (warm_token_list (wm_config ev))"
  shows "warm_progress de ev ws (ws\<lparr>ws_disk := warm_section ev t sec starts (ws_disk ws)\<rparr>)"
proof (induction starts arbitrary: ws)
  case Nil
  show ?case by (simp add: progress_refl)
next
  case (Cons start starts)
  let ?p = "section_page sec start"
  let ?k = "library_cache_key_for (wm_sha ev) (wm_urls ev) ?p (Some t)"
  obtain o1 d where g: "get_full (wm_sha ev) (wm_dir ev) (wm_io ev) ?k (ws_disk ws) = (o1, d)" by fastforce
  have read: "warm_progress de ev ws (ws\<lparr>ws_disk := d\<rparr>)"
    using run_read [of de _ ws "wm_io ev" ?k] g
    by (intro progressI [of _ _ "{}"]) (simp add: warm_site_def)
  have rest: "warm_progress de ev (ws\<lparr>ws_disk := e\<rparr>) (ws\<lparr>ws_disk := warm_section ev t sec starts e\<rparr>)" for e
    using Cons.IH [of "ws\<lparr>ws_disk := e\<rparr>"] by simp
  show ?case
  proof (cases "o1 = None \<and> Option.bind (page_reply_ok ev t ?p) pr_body \<noteq> None")
    case True
    then obtain bs where bs: "Option.bind (page_reply_ok ev t ?p) pr_body = Some bs" "o1 = None" by blast
    let ?e = "snd (put_body (wm_sha ev) (wm_dir ev) (wm_max ev) (wm_io ev) ?k bs d)"
    have put: "warm_progress de ev (ws\<lparr>ws_disk := d\<rparr>) (ws\<lparr>ws_disk := ?e\<rparr>)"
    proof (rule progressI [of _ _ "{Page ?p (Some t) bs}"])
      fix L assume w: "warm_site de ev"
      have "disk_entry de (Page ?p (Some t) bs) = Some (?k, bs)" using w by (simp add: warm_site_def)
      from run_put [OF this, of L "ws\<lparr>ws_disk := d\<rparr>" "wm_io ev" None] w
      show "{Page ?p (Some t) bs} \<subseteq> warm_delivered ev
          \<and> web_run de (L, ws\<lparr>ws_disk := d\<rparr>) (L \<union> {Page ?p (Some t) bs}, ws\<lparr>ws_disk := ?e\<rparr>)"
        using assms bs(1) by (auto simp: warm_delivered_def put_entry_def put_body_def warm_site_def)
    qed
    have "warm_section ev t sec (start # starts) (ws_disk ws) =
        (if length bs < 1000 then ?e else warm_section ev t sec starts ?e)"
      using g bs by (simp add: Let_def get_body_def)
    with progress_trans [OF read put] progress_trans [OF progress_trans [OF read put] rest] show ?thesis
      by (simp only: split: if_split) blast
  next
    case False
    have "warm_section ev t sec (start # starts) (ws_disk ws) = (if o1 = None then d else warm_section ev t sec starts d)"
      using g False by (cases o1) (auto simp: Let_def get_body_def)
    with read progress_trans [OF read rest] show ?thesis by (simp only: split: if_split) blast
  qed
qed

interpretation warm_sourced: warm_relation ev "warm_progress de ev" for ev de
  by unfold_locales (blast intro: progress_refl progress_trans warm_hub_progress poster_progress
      section_progress)+

subsection \<open>What follows of the contents\<close>

definition known_keys :: "deployment \<Rightarrow> delivery set \<Rightarrow> string set" where
  "known_keys de L = {k. \<exists>x \<in> L. \<exists>bs. disk_entry de x = Some (k, bs)}"

lemma reachable_sourced:
  "web_run de ({}, fresh_web d) c \<Longrightarrow> contents d = {} \<Longrightarrow> sourced de c"
  by (rule web_run_sourced [OF _ fresh_sourced])

text \<open>A record on the disk was delivered under the same key, unless two keys in use have one digest.\<close>

lemma disk_hit_key:
  assumes "sourced de (L, ws)" "hex_digest (de_sha de)"
    and "inj_on (de_sha de) (insert k (known_keys de L))"
    and "fst (get_full (de_sha de) (de_dir de) io k (ws_disk ws)) = Some r"
  obtains x where "x \<in> L" "disk_entry de x = Some (k, cr_body r)"
proof -
  have hex: "list_all is_hexdigit (de_sha de q)" for q using assms(2) by (simp add: hex_digest_def)
  have "disk_sourced de L (ws_disk ws)" using assms(1) by (simp add: sourced_def)
  from disk_hit_delivered [OF this hex assms(4)] obtain x k' where x: "x \<in> L"
    "disk_entry de x = Some (k', cr_body r)"
    "path_for_key (de_sha de) (de_dir de) k = path_for_key (de_sha de) (de_dir de) k'" by blast
  from path_for_key_digest [OF hex hex x(3)] have "de_sha de k = de_sha de k'" .
  moreover have "k' \<in> known_keys de L" using x(1,2) by (auto simp: known_keys_def)
  ultimately have "k = k'" using assms(3) by (simp add: inj_on_def)
  with x that show thesis by blast
qed

lemma library_not_photo:
  "library_cache_key_for sha ul raw t \<noteq> photo_cache_key_for sha ul raw' t'"
  by (simp add: library_cache_key_for_def photo_cache_key_for_def)

lemma sourced_page:
  assumes "sourced de (L, ws)" "hex_digest (de_sha de)"
    and "inj_on (de_sha de) (insert (library_cache_key_for (de_sha de) (de_urls de) raw t) (known_keys de L))"
    and "fst (get_full (de_sha de) (de_dir de) io
           (library_cache_key_for (de_sha de) (de_urls de) raw t) (ws_disk ws)) = Some r"
  shows "\<exists>raw' t'. Page raw' t' (cr_body r) \<in> L \<and> token_scope (de_sha de) t' = token_scope (de_sha de) t
    \<and> canonical_library_path (de_urls de) raw' = canonical_library_path (de_urls de) raw"
proof -
  from disk_hit_key [OF assms] obtain x where x: "x \<in> L"
    "disk_entry de x = Some (library_cache_key_for (de_sha de) (de_urls de) raw t, cr_body r)" by blast
  then obtain raw' t' where "x = Page raw' t' (cr_body r)"
    "library_cache_key_for (de_sha de) (de_urls de) raw' t' = library_cache_key_for (de_sha de) (de_urls de) raw t"
    using library_not_photo [of "de_sha de" "de_urls de" raw t, symmetric] by (cases x) auto
  with x(1) library.isolated [OF assms(2)] show ?thesis by metis
qed

lemma sourced_artwork:
  assumes "sourced de (L, ws)" "hex_digest (de_sha de)"
    and "inj_on (de_sha de) (insert (photo_cache_key_for (de_sha de) (de_urls de) raw t) (known_keys de L))"
    and "fst (get_full (de_sha de) (de_dir de) io
           (photo_cache_key_for (de_sha de) (de_urls de) raw t) (ws_disk ws)) = Some r"
  shows "\<exists>raw' t'. Artwork raw' t' (cr_body r) \<in> L \<and> token_scope (de_sha de) t' = token_scope (de_sha de) t
    \<and> canonical_photo_key (de_urls de) raw' = canonical_photo_key (de_urls de) raw"
proof -
  from disk_hit_key [OF assms] obtain x where x: "x \<in> L"
    "disk_entry de x = Some (photo_cache_key_for (de_sha de) (de_urls de) raw t, cr_body r)" by blast
  then obtain raw' t' where "x = Artwork raw' t' (cr_body r)"
    "photo_cache_key_for (de_sha de) (de_urls de) raw' t' = photo_cache_key_for (de_sha de) (de_urls de) raw t"
    using library_not_photo [of "de_sha de" "de_urls de"] by (cases x) auto
  with x(1) photo.isolated [OF assms(2)] show ?thesis by metis
qed

lemma sourced_photo:
  assumes "sourced de (L, ws)" "hex_digest (de_sha de)"
    and "map_of (ws_photos ws) (photo_cache_key_for (de_sha de) (de_urls de) raw t) = Some img"
  shows "\<exists>raw' t'. Artwork raw' t' (im_body img) \<in> L \<and> token_scope (de_sha de) t' = token_scope (de_sha de) t
    \<and> canonical_photo_key (de_urls de) raw' = canonical_photo_key (de_urls de) raw"
proof -
  from assms(1) map_of_SomeD [OF assms(3)] obtain raw' t' where "Artwork raw' t' (im_body img) \<in> L"
    "photo_cache_key_for (de_sha de) (de_urls de) raw t = photo_cache_key_for (de_sha de) (de_urls de) raw' t'"
    unfolding sourced_def photos_sourced_def by auto
  with photo.isolated [OF assms(2)] show ?thesis by metis
qed

lemma hub_key_cases:
  assumes "hex_digest sha" "hub_cache_key sha p t = hub_cache_key sha p' t'"
  shows "p = p' \<and> (global_hub p \<or> token_scope sha t = token_scope sha t')"
proof (cases "global_hub p"; cases "global_hub p'")
  assume "\<not> global_hub p" "\<not> global_hub p'"
  with hub.isolated [OF assms(1), of "Abs_scoped_path p" t "Abs_scoped_path p'" t'] assms(2) show ?thesis
    by (auto simp: Abs_scoped_path_inverse)
qed (use assms(2) in \<open>simp_all add: hub_key_global hub_key_scoped\<close>)

lemma sourced_hub:
  assumes "sourced de (L, ws)" "hex_digest (de_sha de)"
    and "hs_payloads (ws_hub ws) (hub_cache_key (de_sha de) path t) = Some c"
  shows "\<exists>t'. Hub_reply path t' c \<in> L
    \<and> (global_hub path \<or> token_scope (de_sha de) t' = token_scope (de_sha de) t)"
proof -
  from assms(1) have "hubs_sourced de L (ws_hub ws)" by (simp add: sourced_def)
  with assms(3) obtain path' t' where "Hub_reply path' t' c \<in> L"
    "hub_cache_key (de_sha de) path t = hub_cache_key (de_sha de) path' t'"
    unfolding hubs_sourced_def by blast
  with hub_key_cases [OF assms(2)] show ?thesis by metis
qed

text \<open>A part that a restricted account is served belongs to a version that Plex reported.\<close>

lemma sourced_stream:
  assumes "sourced de (L, ws)" and "st_parts ev = ws_parts ws"
    and "gate_policy ev = Some p" "stream_restricted p"
    and "st_part ev = Some t" "parse_i64 t = Some part"
    and "fst (protected_redirect_stream ev m) = Proxied"
  shows "\<exists>ms \<in> reported de L. \<exists>v \<in> set ms. part \<in> p_id ` set (m_parts v) \<and> media_allowed v p
    \<and> (\<forall>mb. rp_max_bitrate p = Some mb \<longrightarrow> (\<exists>b. m_bitrate v = Some b \<and> b \<le> mb))"
proof -
  from restricted_part [OF assms(3-6), of m] assms(7) obtain f where
    f: "st_parts ev part = Some f" "part_classification_allowed f p"
    by (auto split: if_splits)
  from assms(1) have "parts_sourced de L (st_parts ev)" by (simp add: sourced_def assms(2))
  with f(1) obtain ms v where "ms \<in> reported de L" "v \<in> set ms" "part \<in> p_id ` set (m_parts v)"
    "f = classification_of v"
    unfolding parts_sourced_def by blast
  with f(2) part_allowed_iff [of v p] show ?thesis by blast
qed

end
