(* ===== verification/Transparency.thy ===== *)
theory Transparency
  imports Provenance
begin

text \<open>
  The cache of library pages as a client can see it: in every state that a run of the server
  (\<open>Provenance\<close>) reaches, the library route of \<open>src/routes.rs\<close> answers as if it had no cache, as
  long as Plex answers each canonical page of an account in one way.
\<close>

subsection \<open>What an outcome shows\<close>

text \<open>The page that the policy transforms make of a body: its content type and its bytes.\<close>

definition page_shown :: "route_env \<Rightarrow> request \<Rightarrow> bytes \<Rightarrow> (string option \<times> body) option" where
  "page_shown ev r bs =
     (case re_parse ev bs of
        Some c \<Rightarrow>
          (if re_client_ok ev
           then (let a = rendered ev r (apply_to (policy_transforms ev) c) empty_answer
                 in Some (an_type a, an_body a))
           else None)
      | None \<Rightarrow> None)"

definition outcome_shown :: "outcome \<Rightarrow> (string option \<times> body) option" where
  "outcome_shown out = (case out of Served a \<Rightarrow> Some (an_type a, an_body a) | Errored \<Rightarrow> None)"

text \<open>What Plex answers to the normalised fetch of a page, and the route without its cache: fetch,
  transform, answer.\<close>

definition live_page :: "route_env \<Rightarrow> request \<Rightarrow> string \<Rightarrow> answer" where
  "live_page ev r raw = proxy_for_transform ev (normalized_request ev raw r) (normalized ev raw)"

definition uncached_page :: "route_env \<Rightarrow> request \<Rightarrow> string \<Rightarrow> web_state \<Rightarrow> outcome" where
  "uncached_page ev r raw ws =
     fst (transform_policy_response ev (normalized_request ev raw r) (live_page ev r raw) ws)"

lemma apply_policy_shows:
  assumes "take_bytes (an_body a) = Some bs"
  shows "map_option (\<lambda>b. (an_type b, an_body b)) (fst (apply_policy_transforms ev r a ws)) = page_shown ev r bs"
  using assms
  by (simp add: apply_policy_transforms_def page_shown_def rendered_def Let_def split: option.split)

lemma transform_shows:
  assumes "take_bytes (an_body a) = Some bs" "unwrap_or (an_status a) 200 = 200"
  shows "outcome_shown (fst (transform_policy_response ev r a ws)) = page_shown ev r bs"
  using apply_policy_shows [OF assms(1), of ev r ws] assms(2)
  by (auto simp: transform_policy_response_def outcome_shown_def split: prod.splits option.splits)

lemma page_shown_normalized: "page_shown ev (normalized_request ev raw r) bs = page_shown ev r bs"
  by (simp add: page_shown_def rendered_def request_type_query Let_def split: option.split)

lemma uncached_shows:
  assumes "take_bytes (an_body (live_page ev r raw)) = Some bs"
    and "unwrap_or (an_status (live_page ev r raw)) 200 = 200"
  shows "outcome_shown (uncached_page ev r raw ws) = page_shown ev r bs"
  using transform_shows [OF assms] by (simp add: uncached_page_def page_shown_normalized)

subsection \<open>The route with its cache\<close>

lemma live_shows:
  assumes "take_bytes (an_body (proxy_for_transform ev r raw)) = Some bs"
    and "unwrap_or (an_status (proxy_for_transform ev r raw)) 200 = 200"
  shows "outcome_shown (fst (library_live ev r raw ws)) = page_shown ev r bs"
proof -
  obtain a ws' where a: "library_cache_store ev r raw (proxy_for_transform ev r raw) ws = (a, ws')"
    by fastforce
  then have "take_bytes (an_body a) = Some bs" "unwrap_or (an_status a) 200 = 200"
    using assms by (auto simp: library_cache_store_def take_bytes_def split: if_splits)
  then show ?thesis using transform_shows a by (simp add: library_live_def)
qed

lemma miss_shows:
  assumes "take_bytes (an_body (live_page ev r raw)) = Some bs"
    and "unwrap_or (an_status (live_page ev r raw)) 200 = 200"
  shows "outcome_shown (fst (library_miss ev r raw ws)) = page_shown ev r bs"
  using live_shows [OF assms [unfolded live_page_def]]
  by (simp add: library_miss_def page_shown_normalized)

text \<open>If every page that the disk may hold under the key is the one Plex gives now, a lookup shows what a
  fetch would show.\<close>

lemma lookup_shows:
  assumes "starts_with (rq_path r) library_prefix"
    and "take_bytes (an_body (live_page ev r raw)) = Some bs"
    and "unwrap_or (an_status (live_page ev r raw)) 200 = 200"
    and "\<And>rc. fst (get_full (re_sha ev) (re_dir ev) (re_io ev) (page_key ev raw r) (ws_disk ws)) = Some rc \<Longrightarrow> cr_body rc = bs"
  shows "outcome_shown (fst (library_cache_lookup ev r raw ws)) = page_shown ev r bs"
proof -
  obtain found d where g: "get_full (re_sha ev) (re_dir ev) (re_io ev) (page_key ev raw r) (ws_disk ws) = (found, d)"
    by fastforce
  show ?thesis
  proof (cases found)
    case None
    then show ?thesis
      using assms(1) g miss_shows [OF assms(2,3)] by (simp add: library_cache_lookup_def get_body_def)
  next
    case (Some rc)
    let ?ws = "ws\<lparr>ws_disk := d, ws_metrics := cache_hit (ws_metrics ws)\<rparr>"
    have rc: "cr_body rc = bs" using assms(4) g Some by simp
    have bytes: "take_bytes (an_body (cached_page bs)) = Some bs" by (simp add: cached_page_def take_bytes_def)
    obtain out ws' where out: "apply_policy_transforms ev r (cached_page bs) ?ws = (out, ws')" by fastforce
    show ?thesis
      using apply_policy_shows [OF bytes, of ev r ?ws] assms(1) g Some rc out miss_shows [OF assms(2,3)]
      by (cases out) (simp_all add: library_cache_lookup_def get_body_def outcome_shown_def)
  qed
qed

subsection \<open>Runs of the server\<close>

text \<open>\<open>plex\<close> gives the body of a canonical page of an account; a run in which it does not change.\<close>

definition plex_is_stable :: "deployment \<Rightarrow> (string \<Rightarrow> bytes) \<Rightarrow> delivery set \<Rightarrow> bool" where
  "plex_is_stable de plex L \<longleftrightarrow>
     (\<forall>raw t bs. Page raw t bs \<in> L \<longrightarrow> bs = plex (library_cache_key_for (de_sha de) (de_urls de) raw t))"

lemma stored_page_is_current:
  assumes "sourced de (L, ws)" "hex_digest (de_sha de)" "plex_is_stable de plex L" "on_site de ev"
    and "inj_on (de_sha de) (insert (page_key ev raw r) (known_keys de L))"
    and "fst (get_full (re_sha ev) (re_dir ev) (re_io ev) (page_key ev raw r) (ws_disk ws)) = Some rc"
  shows "cr_body rc = plex (page_key ev raw r)"
proof -
  have key: "page_key ev raw r = library_cache_key_for (de_sha de) (de_urls de) raw (request_token r)"
    using assms(4) by (simp add: page_key_def library_cache_key_def on_site_def)
  have "fst (get_full (de_sha de) (de_dir de) (re_io ev) (page_key ev raw r) (ws_disk ws)) = Some rc"
    using assms(4,6) by (simp add: on_site_def)
  from disk_hit_key [OF assms(1,2,5) this] obtain x where x: "x \<in> L"
    "disk_entry de x = Some (page_key ev raw r, cr_body rc)" by blast
  then obtain raw' t' where "x = Page raw' t' (cr_body rc)"
    "library_cache_key_for (de_sha de) (de_urls de) raw' t' = page_key ev raw r"
    using library_not_photo [of "de_sha de" "de_urls de" raw "request_token r", symmetric] key
    by (cases x) auto
  with x(1) assms(3) show ?thesis unfolding plex_is_stable_def by metis
qed

lemma cache_unobservable:
  assumes "sourced de (L, ws)" "hex_digest (de_sha de)" "plex_is_stable de plex L" "on_site de ev"
    and "inj_on (de_sha de) (insert (page_key ev raw r) (known_keys de L))"
    and "starts_with (rq_path r) library_prefix"
    and "take_bytes (an_body (live_page ev r raw))
      = Some (plex (page_key ev raw r))"
    and "unwrap_or (an_status (live_page ev r raw)) 200 = 200"
  shows "outcome_shown (fst (library_cache_lookup ev r raw ws)) = outcome_shown (uncached_page ev r raw ws)"
  using lookup_shows [OF assms(6-8) stored_page_is_current [OF assms(1-5)]] uncached_shows [OF assms(7,8)]
  by simp

end
