(* ===== verification/Conformance_Policy.thy ===== *)
theory Conformance_Policy
  imports Playback_Selection Policy_Transform
begin

text \<open>
  The unit tests of \<open>src/resolution_policy.rs\<close>, \<open>src/playback_selection.rs\<close>,
  \<open>src/plex_client.rs\<close> and \<open>src/transform/resolution_policy.rs\<close>, translated assertion by
  assertion over the model and evaluated: what the tests expect of the code, the model does.  Each
  definition has the name of its test; a helper of a test module keeps its name too.
\<close>

subsection \<open>Limits and their order\<close>

definition test_media :: "string option \<Rightarrow> i64 option \<Rightarrow> i64 option \<Rightarrow> media" where
  "test_media resolution width height =
     default_media\<lparr>m_video_resolution := resolution, m_width := width, m_height := height\<rparr>"

definition limited :: "resolution_limit \<Rightarrow> resolution_policy" where
  "limited l = \<lparr>rp_limit = l, rp_max_bitrate = None, rp_hidden_collections = []\<rparr>"

definition parse_limits :: bool where
  "parse_limits \<longleftrightarrow>
     limit_parse ''480'' = Some P480
   \<and> limit_parse ''720'' = Some P720
   \<and> limit_parse ''1080'' = Some P1080
   \<and> limit_parse ''4k'' = Some P2160
   \<and> limit_parse ''unlimited'' = Some Unlimited
   \<and> limit_parse ''UNLIMITED'' = Some Unlimited
   \<and> limit_parse ''bogus'' = None"

lemma parse_limits_passes: "parse_limits"
  by code_simp

definition ordering_is_strictness :: bool where
  "ordering_is_strictness \<longleftrightarrow> P480 < P1080 \<and> P1080 < P2160 \<and> P2160 < Unlimited"

lemma ordering_is_strictness_passes: "ordering_is_strictness"
  by code_simp

subsection \<open>The classification matrix\<close>

definition classify_1920x1080_allowed_for_1080 :: bool where
  "classify_1920x1080_allowed_for_1080 \<longleftrightarrow>
     (let m = test_media (Some ''1080'') (Some 1920) (Some 1080)
      in classify m = Some P1080 \<and> media_allowed m (limited P1080))"

definition classify_1920x800_allowed_for_1080 :: bool where
  "classify_1920x800_allowed_for_1080 \<longleftrightarrow>
     (let m = test_media None (Some 1920) (Some 800)
      in classify m = Some P1080 \<and> media_allowed m (limited P1080))"

definition classify_3840x2160_blocked_for_1080 :: bool where
  "classify_3840x2160_blocked_for_1080 \<longleftrightarrow>
     (let m = test_media (Some ''4k'') (Some 3840) (Some 2160)
      in classify m = Some P2160 \<and> \<not> media_allowed m (limited P1080))"

definition classify_3840x1608_blocked_for_1080 :: bool where
  "classify_3840x1608_blocked_for_1080 \<longleftrightarrow>
     (let m = test_media (Some ''4k'') (Some 3840) (Some 1608)
      in classify m = Some P2160 \<and> \<not> media_allowed m (limited P1080))"

definition classify_4096x2160_allowed_for_4k :: bool where
  "classify_4096x2160_allowed_for_4k \<longleftrightarrow>
     (let m = test_media (Some ''4k'') (Some 4096) (Some 2160)
      in classify m = Some P2160 \<and> media_allowed m (limited P2160))"

definition classify_7680x4320_blocked_for_4k :: bool where
  "classify_7680x4320_blocked_for_4k \<longleftrightarrow>
     (let m = test_media None (Some 7680) (Some 4320)
      in classify m = None \<and> \<not> media_allowed m (limited P2160))"

definition text_and_dimensions_disagree_more_restrictive_wins :: bool where
  "text_and_dimensions_disagree_more_restrictive_wins \<longleftrightarrow>
     classify (test_media (Some ''1080'') (Some 3840) (Some 2160)) = Some P2160
   \<and> classify (test_media (Some ''4k'') (Some 1920) (Some 1080)) = Some P2160"

definition unknown_resolution_blocked_for_restricted_allowed_for_unrestricted :: bool where
  "unknown_resolution_blocked_for_restricted_allowed_for_unrestricted \<longleftrightarrow>
     (let m = test_media None None None
      in classify m = None
       \<and> \<not> media_allowed m (limited P1080)
       \<and> media_allowed m policy_unrestricted)"

lemma classification_matrix_passes:
  "classify_1920x1080_allowed_for_1080"
  "classify_1920x800_allowed_for_1080"
  "classify_3840x2160_blocked_for_1080"
  "classify_3840x1608_blocked_for_1080"
  "classify_4096x2160_allowed_for_4k"
  "classify_7680x4320_blocked_for_4k"
  "text_and_dimensions_disagree_more_restrictive_wins"
  "unknown_resolution_blocked_for_restricted_allowed_for_unrestricted"
  by code_simp+

subsection \<open>Permitted versions\<close>

definition sample_versions :: "media list" where
  "sample_versions =
     [test_media (Some ''1080'') (Some 1920) (Some 1080), test_media (Some ''4k'') (Some 3840) (Some 2160)]"

definition only_4k :: "media list" where
  "only_4k = [test_media (Some ''4k'') (Some 3840) (Some 2160)]"

definition allowed_media_filters_for_1080_user :: bool where
  "allowed_media_filters_for_1080_user \<longleftrightarrow>
     map m_video_resolution (allowed_media sample_versions (limited P1080)) = [Some ''1080'']"

definition allowed_media_keeps_everything_for_4k_user :: bool where
  "allowed_media_keeps_everything_for_4k_user \<longleftrightarrow>
     length (allowed_media sample_versions (limited P2160)) = 2"

definition allowed_media_empty_when_nothing_permitted :: bool where
  "allowed_media_empty_when_nothing_permitted \<longleftrightarrow> allowed_media only_4k (limited P1080) = []"

definition best_allowed_prefers_closest_to_screen_density :: bool where
  "best_allowed_prefers_closest_to_screen_density \<longleftrightarrow>
     map_option m_video_resolution
       (best_allowed_media sample_versions (limited P2160) (Some (1920, 1080))) = Some (Some ''1080'')
   \<and> map_option m_video_resolution
       (best_allowed_media sample_versions (limited P2160) (Some (3840, 2160))) = Some (Some ''4k'')"

definition best_allowed_respects_account_limit_over_device :: bool where
  "best_allowed_respects_account_limit_over_device \<longleftrightarrow>
     map_option m_video_resolution
       (best_allowed_media sample_versions (limited P1080) (Some (3840, 2160)))
     = Some (Some ''1080'')"

definition best_allowed_none_when_all_blocked :: bool where
  "best_allowed_none_when_all_blocked \<longleftrightarrow> best_allowed_media only_4k (limited P1080) None = None"

lemma filtering_passes:
  "allowed_media_filters_for_1080_user"
  "allowed_media_keeps_everything_for_4k_user"
  "allowed_media_empty_when_nothing_permitted"
  "best_allowed_prefers_closest_to_screen_density"
  "best_allowed_respects_account_limit_over_device"
  "best_allowed_none_when_all_blocked"
  by code_simp+

subsection \<open>Policy resolution\<close>

text \<open>The rules as \<open>serde_json\<close> reads them out of the test's text; the test itself keeps the
  identified ones and parses their limits.\<close>

definition raw_rules :: "raw_policy_entry list" where
  "raw_rules =
     [\<lparr>raw_username = Some ''user1080'', raw_uuid = None, raw_max_resolution = ''1080'',
       raw_max_bitrate = None, raw_visible_collections = []\<rparr>,
      \<lparr>raw_username = None, raw_uuid = Some ''1234-5678'', raw_max_resolution = ''4k'',
       raw_max_bitrate = None, raw_visible_collections = []\<rparr>,
      \<lparr>raw_username = Some ''admin'', raw_uuid = None, raw_max_resolution = ''unlimited'',
       raw_max_bitrate = None, raw_visible_collections = []\<rparr>]"

definition parse_policy_entries_json :: bool where
  "parse_policy_entries_json \<longleftrightarrow>
     (let entries = map (\<lambda>e. \<lparr>pe_username = raw_username e, pe_uuid = raw_uuid e,
            pe_max_resolution = the (limit_parse (raw_max_resolution e)),
            pe_max_bitrate = None, pe_visible_collections = []\<rparr>)
          (filter (\<lambda>e. raw_username e \<noteq> None \<or> raw_uuid e \<noteq> None) raw_rules)
      in length entries = 3
       \<and> pe_max_resolution (entries ! 0) = P1080
       \<and> pe_max_resolution (entries ! 1) = P2160
       \<and> pe_username (entries ! 1) = None
       \<and> pe_max_resolution (entries ! 2) = Unlimited)"

lemma parse_policy_entries_json_passes: "parse_policy_entries_json"
  by code_simp

text \<open>The code's own reader agrees with what the test computes by hand.\<close>

lemma reader_agrees_with_the_test:
  "case collect_entries raw_rules of
     Inr out \<Rightarrow> map pe_max_resolution out = [P1080, P2160, Unlimited]
   | Inl _ \<Rightarrow> False"
  by code_simp

definition test_identity :: "i64 \<Rightarrow> string \<Rightarrow> string \<Rightarrow> user_identity" where
  "test_identity i uuid username = \<lparr>ui_id = i, ui_uuid = uuid, ui_username = username\<rparr>"

definition rule_for ::
  "string option \<Rightarrow> string option \<Rightarrow> resolution_limit \<Rightarrow> string list \<Rightarrow> policy_entry" where
  "rule_for username uuid l visible =
     \<lparr>pe_username = username, pe_uuid = uuid, pe_max_resolution = l, pe_max_bitrate = None,
      pe_visible_collections = visible\<rparr>"

definition resolve_policy_matches_uuid_first :: bool where
  "resolve_policy_matches_uuid_first \<longleftrightarrow>
     rp_limit (resolve_policy
       [rule_for (Some ''jodie'') None P1080 [],
        rule_for (Some ''someone-else'') (Some ''uuid-jodie'') P2160 []]
       Unlimited [] (test_identity 1 ''uuid-jodie'' ''jodie'')) = P2160"

definition resolve_policy_falls_back_to_username :: bool where
  "resolve_policy_falls_back_to_username \<longleftrightarrow>
     rp_limit (resolve_policy [rule_for (Some ''jodie'') None P1080 []] Unlimited []
       (test_identity 1 ''some-uuid'' ''jodie'')) = P1080"

definition resolve_policy_unmatched_uses_default :: bool where
  "resolve_policy_unmatched_uses_default \<longleftrightarrow>
     rp_limit (resolve_policy [rule_for (Some ''jodie'') None P1080 []] Unlimited []
       (test_identity 1 ''other-uuid'' ''luke'')) = Unlimited"

definition resolve_policy_empty_policies_uses_default :: bool where
  "resolve_policy_empty_policies_uses_default \<longleftrightarrow>
     rp_limit (resolve_policy [] P1080 [] (test_identity 1 ''u'' ''anyone'')) = P1080"

definition resolve_policy_case_sensitive_usernames :: bool where
  "resolve_policy_case_sensitive_usernames \<longleftrightarrow>
     rp_limit (resolve_policy [rule_for (Some ''Jodie'') None P1080 []] Unlimited []
       (test_identity 1 ''u'' ''jodie'')) = Unlimited"

text \<open>The title starts with U+1F380, four bytes in UTF-8.\<close>

definition ribbon_jodie :: string where
  "ribbon_jodie = [CHR 0xF0, CHR 0x9F, CHR 0x8E, CHR 0x80] @ ''Jodie''"

definition resolve_policy_collection_visibility :: bool where
  "resolve_policy_collection_visibility \<longleftrightarrow>
     (let rules = [rule_for (Some ''jodiemy3'') None P1080 [ribbon_jodie]];
          default_hidden = [ribbon_jodie]
      in rp_hidden_collections (resolve_policy rules Unlimited default_hidden
           (test_identity 1 ''uuid-j'' ''jodiemy3'')) = []
       \<and> rp_hidden_collections (resolve_policy rules Unlimited default_hidden
           (test_identity 2 ''uuid-l'' ''luke'')) = [ribbon_jodie])"

lemma policy_resolution_passes:
  "resolve_policy_matches_uuid_first"
  "resolve_policy_falls_back_to_username"
  "resolve_policy_unmatched_uses_default"
  "resolve_policy_empty_policies_uses_default"
  "resolve_policy_case_sensitive_usernames"
  "resolve_policy_collection_visibility"
  by code_simp+

subsection \<open>Choice of a version by index\<close>

definition version :: "i64 \<Rightarrow> string \<Rightarrow> i64 \<Rightarrow> i64 \<Rightarrow> media" where
  "version i resolution width height =
     default_media\<lparr>m_id := i, m_video_resolution := Some resolution, m_width := Some width,
       m_height := Some height\<rparr>"

definition best_fit_prefers_highest_close_version_when_all_are_below_screen :: bool where
  "best_fit_prefers_highest_close_version_when_all_are_below_screen \<longleftrightarrow>
     best_fit_index
       [version 1 ''480'' 720 480, version 2 ''720'' 1280 720, version 3 ''1080'' 1920 1080]
       (3840, 2160) = Some 2"

definition fallback_indexes_survive_filtering_and_sorting :: bool where
  "fallback_indexes_survive_filtering_and_sorting \<longleftrightarrow>
     fallback_indexes
       [version 10 ''4k'' 3840 2160, version 20 ''720'' 1280 720, version 30 ''1080'' 1920 1080]
       0 ''4k'' None = [2, 1]"

definition malformed_decision_is_not_a_transcode_or_a_panic :: bool where
  "malformed_decision_is_not_a_transcode_or_a_panic \<longleftrightarrow>
     \<not> decision_is_transcoding default_container
   \<and> requested_media_index (Some ''nonsense'') = None"

lemma version_fields:
  "density (version i r w h) =
     (if 0 \<le> w \<and> 0 \<le> h then u128_checked_mul (nat w) (nat h) else None)"
  "m_video_resolution (version i r w h) = Some r"
  by (simp_all add: density_def version_def u128_from_def)

lemma best_fit_prefers_highest_passes:
  "best_fit_prefers_highest_close_version_when_all_are_below_screen"
  by (simp add: best_fit_prefers_highest_close_version_when_all_are_below_screen_def
      best_fit_index_def best_fit_key_def version_fields u128_from_def u128_checked_mul_def
      u128_max_def abs_diff_def less_prod_def less_eq_prod_def)

lemma fallback_indexes_survive_passes: "fallback_indexes_survive_filtering_and_sorting"
  by (simp add: fallback_indexes_survive_filtering_and_sorting_def fallback_indexes_def
      fallback_candidate_def version_fields u128_checked_mul_def u128_max_def eq_ignore_case_def
      str_simps)

lemma malformed_decision_passes: "malformed_decision_is_not_a_transcode_or_a_panic"
  by (simp add: malformed_decision_is_not_a_transcode_or_a_panic_def decision_is_transcoding_def
      default_container_def first_opt_def requested_media_index_def parse_usize_def parse_uint_def
      str_simps)

text \<open>\<open>tests/playback_replay.rs\<close>: the same two choices on the versions of a captured response of Plex.\<close>

definition captured_versions :: "media list" where
  "captured_versions =
     [version 71 ''4k'' 3840 2160, version 72 ''720'' 1280 720, version 73 ''1080'' 1920 1080]"

definition captured_plex_versions_keep_original_selection_indexes :: bool where
  "captured_plex_versions_keep_original_selection_indexes \<longleftrightarrow>
     best_fit_index captured_versions (1920, 1080) = Some 2
   \<and> fallback_indexes captured_versions 0 ''4k'' None = [2, 1]"

lemma captured_versions_pass: "captured_plex_versions_keep_original_selection_indexes"
  by (simp add: captured_plex_versions_keep_original_selection_indexes_def captured_versions_def
      best_fit_index_def best_fit_key_def version_fields u128_from_def u128_checked_mul_def
      u128_max_def abs_diff_def less_prod_def less_eq_prod_def fallback_indexes_def
      fallback_candidate_def eq_ignore_case_def str_simps)

subsection \<open>Classified parts\<close>

definition classified :: "resolution_limit option \<Rightarrow> i64 option \<Rightarrow> part_classification" where
  "classified l b = \<lparr>pc_resolution = l, pc_bitrate = b\<rparr>"

definition one_classification_is_re_evaluated_against_each_policy :: bool where
  "one_classification_is_re_evaluated_against_each_policy \<longleftrightarrow>
     (let c = classified (Some P2160) (Some 20000)
      in \<not> part_classification_allowed c (limited P1080)
       \<and> part_classification_allowed c (limited P2160)
       \<and> part_classification_allowed c (limited Unlimited))"

definition unknown_classification_is_blocked_only_for_restricted_policy :: bool where
  "unknown_classification_is_blocked_only_for_restricted_policy \<longleftrightarrow>
     (let unknown = classified None None
      in \<not> part_classification_allowed unknown (limited P1080)
       \<and> part_classification_allowed unknown (limited Unlimited))"

definition bitrate_cap_is_applied_to_cached_part_facts :: bool where
  "bitrate_cap_is_applied_to_cached_part_facts \<longleftrightarrow>
     (let capped = \<lparr>rp_limit = Unlimited, rp_max_bitrate = Some 8000, rp_hidden_collections = []\<rparr>
      in part_classification_allowed (classified (Some P2160) (Some 5000)) capped
       \<and> \<not> part_classification_allowed (classified (Some P1080) (Some 20000)) capped
       \<and> \<not> part_classification_allowed (classified (Some P1080) None) capped)"

lemma part_classification_passes:
  "one_classification_is_re_evaluated_against_each_policy"
  "unknown_classification_is_blocked_only_for_restricted_policy"
  "bitrate_cap_is_applied_to_cached_part_facts"
  by code_simp+

subsection \<open>The policy transform\<close>

text \<open>The items are those that the test's JSON denotes; what the test does not set stays at
  its default.\<close>

definition sized :: "i64 \<times> string \<Rightarrow> media" where
  "sized v = default_media\<lparr>m_id := fst v, m_video_resolution := Some (snd v)\<rparr>"

definition item_of :: "string \<Rightarrow> string \<Rightarrow> string \<Rightarrow> (i64 \<times> string) list \<Rightarrow> md_attrs" where
  "item_of i title kind versions =
     default_attrs\<lparr>md_rating_key := Some i, md_key := Some (''/library/metadata/'' @ i),
       md_title := title, md_type := kind, md_media := map sized versions\<rparr>"

definition movie :: "string \<Rightarrow> (i64 \<times> string) list \<Rightarrow> metadata" where
  "movie i versions = MetaData (item_of i (''Movie '' @ i) ''movie'' versions) [] [] []"

definition strip_parent :: metadata where
  "strip_parent = MetaData (item_of ''1'' ''Show'' ''show'' [])
     [MetaData (item_of ''10'' ''Ep 10'' ''episode'' [(11, ''4k''), (12, ''1080'')]) [] [] [],
      MetaData (item_of ''20'' ''Ep 20'' ''episode'' [(21, ''4k'')]) [] [] []] [] []"

definition strip_recursive_removes_only_prohibited :: bool where
  "strip_recursive_removes_only_prohibited \<longleftrightarrow>
     (let parent = filter_media_recursive (limited P1080) strip_parent
      in count_media strip_parent = 3
       \<and> map (map m_id \<circ> md_media \<circ> attrs) (metadata parent) = [[12]]
       \<and> count_media parent = 1)"

lemma strip_recursive_passes: "strip_recursive_removes_only_prohibited"
  by code_simp

definition collection_item :: "string \<Rightarrow> bool \<Rightarrow> metadata" where
  "collection_item title hub =
     MetaData (default_attrs\<lparr>md_rating_key := Some ''9'', md_title := title,
       md_type := (if hub then ''hub'' else ''collection''),
       md_context := (if hub then Some ''hub.custom.collection.23.123'' else None),
       md_hub_identifier := (if hub then Some ''collection.test'' else None)\<rparr>) [] [] []"

definition hidden_collection_matched_by_title :: bool where
  "hidden_collection_matched_by_title \<longleftrightarrow>
     (let p = \<lparr>rp_limit = Unlimited, rp_max_bitrate = None, rp_hidden_collections = [ribbon_jodie]\<rparr>
      in is_hidden p (collection_item ribbon_jodie True)
       \<and> \<not> is_hidden p (collection_item ''Trending'' True)
       \<and> \<not> is_hidden p (movie ''5'' [(6, ''1080'')]))"

definition no_hidden_collections_means_passthrough :: bool where
  "no_hidden_collections_means_passthrough \<longleftrightarrow>
     \<not> is_hidden policy_unrestricted (collection_item ribbon_jodie False)"

lemma hidden_collections_passes:
  "hidden_collection_matched_by_title" "no_hidden_collections_means_passthrough"
  by code_simp+

text \<open>A plex.tv and a server that answer nothing, as the unreachable address of the test.\<close>

definition unreachable :: identity_api where
  "unreachable = \<lparr>ia_user = (\<lambda>_ _ _. NoReply), ia_resources = (\<lambda>_ _ _. NoReply),
     ia_shared_servers = (\<lambda>_ _ _ _. NoReply), ia_root = (\<lambda>_. NoReply), ia_header_ok = (\<lambda>_. True)\<rparr>"

definition test_config :: config where
  "test_config = default_config\<lparr>cf_host := Some ''http://localhost:32400''\<rparr>"

definition test_policy :: "(string \<Rightarrow> string) \<Rightarrow> config \<Rightarrow> (resolution_policy \<times> user_identity) option" where
  "test_policy sha c =
     current_policy (new_store c) None None
       (fst (get_current_identity sha unreachable c ''http://localhost:32400''
          (default_context\<lparr>cx_token := Some ''test-token''\<rparr>)
          \<lparr>id_identities = (\<lambda>_. None), id_machines = (\<lambda>_. None)\<rparr>))"

definition policy_flag_and_fail_closed_scenarios :: "(string \<Rightarrow> string) \<Rightarrow> bool" where
  "policy_flag_and_fail_closed_scenarios sha \<longleftrightarrow>
     (let off = test_config\<lparr>cf_resolution_policy_enabled := False\<rparr>;
          on = test_config\<lparr>cf_resolution_policy_enabled := True,
                 cf_identity_api_base := Some ''http://127.0.0.1:9''\<rparr>;
          closed = ps_fail_closed (new_store on)
      in length (md_media (attrs (policy_transform_item (test_policy sha off)
           (ps_fail_closed (new_store off)) (movie ''1'' [(1, ''4k'')])))) = 1
       \<and> md_media (attrs (policy_transform_item (test_policy sha on) closed
           (movie ''2'' [(2, ''1080'')]))) = []
       \<and> \<not> policy_transform_filter (test_policy sha on) closed (movie ''3'' [(3, ''1080'')]))"

lemma policy_flag_and_fail_closed_passes: "policy_flag_and_fail_closed_scenarios sha"
  by (simp add: policy_flag_and_fail_closed_scenarios_def test_policy_def current_policy_def
      new_store_def snapshot_from_config_def test_config_def default_config_def movie_def
      policy_transform_item_def policy_transform_filter_def get_current_identity_def
      fetch_current_identity_def unreachable_def client_identifier_header_def default_context_def
      item_of_def policy_simps Let_def)

end
