(* ===== verification/Conformance_Keys.thy ===== *)
theory Conformance_Keys
  imports Samples Warmer
begin

text \<open>
  The unit tests of \<open>src/hub_cache.rs\<close> and the key tests of \<open>src/routes.rs\<close>, translated over the
  model and evaluated.  The digest of a test is one that tells its two accounts apart; URLs are
  read by \<open>demo_urls\<close>.
\<close>

definition digest_of :: "string \<Rightarrow> string \<Rightarrow> string" where
  "digest_of a t = replicate 64 (if t = a then CHR ''a'' else CHR ''b'')"

subsection \<open>Hub keys\<close>

definition all_authenticated_hubs_get_per_token_keys :: "(string \<Rightarrow> string) \<Rightarrow> bool" where
  "all_authenticated_hubs_get_per_token_keys sha \<longleftrightarrow>
     (let section_a = hub_cache_key sha ''/hubs/sections/6'' (Some ''tokenA'');
          section_b = hub_cache_key sha ''/hubs/sections/6'' (Some ''tokenB'');
          a1 = hub_cache_key sha ''/hubs/continueWatching'' (Some ''tokenA'');
          a2 = hub_cache_key sha ''/hubs/continueWatching'' (Some ''tokenA'');
          b = hub_cache_key sha ''/hubs/continueWatching'' (Some ''tokenB'');
          anon = hub_cache_key sha ''/hubs/continueWatching'' None;
          warm = hub_cache_key sha ''/hubs/promoted?contentdirectoryid=23'' (Some ''admin'');
          req = hub_cache_key sha ''/hubs/promoted?contentdirectoryid=23'' (Some ''admin'')
      in section_a \<noteq> section_b
       \<and> starts_with section_a ''hubcache:u:'' \<and> \<not> contains section_a ''tokenA''
       \<and> a1 = a2 \<and> a1 \<noteq> b
       \<and> starts_with a1 ''hubcache:u:'' \<and> \<not> contains a1 ''tokenA''
       \<and> anon = ''hubcache:u:anon:/hubs/continueWatching''
       \<and> warm = req)"

lemma all_authenticated_hubs_pass: "all_authenticated_hubs_get_per_token_keys (digest_of ''tokenA'')"
  by code_simp

subsection \<open>Refreshing and staleness\<close>

definition staleness_semantics :: "nat \<Rightarrow> bool" where
  "staleness_semantics now \<longleftrightarrow>
     is_older_than None 300 now
   \<and> \<not> is_older_than (Some now) 300 now
   \<and> \<not> is_older_than (Some (now - 299)) 300 now
   \<and> is_older_than (Some (now - 301)) 300 now"

text \<open>An \<open>Instant\<close> that lies 301 seconds back exists.\<close>

lemma staleness_semantics_passes: "301 \<le> now \<Longrightarrow> staleness_semantics now"
  by (simp add: staleness_semantics_def is_older_than_def)

definition invalidation_paths :: bool where
  "invalidation_paths \<longleftrightarrow>
     is_playback_invalidation ''/:/scrobble'' None
   \<and> is_playback_invalidation ''/:/unscrobble'' None
   \<and> \<not> is_playback_invalidation ''/:/timeline'' (Some ''state=playing&ratingKey=1'')
   \<and> \<not> is_playback_invalidation ''/:/timeline'' (Some ''state=paused&ratingKey=1'')
   \<and> \<not> is_playback_invalidation ''/:/timeline'' None
   \<and> is_playback_invalidation ''/:/timeline''
        (Some ''ratingKey=5&state=stopped&key=/library/metadata/5'')
   \<and> \<not> is_playback_invalidation ''/library/metadata/123'' None"

lemma invalidation_paths_passes: "invalidation_paths"
  by code_simp

text \<open>The mock server answers one path, with a page that has a hub, or with an error.\<close>

definition mock_hubs :: media_container where
  "mock_hubs = default_container\<lparr>mc_size := Some 1, mc_hub := [MetaData default_attrs [] [] []]\<rparr>"

definition mock_server_for :: "string \<Rightarrow> nat \<Rightarrow> string \<Rightarrow> upstream" where
  "mock_server_for path status p =
     (if p = path then (if status = 200 then Response 200 (Some mock_hubs) else Response status None)
      else Response 404 None)"

definition seeded :: "string \<Rightarrow> i64 \<Rightarrow> hub_state" where
  "seeded k n =
     initial_hub\<lparr>hs_payloads := (hs_payloads initial_hub)(k \<mapsto> default_container\<lparr>mc_size := Some n\<rparr>)\<rparr>"

definition refresh_replaces_payload_and_tracks_age :: "nat \<Rightarrow> bool" where
  "refresh_replaces_payload_and_tracks_age now \<longleftrightarrow>
     (let k = ''hubcache:test-refresh-ok'';
          s0 = track_fetched now k (seeded k 0);
          s1 = mark_all_hubs_stale s0;
          s2 = refresh_hub_entry (mock_server_for ''/hubs/test-refresh-ok'' 200) now
                 ''/hubs/test-refresh-ok'' k s1
      in \<not> is_stale now k 300 s0
       \<and> is_stale now k 300 s1
       \<and> (case hs_payloads s2 k of Some updated \<Rightarrow> mc_children updated \<noteq> [] | None \<Rightarrow> False)
       \<and> \<not> is_stale now k 300 s2)"

definition refresh_failure_keeps_previous_payload :: "nat \<Rightarrow> bool" where
  "refresh_failure_keeps_previous_payload now \<longleftrightarrow>
     (let k = ''hubcache:test-refresh-fail'';
          s1 = refresh_hub_entry (mock_server_for ''/hubs/test-refresh-fail'' 500) now
                 ''/hubs/test-refresh-fail'' k (seeded k 7)
      in (case hs_payloads s1 k of Some kept \<Rightarrow> mc_children kept = [] | None \<Rightarrow> False))"

lemmas refresh_eval = refresh_hub_entry_def fetch_hubs_payload_def mock_server_for_def
  track_fetched_def is_stale_def is_older_than_def mark_all_hubs_stale_def seeded_def mock_hubs_def
  initial_hub_def Let_def

lemma refresh_replaces_payload_passes: "refresh_replaces_payload_and_tracks_age now"
  by (simp add: refresh_replaces_payload_and_tracks_age_def refresh_eval mc_children_def
      default_container_def)

lemma refresh_failure_passes: "refresh_failure_keeps_previous_payload now"
  by (simp add: refresh_failure_keeps_previous_payload_def refresh_eval mc_children_def
      default_container_def)

subsection \<open>Tokens of the warmer\<close>

definition warmer_config :: "string option \<Rightarrow> string list option \<Rightarrow> config" where
  "warmer_config token tokens =
     default_config\<lparr>cf_host := Some ''http://localhost:32400'', cf_token := token,
       cf_warm_tokens := tokens\<rparr>"

definition warm_token_list_uses_configured_tokens :: bool where
  "warm_token_list_uses_configured_tokens \<longleftrightarrow>
     warm_token_list (warmer_config (Some ''admin-token'') (Some (split_on CHR '','' ''a,b,c'')))
     = [''a'', ''b'', ''c'']"

definition warm_token_list_falls_back_to_admin :: bool where
  "warm_token_list_falls_back_to_admin \<longleftrightarrow>
     warm_token_list (warmer_config (Some ''admin-token'') None) = [''admin-token'']"

definition warm_token_list_empty_when_nothing_configured :: bool where
  "warm_token_list_empty_when_nothing_configured \<longleftrightarrow> warm_token_list (warmer_config None None) = []"

lemma warm_token_lists_pass:
  "warm_token_list_uses_configured_tokens" "warm_token_list_falls_back_to_admin"
  "warm_token_list_empty_when_nothing_configured"
  by code_simp+

subsection \<open>Artwork keys\<close>

definition photo_cache_keys_are_account_scoped_but_token_placement_is_canonical ::
  "(string \<Rightarrow> string) \<Rightarrow> bool" where
  "photo_cache_keys_are_account_scoped_but_token_placement_is_canonical sha \<longleftrightarrow>
     (let raw = ''/photo/:/transcode?width=300&height=450&url=%2Flibrary%2Fmetadata%2F1%2Fthumb%2F123'';
          a = photo_cache_key_for sha demo_urls raw (Some ''token-a'');
          b = photo_cache_key_for sha demo_urls raw (Some ''token-b'')
      in a = photo_cache_key_for sha demo_urls raw (Some ''token-a'')
       \<and> a \<noteq> b
       \<and> starts_with a ''photo:u:'' \<and> \<not> contains a ''token-a''
       \<and> a = photo_cache_key_for sha demo_urls (raw @ ''&X-Plex-Token=token-a'') (Some ''token-a''))"

definition nested_token_is_recovered_and_stripped :: bool where
  "nested_token_is_recovered_and_stripped \<longleftrightarrow>
     extract_inner_token
       ''/library/metadata/1/thumb/123?width=300&X-Plex-Token=nested-token&height=450''
       = Some ''nested-token''
   \<and> strip_inner_token
       ''/library/metadata/1/thumb/123?width=300&X-Plex-Token=nested-token&height=450''
       = ''/library/metadata/1/thumb/123?width=300&height=450''"

lemma photo_cache_keys_pass:
  "photo_cache_keys_are_account_scoped_but_token_placement_is_canonical (digest_of ''token-a'')"
  by code_simp

lemma nested_token_passes: "nested_token_is_recovered_and_stripped"
  by code_simp

definition photo_memory_cache_cannot_cross_account_scope :: "(string \<Rightarrow> string) \<Rightarrow> bool" where
  "photo_memory_cache_cannot_cross_account_scope sha \<longleftrightarrow>
     (let raw = ''/photo/:/transcode?width=300&url=%2Flibrary%2Fmetadata%2F987%2Fthumb%2F1'';
          a = photo_cache_key_for sha demo_urls raw (Some ''photo-account-a'');
          b = photo_cache_key_for sha demo_urls raw (Some ''photo-account-b'');
          photos = AList.update a
            \<lparr>im_content_type = Some ''image/jpeg'', im_cache_control = None,
             im_body = text_bytes ''account-a-image''\<rparr> []
      in map_of photos a \<noteq> None \<and> map_of photos b = None)"

lemma photo_memory_cache_passes:
  "photo_memory_cache_cannot_cross_account_scope (digest_of ''photo-account-a'')"
  by code_simp

subsection \<open>Library keys\<close>

definition warm_page :: string where
  "warm_page = ''/library/sections/6/all?X-Plex-Container-Start=0&X-Plex-Container-Size=50''"

definition canonical_library_path_strips_token_and_is_order_stable :: bool where
  "canonical_library_path_strips_token_and_is_order_stable \<longleftrightarrow>
     (let canon = canonical_library_path demo_urls;
          with_token = canon (warm_page @ ''&X-Plex-Token=secret'');
          no_token = canon warm_page
      in with_token = no_token
       \<and> \<not> contains with_token ''secret''
       \<and> no_token
         = canon ''/library/sections/6/all?X-Plex-Container-Size=50&X-Plex-Container-Start=0''
       \<and> no_token = canon (warm_page
           @ ''&excludeFields=summary&includeGeolocation=1&X-Plex-Client-Identifier=pxweb'')
       \<and> canon warm_page
         \<noteq> canon ''/library/sections/6/all?X-Plex-Container-Start=50&X-Plex-Container-Size=50''
       \<and> canon warm_page \<noteq> canon (warm_page @ ''&type=1''))"

lemma canonical_library_path_passes: "canonical_library_path_strips_token_and_is_order_stable"
  by code_simp

definition library_keys_are_user_scoped :: "(string \<Rightarrow> string) \<Rightarrow> bool" where
  "library_keys_are_user_scoped sha \<longleftrightarrow>
     (let a1 = library_cache_key_for sha demo_urls warm_page (Some ''tokenA'');
          a2 = library_cache_key_for sha demo_urls warm_page (Some ''tokenA'');
          b = library_cache_key_for sha demo_urls warm_page (Some ''tokenB'')
      in a1 = a2 \<and> a1 \<noteq> b \<and> starts_with a1 ''library:u:'' \<and> \<not> contains a1 ''tokenA'')"

lemma library_keys_pass: "library_keys_are_user_scoped (digest_of ''tokenA'')"
  by code_simp

text \<open>A request whose URI is a path with a query, and the pairs the framework reads from it.\<close>

definition client_noise :: string where
  "client_noise = ''excludeFields=summary&includeGeolocation=1''
     @ ''&X-Plex-Client-Identifier=pxweb&X-Plex-Platform=Safari''"

definition probe :: "string \<Rightarrow> (string \<times> string) list \<Rightarrow> request" where
  "probe raw headers =
     \<lparr>rq_method = ''GET'', rq_path = hd (split_on CHR ''?'' raw),
      rq_query = (case demo_parse (''http://x'' @ raw) of Some u \<Rightarrow> ur_pairs u | None \<Rightarrow> []),
      rq_headers = headers, rq_absolute = False\<rparr>"

definition library_warmer_key_matches_request_path :: "(string \<Rightarrow> string) \<Rightarrow> bool" where
  "library_warmer_key_matches_request_path sha \<longleftrightarrow>
     (let warmer_key = library_cache_key_for sha demo_urls warm_page (Some ''admintoken'');
          noisy = warm_page @ ''&'' @ client_noise @ ''&X-Plex-Token=admintoken'';
          other = warm_page @ ''&X-Plex-Token=othertoken'';
          key_of = library_cache_key sha demo_urls
      in key_of noisy (probe noisy [(''x-plex-token'', ''admintoken'')]) = warmer_key
       \<and> key_of noisy (probe noisy []) = warmer_key
       \<and> key_of other (probe other []) \<noteq> warmer_key)"

lemma library_warmer_key_passes:
  "library_warmer_key_matches_request_path (digest_of ''admintoken'')"
  by code_simp

definition normalize_library_fetch_preserves_auth_and_paging :: bool where
  "normalize_library_fetch_preserves_auth_and_paging \<longleftrightarrow>
     (let raw = warm_page @ ''&excludeFields=summary&includeGeolocation=1''
            @ ''&X-Plex-Container-Size=50&X-Plex-Container-Start=0&X-Plex-Token=tok''
      in (case normalize_library_fetch demo_urls (Some raw) of
            None \<Rightarrow> False
          | Some uri \<Rightarrow>
              (case split_once CHR ''?'' uri of
                 None \<Rightarrow> False
               | Some (path, q) \<Rightarrow>
                   path = ''/library/sections/6/all''
                   \<and> contains q ''X-Plex-Token=tok''
                   \<and> contains q ''X-Plex-Container-Size=50''
                   \<and> contains q ''X-Plex-Container-Start=0''
                   \<and> \<not> contains q ''excludeFields'' \<and> \<not> contains q ''includeGeolocation'')))"

lemma normalize_library_fetch_passes: "normalize_library_fetch_preserves_auth_and_paging"
  by code_simp

end
