(* ===== verification/Conformance_Routes.thy ===== *)
theory Conformance_Routes
  imports Conformance_Policy Conformance_Caches Conformance_Keys
begin

text \<open>
  The end-to-end tests of the cached library pages in \<open>src/routes.rs\<close>, run on the model of the
  route: a policy that changes between two requests for one page, and two accounts that ask for the
  same page.  Where a test counts the requests that reach its mock server, the counters of cache
  hits and misses are compared.  The digest is any that gives the tokens and the keys of the test
  different values.
\<close>

subsection \<open>The mock server\<close>

text \<open>The body of the mock server is one byte here, which parses to the page of the test; a page is
  shown as a zero for each item, followed by the identifiers of its versions.\<close>

definition page_4k :: media_container where
  "page_4k = default_container\<lparr>mc_size := Some 1, mc_metadata :=
     [MetaData (item_of ''100'' ''4K Test Movie'' ''movie'' []\<lparr>md_media :=
        [default_media\<lparr>m_id := 1, m_video_resolution := Some ''4k'', m_width := Some 3840,
           m_height := Some 2160,
           m_parts := [default_part\<lparr>p_id := 101, p_key := Some ''/library/parts/100/101/file.mkv''\<rparr>]\<rparr>]\<rparr>)
      [] [] []]\<rparr>"

definition shown :: "media_container \<Rightarrow> bytes" where
  "shown c = concat (map (\<lambda>it. 0 # map (\<lambda>m. word_of_int (m_id m)) (md_media (attrs it))) (mc_metadata c))"

definition test_server :: "(string \<Rightarrow> string) \<Rightarrow> resolution_policy \<Rightarrow> user_identity \<Rightarrow> route_env" where
  "test_server sha p user =
     \<lparr>re_sha = sha, re_urls = demo_urls, re_dir = ''/tmp/replex-test'', re_max = default_max_size,
      re_io = test_io True, re_parse = (\<lambda>bs. if bs = [1] then Some page_4k else None),
      re_render = (\<lambda>_. shown),
      re_upstream = (\<lambda>_ _. \<lparr>an_status = Some 200, an_type = Some ''application/json'',
        an_control = None, an_body = Once [1]\<rparr>),
      re_elapsed = 0, re_current = Some (p, user), re_fail_closed = True, re_client_ok = True,
      re_skip = False\<rparr>"

definition browse ::
  "route_env \<Rightarrow> string \<Rightarrow> string \<Rightarrow> web_state \<Rightarrow> bytes option \<times> web_state" where
  "browse ev url token ws =
     (case library_cache_lookup ev
             (probe url [(''x-plex-token'', token), (''accept'', ''application/json'')]) url ws of
        (Served a, ws') \<Rightarrow> (take_bytes (an_body a), ws')
      | (Errored, ws') \<Rightarrow> (None, ws'))"

definition fresh_server :: web_state where
  "fresh_server = \<lparr>ws_disk = test_dir 0, ws_photos = [], ws_hub = initial_hub,
     ws_parts = Map.empty, ws_metrics = default_metrics\<rparr>"

definition misses :: "web_state \<Rightarrow> nat" where
  "misses ws = mt_cache_misses (ws_metrics ws)"

subsection \<open>The tests\<close>

definition noisy_url :: string where
  "noisy_url = ''/library/sections/6/all?excludeFields=summary&includeGeolocation=1''
     @ ''&X-Plex-Client-Identifier=testclient&X-Plex-Container-Size=50&X-Plex-Container-Start=0''"

definition policy_change_is_honoured_on_library_disk_cache_hits :: "(string \<Rightarrow> string) \<Rightarrow> bool" where
  "policy_change_is_honoured_on_library_disk_cache_hits sha \<longleftrightarrow>
     (let user = test_identity 1 ''uuid'' ''user'';
          (monday, ws1) = browse (test_server sha (resolve_policy [] Unlimited [] user) user)
                            noisy_url ''fakeID'' fresh_server;
          (tuesday, ws2) = browse (test_server sha (resolve_policy [] P1080 [] user) user)
                             noisy_url ''fakeID'' ws1
      in misses ws1 = 1
       \<and> monday = Some [0, 1]
       \<and> misses ws2 = 1
       \<and> monday \<noteq> tuesday
       \<and> tuesday = Some [])"

definition plain_url :: string where
  "plain_url = ''/library/sections/6/all?X-Plex-Container-Size=50&X-Plex-Container-Start=0''"

definition cross_user_library_sections_isolation :: "(string \<Rightarrow> string) \<Rightarrow> bool" where
  "cross_user_library_sections_isolation sha \<longleftrightarrow>
     (let rules = [rule_for (Some ''jodiemy3'') None P1080 []];
          admin_user = test_identity 1 ''uuid-admin'' ''admin'';
          limited_user = test_identity 2 ''uuid-limited'' ''jodiemy3'';
          as_admin = browse (test_server sha (resolve_policy rules Unlimited [] admin_user) admin_user)
                       plain_url ''4ktoken'';
          as_limited = browse (test_server sha (resolve_policy rules Unlimited [] limited_user) limited_user)
                         plain_url ''limitedtoken'';
          (admin, ws1) = as_admin fresh_server;
          (limited, ws2) = as_limited ws1;
          (limited_again, ws3) = as_limited ws2;
          (admin_again, ws4) = as_admin ws3
      in misses ws1 = 1 \<and> admin = Some [0, 1]
       \<and> misses ws2 = 2 \<and> limited = Some []
       \<and> misses ws3 = 2 \<and> limited_again = Some []
       \<and> misses ws4 = 2 \<and> admin_again = Some [0, 1])"

subsection \<open>What a request does\<close>

text \<open>The page as an account sees it.\<close>

definition page_for :: "resolution_policy \<Rightarrow> user_identity \<Rightarrow> bytes" where
  "page_for p user =
     shown (apply_to [resolution_policy_transform (Some (p, user)) True,
                      collection_visibility_transform (Some (p, user))] page_4k)"

lemma page_for_values:
  "page_for (resolve_policy [] Unlimited [] (test_identity 1 ''uuid'' ''user'')) (test_identity 1 ''uuid'' ''user'') = [0, 1]"
  "page_for (resolve_policy [] P1080 [] (test_identity 1 ''uuid'' ''user'')) (test_identity 1 ''uuid'' ''user'') = []"
  "page_for (resolve_policy [rule_for (Some ''jodiemy3'') None P1080 []] Unlimited []
     (test_identity 1 ''uuid-admin'' ''admin'')) (test_identity 1 ''uuid-admin'' ''admin'') = [0, 1]"
  "page_for (resolve_policy [rule_for (Some ''jodiemy3'') None P1080 []] Unlimited []
     (test_identity 2 ''uuid-limited'' ''jodiemy3'')) (test_identity 2 ''uuid-limited'' ''jodiemy3'') = []"
  by code_simp+

lemma browse_path: "starts_with (rq_path (probe (''/library/sections/6/all?'' @ q) hs)) library_prefix"
  by (simp add: probe_def library_prefix_def starts_with_code)

definition url_key :: "(string \<Rightarrow> string) \<Rightarrow> string \<Rightarrow> string \<Rightarrow> string" where
  "url_key sha url token =
     library_cache_key sha demo_urls url
       (probe url [(''x-plex-token'', token), (''accept'', ''application/json'')])"

abbreviation test_root :: string where "test_root \<equiv> ''/tmp/replex-test''"

lemma browse_hit:
  assumes "starts_with (rq_path (probe url [(''x-plex-token'', token), (''accept'', ''application/json'')])) library_prefix"
    and "get_body sha test_root (test_io True) (url_key sha url token) (ws_disk ws) = (Some [1], d)"
  shows "fst (browse (test_server sha p user) url token ws) = Some (page_for p user)"
    and "ws_disk (snd (browse (test_server sha p user) url token ws)) = d"
    and "misses (snd (browse (test_server sha p user) url token ws)) = misses ws"
  using assms
  by (simp_all add: browse_def library_cache_lookup_def page_key_def url_key_def test_server_def
      apply_policy_transforms_def cached_page_def take_bytes_def rendered_def policy_transforms_def
      page_for_def misses_def cache_hit_def)

lemma browse_miss:
  assumes "starts_with (rq_path (probe url [(''x-plex-token'', token), (''accept'', ''application/json'')])) library_prefix"
    and "get_body sha test_root (test_io True) (url_key sha url token) (ws_disk ws) = (None, d)"
  shows "fst (browse (test_server sha p user) url token ws) = Some (page_for p user)"
    and "ws_disk (snd (browse (test_server sha p user) url token ws))
       = snd (put_body sha test_root default_max_size (test_io True) (url_key sha url token) [1] d)"
    and "misses (snd (browse (test_server sha p user) url token ws)) = fetch_add 1 (misses ws)"
proof -
  let ?ev = "test_server sha p user"
  let ?r = "probe url [(''x-plex-token'', token), (''accept'', ''application/json'')]"
  have ev: "re_sha ?ev = sha" "re_urls ?ev = demo_urls" "re_dir ?ev = test_root"
    "re_max ?ev = default_max_size" "re_io ?ev = test_io True" "re_client_ok ?ev"
    "re_parse ?ev [1] = Some page_4k" "re_render ?ev = (\<lambda>_. shown)"
    "re_current ?ev = Some (p, user)" "re_fail_closed ?ev"
    "re_upstream ?ev = (\<lambda>_ _. \<lparr>an_status = Some 200, an_type = Some ''application/json'',
        an_control = None, an_body = Once [1]\<rparr>)"
    by (simp_all add: test_server_def)
  have key: "page_key ?ev (normalized ?ev url) (normalized_request ?ev url ?r) = url_key sha url token"
    using page_key_normalized [of ?ev url ?r] demo_urls_roundtrip
    by (simp add: ev page_key_def url_key_def)
  have path: "rq_path (normalized_request ?ev url ?r) = rq_path ?r"
    by (simp add: normalized_request_def)
  have ct: "request_content_type (normalized_request ?ev url ?r) = request_content_type ?r"
    by (simp add: normalized_request_def request_content_type_def header_def)
  have "page_key ?ev url ?r = url_key sha url token" by (simp add: page_key_def url_key_def ev)
  then have run: "browse ?ev url token ws
      = (Some (page_for p user), ws\<lparr>ws_disk := snd (put_body sha test_root default_max_size (test_io True)
             (url_key sha url token) [1] d), ws_metrics := cache_miss (ws_metrics ws),
           ws_parts := walk_parts ?ev page_4k (ws_parts ws)\<rparr>)"
    using assms
    by (simp add: browse_def library_cache_lookup_def library_miss_def library_live_def ev key path
        library_cache_store_def proxy_for_transform_def transform_policy_response_def
        apply_policy_transforms_def take_bytes_def rendered_def policy_transforms_def page_for_def
        status_success_def)
  show "fst (browse ?ev url token ws) = Some (page_for p user)"
    "ws_disk (snd (browse ?ev url token ws))
       = snd (put_body sha test_root default_max_size (test_io True) (url_key sha url token) [1] d)"
    "misses (snd (browse ?ev url token ws)) = fetch_add 1 (misses ws)"
    unfolding run by (simp_all add: misses_def cache_miss_def)
qed

subsection \<open>The pages on disk\<close>

definition page_record :: bytes where
  "page_record = encoded None [1]"

definition page_path :: "(string \<Rightarrow> string) \<Rightarrow> string \<Rightarrow> string" where
  "page_path sha k = path_for_key sha test_root k"

text \<open>The directory after the pages of these keys were stored.\<close>

definition stored :: "(string \<Rightarrow> string) \<Rightarrow> string list \<Rightarrow> disk" where
  "stored sha ks = \<lparr>dk_files = map (\<lambda>k. (page_path sha k, 0, page_record)) ks,
     dk_size = length ks * length page_record, dk_counter = length ks\<rparr>"

lemma page_record_ok: "encode_record None [1] = Inr page_record" "length page_record = 15"
  using encoded_ok [of None "[1]"] encode_record_layout [of None "[1]" page_record]
  by (simp_all add: page_record_def u64_max_def cache_magic_def)

lemma page_record_decodes: "decode_record page_record = Some \<lparr>cr_content_type = None, cr_body = [1]\<rparr>"
  using decode_encode [OF page_record_ok(1)] by (simp add: u64_max_def)

lemma tmp_not_page:
  assumes "hex_digest sha"
  shows "tmp_path (page_path sha k) pid n \<noteq> page_path sha k'"
proof
  assume "tmp_path (page_path sha k) pid n = page_path sha k'"
  then have "length (tmp_path (page_path sha k) pid n) = length (page_path sha k')" by simp
  with assms show False
    by (simp add: tmp_path_def page_path_def path_for_key_def hex_digest_def Let_def)
qed

lemma update_absent: "map_of al k = None \<Longrightarrow> AList.update k v al = al @ [(k, v)]"
  by (induction al) (auto split: if_splits)

lemma delete_last: "map_of al k = None \<Longrightarrow> AList.delete k (al @ [(k, v)]) = al"
  by (induction al) (auto split: if_splits simp: AList.delete_eq)

lemma stored_lookup:
  "lookup_file (stored sha ks) (page_path sha k) =
     (if page_path sha k \<in> page_path sha ` set ks then Some (0, page_record) else None)"
  by (induction ks) (auto simp: lookup_file_def stored_def)

lemma stored_no_tmp:
  "hex_digest sha \<Longrightarrow> map_of (dk_files (stored sha ks)) (tmp_path (page_path sha k) pid n) = None"
  by (induction ks) (simp_all add: stored_def tmp_not_page)

lemma update_same: "map_of al k = Some v \<Longrightarrow> AList.update k v al = al"
  by (induction al) (auto split: if_splits)

lemma get_stored:
  assumes "page_path sha k \<in> page_path sha ` set ks"
  shows "get_body sha test_root (test_io True) k (stored sha ks) = (Some [1], stored sha ks)"
proof -
  have "lookup_file (stored sha ks) (page_path sha k) = Some (0, page_record)"
    using assms by (simp add: stored_lookup)
  moreover from this have "AList.update (page_path sha k) (0, page_record) (dk_files (stored sha ks))
      = dk_files (stored sha ks)"
    by (intro update_same) (simp add: lookup_file_def)
  ultimately show ?thesis
    by (simp add: get_body_def get_full_def page_record_decodes test_io_def page_path_def Let_def)
qed

lemma get_absent:
  "page_path sha k \<notin> page_path sha ` set ks \<Longrightarrow>
   get_body sha test_root (test_io True) k (stored sha ks) = (None, stored sha ks)"
  by (simp add: get_body_def get_full_def stored_lookup [unfolded page_path_def] page_path_def Let_def)

lemma put_absent:
  assumes "hex_digest sha" "page_path sha k \<notin> page_path sha ` set ks" "length ks < 1000"
  shows "snd (put_body sha test_root default_max_size (test_io True) k [1] (stored sha ks))
    = stored sha (ks @ [k])"
proof -
  let ?p = "page_path sha k" and ?d = "stored sha ks"
  let ?tmp = "tmp_path ?p 1 (length ks)"
  let ?d2 = "?d\<lparr>dk_counter := length ks + 1, dk_files := dk_files ?d @ [(?tmp, 0, page_record)]\<rparr>"
  have absent: "map_of (dk_files ?d) ?p = None"
    using assms(2) stored_lookup [of sha ks k] by (simp add: lookup_file_def)
  have tmp: "map_of (dk_files ?d) ?tmp = None" "?tmp \<noteq> ?p"
    using stored_no_tmp [OF assms(1)] tmp_not_page [OF assms(1)] by auto
  have written: "write_file (test_io True) ?tmp page_record (?d\<lparr>dk_counter := length ks + 1\<rparr>) = ?d2"
    using update_absent [OF tmp(1)] by (simp add: write_file_def test_io_def)
  have old: "file_len ?d2 ?p = None"
    using absent tmp(2) by (simp add: file_len_def lookup_file_def map_add_def)
  have swap: "rename_file ?tmp ?p ?d2
      = ?d\<lparr>dk_counter := length ks + 1, dk_files := dk_files ?d @ [(?p, 0, page_record)]\<rparr>"
    using tmp(1) delete_last [OF tmp(1)] update_absent [OF absent]
    by (simp add: rename_file_def lookup_file_def map_add_def)
  have commit: "commit_record (test_io True) ?p page_record ?d = (Inr (), stored sha (ks @ [k]))"
    using assms(3) written old swap
    by (simp add: commit_record_def test_io_def stored_def page_record_ok Let_def sat_sub_def
        sat_add64_def u64_max_def)
  have "dk_size (stored sha (ks @ [k])) < default_max_size"
    using assms(3) by (simp add: stored_def page_record_ok default_max_size_def)
  then show ?thesis
    using commit
    by (simp add: put_body_def put_full_def page_record_ok ensure_capacity_def page_path_def)
qed

lemma page_path_inject: "hex_digest sha \<Longrightarrow> page_path sha k = page_path sha k' \<longleftrightarrow> sha k = sha k'"
  by (auto simp: page_path_def path_for_key_def hex_digest_def Let_def)

subsection \<open>The tests pass\<close>

lemma library_prefix_urls:
  "starts_with (rq_path (probe noisy_url hs)) library_prefix"
  "starts_with (rq_path (probe plain_url hs)) library_prefix"
  by (simp_all add: probe_def noisy_url_def plain_url_def library_prefix_def starts_with_code)

lemma fresh_stored: "ws_disk fresh_server = stored sha []" "misses fresh_server = 0"
  by (simp_all add: fresh_server_def stored_def test_dir_def misses_def default_metrics_def)

text \<open>A page that the server has stored is served again without a miss; any other is fetched and
  stored.  Either way the account sees it under its own policy.\<close>

lemma browse_stored:
  assumes "starts_with (rq_path (probe url [(''x-plex-token'', token), (''accept'', ''application/json'')])) library_prefix"
    and "ws_disk ws = stored sha ks" and "page_path sha (url_key sha url token) \<in> page_path sha ` set ks"
  shows "fst (browse (test_server sha p user) url token ws) = Some (page_for p user)"
    and "ws_disk (snd (browse (test_server sha p user) url token ws)) = stored sha ks"
    and "misses (snd (browse (test_server sha p user) url token ws)) = misses ws"
  using browse_hit [OF assms(1), of sha ws "stored sha ks"] get_stored [OF assms(3)] assms(2) by auto

lemma browse_absent:
  assumes "starts_with (rq_path (probe url [(''x-plex-token'', token), (''accept'', ''application/json'')])) library_prefix"
    and "ws_disk ws = stored sha ks" and "page_path sha (url_key sha url token) \<notin> page_path sha ` set ks"
    and "hex_digest sha" "length ks < 1000"
  shows "fst (browse (test_server sha p user) url token ws) = Some (page_for p user)"
    and "ws_disk (snd (browse (test_server sha p user) url token ws)) = stored sha (ks @ [url_key sha url token])"
    and "misses (snd (browse (test_server sha p user) url token ws)) = fetch_add 1 (misses ws)"
  using browse_miss [OF assms(1), of sha ws "stored sha ks"] get_absent [OF assms(3)] assms(2)
    put_absent [OF assms(4,3,5)] by auto

lemma policy_change_is_honoured_passes:
  assumes "hex_digest sha"
  shows "policy_change_is_honoured_on_library_disk_cache_hits sha"
proof -
  let ?user = "test_identity 1 ''uuid'' ''user''"
  let ?k = "url_key sha noisy_url ''fakeID''"
  define ws1 where "ws1 = snd (browse (test_server sha (resolve_policy [] Unlimited [] ?user) ?user)
      noisy_url ''fakeID'' fresh_server)"
  note first = browse_absent [OF library_prefix_urls(1) fresh_stored(1) _ assms, of "''fakeID''" _ ?user]
  have "ws_disk ws1 = stored sha [?k]" "misses ws1 = 1"
    using first(2,3) by (simp_all add: ws1_def fresh_stored(2) fetch_add_def)
  then show ?thesis
    using first(1) browse_stored [OF library_prefix_urls(1), of ws1 sha "[?k]" "''fakeID''" _ ?user]
    by (simp add: policy_change_is_honoured_on_library_disk_cache_hits_def case_prod_beta Let_def
        ws1_def page_for_values)
qed

lemma cross_user_isolation_passes:
  assumes "hex_digest sha" and "sha (url_key sha plain_url ''4ktoken'') \<noteq> sha (url_key sha plain_url ''limitedtoken'')"
  shows "cross_user_library_sections_isolation sha"
proof -
  let ?rules = "[rule_for (Some ''jodiemy3'') None P1080 []]"
  let ?a = "test_identity 1 ''uuid-admin'' ''admin''" and ?l = "test_identity 2 ''uuid-limited'' ''jodiemy3''"
  let ?ka = "url_key sha plain_url ''4ktoken''" and ?kl = "url_key sha plain_url ''limitedtoken''"
  let ?admin = "browse (test_server sha (resolve_policy ?rules Unlimited [] ?a) ?a) plain_url ''4ktoken''"
  let ?limited = "browse (test_server sha (resolve_policy ?rules Unlimited [] ?l) ?l) plain_url ''limitedtoken''"
  have other: "page_path sha ?kl \<noteq> page_path sha ?ka"
    using assms by (simp add: page_path_inject)
  note absent = browse_absent [OF library_prefix_urls(2)]
  note present = browse_stored [OF library_prefix_urls(2)]
  define ws1 where "ws1 = snd (?admin fresh_server)"
  define ws2 where "ws2 = snd (?limited ws1)"
  define ws3 where "ws3 = snd (?limited ws2)"
  have 1: "fst (?admin fresh_server) = Some [0, 1]" "ws_disk ws1 = stored sha [?ka]" "misses ws1 = 1"
    using absent [OF fresh_stored(1) _ assms(1), of "''4ktoken''" _ ?a]
    by (simp_all add: ws1_def fresh_stored(2) fetch_add_def page_for_values)
  have 2: "fst (?limited ws1) = Some []" "ws_disk ws2 = stored sha [?ka, ?kl]" "misses ws2 = 2"
    using absent [OF 1(2) _ assms(1), of "''limitedtoken''" _ ?l] other 1(3)
    by (simp_all add: ws2_def fetch_add_def page_for_values)
  have 3: "fst (?limited ws2) = Some []" "ws_disk ws3 = stored sha [?ka, ?kl]" "misses ws3 = 2"
    using present [OF 2(2), of "''limitedtoken''" _ ?l] 2(3) by (simp_all add: ws3_def page_for_values)
  have 4: "fst (?admin ws3) = Some [0, 1]" "misses (snd (?admin ws3)) = 2"
    using present [OF 3(2), of "''4ktoken''" _ ?a] 3(3) by (simp_all add: page_for_values)
  from 1 2 3 4 show ?thesis
    by (simp add: cross_user_library_sections_isolation_def case_prod_beta Let_def ws1_def ws2_def ws3_def)
qed

end
