(* ===== verification/Conformance_Hubs.thy ===== *)
theory Conformance_Hubs
  imports Conformance_Policy Conformance_Caches Conformance_Keys Hub_Routes
begin

text \<open>
  The tests of the hub routes, the proxy, the stream delivery, the web assets and the upstream host
  in \<open>src/routes.rs\<close> and \<open>src/auth/context.rs\<close>, and those of \<open>src/transform/hub_style.rs\<close> and
  \<open>src/transform/media_style.rs\<close>, translated over the model and evaluated.
\<close>

subsection \<open>Stream delivery\<close>

definition stream_delivery_matrix_is_security_first :: bool where
  "stream_delivery_matrix_is_security_first \<longleftrightarrow>
     choose_delivery True True = Proxy
   \<and> choose_delivery True False = Proxy
   \<and> choose_delivery False True = Redirect
   \<and> choose_delivery False False = Proxy"

lemma stream_delivery_matrix_passes: "stream_delivery_matrix_is_security_first"
  by code_simp

subsection \<open>Hubs of accounts\<close>

text \<open>A server whose section page shows the hubs given for a token; the client is Plexamp, which
  skips the shaping.\<close>

definition hub_server ::
  "(string \<Rightarrow> string) \<Rightarrow> resolution_policy \<Rightarrow> string \<Rightarrow> metadata list \<Rightarrow> hub_env" where
  "hub_server sha p token hubs =
     \<lparr>he_config = test_config, he_context = default_context\<lparr>cx_token := Some token,
        cx_product := Some ''Plexamp''\<rparr>, he_sha = sha,
      he_current = Some (p, test_identity 2 ''uuid-limited'' ''limited''), he_client_ok = True,
      he_skip = True,
      he_hubs = (\<lambda>_. Response 200 (Some (default_container\<lparr>mc_size := Some 1, mc_hub := hubs\<rparr>))),
      he_collection = (\<lambda>_. None), he_sections = (\<lambda>_. None), he_children = (\<lambda>_. None),
      he_request = (\<lambda>_. NoResponse), he_now = 0\<rparr>"

definition hub_request :: "string \<Rightarrow> request" where
  "hub_request path =
     \<lparr>rq_method = ''GET'', rq_path = path, rq_query = [], rq_headers = [], rq_absolute = True\<rparr>"

definition hub_titles :: "media_container option \<Rightarrow> string list" where
  "hub_titles c = (case c of Some c \<Rightarrow> map (\<lambda>h. md_title (attrs h)) (mc_hub c) | None \<Rightarrow> [])"

text \<open>The collection of the fixture that the test hides.\<close>

definition plexamp_hubs_still_enforce_collection_visibility :: "(string \<Rightarrow> string) \<Rightarrow> bool" where
  "plexamp_hubs_still_enforce_collection_visibility sha \<longleftrightarrow>
     (let p = resolve_policy [] Unlimited [''Trending''] (test_identity 2 ''uuid-limited'' ''limited'');
          ev = hub_server sha p ''limited-token''
                 [collection_item ''Trending'' True, collection_item ''Recent'' True];
          (answer, s, m) = cached_hubs_response ev (hub_request ''/hubs/sections/99'')
                             (initial_hub, default_metrics)
      in answer \<noteq> None
       \<and> mt_cache_misses m = 1
       \<and> ''Trending'' \<notin> set (hub_titles answer))"

definition titled_hub :: "string \<Rightarrow> string \<Rightarrow> metadata" where
  "titled_hub key title =
     MetaData (default_attrs\<lparr>md_key := Some key, md_title := title, md_type := ''movie''\<rparr>) [] [] []"

definition section_hub_cache_isolated_between_account_tokens :: "(string \<Rightarrow> string) \<Rightarrow> bool" where
  "section_hub_cache_isolated_between_account_tokens sha \<longleftrightarrow>
     (let r = hub_request ''/hubs/sections/77'';
          as_a = cached_hubs_response (hub_server sha policy_unrestricted ''hub-account-a''
                   [titled_hub ''/a'' ''Account A'']) r;
          as_b = cached_hubs_response (hub_server sha policy_unrestricted ''hub-account-b''
                   [titled_hub ''/b'' ''Account B'']) r;
          (first, sm1) = as_a (initial_hub, default_metrics);
          (second, sm2) = as_b sm1;
          (third, sm3) = as_a sm2
      in hub_titles first = [''Account A'']
       \<and> hub_titles second = [''Account B'']
       \<and> hub_titles third = [''Account A'']
       \<and> mt_cache_misses (snd sm3) = 2)"

text \<open>The first request of an account fetches the hubs, the next one finds them.\<close>

definition section_hubs :: "metadata list \<Rightarrow> media_container" where
  "section_hubs hubs = default_container\<lparr>mc_size := Some 1, mc_hub := hubs\<rparr>"

definition section_key :: "(string \<Rightarrow> string) \<Rightarrow> string \<Rightarrow> string \<Rightarrow> string" where
  "section_key sha path token = hub_cache_key sha path (Some token)"

lemma plain_hub_key: "cache_key_for_request (hub_request path) = path"
  by (simp add: cache_key_for_request_def hub_key_parts_def hub_request_def mm_get_def
      List.map_filter_def)

lemma hub_fetched:
  assumes "hs_payloads s (section_key sha path token) = None"
  shows "cached_hubs_response (hub_server sha p token hubs) (hub_request path) (s, m)
    = (Some (apply_to [collection_visibility_transform (Some (p, test_identity 2 ''uuid-limited'' ''limited''))]
         (section_hubs hubs)),
       track_fetched 0 (section_key sha path token)
         (s\<lparr>hs_payloads := (hs_payloads s)(section_key sha path token \<mapsto> section_hubs hubs)\<rparr>),
       cache_miss m)"
  using assms
  by (simp add: cached_hubs_response_def hub_server_def plain_hub_key section_key_def hub_payload_def
      fetch_hubs_payload_def section_hubs_def present_hubs_def Let_def)

lemma hub_found:
  assumes "hs_payloads s (section_key sha path token) = Some (section_hubs hubs)"
    and "hs_fetched_at s (section_key sha path token) = Some 0"
  shows "cached_hubs_response (hub_server sha p token hubs) (hub_request path) (s, m)
    = (Some (apply_to [collection_visibility_transform (Some (p, test_identity 2 ''uuid-limited'' ''limited''))]
         (section_hubs hubs)), s, cache_hit m)"
  using assms
  by (simp add: cached_hubs_response_def hub_server_def plain_hub_key section_key_def hub_payload_def
      is_stale_def is_older_than_def test_config_def default_config_def present_hubs_def Let_def)

lemma shown_hubs:
  "hub_titles (Some (apply_to [collection_visibility_transform
      (Some (resolve_policy [] Unlimited [''Trending''] (test_identity 2 ''uuid-limited'' ''limited''),
        test_identity 2 ''uuid-limited'' ''limited''))]
     (section_hubs [collection_item ''Trending'' True, collection_item ''Recent'' True]))) = [''Recent'']"
  "hub_titles (Some (apply_to [collection_visibility_transform
      (Some (policy_unrestricted, test_identity 2 ''uuid-limited'' ''limited''))]
     (section_hubs [titled_hub ''/a'' ''Account A'']))) = [''Account A'']"
  "hub_titles (Some (apply_to [collection_visibility_transform
      (Some (policy_unrestricted, test_identity 2 ''uuid-limited'' ''limited''))]
     (section_hubs [titled_hub ''/b'' ''Account B'']))) = [''Account B'']"
  by code_simp+

lemma plexamp_hubs_pass: "plexamp_hubs_still_enforce_collection_visibility sha"
  by (simp add: plexamp_hubs_still_enforce_collection_visibility_def hub_fetched initial_hub_def
      shown_hubs Let_def cache_miss_def default_metrics_def fetch_add_def)

lemma section_hub_cache_passes:
  assumes "section_key sha ''/hubs/sections/77'' ''hub-account-a''
      \<noteq> section_key sha ''/hubs/sections/77'' ''hub-account-b''"
  shows "section_hub_cache_isolated_between_account_tokens sha"
  using assms
  by (simp add: section_hub_cache_isolated_between_account_tokens_def hub_fetched hub_found
      initial_hub_def track_fetched_def shown_hubs Let_def cache_miss_def cache_hit_def
      default_metrics_def fetch_add_def)

lemma section_keys_differ:
  "section_key (digest_of ''hub-account-a'') ''/hubs/sections/77'' ''hub-account-a''
     \<noteq> section_key (digest_of ''hub-account-a'') ''/hubs/sections/77'' ''hub-account-b''"
  by code_simp

subsection \<open>Invalidation through the proxy\<close>

definition timeline_stop_marks_hubs_stale :: "route_env \<Rightarrow> web_state \<Rightarrow> nat \<Rightarrow> bool" where
  "timeline_stop_marks_hubs_stale ev ws now \<longleftrightarrow>
     (let k = ''hubcache:/hubs/promoted'';
          ws1 = ws\<lparr>ws_hub := track_fetched now k (ws_hub ws)\<rparr>;
          raw = ''/:/timeline?state=stopped&ratingKey=1&key=/library/metadata/1'';
          ws2 = snd (proxy_request ev (probe raw []\<lparr>rq_method := ''POST''\<rparr>) raw ws1)
      in \<not> is_stale now k 300 (ws_hub ws1)
       \<and> is_stale now k 300 (ws_hub ws2))"

lemma timeline_stop_passes: "timeline_stop_marks_hubs_stale ev ws now"
proof -
  have "is_playback_invalidation ''/:/timeline''
      (raw_query ''/:/timeline?state=stopped&ratingKey=1&key=/library/metadata/1'')"
    by code_simp
  moreover have "rq_path (probe ''/:/timeline?state=stopped&ratingKey=1&key=/library/metadata/1'' [])
      = ''/:/timeline''"
    by code_simp
  ultimately show ?thesis
    by (simp add: timeline_stop_marks_hubs_stale_def proxy_request_def do_proxy_request_def
        track_fetched_def is_stale_def is_older_than_def mark_all_hubs_stale_def Let_def)
qed

subsection \<open>Upstream hosts\<close>

text \<open>\<open>BASE32\<close> of the \<open>data-encoding\<close> crate is a parameter: an encoder, whose result is lower-cased for
  the host name, and a decoder.\<close>

definition stream_host :: "(string \<Rightarrow> string) \<Rightarrow> string \<Rightarrow> string" where
  "stream_host encode candidate = to_lower (encode candidate) @ ''.replex.stream''"

definition encoded_dynamic_host_decodes_only_to_a_candidate ::
  "(string \<Rightarrow> string) \<Rightarrow> (string \<Rightarrow> string option) \<Rightarrow> base_urls \<Rightarrow> bool" where
  "encoded_dynamic_host_decodes_only_to_a_candidate encode decode bus \<longleftrightarrow>
     (let candidate = ''http://attacker.invalid''
      in decoded_replex_stream_host decode bus (Some (stream_host encode candidate)) = Some candidate
       \<and> bu_parse bus candidate \<noteq> None)"

definition dynamic_upstream_host_is_rejected_before_credentials_can_be_forwarded ::
  "(string \<Rightarrow> string) \<Rightarrow> (string \<Rightarrow> string) \<Rightarrow> (string \<Rightarrow> string option) \<Rightarrow> base_urls \<Rightarrow> bool" where
  "dynamic_upstream_host_is_rejected_before_credentials_can_be_forwarded sha encode decode bus \<longleftrightarrow>
     (let c = default_config\<lparr>cf_host := Some ''http://plex.local:32400''\<rparr>;
          ask = (\<lambda>candidate token. fst (request_context_middleware sha decode bus c
                   (default_context\<lparr>cx_token := token\<rparr>) (Some (stream_host encode candidate)) 0))
      in ask ''http://attacker.invalid'' (Some ''must-not-leak'') = Reject 400
       \<and> (case ask ''http://plex.local:32400'' None of
            Continue rc \<Rightarrow> rc_upstream_host rc = ''http://plex.local:32400''
          | Reject _ \<Rightarrow> False))"

text \<open>An encoder and a decoder for the two hosts of the tests.\<close>

definition host_code :: "string \<Rightarrow> string" where
  "host_code h = (if h = ''http://attacker.invalid'' then ''NB2HI4A'' else ''NB2HI4B'')"

definition host_decode :: "string \<Rightarrow> string option" where
  "host_decode v =
     (if v = ''NB2HI4A'' then Some ''http://attacker.invalid''
      else if v = ''NB2HI4B'' then Some ''http://plex.local:32400'' else None)"

lemma encoded_dynamic_host_passes:
  "encoded_dynamic_host_decodes_only_to_a_candidate host_code host_decode test_urls"
  by code_simp

lemma dynamic_host_decoded:
  "decoded_replex_stream_host host_decode test_urls
     (Some (stream_host host_code ''http://attacker.invalid'')) = Some ''http://attacker.invalid''"
  "decoded_replex_stream_host host_decode test_urls
     (Some (stream_host host_code ''http://plex.local:32400'')) = Some ''http://plex.local:32400''"
  "\<not> allows_upstream_host test_urls (default_config\<lparr>cf_host := Some ''http://plex.local:32400''\<rparr>)
     ''http://attacker.invalid''"
  "allows_upstream_host test_urls (default_config\<lparr>cf_host := Some ''http://plex.local:32400''\<rparr>)
     ''http://plex.local:32400''"
  by code_simp+

lemma dynamic_upstream_host_passes:
  "dynamic_upstream_host_is_rejected_before_credentials_can_be_forwarded sha host_code host_decode test_urls"
  by (simp add: dynamic_upstream_host_is_rejected_before_credentials_can_be_forwarded_def
      request_context_middleware_def dynamic_host_decoded Let_def)

subsection \<open>Web assets\<close>

definition asset_server :: "string \<Rightarrow> (nat \<times> string option \<times> bytes option) option" where
  "asset_server u =
     (if u = ''http://plex/web/test-asset.js''
      then Some (200, Some ''application/javascript'', Some (text_bytes (''console.log('' @ [CHR 0x27] @ ''hi'' @ [CHR 0x27] @ '')'')))
      else None)"

text \<open>The second request finds a server that no longer answers.\<close>

definition web_assets_cached_with_immutable_headers :: "asset_codec \<Rightarrow> nat \<Rightarrow> nat \<Rightarrow> bool" where
  "web_assets_cached_with_immutable_headers codec ttl now \<longleftrightarrow>
     (let (first, cache) = serve_web_asset codec ttl now asset_server (Some ''http://plex'')
                             ''/web/test-asset.js'' Map.empty;
          (second, _) = serve_web_asset codec ttl (now + 1) (\<lambda>_. None) (Some ''http://plex'')
                          ''/web/test-asset.js'' cache
      in list_all (\<lambda>reply. case reply of
            Inr (a, policy) \<Rightarrow> policy = ''public, max-age=31536000, immutable''
              \<and> as_content_type a = Some ''application/javascript''
          | Inl _ \<Rightarrow> False) [first, second])"

lemma asset_fetched:
  "fetch_asset asset_server (Some ''http://plex'') ''/web/test-asset.js''
     = Inr \<lparr>as_content_type = Some ''application/javascript'',
            as_body = text_bytes (''console.log('' @ [CHR 0x27] @ ''hi'' @ [CHR 0x27] @ '')'')\<rparr>"
  by code_simp

lemma asset_policy: "cache_policy_for ''/web/test-asset.js'' = ''public, max-age=31536000, immutable''"
  by code_simp

lemma web_assets_pass:
  assumes "\<And>w. \<exists>data. ac_encode codec w = Some data \<and> ac_decode codec data = Some w"
  shows "web_assets_cached_with_immutable_headers codec ttl now"
proof -
  obtain a cache where first: "serve_web_asset codec ttl now asset_server (Some ''http://plex'')
      ''/web/test-asset.js'' Map.empty = (Inr (a, ''public, max-age=31536000, immutable''), cache)"
    and ct: "as_content_type a = Some ''application/javascript''"
    by (simp add: serve_web_asset_def manager_get_def asset_fetched asset_policy)
  have "serve_web_asset codec ttl (now + 1) (\<lambda>_. None) (Some ''http://plex'') ''/web/test-asset.js'' cache
      = (Inr (a, ''public, max-age=31536000, immutable''), cache)"
    using assms by (intro asset_served_again [OF first]) auto
  with first ct show ?thesis
    by (simp add: web_assets_cached_with_immutable_headers_def)
qed

subsection \<open>Hero styles\<close>

definition hero_context :: "platform \<Rightarrow> string \<Rightarrow> plex_context" where
  "hero_context pl product = default_context\<lparr>cx_platform := Some pl, cx_product := Some product\<rparr>"

definition preview_client_hero_profiles_keep_expected_artwork_fallbacks :: bool where
  "preview_client_hero_profiles_keep_expected_artwork_fallbacks \<longleftrightarrow>
     (let web = hero_style_from_context (hero_context Chrome ''Plex Web'');
          ios = hero_style_from_context (hero_context Ios ''Plex for iOS'');
          tvos = hero_style_from_context (hero_context TvOS ''Plex for Apple TV'');
          roku = hero_style_from_context (hero_context Roku ''Plex for Roku'');
          android_tv = hero_style_from_context (hero_context Android ''Plex for Android (TV)'')
      in list_all (\<lambda>st. hero_style_name st = Some ''hero'' \<and> hero_include_meta st)
           [web, ios, tvos, roku, android_tv]
       \<and> hero_cover_art_as_thumb web \<and> hero_cover_art_as_art web
       \<and> \<not> hero_cover_art_as_thumb ios \<and> hero_cover_art_as_art ios
       \<and> \<not> hero_cover_art_as_thumb tvos \<and> hero_cover_art_as_art tvos
       \<and> hero_cover_art_as_thumb roku \<and> \<not> hero_cover_art_as_art roku
       \<and> hero_child_type android_tv = Some ''clip''
       \<and> hero_cover_art_as_thumb android_tv \<and> hero_cover_art_as_art android_tv)"

lemma hero_profiles_pass: "preview_client_hero_profiles_keep_expected_artwork_fallbacks"
  by code_simp

definition pictured :: "string \<Rightarrow> string \<Rightarrow> string \<Rightarrow> image" where
  "pictured kind address alt = \<lparr>img_alt = Some alt, img_type = kind, img_url = address\<rparr>"

definition hero_cover_art_preserves_native_plex_images :: bool where
  "hero_cover_art_preserves_native_plex_images \<longleftrightarrow>
     (let images = upsert_cover_art ''Example'' ''/replex/hero''
            [pictured ''coverPoster'' ''/poster'' ''Example'',
             pictured ''background'' ''/background'' ''Example'',
             pictured ''clearLogo'' ''/logo'' ''Example''];
          has = (\<lambda>kind address. list_ex (\<lambda>i. img_type i = kind \<and> img_url i = address) images)
      in length images = 4
       \<and> has ''coverPoster'' ''/poster'' \<and> has ''background'' ''/background''
       \<and> has ''clearLogo'' ''/logo'' \<and> has ''coverArt'' ''/replex/hero'')"

definition hero_cover_art_replaces_existing_cover_art_without_duplicates :: bool where
  "hero_cover_art_replaces_existing_cover_art_without_duplicates \<longleftrightarrow>
     (let images = upsert_cover_art ''Example'' ''/new-hero''
            [pictured ''coverArt'' ''/old-hero'' ''Old'',
             pictured ''coverArt'' ''/duplicate-old-hero'' ''Duplicate'',
             pictured ''backgroundSquare'' ''/square'' ''Example'']
      in length (filter is_cover images) = 1
       \<and> (case find is_cover images of
            Some cover \<Rightarrow> img_url cover = ''/new-hero'' \<and> img_alt cover = Some ''Example''
          | None \<Rightarrow> False)
       \<and> list_ex (\<lambda>i. img_type i = ''backgroundSquare'' \<and> img_url i = ''/square'') images)"

lemma hero_cover_art_pass:
  "hero_cover_art_preserves_native_plex_images"
  "hero_cover_art_replaces_existing_cover_art_without_duplicates"
  by code_simp+

end
