(* ===== verification/Conformance_Identity.thy ===== *)
theory Conformance_Identity
  imports Identity Plex_Client App_State
begin

text \<open>
  The integration test \<open>tests/identity.rs\<close>, translated over the model of the identity chain: whom
  plex.tv verifies, whom the resources and the shared servers reveal, and the administrator's
  fallbacks with their order.  Each client of the test has a state of its own, and so starts with
  empty caches.  The digest is any that gives the bound tokens different fingerprints.
\<close>

subsection \<open>The client of the test\<close>

text \<open>The constructor reads the configuration, builds a state of its own and drops everything of it
  but what a client keeps.\<close>

datatype construction_error = Invalid_settings | State_error state_error | Client_error string

definition from_context ::
  "(string \<Rightarrow> bool) \<Rightarrow> bool \<Rightarrow> base_urls \<Rightarrow> string option \<Rightarrow> config option \<Rightarrow> plex_context
   \<Rightarrow> construction_error + plex_client" where
  "from_context header_ok clients_ok bus env settings cx =
     (case settings of
        None \<Rightarrow> Inl Invalid_settings
      | Some c \<Rightarrow>
          (case new_state clients_ok bus env c of
             Inl e \<Rightarrow> Inl (State_error e)
           | Inr st \<Rightarrow>
               (case from_context_with_state header_ok (as_config st) cx of
                  Inl e \<Rightarrow> Inl (Client_error e)
                | Inr client \<Rightarrow> Inr client)))"

definition plex_url :: string where "plex_url = ''http://localhost:32400''"
definition identity_url :: string where "identity_url = ''http://127.0.0.1:9999''"

definition client_for :: "string option \<Rightarrow> plex_context" where
  "client_for token =
     default_context\<lparr>cx_token := token, cx_client_identifier := Some ''replex-test''\<rparr>"

definition identity_settings :: config where
  "identity_settings = default_config\<lparr>cf_host := Some plex_url, cf_identity_api_base := Some identity_url\<rparr>"

definition no_identities :: identity_state where
  "no_identities = \<lparr>id_identities = Map.empty, id_machines = Map.empty\<rparr>"

subsection \<open>The mock server\<close>

definition raw_user_json :: "i64 \<Rightarrow> string \<Rightarrow> string option \<Rightarrow> string option \<Rightarrow> raw_user option reply" where
  "raw_user_json i uuid name title =
     Reply 200 (Some \<lparr>ru_id = i, ru_uuid = uuid, ru_username = name, ru_title = title\<rparr>)"

definition rejected_tokens :: "string list" where
  "rejected_tokens = [''bad-token'', ''shared-token'', ''device-scoped-token'', ''opaque-fingerprint-token'',
     ''opaque-same-client-different-token'', ''opaque-constrained-token'', ''username-fallback-disabled'',
     ''username-fallback-enabled'', ''legacy-client-map-token'']"

definition users_mock :: "string \<Rightarrow> raw_user option reply" where
  "users_mock token =
     (if token = ''good-token'' then raw_user_json 839319108 ''test-uuid-1234'' (Some ''jodiemy3'') (Some ''jodiemy3'')
      else if token = ''title-only-token'' then raw_user_json 42 ''uuid-42'' None (Some ''Title Only'')
      else if token = ''verified-overrides-fingerprint''
      then raw_user_json 77 ''verified-uuid'' (Some ''verified-user'') None
      else if token = ''outage-token'' then Reply 500 None
      else if token \<in> set rejected_tokens then Reply 401 None
      else Reply 404 None)"

definition resources_mock :: "string \<Rightarrow> raw_resource list option reply" where
  "resources_mock token =
     (if token = ''shared-token''
      then Reply 200 (Some [\<lparr>rr_client_identifier = Some ''test-machine'', rr_provides = Some ''server'',
             rr_source_title = Some ''jodiemy3'', rr_owner_id = Some 839319108\<rparr>])
      else if token = ''device-scoped-token'' then Reply 401 None
      else Reply 404 None)"

definition attr :: "string \<Rightarrow> string \<Rightarrow> string" where
  "attr name val = '' '' @ name @ ''='' @ [CHR 0x22] @ val @ [CHR 0x22]"

definition shared_servers_xml :: string where
  "shared_servers_xml =
     ''<MediaContainer'' @ attr ''size'' ''2'' @ ''>'' @ [CHR 0x0A]
     @ ''<SharedServer'' @ attr ''id'' ''1'' @ attr ''username'' ''jodiemy3'' @ attr ''userID'' ''839319108''
       @ attr ''accessToken'' ''other-user-token'' @ ''/>'' @ [CHR 0x0A]
     @ ''<SharedServer'' @ attr ''id'' ''2'' @ attr ''username'' ''Luke.Mulvaney'' @ attr ''userID'' ''567660830''
       @ attr ''accessToken'' ''device-scoped-token'' @ ''/>'' @ [CHR 0x0A]
     @ ''</MediaContainer>''"

definition shared_mock :: "string \<Rightarrow> string \<Rightarrow> string reply" where
  "shared_mock admin machine =
     (if admin = ''admin-token-value'' \<and> machine = ''test-machine'' then Reply 200 shared_servers_xml
      else Reply 404 '''')"

definition identity_mock :: identity_api where
  "identity_mock =
     \<lparr>ia_user = (\<lambda>base token _. if base = identity_url then users_mock token else NoReply),
      ia_resources = (\<lambda>base token _. if base = identity_url then resources_mock token else NoReply),
      ia_shared_servers = (\<lambda>base admin machine _. if base = identity_url then shared_mock admin machine else NoReply),
      ia_root = (\<lambda>host. if host = identity_url then Reply 200 (Some ''test-machine'') else NoReply),
      ia_header_ok = (\<lambda>_. True)\<rparr>"

text \<open>A server that no request reaches.\<close>

definition unreached :: identity_api where
  "unreached =
     \<lparr>ia_user = (\<lambda>_ _ _. NoReply), ia_resources = (\<lambda>_ _ _. NoReply), ia_shared_servers = (\<lambda>_ _ _ _. NoReply),
      ia_root = (\<lambda>_. NoReply), ia_header_ok = (\<lambda>_. True)\<rparr>"

subsection \<open>The test\<close>

definition is_upstream_error :: "identity_error + user_identity \<Rightarrow> bool" where
  "is_upstream_error r = (case r of Inl (UpstreamError _) \<Rightarrow> True | _ \<Rightarrow> False)"

definition has_name :: "string \<Rightarrow> identity_error + user_identity \<Rightarrow> bool" where
  "has_name name r = (case r of Inr i \<Rightarrow> ui_username i = name | Inl _ \<Rightarrow> False)"

definition ask ::
  "(string \<Rightarrow> string) \<Rightarrow> config \<Rightarrow> string \<Rightarrow> plex_context \<Rightarrow> (identity_error + user_identity) \<times> identity_state" where
  "ask sha c host cx = get_current_user sha identity_mock c host cx no_identities"

definition verified_tokens_resolve :: "(string \<Rightarrow> string) \<Rightarrow> bool" where
  "verified_tokens_resolve sha \<longleftrightarrow>
     (let c = identity_settings;
          (good, st) = ask sha c plex_url (client_for (Some ''good-token''))
      in good = Inr \<lparr>ui_id = 839319108, ui_uuid = ''test-uuid-1234'', ui_username = ''jodiemy3''\<rparr>
       \<and> fst (get_current_user sha unreached c plex_url (client_for (Some ''good-token'')) st) = good
       \<and> fst (ask sha c identity_url (client_for (Some ''bad-token''))) = Inl InvalidToken
       \<and> fst (get_current_user sha unreached c plex_url (client_for None) no_identities) = Inl MissingToken
       \<and> is_upstream_error (fst (ask sha c plex_url (client_for (Some ''outage-token''))))
       \<and> has_name ''Title Only'' (fst (ask sha c plex_url (client_for (Some ''title-only-token''))))
       \<and> has_name ''jodiemy3'' (fst (ask sha c plex_url (client_for (Some ''good-token''))))
       \<and> is_upstream_error (fst (ask sha c plex_url (client_for (Some ''never-seen-token'')))))"

definition shared_tokens_resolve :: "(string \<Rightarrow> string) \<Rightarrow> bool" where
  "shared_tokens_resolve sha \<longleftrightarrow>
     (let c = identity_settings; c_admin = c\<lparr>cf_token := Some ''admin-token-value''\<rparr>;
          (shared, st) = ask sha c identity_url (client_for (Some ''shared-token''));
          (device, st') = ask sha c_admin identity_url (client_for (Some ''device-scoped-token''))
      in shared = Inr \<lparr>ui_id = 839319108, ui_uuid = ''shared-jodiemy3'', ui_username = ''jodiemy3''\<rparr>
       \<and> id_machines st identity_url = Some ''test-machine''
       \<and> device = Inr \<lparr>ui_id = 567660830, ui_uuid = ''shared-Luke.Mulvaney'', ui_username = ''Luke.Mulvaney''\<rparr>
       \<and> fst (get_current_user sha unreached c_admin identity_url (client_for (Some ''device-scoped-token'')) st') = device)"

definition bindings_resolve :: "(string \<Rightarrow> string) \<Rightarrow> bool" where
  "bindings_resolve sha \<longleftrightarrow>
     (let opaque = ''opaque-fingerprint-token''; constrained = ''opaque-constrained-token'';
          c = identity_settings\<lparr>cf_token := Some ''admin-token-value'', cf_token_identity_map :=
                [(token_fingerprint sha opaque, Username ''fingerprint-user''),
                 (token_fingerprint sha ''verified-overrides-fingerprint'', Username ''must-not-win'')]\<rparr>;
          c' = identity_settings\<lparr>cf_token := Some ''admin-token-value'', cf_token_identity_map :=
                [(token_fingerprint sha opaque, Username ''fingerprint-user''),
                 (token_fingerprint sha constrained, Detailed ''constrained-user'' (Some ''bound-client''))]\<rparr>
      in fst (ask sha c identity_url (client_for (Some opaque)))
           = Inr \<lparr>ui_id = 0, ui_uuid = ''token-sha256-'' @ token_fingerprint sha opaque, ui_username = ''fingerprint-user''\<rparr>
       \<and> fst (ask sha c identity_url (client_for (Some ''opaque-same-client-different-token''))) = Inl InvalidToken
       \<and> fst (ask sha c identity_url (client_for (Some ''verified-overrides-fingerprint'')))
           = Inr \<lparr>ui_id = 77, ui_uuid = ''verified-uuid'', ui_username = ''verified-user''\<rparr>
       \<and> fst (ask sha c' identity_url (client_for (Some constrained))) = Inl InvalidToken
       \<and> has_name ''constrained-user'' (fst (ask sha c' identity_url
            (client_for (Some constrained)\<lparr>cx_client_identifier := Some ''bound-client''\<rparr>))))"

definition fallbacks_resolve :: "(string \<Rightarrow> string) \<Rightarrow> bool" where
  "fallbacks_resolve sha \<longleftrightarrow>
     (let c = identity_settings\<lparr>cf_token := Some ''admin-token-value''\<rparr>
      in fst (ask sha c identity_url
            (client_for (Some ''username-fallback-disabled'')\<lparr>cx_username := Some ''spoofed-user''\<rparr>)) = Inl InvalidToken
       \<and> has_name ''explicit-username-user'' (fst (ask sha (c\<lparr>cf_allow_username_fallback := True\<rparr>) identity_url
            (client_for (Some ''username-fallback-enabled'')\<lparr>cx_username := Some ''explicit-username-user''\<rparr>)))
       \<and> has_name ''legacy-user'' (fst (ask sha (c\<lparr>cf_client_identity_map := [(''replex-test'', ''legacy-user'')]\<rparr>)
            identity_url (client_for (Some ''legacy-client-map-token''))))
       \<and> deserialize_token_identity_map (\<lambda>_. Inr [(''not-a-sha256'', Username ''invalid-user'')])
            (JsonString ''{...}'') = Inl (BadFingerprint ''not-a-sha256''))"

definition identity_resolution_scenarios :: "(string \<Rightarrow> string) \<Rightarrow> bool" where
  "identity_resolution_scenarios sha \<longleftrightarrow>
     verified_tokens_resolve sha \<and> shared_tokens_resolve sha \<and> bindings_resolve sha \<and> fallbacks_resolve sha"

subsection \<open>It passes\<close>

lemmas eval_identity = ask_def get_current_user_def get_current_identity_def fetch_current_identity_def
  rejected_identity_def resolve_shared_user_def resolve_via_shared_servers_def server_machine_id_def
  configured_identity_def synthetic_def identity_mock_def users_mock_def resources_mock_def shared_mock_def
  raw_user_json_def rejected_tokens_def client_for_def no_identities_def identity_settings_def identity_api_base_def
  plex_url_def identity_url_def default_config_def default_context_def is_upstream_error_def has_name_def
  token_fingerprint_def unreached_def

lemma verified_tokens_pass: "verified_tokens_resolve sha"
  by (simp add: verified_tokens_resolve_def eval_identity)

lemma the_resource: "is_our_resource ''test-machine'' \<lparr>rr_client_identifier = Some ''test-machine'', rr_provides = Some ''server'',
     rr_source_title = t, rr_owner_id = i\<rparr>"
  by (simp add: is_our_resource_def starts_with_code)

lemma listed_attributes:
  "map (\<lambda>tag. parse_xml_attrs (hd (split_on CHR ''>'' tag))) (drop 1 (split_str ''<SharedServer '' shared_servers_xml))
   = [[(''id'', ''1''), (''username'', ''jodiemy3''), (''userID'', ''839319108''), (''accessToken'', ''other-user-token'')],
      [(''id'', ''2''), (''username'', ''Luke.Mulvaney''), (''userID'', ''567660830''),
       (''accessToken'', ''device-scoped-token'')]]"
  by code_simp

lemma listed_id: "parse_i64 ''567660830'' = Some 567660830"
proof -
  have "show_int 567660830 = ''567660830''" by (simp add: show_int_def show_nat.simps char_of_def bit_Suc_0_iff)
  then show ?thesis using parse_i64_show_int [of 567660830] by (simp add: in_i64_def i64_min_def i64_max_def)
qed

lemma listed_servers:
  "scan_shared_servers ''device-scoped-token'' (drop 1 (split_str ''<SharedServer '' shared_servers_xml))
    = Some \<lparr>ui_id = 567660830, ui_uuid = ''shared-Luke.Mulvaney'', ui_username = ''Luke.Mulvaney''\<rparr>"
  "t \<noteq> ''device-scoped-token'' \<Longrightarrow> t \<noteq> ''other-user-token'' \<Longrightarrow>
    scan_shared_servers t (drop 1 (split_str ''<SharedServer '' shared_servers_xml)) = None"
  using listed_attributes by (auto simp: map_eq_Cons_conv listed_id)

lemmas listed = listed_servers [unfolded One_nat_def]

lemma shared_tokens_pass: "shared_tokens_resolve sha"
  by (simp add: shared_tokens_resolve_def eval_identity the_resource listed Let_def)

lemma bindings_pass:
  assumes "distinct (map sha [''opaque-fingerprint-token'', ''opaque-same-client-different-token'',
     ''opaque-constrained-token'', ''verified-overrides-fingerprint''])"
  shows "bindings_resolve sha"
  using assms by (auto simp: bindings_resolve_def eval_identity listed Let_def)

lemma fallbacks_pass: "fallbacks_resolve sha"
proof -
  have "to_lower (trim ''not-a-sha256'') = ''not-a-sha256''" by code_simp
  moreover have "trim ''{...}'' \<noteq> []" by code_simp
  ultimately have "deserialize_token_identity_map (\<lambda>_. Inr [(''not-a-sha256'', Username ''invalid-user'')])
      (JsonString ''{...}'') = Inl (BadFingerprint ''not-a-sha256'')"
    by (simp add: deserialize_token_identity_map_def deserialize_json_map_def)
  then show ?thesis by (simp add: fallbacks_resolve_def eval_identity listed Let_def)
qed

lemma identity_scenarios_pass:
  assumes "distinct (map sha [''opaque-fingerprint-token'', ''opaque-same-client-different-token'',
     ''opaque-constrained-token'', ''verified-overrides-fingerprint''])"
  shows "identity_resolution_scenarios sha"
  using verified_tokens_pass shared_tokens_pass bindings_pass [OF assms] fallbacks_pass
  by (simp add: identity_resolution_scenarios_def)

end
