(* ===== verification/Conformance_Service.thy ===== *)
theory Conformance_Service
  imports Service
begin

text \<open>
  What the integration tests under \<open>tests/\<close> share: the requests of their client, the mock server
  behind which both Plex and plex.tv stand, and the service under test.  The digest of the model is the
  identity function here, which gives different tokens different fingerprints.
\<close>

subsection \<open>The client's requests\<close>

text \<open>The context as the framework extracts it, for the fields that the tests set: from the query, or
  from a header.\<close>

definition test_field :: "request \<Rightarrow> string \<Rightarrow> string option" where
  "test_field r n = opt_or (mm_get (rq_query r) n) (header r n)"

definition extracted :: "request \<Rightarrow> plex_context" where
  "extracted r =
     default_context\<lparr>cx_token := test_field r ''X-Plex-Token'', cx_product := test_field r ''X-Plex-Product'',
       cx_username := test_field r ''X-Plex-Username'', cx_path := test_field r ''path'',
       cx_client_identifier := test_field r ''X-Plex-Client-Identifier''\<rparr>"

definition test_request :: "string \<Rightarrow> query \<Rightarrow> string \<Rightarrow> (string \<times> string) list \<Rightarrow> request" where
  "test_request path q token extra =
     \<lparr>rq_method = ''GET'', rq_path = path, rq_query = q,
      rq_headers = [(''host'', ''127.0.0.1:5800''), (''x-plex-token'', token),
        (''x-plex-client-identifier'', ''test-client''), (''accept'', ''application/json'')] @ extra,
      rq_absolute = True\<rparr>"

subsection \<open>The mock server\<close>

definition mock_url :: string where "mock_url = ''http://127.0.0.1:9999''"

definition user_reply :: "i64 \<Rightarrow> string \<Rightarrow> string \<Rightarrow> raw_user option reply" where
  "user_reply i uuid name =
     Reply 200 (Some \<lparr>ru_id = i, ru_uuid = uuid, ru_username = Some name, ru_title = None\<rparr>)"

text \<open>Paths without a mock are answered 404.\<close>

definition mock_identity :: "(string \<Rightarrow> raw_user option reply) \<Rightarrow> identity_api" where
  "mock_identity users =
     \<lparr>ia_user = (\<lambda>base token _. if base = mock_url then users token else NoReply),
      ia_resources = (\<lambda>_ _ _. Reply 404 None), ia_shared_servers = (\<lambda>_ _ _ _. Reply 404 ''''),
      ia_root = (\<lambda>_. Reply 404 None), ia_header_ok = (\<lambda>_. True)\<rparr>"

definition mock_item :: "media_container \<Rightarrow> string \<Rightarrow> media_container option" where
  "mock_item movie path = (if path = ''/library/metadata/100'' then Some movie else None)"

text \<open>A mock of the decision route answers the requests that carry its query parameters.\<close>

definition meets :: "query \<Rightarrow> request \<Rightarrow> bool" where
  "meets params r \<longleftrightarrow> list_all (\<lambda>p. p \<in> set (rq_query r)) params"

definition mock_answer :: "query list \<Rightarrow> request \<Rightarrow> nat option \<times> media_container option" where
  "mock_answer mocks r =
     (if list_ex (\<lambda>m. meets m r) mocks then (Some 200, Some default_container) else (Some 404, None))"

text \<open>The patterns of the router that the paths of the tests meet.\<close>

definition test_matches :: "string \<Rightarrow> string \<Rightarrow> bool" where
  "test_matches pattern path \<longleftrightarrow>
     pattern = rest_path
     \<or> pattern = decision_path \<and> path = ''/video/:/transcode/universal/decision''
     \<or> pattern = session_path \<and> starts_with path ''/video/:/transcode/universal/session/''
     \<or> pattern = parts_path \<and> starts_with path ''/library/parts/''"

definition test_part :: "request \<Rightarrow> string option" where
  "test_part r =
     (if starts_with (rq_path r) ''/library/parts/''
      then nth_opt (split_on CHR ''/'' (rq_path r)) 4 else None)"

subsection \<open>The service under test\<close>

definition test_config :: "policy_entry list \<Rightarrow> config" where
  "test_config rules = default_config\<lparr>cf_host := Some mock_url, cf_identity_api_base := Some mock_url,
     cf_resolution_policy_enabled := True, cf_resolution_default := Unlimited,
     cf_user_resolution_policies := rules\<rparr>"

definition rule_named :: "string \<Rightarrow> resolution_limit \<Rightarrow> i64 option \<Rightarrow> policy_entry" where
  "rule_named name limit cap =
     \<lparr>pe_username = Some name, pe_uuid = None, pe_max_resolution = limit, pe_max_bitrate = cap,
      pe_visible_collections = []\<rparr>"

definition test_service ::
  "config \<Rightarrow> (string \<Rightarrow> raw_user option reply) \<Rightarrow> media_container \<Rightarrow> query list \<Rightarrow> service" where
  "test_service c users movie mocks =
     \<lparr>sv_config = c, sv_policy = new_store c, sv_sha = (\<lambda>s. s), sv_base32 = (\<lambda>_. None),
      sv_bases = \<lparr>bu_parse = (\<lambda>_. None), bu_print = (\<lambda>_. [])\<rparr>, sv_identity = mock_identity users,
      sv_extract = extracted, sv_matches = test_matches, sv_part = test_part, sv_raw = rq_path,
      sv_items = (\<lambda>_. mock_item movie), sv_decision = (\<lambda>_ r. snd (mock_answer mocks r)),
      sv_decision_status = (\<lambda>_. mock_answer mocks), sv_proxied = (\<lambda>_ _. (0, True)),
      sv_f32 = (\<lambda>_. None)\<rparr>"

definition started :: "part_cache \<Rightarrow> service_state" where
  "started parts = \<lparr>ss_counter = 1, ss_identities = \<lparr>id_identities = Map.empty, id_machines = Map.empty\<rparr>,
     ss_parts = parts, ss_metrics = default_metrics, ss_hub = initial_hub\<rparr>"

fun send_all :: "service \<Rightarrow> request list \<Rightarrow> service_state \<Rightarrow> service_reply list \<times> service_state" where
  "send_all sv [] st = ([], st)"
| "send_all sv (r # rs) st =
     (case serve sv r st of (a, st') \<Rightarrow>
       (case send_all sv rs st' of (as, st'') \<Rightarrow> (a # as, st'')))"

text \<open>What a test sees of an answer: the status, and which mock of the decision route was met first.\<close>

definition observed :: "query list \<Rightarrow> service_reply \<Rightarrow> nat \<times> nat option" where
  "observed mocks a =
     (case a of
        Forwarded r \<Rightarrow>
          (case position (\<lambda>m. meets m r) mocks of Some k \<Rightarrow> (200, Some k) | None \<Rightarrow> (404, None))
      | Redirected _ \<Rightarrow> (307, None)
      | Answered n \<Rightarrow> (n, None)
      | Route_failed \<Rightarrow> (500, None)
      | Elsewhere _ \<Rightarrow> (200, None))"

text \<open>A run is as observed when every request is, in every state of an invariant that requests keep.\<close>

lemma send_all_observed:
  assumes "\<And>r seen st. (r, seen) \<in> set sc \<Longrightarrow> good st \<Longrightarrow>
      see (fst (serve sv r st)) = seen \<and> good (snd (serve sv r st))"
    and "good st"
  shows "map see (fst (send_all sv (map fst sc) st)) = map snd sc \<and> good (snd (send_all sv (map fst sc) st))"
  using assms
proof (induction sc arbitrary: st)
  case (Cons x sc)
  obtain r seen where x: "x = (r, seen)" by (cases x)
  have "see (fst (serve sv r st)) = seen" "good (snd (serve sv r st))"
    using Cons.prems(1) [of r seen st] Cons.prems(2) by (simp_all add: x)
  moreover have "map see (fst (send_all sv (map fst sc) (snd (serve sv r st)))) = map snd sc
      \<and> good (snd (send_all sv (map fst sc) (snd (serve sv r st))))"
    using Cons.IH [OF Cons.prems(1)] calculation(2) by simp
  ultimately show ?case by (simp add: x case_prod_beta)
qed simp

subsection \<open>Accounts\<close>

definition known :: "(string \<Rightarrow> raw_user option reply) \<Rightarrow> string \<Rightarrow> resolved_identity option" where
  "known users t =
     (case users t of
        Reply s (Some raw) \<Rightarrow>
          (if s = 200
           then Some \<lparr>ri_identity =
               \<lparr>ui_id = ru_id raw, ui_uuid = ru_uuid raw,
                ui_username = unwrap_or (opt_or (ru_username raw) (ru_title raw)) (''user-'' @ ru_uuid raw)\<rparr>,
              ri_source = VerifiedPlex\<rparr>
           else None)
      | _ \<Rightarrow> None)"

text \<open>The identity cache holds nothing but what the mock server would say.\<close>

definition settled :: "(string \<Rightarrow> raw_user option reply) \<Rightarrow> identity_state \<Rightarrow> bool" where
  "settled users ids \<longleftrightarrow>
     id_machines ids = Map.empty \<and> (\<forall>t r. id_identities ids t = Some r \<longrightarrow> known users t = Some r)"

lemma started_settled: "settled users (ss_identities (started parts))"
  by (simp add: settled_def started_def)

lemma fetch_known:
  assumes "id_machines ids = Map.empty" "identity_api_base c = mock_url"
  shows "fetch_current_identity (\<lambda>s. s) (mock_identity users) c cx host t ids
      = (case known users t of Some i \<Rightarrow> (Inr i, ids)
         | None \<Rightarrow> (Inl (case fst (fetch_current_identity (\<lambda>s. s) (mock_identity users) c cx host t ids)
                          of Inl e \<Rightarrow> e | Inr _ \<Rightarrow> InvalidToken), ids))"
  using assms
  by (auto simp: fetch_current_identity_def rejected_identity_def resolve_shared_user_def
      server_machine_id_def mock_identity_def known_def split: reply.split option.split)

lemma account_known:
  assumes "settled users ids" "cx_token cx = Some t" "identity_api_base c = mock_url"
    and "get_current_identity (\<lambda>s. s) (mock_identity users) c host cx ids = (res, ids')"
  shows "settled users ids'"
    and "known users t = Some i \<Longrightarrow> res = Inr i"
    and "known users t = None \<Longrightarrow> \<exists>e. res = Inl e"
proof -
  have m: "id_machines ids = Map.empty" using assms(1) by (simp add: settled_def)
  note f = fetch_known [OF m assms(3), of users cx host t]
  have cached: "id_identities ids t = Some r \<Longrightarrow> known users t = Some r" for r
    using assms(1) by (simp add: settled_def)
  have look: "(res, ids') =
    (case id_identities ids t of Some r \<Rightarrow> (Inr r, ids)
     | None \<Rightarrow> (case fetch_current_identity (\<lambda>s. s) (mock_identity users) c cx host t ids of
                  (Inl e, st') \<Rightarrow> (Inl e, st')
                | (Inr r, st') \<Rightarrow> (Inr r, st'\<lparr>id_identities := (id_identities st')(t \<mapsto> r)\<rparr>)))"
    using assms(2,4) by (simp add: get_current_identity_def token_fingerprint_def)
  show "settled users ids'" using look assms(1) by (subst (asm) f) (auto simp: settled_def split: option.splits)
  show "res = Inr i" if "known users t = Some i"
    using look that cached by (subst (asm) f) (auto split: option.splits)
  show "\<exists>e. res = Inl e" if "known users t = None"
    using look that cached by (subst (asm) f) (auto split: option.splits)
qed

subsection \<open>A request to the service under test\<close>

lemma test_service_fields [simp]:
  "sv_config (test_service c users movie mocks) = c"
  "sv_policy (test_service c users movie mocks) = new_store c"
  "sv_matches (test_service c users movie mocks) = test_matches"
  "sv_identity (test_service c users movie mocks) = mock_identity users"
  "sv_sha (test_service c users movie mocks) = (\<lambda>s. s)"
  by (simp_all add: test_service_def)

lemma test_opened:
  assumes "header r ''Host'' = Some ''127.0.0.1:5800''" "cf_host c = Some mock_url"
  obtains rc n where "opened (test_service c users movie mocks) r st = (Continue rc, n)"
    "rc_plex rc = extracted r"
proof -
  have "decoded_replex_stream_host (\<lambda>_. None) b (header r ''Host'') = None" for b
    using assms(1) by (simp add: decoded_replex_stream_host_def str_simps split: option.split)
  then show thesis
    using that by (simp add: opened_def request_context_middleware_def test_service_def Let_def)
qed

lemma test_served:
  assumes "settled users (ss_identities st)" "test_field r ''X-Plex-Token'' = Some t"
    and "header r ''Host'' = Some ''127.0.0.1:5800''" "requires_security_context (rq_path r)"
    and "cf_host c = Some mock_url" "identity_api_base c = mock_url" "cf_resolution_policy_enabled c"
  obtains rc n ids s where "rc_plex rc = extracted r" "settled users ids"
    "serve (test_service c users movie mocks) r st
      = routed (test_service c users movie mocks) rc (Some s) r (st\<lparr>ss_counter := n, ss_identities := ids\<rparr>)"
    "client_ok (test_service c users movie mocks) rc (Some s)"
    "\<forall>i. known users t = Some i \<longrightarrow> (\<exists>sc. s = Resolved sc
      \<and> sc_policy sc = resolve_policy (cf_user_resolution_policies c) (cf_resolution_default c)
          (unwrap_or (cf_hidden_collections c) []) (ri_identity i))"
    "known users t = None \<longrightarrow> (\<exists>e. s = Unavailable (cf_resolution_policy_fail_closed c) e)"
proof -
  let ?sv = "test_service c users movie mocks"
  obtain rc n where o: "opened ?sv r st = (Continue rc, n)" and rc: "rc_plex rc = extracted r"
    by (rule test_opened [OF assms(3,5)])
  have token: "cx_token (rc_plex rc) = Some t" using assms(2) by (simp add: rc extracted_def)
  then have ok: "client_ok ?sv rc sec" for sec using assms(5) by (simp add: client_ok_iff)
  have on: "ps_enabled (sv_policy ?sv)" using assms(7) by (simp add: new_store_def snapshot_from_config_def)
  obtain res ids where g: "get_current_identity (\<lambda>s. s) (mock_identity users) c (rc_upstream_host rc) (rc_plex rc)
      (ss_identities st) = (res, ids)" by fastforce
  note a = account_known [OF assms(1) token assms(6) g]
  have noerr: "client_error c (rc_plex rc) = None" using token assms(5) by (simp add: client_error_def)
  have ids: "snd (secured ?sv rc r (ss_identities st)) = ids"
    using on assms(4) noerr g
    by (simp add: secured_def security_context_middleware_def split: sum.split)
  obtain s where s: "secured ?sv rc r (ss_identities st) = (Some s, ids)"
    using secured_present [OF on assms(4), of rc "ss_identities st"] ids by (metis prod.collapse)
  have "fst (secured ?sv rc r (ss_identities st)) = Some s" using s by simp
  with secured_account [OF on assms(4) ok, of st] g
  have sec: "s = (case res of Inl e \<Rightarrow> Unavailable (cf_resolution_policy_fail_closed c) e
      | Inr i \<Rightarrow> Resolved \<lparr>sc_identity = ri_identity i, sc_token_scope = rc_token_scope rc,
          sc_policy = rule_of ?sv i, sc_identity_source = ri_source i\<rparr>)"
    by (cases res) (simp_all add: new_store_def snapshot_from_config_def)
  show thesis
  proof (rule that [OF rc a(1) serve_secured [OF o s] ok])
    show "\<forall>i. known users t = Some i \<longrightarrow> (\<exists>sc. s = Resolved sc
      \<and> sc_policy sc = resolve_policy (cf_user_resolution_policies c) (cf_resolution_default c)
          (unwrap_or (cf_hidden_collections c) []) (ri_identity i))"
      using a(2) sec by (auto simp: new_store_def snapshot_from_config_def)
    show "known users t = None \<longrightarrow> (\<exists>e. s = Unavailable (cf_resolution_policy_fail_closed c) e)"
      using a(3) sec by auto
  qed
qed

lemma lower_names: "to_lower ''Host'' = ''host''" "to_lower ''X-Plex-Token'' = ''x-plex-token''"
  by code_simp+

subsection \<open>What the routes do with it\<close>

lemma decision_path_met: "playback_path (test_service c users movie mocks) ''/video/:/transcode/universal/decision''"
  "test_matches decision_path ''/video/:/transcode/universal/decision''"
  by (simp_all add: playback_path_def clear_of_def test_matches_def route_paths starts_with_code)

lemma video_secured: "requires_security_context ''/video/:/transcode/universal/decision''"
  by (simp add: requires_security_context_def starts_with_code)

lemma decision_served:
  assumes "settled users (ss_identities st)" "known users t = Some i" "test_field r ''X-Plex-Token'' = Some t"
    and "header r ''Host'' = Some ''127.0.0.1:5800''" "rq_path r = ''/video/:/transcode/universal/decision''"
    and "cf_host c = Some mock_url" "identity_api_base c = mock_url" "cf_resolution_policy_enabled c"
  obtains ev sc where "ev_config ev = c" "ev_snapshot ev = new_store c" "ev_client_ok ev"
    "ev_security ev = Some (Resolved sc)"
    "sc_policy sc = resolve_policy (cf_user_resolution_policies c) (cf_resolution_default c)
       (unwrap_or (cf_hidden_collections c) []) (ri_identity i)"
    "ev_item ev = mock_item movie" "cx_screen_resolution (ev_context ev) = []"
    "ev_decision_status ev = mock_answer mocks"
    "fst (serve (test_service c users movie mocks) r st) = reply_of (run_hoops (decision_hoops ev) r)"
    "ss_parts (snd (serve (test_service c users movie mocks) r st)) =
      pb_parts (enforce_effects ev r \<lparr>pb_parts = ss_parts st, pb_metrics = ss_metrics st\<rparr>)"
    "settled users (ss_identities (snd (serve (test_service c users movie mocks) r st)))"
proof -
  let ?sv = "test_service c users movie mocks"
  have sec: "requires_security_context (rq_path r)" using video_secured assms(5) by simp
  obtain rc n ids s where s: "rc_plex rc = extracted r" "settled users ids"
    "serve ?sv r st = routed ?sv rc (Some s) r (st\<lparr>ss_counter := n, ss_identities := ids\<rparr>)"
    "client_ok ?sv rc (Some s)"
    "\<exists>sc. s = Resolved sc \<and> sc_policy sc = resolve_policy (cf_user_resolution_policies c)
       (cf_resolution_default c) (unwrap_or (cf_hidden_collections c) []) (ri_identity i)"
    using test_served [OF assms(1,3,4) sec assms(6-8), of movie mocks] assms(2) by metis
  then obtain sc where sc: "s = Resolved sc" "sc_policy sc = resolve_policy (cf_user_resolution_policies c)
       (cf_resolution_default c) (unwrap_or (cf_hidden_collections c) []) (ri_identity i)" by blast
  let ?ev = "play_env_of ?sv rc (Some s) (Inl MissingToken)"
  have path: "playback_path ?sv (rq_path r)" using decision_path_met(1) assms(5) by simp
  have on: "cf_resolution_policy_enabled (sv_config ?sv)" using assms(8) by simp
  note routed = playback_routed [OF path on, of rc s]
  show thesis
  proof (rule that [of ?ev sc])
    show "fst (serve ?sv r st) = reply_of (run_hoops (decision_hoops ?ev) r)"
      using routed(1) s(3) decision_path_met(2) assms(5) by (simp add: route_hoops_def)
    show "ss_parts (snd (serve ?sv r st)) =
        pb_parts (enforce_effects ?ev r \<lparr>pb_parts = ss_parts st, pb_metrics = ss_metrics st\<rparr>)"
      using routed(2) s(3) by simp
    show "settled users (ss_identities (snd (serve ?sv r st)))" using s(2,3) by (simp add: routed_identities)
  qed (use s(1,4) sc in \<open>simp_all add: play_env_of_def test_service_def extracted_def default_context_def\<close>)
qed

text \<open>The status of a stream request, by the policy of its account, if it has one, and the facts known.\<close>

definition stream_status :: "config \<Rightarrow> resolution_policy option \<Rightarrow> part_cache \<Rightarrow> request \<Rightarrow> nat" where
  "stream_status c p parts r =
     (let free = (if cf_redirect_streams c then 307 else 200) in
      case p of
        None \<Rightarrow> if cf_resolution_policy_fail_closed c then 503 else free
      | Some p \<Rightarrow>
          (if \<not> stream_restricted p then free
           else (case Option.bind (test_part r) parse_i64 of
                   None \<Rightarrow> 200
                 | Some part \<Rightarrow>
                     (case parts part of
                        Some facts \<Rightarrow> if part_classification_allowed facts p then 200 else 403
                      | None \<Rightarrow> 403))))"

text \<open>The mock server answers every stream path of the tests.\<close>

definition status_seen :: "query list \<Rightarrow> service_reply \<Rightarrow> nat" where
  "status_seen mocks a =
     (case a of
        Forwarded r \<Rightarrow>
          (if test_matches decision_path (rq_path r) \<and> \<not> list_ex (\<lambda>m. meets m r) mocks then 404 else 200)
      | Redirected _ \<Rightarrow> 307 | Answered n \<Rightarrow> n | Route_failed \<Rightarrow> 500 | Elsewhere _ \<Rightarrow> 200)"

lemma stream_served:
  assumes "settled users (ss_identities st)" "test_field r ''X-Plex-Token'' = Some t"
    and "header r ''Host'' = Some ''127.0.0.1:5800''" "requires_security_context (rq_path r)"
    and "stream_path (test_service c users movie mocks) (rq_path r)" "\<not> test_matches decision_path (rq_path r)"
    and "cf_host c = Some mock_url" "identity_api_base c = mock_url" "cf_resolution_policy_enabled c"
    and "p = map_option (\<lambda>i. resolve_policy (cf_user_resolution_policies c) (cf_resolution_default c)
           (unwrap_or (cf_hidden_collections c) []) (ri_identity i)) (known users t)"
  shows "status_seen mocks (fst (serve (test_service c users movie mocks) r st)) = stream_status c p (ss_parts st) r
    \<and> ss_parts (snd (serve (test_service c users movie mocks) r st)) = ss_parts st
    \<and> settled users (ss_identities (snd (serve (test_service c users movie mocks) r st)))"
proof -
  let ?sv = "test_service c users movie mocks"
  obtain rc n ids s where s: "settled users ids" "client_ok ?sv rc (Some s)"
    "serve ?sv r st = routed ?sv rc (Some s) r (st\<lparr>ss_counter := n, ss_identities := ids\<rparr>)"
    "\<forall>i. known users t = Some i \<longrightarrow> (\<exists>sc. s = Resolved sc
      \<and> sc_policy sc = resolve_policy (cf_user_resolution_policies c) (cf_resolution_default c)
          (unwrap_or (cf_hidden_collections c) []) (ri_identity i))"
    "known users t = None \<longrightarrow> (\<exists>e. s = Unavailable (cf_resolution_policy_fail_closed c) e)"
    using test_served [OF assms(1-4,7-9), of movie mocks] by metis
  have on: "cf_resolution_policy_enabled (sv_config ?sv)" using assms(9) by simp
  let ?st = "st\<lparr>ss_counter := n, ss_identities := ids\<rparr>"
  let ?ev = "stream_env_of ?sv rc (Some s) (Inl MissingToken) (ss_parts ?st) r"
  note routed = stream_routed [OF assms(5) on, of rc s ?st]
  have ev: "st_config ?ev = Some c" "st_snapshot ?ev = Some (new_store c)" "st_upstream ?ev = Some (rc_upstream_host rc)"
    "st_client_ok ?ev" "st_security ?ev = Some s" "st_parts ?ev = ss_parts st" "st_part ?ev = test_part r"
    using s(2) by (simp_all add: stream_env_of_def test_service_def)
  have enabled: "ps_enabled (new_store c)" using assms(9) by (simp add: new_store_def snapshot_from_config_def)
  have "status_seen mocks (fst (routed ?sv rc (Some s) r ?st)) = stream_status c p (ss_parts st) r"
  proof (cases "known users t")
    case None
    with s(5) obtain e where "s = Unavailable (cf_resolution_policy_fail_closed c) e" by blast
    with None ev enabled assms(6,10) routed(1) show ?thesis
      by (auto simp: protected_redirect_stream_def stream_status_def status_seen_def
          deliver_stream_def choose_delivery_def perform_stream_redirect_def)
  next
    case (Some i)
    with s(4) obtain sc where sc: "s = Resolved sc" "p = Some (sc_policy sc)" using assms(10) by auto
    have gate: "gate_policy ?ev = Some (sc_policy sc)" using ev enabled sc(1) by (simp add: gate_policy_def)
    obtain c' where "st_config ?ev = Some c'" "protected_redirect_stream ?ev (ss_metrics ?st) =
     (if stream_restricted (sc_policy sc) then gate_restricted (sc_policy sc) c' ?ev (ss_metrics ?st)
      else deliver_stream (choose_delivery False (cf_redirect_streams c')) c' ?ev (ss_metrics ?st))"
      by (rule gate_policyE [OF gate])
    then show ?thesis
      using ev assms(6) sc(2) routed(1)
      by (auto simp: gate_restricted_reply stream_status_def status_seen_def
          deliver_stream_def choose_delivery_def perform_stream_redirect_def split: option.split)
  qed
  then show ?thesis using s(1,3) routed(2) by (simp add: routed_identities)
qed

end
