(* ===== verification/Conformance_Playback.thy ===== *)
theory Conformance_Playback
  imports Conformance_Service
begin

text \<open>
  The integration test \<open>tests/playback.rs\<close>, run on the model of the whole service: twelve decision
  requests of four accounts and of an expired token, one after the other.  A test passes when every
  request has the expected status and reaches the mock that expects its rewritten query.
\<close>

subsection \<open>The mock server\<close>

definition playback_users :: "string \<Rightarrow> raw_user option reply" where
  "playback_users token =
     (if token = ''jodie-token'' then user_reply 839319108 ''uuid-jodie'' ''jodiemy3''
      else if token = ''admin-token'' then user_reply 1 ''uuid-admin'' ''admin''
      else if token = ''expired-token'' then Reply 401 None
      else if token = ''sd-token'' then user_reply 9 ''uuid-sd'' ''sd-only''
      else if token = ''capped-token'' then user_reply 11 ''uuid-capped'' ''capped-only''
      else Reply 404 None)"

text \<open>Index 0 is the 1080p version, index 1 the 4K one.\<close>

definition item_json :: media_container where
  "item_json = default_container\<lparr>mc_metadata :=
     [MetaData (default_attrs\<lparr>md_media :=
        [default_media\<lparr>m_id := 1, m_video_resolution := Some ''1080'', m_width := Some 1920, m_height := Some 1080\<rparr>,
         default_media\<lparr>m_id := 2, m_video_resolution := Some ''4k'', m_width := Some 3840, m_height := Some 2160\<rparr>]\<rparr>)
      [] [] []]\<rparr>"

text \<open>The mocks of the decision route, in the order of their creation.\<close>

definition decision_mocks :: "query list" where
  "decision_mocks =
     [[(''mediaIndex'', ''0''), (''scn'', ''1'')],
      [(''mediaIndex'', ''0''), (''scn'', ''2'')],
      [(''mediaIndex'', ''0''), (''scn'', ''3'')],
      [(''mediaIndex'', ''1''), (''scn'', ''4'')],
      [(''scn'', ''5'')],
      [(''mediaIndex'', ''0''), (''scn'', ''6'')],
      [(''mediaIndex'', ''0''), (''scn'', ''plexamp'')],
      [(''maxVideoBitrate'', ''4000'')],
      [(''maxVideoBitrate'', ''2000'')],
      [(''maxVideoBitrate'', ''8000''), (''mediaIndex'', ''1''), (''scn'', ''9'')],
      [(''maxVideoBitrate'', ''8000''), (''mediaIndex'', ''1''), (''scn'', ''10'')]]"

definition playback_rules :: "policy_entry list" where
  "playback_rules = [rule_named ''jodiemy3'' P1080 (Some 4000), rule_named ''sd-only'' P480 None,
     rule_named ''capped-only'' Unlimited (Some 8000)]"

definition playback_service :: service where
  "playback_service = test_service (test_config playback_rules) playback_users item_json decision_mocks"

definition decision_request :: "string \<Rightarrow> query \<Rightarrow> (string \<times> string) list \<Rightarrow> request" where
  "decision_request token q headers =
     test_request ''/video/:/transcode/universal/decision'' ((''path'', ''/library/metadata/100'') # q) token headers"

subsection \<open>The test\<close>

text \<open>The versions the accounts may play, and the account nobody vouches for.\<close>

definition version_scenarios :: "(request \<times> nat \<times> nat option) list" where
  "version_scenarios =
     [(decision_request ''jodie-token'' [(''mediaIndex'', ''1''), (''scn'', ''1'')] [], 200, Some 0),
      (decision_request ''jodie-token'' [(''mediaIndex'', ''0''), (''scn'', ''2'')] [], 200, Some 1),
      (decision_request ''jodie-token'' [(''scn'', ''3'')] [], 200, Some 2),
      (decision_request ''admin-token'' [(''mediaIndex'', ''1''), (''scn'', ''4'')] [], 200, Some 3),
      (decision_request ''expired-token'' [(''mediaIndex'', ''1''), (''scn'', ''5'')] [], 503, None),
      (decision_request ''jodie-token'' [(''mediaIndex'', ''1''), (''scn'', ''6'')]
         [(''x-plex-username'', ''admin'')], 200, Some 5),
      (decision_request ''jodie-token'' [(''mediaIndex'', ''1''), (''scn'', ''plexamp'')]
         [(''x-plex-product'', ''Plexamp'')], 200, Some 6)]"

text \<open>The refusal without a permitted version, and the bitrates.\<close>

definition bitrate_scenarios :: "(request \<times> nat \<times> nat option) list" where
  "bitrate_scenarios =
     [(decision_request ''sd-token'' [(''mediaIndex'', ''0'')] [], 403, None),
      (decision_request ''jodie-token''
         [(''mediaIndex'', ''0''), (''scn'', ''7''), (''maxVideoBitrate'', ''20000'')] [], 200, Some 7),
      (decision_request ''jodie-token''
         [(''mediaIndex'', ''0''), (''scn'', ''8''), (''maxVideoBitrate'', ''2000'')] [], 200, Some 8),
      (decision_request ''capped-token''
         [(''mediaIndex'', ''1''), (''scn'', ''9''), (''maxVideoBitrate'', ''50000'')] [], 200, Some 9),
      (decision_request ''capped-token'' [(''mediaIndex'', ''1''), (''scn'', ''10'')] [], 200, Some 10)]"

definition playback_scenarios :: "(request \<times> nat \<times> nat option) list" where
  "playback_scenarios = version_scenarios @ bitrate_scenarios"

definition playback_enforcement_scenarios :: bool where
  "playback_enforcement_scenarios \<longleftrightarrow>
     map (observed decision_mocks)
       (fst (send_all playback_service (map fst playback_scenarios) (started Map.empty)))
     = map snd playback_scenarios"

subsection \<open>What an account's request comes to\<close>

definition policy_of :: "string \<Rightarrow> resolution_policy option" where
  "policy_of token =
     map_option (\<lambda>i. resolve_policy playback_rules Unlimited [] (ri_identity i)) (known playback_users token)"

lemma policies:
  "policy_of ''jodie-token'' = Some \<lparr>rp_limit = P1080, rp_max_bitrate = Some 4000, rp_hidden_collections = []\<rparr>"
  "policy_of ''admin-token'' = Some \<lparr>rp_limit = Unlimited, rp_max_bitrate = None, rp_hidden_collections = []\<rparr>"
  "policy_of ''expired-token'' = None"
  "policy_of ''sd-token'' = Some \<lparr>rp_limit = P480, rp_max_bitrate = None, rp_hidden_collections = []\<rparr>"
  "policy_of ''capped-token'' = Some \<lparr>rp_limit = Unlimited, rp_max_bitrate = Some 8000, rp_hidden_collections = []\<rparr>"
  by code_simp+

definition movie_media :: "media list" where
  "movie_media = unwrap_or (item_media item_json) []"

text \<open>The enforcement alone, under a policy.\<close>

definition enforced :: "resolution_policy \<Rightarrow> request \<Rightarrow> hoop_result" where
  "enforced p r =
     (if is_unrestricted p \<and> rp_max_bitrate p = None then Next r
      else (let r' = cap_bitrate (rp_max_bitrate p) r
            in if is_unrestricted p then Next r' else select_version p default_context movie_media r'))"

definition comes_to :: "resolution_policy \<Rightarrow> request \<Rightarrow> nat \<times> nat option" where
  "comes_to p r = observed decision_mocks (reply_of (enforced p r))"

lemma select_ignores_context:
  "cx_screen_resolution cx = [] \<Longrightarrow> select_version p cx ms r = select_version p default_context ms r"
  by (simp add: select_version_def screen_of_def default_context_def first_opt_def)

lemma enforced_meets:
  assumes "ev_snapshot ev = new_store (test_config playback_rules)" "ev_client_ok ev"
    and "ev_security ev = Some (Resolved sc)" "sc_policy sc = p"
    and "ev_item ev = mock_item item_json" "cx_screen_resolution (ev_context ev) = []"
    and "mm_get (rq_query r) ''path'' = Some ''/library/metadata/100''" "rq_absolute r"
  shows "enforce_resolution_policy ev r = enforced p r"
proof -
  have path: "mm_get (rq_query (cap_bitrate b r)) ''path'' = Some ''/library/metadata/100''" for b
    using assms(7,8) cap_bitrate_keeps [of r "''path''" b] by simp
  have item: "item_media item_json = Some movie_media" "movie_media \<noteq> []"
    by (simp_all add: movie_media_def item_json_def item_media_def)
  show ?thesis
    using assms(1-6) path item
    by (simp add: enforce_resolution_policy_def enforced_def enforce_limit_def mock_item_def Let_def
        select_ignores_context new_store_def snapshot_from_config_def test_config_def)
qed

lemma request_headers:
  assumes "r = decision_request t q hs"
  shows "header r ''Host'' = Some ''127.0.0.1:5800''" "header r ''X-Plex-Token'' = Some t"
    "requires_security_context (rq_path r)" "rq_absolute r"
    "mm_get (rq_query r) ''path'' = Some ''/library/metadata/100''"
  using assms
  by (simp_all add: decision_request_def test_request_def header_def lower_names mm_get_def
      requires_security_context_def starts_with_code)

lemma only_enforcement:
  assumes "ev_config ev = test_config rules"
  shows "decision_hoops ev = [enforce_resolution_policy ev, direct_stream_fallback ev]"
  using assms by (simp add: decision_hoops_def start_hoops_def test_config_def default_config_def)

lemma mocked_decision_passes:
  assumes "ev_client_ok ev" "ev_decision_status ev = mock_answer mocks" "list_ex (\<lambda>m. meets m r) mocks"
  shows "direct_stream_fallback ev r = Next r"
  using assms by (simp add: direct_stream_fallback_def mock_answer_def default_container_def)

lemma position_ex: "position P xs \<noteq> None \<longleftrightarrow> list_ex P xs"
  by (induction xs) auto

lemma identified_request:
  assumes "settled playback_users (ss_identities st)" "policy_of t = Some p"
    and "r = decision_request t q hs" "mm_get q ''X-Plex-Token'' = None" "comes_to p r \<noteq> (404, None)"
  shows "observed decision_mocks (fst (serve playback_service r st)) = comes_to p r
    \<and> settled playback_users (ss_identities (snd (serve playback_service r st)))"
proof -
  let ?c = "test_config playback_rules"
  obtain i where i: "known playback_users t = Some i" "p = resolve_policy playback_rules Unlimited [] (ri_identity i)"
    using assms(2) by (auto simp: policy_of_def)
  note h = request_headers [OF assms(3)]
  have token: "test_field r ''X-Plex-Token'' = Some t"
    using h(2) assms(3,4) by (simp add: test_field_def decision_request_def test_request_def mm_get_def)
  have c: "cf_host ?c = Some mock_url" "identity_api_base ?c = mock_url" "cf_resolution_policy_enabled ?c"
    "cf_user_resolution_policies ?c = playback_rules" "cf_resolution_default ?c = Unlimited"
    "cf_hidden_collections ?c = None"
    by (simp_all add: test_config_def identity_api_base_def default_config_def)
  have path: "rq_path r = ''/video/:/transcode/universal/decision''"
    by (simp add: assms(3) decision_request_def test_request_def)
  obtain ev sc where ev: "ev_config ev = ?c" "ev_snapshot ev = new_store ?c" "ev_client_ok ev"
    "ev_security ev = Some (Resolved sc)" "sc_policy sc = p" "ev_item ev = mock_item item_json"
    "cx_screen_resolution (ev_context ev) = []" "ev_decision_status ev = mock_answer decision_mocks"
    and reply: "fst (serve playback_service r st) = reply_of (run_hoops (decision_hoops ev) r)"
    and after: "settled playback_users (ss_identities (snd (serve playback_service r st)))"
    using decision_served [OF assms(1) i(1) token h(1) path c(1-3), of item_json decision_mocks] i(2)
    unfolding playback_service_def c(4-6) unwrap_or_simps by metis
  have enforce: "enforce_resolution_policy ev r = enforced p r"
    by (rule enforced_meets [OF ev(2-7) h(5,4)])
  have "reply_of (run_hoops (decision_hoops ev) r) = reply_of (enforced p r)"
  proof (cases "enforced p r")
    case (Next r')
    then have "list_ex (\<lambda>m. meets m r') decision_mocks"
      using assms(5) position_ex [of "\<lambda>m. meets m r'" decision_mocks]
      by (auto simp: comes_to_def observed_def reply_of_def split: option.splits)
    then show ?thesis
      using Next mocked_decision_passes [OF ev(3,8)] by (simp add: only_enforcement [OF ev(1)] enforce)
  qed (simp_all add: only_enforcement [OF ev(1)] enforce)
  with reply after show ?thesis by (simp add: comes_to_def)
qed

lemma unidentified_request:
  assumes "settled playback_users (ss_identities st)" "policy_of t = None"
    and "r = decision_request t q hs" "mm_get q ''X-Plex-Token'' = None"
  shows "observed decision_mocks (fst (serve playback_service r st)) = (503, None)
    \<and> settled playback_users (ss_identities (snd (serve playback_service r st)))"
proof -
  let ?c = "test_config playback_rules"
  have unknown: "known playback_users t = None" using assms(2) by (simp add: policy_of_def)
  note h = request_headers [OF assms(3)]
  have token: "test_field r ''X-Plex-Token'' = Some t"
    using h(2) assms(3,4) by (simp add: test_field_def decision_request_def test_request_def mm_get_def)
  have c: "cf_host ?c = Some mock_url" "identity_api_base ?c = mock_url" "cf_resolution_policy_enabled ?c"
    "cf_resolution_policy_fail_closed ?c"
    by (simp_all add: test_config_def identity_api_base_def default_config_def)
  have path: "rq_path r = ''/video/:/transcode/universal/decision''"
    by (simp add: assms(3) decision_request_def test_request_def)
  obtain rc n ids s where s: "settled playback_users ids"
    "serve playback_service r st
      = routed playback_service rc (Some s) r (st\<lparr>ss_counter := n, ss_identities := ids\<rparr>)"
    "client_ok playback_service rc (Some s)" "\<exists>e. s = Unavailable True e"
    using test_served [OF assms(1) token h(1,3) c(1-3), of item_json decision_mocks] unknown c(4)
    unfolding playback_service_def by metis
  let ?ev = "play_env_of playback_service rc (Some s) (Inl MissingToken)"
  have "enforce_resolution_policy ?ev r = Stop 503 r"
    using s(3,4) c(3)
    by (auto simp: enforce_resolution_policy_def playback_service_def new_store_def snapshot_from_config_def)
  moreover have "ev_config ?ev = ?c" by (simp add: playback_service_def)
  ultimately have "run_hoops (decision_hoops ?ev) r = Stop 503 r" by (simp add: only_enforcement)
  moreover have "fst (serve playback_service r st) = reply_of (run_hoops (decision_hoops ?ev) r)"
    using playback_routed(1) [of playback_service r rc s] c(3) s(2) path decision_path_met
    by (simp add: playback_service_def route_hoops_def)
  ultimately show ?thesis using s(1,2) by (simp add: routed_identities reply_of_def observed_def)
qed

subsection \<open>The twelve requests\<close>

lemma two_versions:
  "movie_media = [default_media\<lparr>m_id := 1, m_video_resolution := Some ''1080'', m_width := Some 1920, m_height := Some 1080\<rparr>,
     default_media\<lparr>m_id := 2, m_video_resolution := Some ''4k'', m_width := Some 3840, m_height := Some 2160\<rparr>]"
  by (simp add: movie_media_def item_json_def item_media_def)

lemma versions_allowed:
  "map (\<lambda>m. media_allowed m \<lparr>rp_limit = P1080, rp_max_bitrate = b, rp_hidden_collections = []\<rparr>) movie_media = [True, False]"
  "map (\<lambda>m. media_allowed m \<lparr>rp_limit = P480, rp_max_bitrate = b, rp_hidden_collections = []\<rparr>) movie_media = [False, False]"
  by code_simp+

lemma shown: "show_int 20000 = ''20000''" "show_int 2000 = ''2000''" "show_int 50000 = ''50000''"
  "show_int 4000 = ''4000''" "show_int 8000 = ''8000''" "show_nat 0 = ''0''"
  by (simp_all add: show_int_def show_nat.simps char_of_def bit_Suc_0_iff)

lemma bitrates: "parse_i64 ''20000'' = Some 20000" "parse_i64 ''2000'' = Some 2000" "parse_i64 ''50000'' = Some 50000"
  using parse_i64_show_int [of 20000] parse_i64_show_int [of 2000] parse_i64_show_int [of 50000]
  by (simp_all only: shown in_i64_def i64_min_def i64_max_def) simp_all

lemma indexes: "parse_usize ''0'' = Some 0" "parse_usize ''1'' = Some 1"
proof -
  have d: "parse_digits ''0'' = Some 0" "parse_digits ''1'' = Some 1" by code_simp+
  show "parse_usize ''0'' = Some 0" "parse_usize ''1'' = Some 1"
    by (simp_all add: parse_usize_def parse_uint_def d u64_max_def)
qed

lemma best_version:
  "map_option m_id (best_allowed_media movie_media \<lparr>rp_limit = P1080, rp_max_bitrate = b, rp_hidden_collections = []\<rparr> None) = Some 1"
  "best_allowed_media movie_media \<lparr>rp_limit = P480, rp_max_bitrate = b, rp_hidden_collections = []\<rparr> None = None"
  by code_simp+


lemma select_1080:
  "select_version \<lparr>rp_limit = P1080, rp_max_bitrate = b, rp_hidden_collections = []\<rparr> default_context movie_media r
   = (if explicit_index (rq_query r) = Some 0 then Next r else Next (pin_index 0 r))"
proof -
  let ?p = "\<lparr>rp_limit = P1080, rp_max_bitrate = b, rp_hidden_collections = []\<rparr>"
  have only: "nth_opt movie_media k = Some m \<Longrightarrow> media_allowed m ?p \<longleftrightarrow> k = 0" for k m
    using versions_allowed(1) [of b] by (cases k) (auto simp: two_versions nth_opt_def nth_Cons' split: if_splits)
  have first: "\<exists>m. nth_opt movie_media 0 = Some m" by (simp add: two_versions nth_opt_def)
  have best: "\<exists>m. best_allowed_media movie_media ?p None = Some m \<and> m_id m = 1"
    using best_version(1) [of b] by auto
  have one: "position (\<lambda>m. m_id m = 1) movie_media = Some 0" by (simp add: two_versions)
  show ?thesis
    using only first best one
    by (auto simp: select_version_def screen_of_def default_context_def first_opt_def split: option.splits)
qed

lemma select_480:
  "select_version \<lparr>rp_limit = P480, rp_max_bitrate = b, rp_hidden_collections = []\<rparr> default_context movie_media r
   = Stop 403 r"
proof -
  let ?p = "\<lparr>rp_limit = P480, rp_max_bitrate = b, rp_hidden_collections = []\<rparr>"
  have "nth_opt movie_media k = Some m \<Longrightarrow> \<not> media_allowed m ?p" for k m
    using versions_allowed(2) [of b] by (cases k) (auto simp: two_versions nth_opt_def nth_Cons' split: if_splits)
  then show ?thesis
    using best_version(2) [of b]
    by (auto simp: select_version_def screen_of_def default_context_def first_opt_def split: option.splits)
qed

lemmas eval_requests = comes_to_def enforced_def decision_request_def test_request_def cap_bitrate_def
  query_i64_def mm_get_def mm_insert_def mm_remove_def mm_set_def replace_query_def explicit_index_def
  pin_index_def is_unrestricted_def limit_is_unrestricted_def select_1080 select_480 bitrates indexes shown
  reply_of_def observed_def decision_mocks_def meets_def


abbreviation rule :: "resolution_limit \<Rightarrow> i64 option \<Rightarrow> resolution_policy" where
  "rule limit cap \<equiv> \<lparr>rp_limit = limit, rp_max_bitrate = cap, rp_hidden_collections = []\<rparr>"

lemma outcomes_jodie:
  "comes_to (rule P1080 (Some 4000)) (decision_request t [(''mediaIndex'', ''1''), (''scn'', ''1'')] hs) = (200, Some 0)"
  "comes_to (rule P1080 (Some 4000)) (decision_request t [(''mediaIndex'', ''0''), (''scn'', ''2'')] hs) = (200, Some 1)"
  "comes_to (rule P1080 (Some 4000)) (decision_request t [(''scn'', ''3'')] hs) = (200, Some 2)"
  "comes_to (rule P1080 (Some 4000)) (decision_request t [(''mediaIndex'', ''1''), (''scn'', ''6'')] hs) = (200, Some 5)"
  "comes_to (rule P1080 (Some 4000)) (decision_request t [(''mediaIndex'', ''1''), (''scn'', ''plexamp'')] hs)
    = (200, Some 6)"
  "comes_to (rule P1080 (Some 4000))
     (decision_request t [(''mediaIndex'', ''0''), (''scn'', ''7''), (''maxVideoBitrate'', ''20000'')] hs) = (200, Some 7)"
  "comes_to (rule P1080 (Some 4000))
     (decision_request t [(''mediaIndex'', ''0''), (''scn'', ''8''), (''maxVideoBitrate'', ''2000'')] hs) = (200, Some 8)"
  by (simp_all add: eval_requests)

lemma outcomes_others:
  "comes_to (rule Unlimited None) (decision_request t [(''mediaIndex'', ''1''), (''scn'', ''4'')] hs) = (200, Some 3)"
  "comes_to (rule P480 None) (decision_request t [(''mediaIndex'', ''0'')] hs) = (403, None)"
  "comes_to (rule Unlimited (Some 8000))
     (decision_request t [(''mediaIndex'', ''1''), (''scn'', ''9''), (''maxVideoBitrate'', ''50000'')] hs) = (200, Some 9)"
  "comes_to (rule Unlimited (Some 8000)) (decision_request t [(''mediaIndex'', ''1''), (''scn'', ''10'')] hs)
    = (200, Some 10)"
  by (simp_all add: eval_requests)

lemma scenario:
  assumes "(r, seen) \<in> set playback_scenarios"
  obtains t q hs where "r = decision_request t q hs" "mm_get q ''X-Plex-Token'' = None" "seen \<noteq> (404, None)"
    "case policy_of t of Some p \<Rightarrow> comes_to p r = seen | None \<Rightarrow> seen = (503, None)"
  using assms
  by (auto simp: playback_scenarios_def version_scenarios_def bitrate_scenarios_def mm_get_def policies outcomes_jodie outcomes_others)

lemma playback_scenarios_pass: "playback_enforcement_scenarios"
  unfolding playback_enforcement_scenarios_def
proof (rule conjunct1 [OF send_all_observed [where good = "\<lambda>st. settled playback_users (ss_identities st)"]])
  show "observed decision_mocks (fst (serve playback_service r st)) = seen
      \<and> settled playback_users (ss_identities (snd (serve playback_service r st)))"
    if sc: "(r, seen) \<in> set playback_scenarios" and st: "settled playback_users (ss_identities st)" for r seen st
  proof -
    obtain t q hs where r: "r = decision_request t q hs" "mm_get q ''X-Plex-Token'' = None" "seen \<noteq> (404, None)"
      "case policy_of t of Some p \<Rightarrow> comes_to p r = seen | None \<Rightarrow> seen = (503, None)"
      by (rule scenario [OF sc])
    show ?thesis
      using identified_request [OF st _ r(1,2)] unidentified_request [OF st _ r(1,2)] r(3,4)
      by (cases "policy_of t") auto
  qed
qed (rule started_settled)


end
