(* ===== verification/Conformance_Parts.thy ===== *)
theory Conformance_Parts
  imports Conformance_Service
begin

text \<open>
  The integration test \<open>tests/direct_parts.rs\<close>, run on the model of the whole service: a playback
  decision records the facts of an item's parts, and then parts and a transcode session are requested
  directly, by several accounts and under changing configurations.  A new configuration starts a new
  service that keeps the classification facts, as in the test.
\<close>

subsection \<open>The mock server\<close>

definition part_users :: "string \<Rightarrow> raw_user option reply" where
  "part_users token =
     (if token = ''jodie-token'' then user_reply 839319108 ''uuid-jodie'' ''jodiemy3''
      else if token = ''admin-token'' then user_reply 1 ''uuid-admin'' ''admin''
      else if token = ''expired-token'' then Reply 401 None
      else if token = ''capped-token'' then user_reply 3 ''uuid-capped'' ''capped-only''
      else Reply 404 None)"

text \<open>The 1080p version contains part 111, the 4K version part 222.\<close>

definition item_with_parts :: media_container where
  "item_with_parts = default_container\<lparr>mc_metadata :=
     [MetaData (default_attrs\<lparr>md_media :=
        [default_media\<lparr>m_id := 1, m_video_resolution := Some ''1080'', m_width := Some 1920, m_height := Some 1080,
           m_bitrate := Some 5000,
           m_parts := [default_part\<lparr>p_id := 111, p_key := Some ''/library/parts/1/111/file.mkv''\<rparr>]\<rparr>,
         default_media\<lparr>m_id := 2, m_video_resolution := Some ''4k'', m_width := Some 3840, m_height := Some 2160,
           m_bitrate := Some 20000,
           m_parts := [default_part\<lparr>p_id := 222, p_key := Some ''/library/parts/2/222/file.mkv''\<rparr>]\<rparr>]\<rparr>)
      [] [] []]\<rparr>"

definition part_rules :: "policy_entry list" where
  "part_rules = [rule_named ''jodiemy3'' P1080 None, rule_named ''capped-only'' Unlimited (Some 8000)]"

definition part_mocks :: "query list" where
  "part_mocks = [[(''mediaIndex'', ''0'')]]"

definition service_with_part_cache :: "policy_entry list \<Rightarrow> bool \<Rightarrow> bool \<Rightarrow> service" where
  "service_with_part_cache rules redirects fail_closed =
     test_service (test_config rules\<lparr>cf_redirect_streams := redirects,
       cf_resolution_policy_fail_closed := fail_closed\<rparr>) part_users item_with_parts part_mocks"

text \<open>The client's request for a part, and its decision request.\<close>

definition get_status :: "string \<Rightarrow> query \<Rightarrow> string \<Rightarrow> (string \<times> string) list \<Rightarrow> request" where
  "get_status path q token headers = test_request path q token headers"

definition decision_of_jodie :: request where
  "decision_of_jodie = test_request ''/video/:/transcode/universal/decision''
     [(''path'', ''/library/metadata/100''), (''mediaIndex'', ''1'')] ''jodie-token'' []"

definition part_111 :: string where "part_111 = ''/library/parts/1/111/file.mkv''"
definition part_222 :: string where "part_222 = ''/library/parts/2/222/file.mkv''"
definition part_999 :: string where "part_999 = ''/library/parts/9/999/file.mkv''"
definition session_url :: string where
  "session_url = ''/video/:/transcode/universal/session/abc123/base-index.m3u8''"

subsection \<open>The test\<close>

definition first_service_scenarios :: "(request \<times> nat) list" where
  "first_service_scenarios =
     [(get_status part_222 [] ''jodie-token'' [], 403),
      (get_status part_222 [] ''jodie-token'' [(''x-plex-product'', ''Plexamp'')], 403),
      (get_status part_222 [(''path'', ''/livetv/session/123'')] ''jodie-token'' [], 403),
      (get_status part_111 [] ''jodie-token'' [], 200),
      (get_status part_222 [] ''admin-token'' [], 307),
      (get_status part_111 [] ''capped-token'' [], 200),
      (get_status part_222 [] ''capped-token'' [], 403)]"

text \<open>The services that follow, with the request each of them gets.\<close>

definition later_scenarios :: "(service \<times> request \<times> nat) list" where
  "later_scenarios =
     [(service_with_part_cache part_rules False True, get_status part_222 [] ''admin-token'' [], 200),
      (service_with_part_cache part_rules True True, get_status part_999 [] ''jodie-token'' [], 403),
      (service_with_part_cache [rule_named ''jodiemy3'' P2160 None] True True,
         get_status part_222 [] ''jodie-token'' [], 200),
      (service_with_part_cache part_rules True True, get_status session_url [] ''jodie-token'' [], 200),
      (service_with_part_cache part_rules True False, get_status part_999 [] ''expired-token'' [], 307),
      (service_with_part_cache part_rules False False, get_status part_999 [] ''expired-token'' [], 200)]"

definition direct_part_protection_scenarios :: bool where
  "direct_part_protection_scenarios \<longleftrightarrow>
     (let sv = service_with_part_cache part_rules True True;
          (decided, st) = serve sv decision_of_jodie (started Map.empty);
          (answers, st') = send_all sv (map fst first_service_scenarios) st
      in status_seen part_mocks decided = 200
       \<and> map (status_seen part_mocks) answers = map snd first_service_scenarios
       \<and> list_all (\<lambda>(sv, r, status).
            status_seen part_mocks (fst (serve sv r (started (ss_parts st')))) = status) later_scenarios)"

subsection \<open>The facts of the item\<close>

definition facts :: part_cache where
  "facts = [111 \<mapsto> \<lparr>pc_resolution = Some P1080, pc_bitrate = Some 5000\<rparr>,
            222 \<mapsto> \<lparr>pc_resolution = Some P2160, pc_bitrate = Some 20000\<rparr>]"

lemma item_facts:
  "\<exists>ms. item_media item_with_parts = Some ms \<and> ms \<noteq> [] \<and> cache_part_classification ms Map.empty = facts"
proof -
  have "\<lbrakk>m_video_resolution m = Some v; m_width m = Some w; m_height m = Some h; 0 < w; 0 < h\<rbrakk> \<Longrightarrow>
      classify m = (case (limit_parse v, classify_dimensions (Some w) (Some h)) of
        (Some a, Some b) \<Rightarrow> Some (max a b) | (Some a, None) \<Rightarrow> Some a | (None, b) \<Rightarrow> b)" for m v w h
    by (simp add: classify_def Let_def split: option.split)
  moreover have "limit_parse ''1080'' = Some P1080" "limit_parse ''4k'' = Some P2160"
    "classify_dimensions (Some 1920) (Some 1080) = Some P1080"
    "classify_dimensions (Some 3840) (Some 2160) = Some P2160"
    by code_simp+
  ultimately show ?thesis
    by (simp add: item_with_parts_def item_media_def cache_part_classification_def cache_media_parts_def
        classification_of_def facts_def)
qed

subsection \<open>Stream requests\<close>

abbreviation part_config :: "policy_entry list \<Rightarrow> bool \<Rightarrow> bool \<Rightarrow> config" where
  "part_config rules redirects fail_closed \<equiv>
     test_config rules\<lparr>cf_redirect_streams := redirects, cf_resolution_policy_fail_closed := fail_closed\<rparr>"

definition part_policy :: "policy_entry list \<Rightarrow> string \<Rightarrow> resolution_policy option" where
  "part_policy rules token =
     map_option (\<lambda>i. resolve_policy rules Unlimited [] (ri_identity i)) (known part_users token)"

lemma stream_paths:
  assumes "path \<in> {part_111, part_222, part_999, session_url}"
  shows "requires_security_context path" "stream_path (test_service c users movie mocks) path"
    "\<not> test_matches decision_path path"
  using assms
  by (auto simp: part_111_def part_222_def part_999_def session_url_def requires_security_context_def
      stream_path_def test_matches_def route_paths starts_with_code)

lemma part_config_fields:
  "cf_host (part_config rules b f) = Some mock_url" "identity_api_base (part_config rules b f) = mock_url"
  "cf_resolution_policy_enabled (part_config rules b f)" "cf_user_resolution_policies (part_config rules b f) = rules"
  "cf_resolution_default (part_config rules b f) = Unlimited" "cf_hidden_collections (part_config rules b f) = None"
  by (simp_all add: test_config_def identity_api_base_def default_config_def)

lemma test_request_headers:
  "header (test_request path q t hs) ''Host'' = Some ''127.0.0.1:5800''"
  "mm_get q ''X-Plex-Token'' = None \<Longrightarrow> test_field (test_request path q t hs) ''X-Plex-Token'' = Some t"
  "rq_path (test_request path q t hs) = path" "rq_query (test_request path q t hs) = q"
  "rq_absolute (test_request path q t hs)"
  by (simp_all add: test_request_def test_field_def header_def lower_names)

lemma part_request:
  assumes "settled part_users (ss_identities st)" "path \<in> {part_111, part_222, part_999, session_url}"
    and "mm_get q ''X-Plex-Token'' = None"
  shows "status_seen part_mocks (fst (serve (service_with_part_cache rules b f) (get_status path q t hs) st))
      = stream_status (part_config rules b f) (part_policy rules t) (ss_parts st) (get_status path q t hs)
    \<and> ss_parts (snd (serve (service_with_part_cache rules b f) (get_status path q t hs) st)) = ss_parts st
    \<and> settled part_users (ss_identities (snd (serve (service_with_part_cache rules b f) (get_status path q t hs) st)))"
  unfolding service_with_part_cache_def get_status_def
  by (rule stream_served [OF assms(1) test_request_headers(2) [OF assms(3)] test_request_headers(1)])
    (use stream_paths [OF assms(2)] in \<open>simp_all add: test_request_headers part_config_fields part_policy_def\<close>)

lemma first_statuses:
  "stream_status (part_config part_rules True True) (part_policy part_rules ''jodie-token'') facts (get_status part_222 q t hs) = 403"
  "stream_status (part_config part_rules True True) (part_policy part_rules ''jodie-token'') facts (get_status part_111 q t hs) = 200"
  "stream_status (part_config part_rules True True) (part_policy part_rules ''admin-token'') facts (get_status part_222 q t hs) = 307"
  "stream_status (part_config part_rules True True) (part_policy part_rules ''capped-token'') facts (get_status part_111 q t hs) = 200"
  "stream_status (part_config part_rules True True) (part_policy part_rules ''capped-token'') facts (get_status part_222 q t hs) = 403"
  by code_simp+

lemma later_statuses:
  "stream_status (part_config part_rules False True) (part_policy part_rules ''admin-token'') facts (get_status part_222 q t hs) = 200"
  "stream_status (part_config part_rules True True) (part_policy part_rules ''jodie-token'') facts (get_status part_999 q t hs) = 403"
  "stream_status (part_config [rule_named ''jodiemy3'' P2160 None] True True)
     (part_policy [rule_named ''jodiemy3'' P2160 None] ''jodie-token'') facts (get_status part_222 q t hs) = 200"
  "stream_status (part_config part_rules True True) (part_policy part_rules ''jodie-token'') facts (get_status session_url q t hs) = 200"
  "stream_status (part_config part_rules True False) (part_policy part_rules ''expired-token'') facts (get_status part_999 q t hs) = 307"
  "stream_status (part_config part_rules False False) (part_policy part_rules ''expired-token'') facts (get_status part_999 q t hs) = 200"
  by code_simp+

subsection \<open>The decision\<close>

lemma item_versions:
  assumes "item_media item_with_parts = Some ms"
    and "p1080 = \<lparr>rp_limit = P1080, rp_max_bitrate = None, rp_hidden_collections = []\<rparr>"
  shows "\<exists>m1 m2. ms = [m1, m2] \<and> m_id m1 = 1 \<and> media_allowed m1 p1080 \<and> \<not> media_allowed m2 p1080
    \<and> best_allowed_media ms p1080 None = Some m1"
proof -
  let ?ms = "unwrap_or (item_media item_with_parts) []"
  have "map m_id ?ms = [1, 2]" "map (\<lambda>m. media_allowed m p1080) ?ms = [True, False]"
    "map_option m_id (best_allowed_media ?ms p1080 None) = Some 1"
    unfolding assms(2) by code_simp+
  moreover have "?ms = ms" using assms(1) by simp
  ultimately obtain m1 m2 m where m: "ms = [m1, m2]" "m_id m1 = 1" "m_id m2 = 2" "media_allowed m1 p1080"
    "\<not> media_allowed m2 p1080" "best_allowed_media ms p1080 None = Some m" "m_id m = 1"
    by (auto simp: map_eq_Cons_conv)
  with best_allowed_sound [OF m(6)] show ?thesis by auto
qed

lemma second_version: "explicit_index (rq_query decision_of_jodie) = Some 1"
proof -
  have "parse_digits ''1'' = Some 1" by code_simp
  then show ?thesis
    by (simp add: explicit_index_def decision_of_jodie_def test_request_headers mm_get_def parse_usize_def
        parse_uint_def u64_max_def)
qed

lemma decided:
  defines "sv \<equiv> service_with_part_cache part_rules True True"
  shows "status_seen part_mocks (fst (serve sv decision_of_jodie (started Map.empty))) = 200"
    and "ss_parts (snd (serve sv decision_of_jodie (started Map.empty))) = facts"
    and "settled part_users (ss_identities (snd (serve sv decision_of_jodie (started Map.empty))))"
proof -
  let ?c = "part_config part_rules True True" and ?r = decision_of_jodie
  let ?p = "\<lparr>rp_limit = P1080, rp_max_bitrate = None, rp_hidden_collections = []\<rparr>"
  have "part_policy part_rules ''jodie-token'' = Some ?p" by code_simp
  then obtain i where i: "known part_users ''jodie-token'' = Some i"
    "resolve_policy part_rules Unlimited [] (ri_identity i) = ?p"
    by (auto simp: part_policy_def)
  have r: "header ?r ''Host'' = Some ''127.0.0.1:5800''" "test_field ?r ''X-Plex-Token'' = Some ''jodie-token''"
    "rq_path ?r = ''/video/:/transcode/universal/decision''" "rq_absolute ?r"
    "mm_get (rq_query ?r) ''path'' = Some ''/library/metadata/100''"
    by (simp_all add: decision_of_jodie_def test_request_headers mm_get_def)
  obtain ev sc where ev: "ev_config ev = ?c" "ev_snapshot ev = new_store ?c" "ev_client_ok ev"
    "ev_security ev = Some (Resolved sc)" "sc_policy sc = ?p" "ev_item ev = mock_item item_with_parts"
    "cx_screen_resolution (ev_context ev) = []" "ev_decision_status ev = mock_answer part_mocks"
    and reply: "fst (serve sv ?r (started Map.empty)) = reply_of (run_hoops (decision_hoops ev) ?r)"
    and parts: "ss_parts (snd (serve sv ?r (started Map.empty))) =
      pb_parts (enforce_effects ev ?r \<lparr>pb_parts = ss_parts (started Map.empty), pb_metrics = ss_metrics (started Map.empty)\<rparr>)"
    and after: "settled part_users (ss_identities (snd (serve sv ?r (started Map.empty))))"
    using decision_served [OF started_settled i(1) r(2,1,3) part_config_fields(1-3), where movie = item_with_parts and mocks = part_mocks] i(2)
    unfolding sv_def service_with_part_cache_def part_config_fields(4-6) unwrap_or_simps by metis
  obtain ms where ms: "item_media item_with_parts = Some ms" "ms \<noteq> []" "cache_part_classification ms Map.empty = facts"
    using item_facts by blast
  obtain m1 m2 where two: "ms = [m1, m2]" "m_id m1 = 1" "media_allowed m1 ?p" "\<not> media_allowed m2 ?p"
    "best_allowed_media ms ?p None = Some m1"
    using item_versions [OF ms(1) refl] by blast
  have on: "ps_enabled (new_store ?c)" by (simp add: new_store_def snapshot_from_config_def test_config_def)
  have restricted: "\<not> is_unrestricted ?p" by (simp add: policy_simps)
  have "select_version ?p (ev_context ev) ms ?r = Next (pin_index 0 ?r)"
    using two ev(7) second_version
    by (simp add: select_version_def screen_of_def first_opt_def nth_opt_def)
  then have enforce: "enforce_resolution_policy ev ?r = Next (pin_index 0 ?r)"
    using on ev(2-6) restricted r(5) ms(1,2)
    by (simp add: enforce_resolution_policy_def enforce_limit_def cap_bitrate_def mock_item_def)
  have "show_nat 0 = ''0''" by code_simp
  then have met: "list_ex (\<lambda>m. meets m (pin_index 0 ?r)) part_mocks"
    by (simp add: part_mocks_def meets_def pin_index_def decision_of_jodie_def test_request_def replace_query_def
        mm_set_def mm_insert_def mm_remove_def)
  then have direct: "direct_stream_fallback ev (pin_index 0 ?r) = Next (pin_index 0 ?r)"
    using ev(3,8) by (simp add: direct_stream_fallback_def mock_answer_def default_container_def)
  have "decision_hoops ev = [enforce_resolution_policy ev, direct_stream_fallback ev]"
    using ev(1) by (simp add: decision_hoops_def start_hoops_def test_config_def default_config_def)
  then have "fst (serve sv ?r (started Map.empty)) = Forwarded (pin_index 0 ?r)"
    using reply enforce direct by (simp add: reply_of_def)
  then show "status_seen part_mocks (fst (serve sv ?r (started Map.empty))) = 200"
    using met by (simp add: status_seen_def)
  have "enforced_media ev ?r = Some (?p, ms)"
    using on ev(2-6) restricted r(5) ms(1,2)
    by (simp add: enforced_media_def enforced_policy_def mock_item_def)
  then show "ss_parts (snd (serve sv ?r (started Map.empty))) = facts"
    using parts ms(3) by (simp add: enforce_effects_def started_def)
  show "settled part_users (ss_identities (snd (serve sv ?r (started Map.empty))))" by (rule after)
qed

subsection \<open>The run\<close>

lemma first_service:
  assumes "settled part_users (ss_identities st)" "ss_parts st = facts"
  defines "sv \<equiv> service_with_part_cache part_rules True True"
  shows "map (status_seen part_mocks) (fst (send_all sv (map fst first_service_scenarios) st)) = map snd first_service_scenarios
    \<and> settled part_users (ss_identities (snd (send_all sv (map fst first_service_scenarios) st)))
    \<and> ss_parts (snd (send_all sv (map fst first_service_scenarios) st)) = facts"
proof (rule send_all_observed [where good = "\<lambda>st. settled part_users (ss_identities st) \<and> ss_parts st = facts"])
  fix r :: request and seen and st :: service_state
  assume sc: "(r, seen) \<in> set first_service_scenarios"
    and st: "settled part_users (ss_identities st) \<and> ss_parts st = facts"
  from sc obtain path q t hs where r: "r = get_status path q t hs" "path \<in> {part_111, part_222, part_999, session_url}"
    "mm_get q ''X-Plex-Token'' = None"
    "stream_status (part_config part_rules True True) (part_policy part_rules t) facts (get_status path q t hs) = seen"
    by (auto simp: first_service_scenarios_def mm_get_def first_statuses)
  show "status_seen part_mocks (fst (serve sv r st)) = seen
      \<and> settled part_users (ss_identities (snd (serve sv r st))) \<and> ss_parts (snd (serve sv r st)) = facts"
    using part_request [OF conjunct1 [OF st] r(2,3), where rules = part_rules and b = True and f = True and t = t and hs = hs] st r(4) unfolding sv_def r(1) by simp
qed (use assms in simp)

lemma later_services:
  assumes "(sv, r, status) \<in> set later_scenarios"
  shows "status_seen part_mocks (fst (serve sv r (started facts))) = status"
proof -
  from assms obtain rules b f path q t hs where x: "sv = service_with_part_cache rules b f" "r = get_status path q t hs"
    "path \<in> {part_111, part_222, part_999, session_url}" "mm_get q ''X-Plex-Token'' = None"
    "stream_status (part_config rules b f) (part_policy rules t) facts (get_status path q t hs) = status"
    by (auto simp: later_scenarios_def mm_get_def later_statuses)
  show ?thesis
    using part_request [OF started_settled [of _ facts] x(3,4), where rules = rules and b = b and f = f and t = t and hs = hs] x(5)
    by (simp add: x(1,2) started_def)
qed

lemma direct_parts_pass: "direct_part_protection_scenarios"
proof -
  let ?sv = "service_with_part_cache part_rules True True"
  obtain a st where d: "serve ?sv decision_of_jodie (started Map.empty) = (a, st)" by (cases "serve ?sv decision_of_jodie (started Map.empty)")
  obtain answers st' where s: "send_all ?sv (map fst first_service_scenarios) st = (answers, st')"
    by (cases "send_all ?sv (map fst first_service_scenarios) st")
  have "list_all (\<lambda>(sv, r, status). status_seen part_mocks (fst (serve sv r (started facts))) = status) later_scenarios"
    using later_services by (auto simp: list_all_iff)
  then show ?thesis
    using decided first_service [of st] d s by (simp add: direct_part_protection_scenarios_def)
qed

end
