(* ===== verification/Response_Cache.thy ===== *)
theory Response_Cache
  imports Global_Cache
begin

text \<open>
  The caching handler of \<open>src/cache.rs\<close> on its own data: the entries it stores, the method skipper
  it starts with, and \<open>handle\<close> from the request to the replayed or fresh response.  It refines
  \<open>cache_handle\<close> of \<open>Global_Cache\<close>.
\<close>

subsection \<open>Entries\<close>

text \<open>The body of a response; only a whole one is converted to a \<open>CachedBody\<close>.\<close>

datatype response_body = Whole bytes | Stream_body | Error_body

record cached_entry =
  ce_status :: "nat option"
  ce_headers :: "(string \<times> string) list"
  ce_body :: bytes
  ce_req_headers :: "(string \<times> string) list"
  ce_req_uri :: string
  ce_req_method :: string
  ce_req_local_addr :: string

record http_response =
  hr_status :: "nat option"
  hr_headers :: "(string \<times> string) list"
  hr_body :: response_body

text \<open>What \<open>handle\<close> captures of a request before the handlers after it change it, beside the parts
  that the key is made of.\<close>

record captured_request =
  cq_key :: issued_request
  cq_headers :: "(string \<times> string) list"
  cq_uri :: string

type_synonym entry_store = "string \<Rightarrow> cached_entry option"

subsection \<open>The handler\<close>

text \<open>\<open>MethodSkipper::new().skip_all().skip_get(false)\<close>.\<close>

definition skip_all_but_get :: "string \<Rightarrow> bool" where
  "skip_all_but_get m \<longleftrightarrow> m \<noteq> ''GET''"

record cache_layer =
  cl_issuer :: request_issuer
  cl_skipped :: "string \<Rightarrow> bool"

definition new_layer :: "request_issuer \<Rightarrow> cache_layer" where
  "new_layer i = \<lparr>cl_issuer = i, cl_skipped = skip_all_but_get\<rparr>"

definition with_skipper :: "(string \<Rightarrow> bool) \<Rightarrow> cache_layer \<Rightarrow> cache_layer" where
  "with_skipper f l = l\<lparr>cl_skipped := f\<rparr>"

definition new_entry :: "captured_request \<Rightarrow> http_response \<Rightarrow> bytes \<Rightarrow> cached_entry" where
  "new_entry q r body =
     \<lparr>ce_status = hr_status r, ce_headers = hr_headers r, ce_body = body,
      ce_req_headers = cq_headers q, ce_req_uri = cq_uri q, ce_req_method = iq_method (cq_key q),
      ce_req_local_addr = iq_local_addr (cq_key q)\<rparr>"

text \<open>A stored entry replaces the headers and the body of the response, and its status if it has one.\<close>

definition replay :: "http_response \<Rightarrow> cached_entry \<Rightarrow> http_response" where
  "replay res e =
     \<lparr>hr_status = (case ce_status e of Some st \<Rightarrow> Some st | None \<Rightarrow> hr_status res),
      hr_headers = ce_headers e, hr_body = Whole (ce_body e)\<rparr>"

text \<open>\<open>Untouched\<close>: the handlers after it run; \<open>Panicked\<close>: a header of the key is no text.  The response so
  far is \<open>res\<close>, and \<open>rest\<close> what the handlers after it make of it.\<close>

datatype handled = Untouched | Panicked | Fresh http_response | Replayed http_response

definition handle_cached ::
  "cache_layer \<Rightarrow> captured_request \<Rightarrow> http_response \<Rightarrow> (http_response \<Rightarrow> http_response) \<Rightarrow> entry_store
   \<Rightarrow> handled \<times> entry_store" where
  "handle_cached l q res rest s =
     (if cl_skipped l (iq_method (cq_key q)) then (Untouched, s)
      else (case issue (cl_issuer l) (cq_key q) of
              None \<Rightarrow> (Panicked, s)
            | Some k \<Rightarrow>
                (case s k of
                   Some e \<Rightarrow> (Replayed (replay res e), s)
                 | None \<Rightarrow>
                     (case hr_body (rest res) of
                        Whole body \<Rightarrow> (Fresh (rest res), s(k \<mapsto> new_entry q (rest res) body))
                      | _ \<Rightarrow> (Fresh (rest res), s)))))"

subsection \<open>Laws\<close>

lemma only_get_is_cached:
  "iq_method (cq_key q) \<noteq> ''GET'' \<Longrightarrow> handle_cached (new_layer i) q res rest s = (Untouched, s)"
  by (simp add: handle_cached_def new_layer_def skip_all_but_get_def)

text \<open>The handler is \<open>cache_handle\<close>: the store's entries are the abstract responses.\<close>

definition handled_response :: "handled \<Rightarrow> http_response option" where
  "handled_response h = (case h of Fresh r \<Rightarrow> Some r | Replayed r \<Rightarrow> Some r | _ \<Rightarrow> None)"

definition is_whole :: "http_response \<Rightarrow> bool" where
  "is_whole r = (case hr_body r of Whole _ \<Rightarrow> True | _ \<Rightarrow> False)"

lemma handler_refines:
  "(case handle_cached l q res rest s of (h, s') \<Rightarrow> (handled_response h, s'))
   = cache_handle (\<lambda>k s. map_option (replay res) (s k))
       (\<lambda>k r s. case hr_body r of Whole body \<Rightarrow> s(k \<mapsto> new_entry q r body) | _ \<Rightarrow> s) is_whole
       (if cl_skipped l (iq_method (cq_key q)) then None else issue (cl_issuer l) (cq_key q))
       (rest res) s"
  by (simp add: handle_cached_def cache_handle_def handled_response_def is_whole_def
      split: option.splits response_body.splits)

text \<open>What was stored is replayed: status, headers and body, whatever the handlers would do now.\<close>

lemma whole_responses_are_replayed:
  assumes "handle_cached l q res rest s = (Fresh r, s')" "hr_body r = Whole body" "hr_status r \<noteq> None"
    and "cl_skipped l (iq_method (cq_key q')) = cl_skipped l (iq_method (cq_key q))"
    and "issue (cl_issuer l) (cq_key q') = issue (cl_issuer l) (cq_key q)"
  shows "handle_cached l q' res' rest' s' = (Replayed r, s')"
  using assms
  by (auto simp: handle_cached_def replay_def new_entry_def
      split: if_splits option.splits response_body.splits)

lemma streams_are_not_stored:
  "handle_cached l q res rest s = (Fresh r, s') \<Longrightarrow> \<not> is_whole r \<Longrightarrow> s' = s"
  by (auto simp: handle_cached_def is_whole_def split: if_splits option.splits response_body.splits)

end
