(* ===== verification/Webhooks.thy ===== *)
theory Webhooks
  imports Hub_Routes
begin

text \<open>
  The payload of a Plex webhook (\<open>src/webhooks.rs\<close>) and the whole of the route that receives it
  (\<open>webhook_plex\<close> of \<open>src/routes.rs\<close>).  Reading the JSON text is a parameter.
\<close>

record webhook_account =
  wa_id :: i64
  wa_thumb :: string
  wa_title :: string

record webhook_server =
  wv_title :: string
  wv_uuid :: string

record webhook_player =
  wl_local :: bool
  wl_public_address :: string
  wl_title :: string
  wl_uuid :: string

record webhook_metadata =
  wd_library_section_type :: string
  wd_rating_key :: string
  wd_key :: string
  wd_parent_rating_key :: string
  wd_grandparent_rating_key :: string
  wd_guid :: string
  wd_library_section_id :: i64
  wd_type_field :: string
  wd_title :: string
  wd_grandparent_key :: string
  wd_parent_key :: string
  wd_grandparent_title :: "string option"
  wd_parent_title :: "string option"
  wd_summary :: string
  wd_index :: i64
  wd_parent_index :: i64
  wd_rating_count :: i64
  wd_thumb :: string
  wd_art :: string
  wd_parent_thumb :: string
  wd_grandparent_thumb :: string
  wd_grandparent_art :: string
  wd_added_at :: i64
  wd_updated_at :: i64

record webhook_payload =
  wp_event :: string
  wp_user :: bool
  wp_owner :: bool
  wp_account :: webhook_account
  wp_server :: webhook_server
  wp_player :: webhook_player
  wp_metadata :: webhook_metadata

text \<open>A missing form field reads as the empty text.\<close>

definition webhook_route ::
  "(string \<Rightarrow> webhook_payload option) \<Rightarrow> string option \<Rightarrow> hub_state \<Rightarrow> hub_state" where
  "webhook_route json form s = webhook_plex (map_option wp_event (json (unwrap_or form []))) s"

text \<open>A webhook drops no payload and touches no refresh: at most it forgets how old the payloads are.\<close>

lemma webhook_only_ages:
  "hs_payloads (webhook_route json form s) = hs_payloads s"
  "hs_inflight (webhook_route json form s) = hs_inflight s"
  "hs_last_attempt (webhook_route json form s) = hs_last_attempt s"
  by (simp_all add: webhook_route_def webhook_plex_def mark_all_hubs_stale_def split: option.split)

lemma media_events_mark_all_stale:
  assumes "json (unwrap_or form []) = Some p" "starts_with (wp_event p) ''media.''"
  shows "is_stale now k ttl (webhook_route json form s)"
  using assms webhook_marks by (simp add: webhook_route_def)

lemma other_webhooks_change_nothing:
  assumes "\<And>p. json (unwrap_or form []) = Some p \<Longrightarrow> \<not> starts_with (wp_event p) ''media.''"
  shows "webhook_route json form s = s"
  using assms by (cases "json (unwrap_or form [])") (simp_all add: webhook_route_def webhook_plex_def)

end
