(* ===== verification/Spec2Isabelle.thy ===== *)
theory Spec2Isabelle
  imports Playback_Properties Background_Properties Policy_Properties Operation_Properties Provenance
    Transparency Conformance_Routes Conformance_Hubs Conformance_Identity
    Conformance_Playback Conformance_Parts Response_Cache Webhooks
begin

text \<open>
  Replex: a reverse proxy in front of a Plex Media Server, in Rust.  It rewrites the hubs and
  library pages that clients see, caches hubs, pages and artwork, and enforces, per account, a
  resolution policy: which versions of an item an account may list, play or stream.  This
  development models the request path of that program, from a token to the bytes of a stream, with
  the caches and the background work beside it, and proves what makes each part correct.

  \<^bold>\<open>Reading the model.\<close>  A Rust struct is a \<open>record\<close> with the field names
  behind a short prefix (\<open>m_\<close> for \<open>Media\<close>, \<open>md_\<close> for \<open>MetaData\<close>, \<open>cf_\<close> for \<open>Config\<close>), an
  enum is a \<open>datatype\<close>, a fallible function returns an \<open>option\<close> or a sum with the error on
  the left, and a handler that changes state takes the state and returns it updated.  Signed
  machine integers are \<open>int\<close> with the wrap-around written out (\<open>wrap64\<close>), unsigned ones
  \<open>nat\<close> with the saturation, checked operation or \<open>mod\<close> of the code, bytes are \<open>8 word\<close>.
  Strings are lists of bytes; case folding and trimming are those of ASCII.  Code that is not in the
  repository is an argument: SHA-256 (\<open>sha\<close>), URL parsing (\<open>url_lib\<close>, \<open>base_urls\<close>), the
  replies of Plex and plex.tv (functions of the request), JSON and XML parsing and rendering
  (\<open>re_parse\<close>, \<open>re_render\<close>), the file system's successes and failures (\<open>disk_io\<close>),
  and the clock (\<open>now\<close>, seconds).  What a property needs of them is a named hypothesis:
  \<open>hex_digest\<close> (a digest is 64 hexadecimal characters) and \<open>url_roundtrip\<close> (a printed
  URL parses to what was printed).

  \<^bold>\<open>The theories, in the order of the code's layers.\<close>
  \<^item> \<open>Prelude\<close>: machine integers, string operations, list lemmas and the collections of
    simplification rules that the components share.
  \<^item> \<open>Models\<close> (\<open>src/models.rs\<close>): media versions, metadata trees, containers, request
    contexts.  \<open>Requests\<close> (\<open>src/utils.rs\<close>): the decoded query and its edits, content types.
  \<^item> \<open>Resolution_Policy\<close>, \<open>Playback_Selection\<close>, \<open>Policy_Store\<close>,
    \<open>Config\<close>, \<open>Metrics\<close> (the files of these names; \<open>observability.rs\<close>): the limits
    and their order, the rules and their parsing, classification and choice of versions, validation,
    the atomic reload, the counters.
  \<^item> \<open>Identity\<close> (\<open>src/plex_client.rs\<close>) and \<open>Auth_Context\<close> (\<open>src/auth/context.rs\<close>):
    the account of a token, the upstream host, the security context of a request.
  \<^item> \<open>Transform\<close>, \<open>Policy_Transform\<close>, \<open>Hub_Transforms\<close>, \<open>Style_Transforms\<close>
    (\<open>src/transform/\<close>): the pipeline and every transform as an instance of its record.
  \<^item> \<open>Playback\<close>, \<open>Streams\<close>, \<open>Cached_Routes\<close>, \<open>Hub_Routes\<close>,
    \<open>Admin\<close> (\<open>src/routes.rs\<close>) and \<open>Webhooks\<close> (\<open>src/webhooks.rs\<close>): the handlers, composed in the order in which the router
    chains them (\<open>start_hoops\<close>, \<open>decision_hoops\<close>, \<open>library_live\<close>, \<open>photo_route\<close>).
    \<open>Router\<close> is the table of routes itself: the hoops and handlers per path, method and option.
    \<open>Service\<close> composes them: a playback or stream request from its arrival through the two
    contexts, the dispatch and the hoops to what Plex receives or the client is answered.
  \<^item> \<open>Cache_Keys\<close> (\<open>src/account_scope.rs\<close> and the key functions of \<open>routes.rs\<close> and
    \<open>hub_cache.rs\<close>), \<open>Disk_Cache\<close> with its concurrent tasks in
    \<open>Disk_Runs\<close> (both \<open>src/disk_cache.rs\<close>), \<open>Single_Flight\<close> (\<open>src/jobs.rs\<close>),
    \<open>Hub_Cache\<close>, \<open>Warmer\<close> (both \<open>src/hub_cache.rs\<close>), \<open>Client_Cache\<close>
    (\<open>src/plex_client.rs\<close>), \<open>Global_Cache\<close> (\<open>src/cache.rs\<close>, \<open>web_assets.rs\<close>,
    \<open>error.rs\<close>) and its caching handler \<open>Response_Cache\<close>: the keys, the stores, and the background work that fills them.
  \<^item> \<open>Plex_Client\<close> (\<open>src/plex_client.rs\<close>, \<open>plex_client_from_depot\<close>) and \<open>App_State\<close>
    (\<open>src/state.rs\<close>, \<open>timeout.rs\<close>): what a request to Plex carries and where it goes, and what
    a start builds from a configuration.  \<open>Startup\<close> (\<open>src/main.rs\<close>, \<open>logging.rs\<close>): the order of
    the start, and the entries of the request log.
  \<^item> \<open>Disk_Contents\<close> and \<open>Provenance\<close>: what the files of the disk cache hold, and the caches of
    the whole server as one transition system beside the set of what Plex delivered; the handlers and
    the warmer are runs of it.  \<open>Transparency\<close>: what a client sees of the page cache in such a run.
  \<^item> \<open>Conformance_Policy\<close>, \<open>Conformance_Caches\<close>, \<open>Conformance_Keys\<close>,
    \<open>Conformance_Routes\<close>, \<open>Conformance_Hubs\<close>: the unit and route tests that stand beside the code,
    each as a definition of the test's name that says its assertions over the model, with the
    lemma that it passes.  They tie the model to what the authors expect of the code: the
    classification matrix, the keys, the disk records, and the two-account run of the library route.
  \<^item> \<open>Conformance_Identity\<close>, \<open>Conformance_Playback\<close>, \<open>Conformance_Parts\<close>: the test
    programs under \<open>tests/\<close>.  The first runs the identity chain; the other two send their requests to
    the whole service of \<open>Service\<close>, over the mock server and client of \<open>Conformance_Service\<close>, one after
    the other, and compare every status and every query that reaches Plex.

  \<^bold>\<open>Interfaces.\<close>  What several components promise alike is a locale, with its laws proved
  for each provider: a guard that lets one worker per key run (\<open>single_flight\<close>: the jobs and the
  hub refresh), a key that separates accounts (the library, artwork and hub keys), a store that gives
  back what was inserted (the metadata cache, the hero art and the response cache), a hoop that
  rewrites only some names of a query, a transform that adds no media, and a relation between states
  that every part of the warmer keeps (that its cycle is a run of the hub cache; that it writes only
  under its accounts' keys; that it stores only what was delivered).

  \<^bold>\<open>What the properties show.\<close>  The theories \<open>Playback_Properties\<close>, \<open>Cache_Properties\<close>,
  \<open>Background_Properties\<close>, \<open>Policy_Properties\<close> and \<open>Operation_Properties\<close> state them, over the inputs of
  \<open>Samples\<close>; those that span the components stand below.  C1 to C6: whatever the hoops of the playback
  routes rewrite, a restricted account only ever plays a permitted version, within its bitrate cap at the
  enforcement, is refused exactly when there is none, and is refused when it cannot be identified.
  C5 and C7
  speak of the whole request (\<open>Service\<close>), from its token to what Plex receives; C8: the route table
  sends the requests to the policy, and where an option takes precedence over it, the property says so.  C9 and C10: streams of restricted accounts are never redirected, and a
  part is served exactly when its version is permitted.  C11 to C14: the whole server as runs of steps
  (\<open>Provenance\<close>): what a cache gives an account was delivered for that account, the handlers are
  such runs, a part that is streamed is of a permitted version, and the page cache cannot be observed
  while Plex answers stably.  C15 to C18: cached pages hold no decision of a policy and belong to one
  account; filtering keeps what is permitted.
  C19 to C23: the disk cache's records, its accounting under failing file operations and under
  interleaved writers, its eviction.  C24 to C30: background work runs once per key under every
  interleaving of the tasks, the warmer is one of them, what it fetched answers the clients, and rows
  are merged without loss.  C31 to C36: upstream host, identity, policy, and choice of versions.  C37 to
  C40: configuration and administration.
  Where the code differs from its documentation, the lemmas and properties state what the code does
  (\<open>force_quality_uncaps\<close>, \<open>photo_hit_proxied\<close>, \<open>cached_identity_ignores_client\<close>,
  \<open>removal_race\<close>).

  \<^bold>\<open>Bounds and termination.\<close>  Every definition is total; no fuel is used.  The loops that are
  not structural (\<open>normalize_path\<close>, \<open>parse_attrs_loop\<close>, \<open>apply_items\<close>, \<open>interleave\<close>) have a
  termination proof, and C37 runs one of them as the loop of the code.  Times are natural numbers,
  so \<open>now - t\<close> is the saturating difference that \<open>Instant::elapsed\<close> gives.

  \<^bold>\<open>Not modelled.\<close>  The listeners and the tracing set-up (\<open>main.rs\<close>, \<open>lib.rs\<close>),
  the serialisation attributes of the data types, the embedded script engine
  (\<open>transform/scripting.rs\<close>), the test helpers and the tests against recorded JSON: none of them
  takes a decision that the modelled parts rely on.  The capacity bounds of the in-memory caches, which
  may drop entries early, are modelled only as the steps of \<open>Provenance\<close> that forget entries.
\<close>

section \<open>Where the contents of the caches come from\<close>

definition demo_site :: deployment where
  "demo_site = \<lparr>de_sha = demo_sha, de_urls = demo_urls, de_dir = ''/data'', de_max = 1000,
     de_parse = re_parse demo_route\<rparr>"

lemma demo_nothing: "contents demo_empty = {}"
  by (simp add: contents_def cache_files_def demo_empty_def)

lemma demo_site_sha: "hex_digest (de_sha demo_site)"
  by (simp add: demo_site_def demo_sha_hex)

text \<open>C11. In every run of the server from an empty disk, whatever a request could be served from a
  cache was delivered by Plex for a request of the same account and the same canonical target: library
  pages and artwork on the disk, artwork in memory, and hubs, where the promoted and home hubs may come
  from any account. The runs interleave all that writes the caches, through evictions, clearings and
  restarts. (For the disk, no two keys in use may have one digest.)\<close>

theorem cached_data_stays_with_its_account:
  assumes "web_run de ({}, fresh_web d) (L, ws)" and "contents d = {}" and "hex_digest (de_sha de)"
    and "inj_on (de_sha de)
      (known_keys de L \<union> {library_cache_key_for (de_sha de) (de_urls de) raw t,
                         photo_cache_key_for (de_sha de) (de_urls de) raw t})"
  shows "(\<forall>io r. fst (get_full (de_sha de) (de_dir de) io
             (library_cache_key_for (de_sha de) (de_urls de) raw t) (ws_disk ws)) = Some r \<longrightarrow>
      (\<exists>raw' t'. Page raw' t' (cr_body r) \<in> L \<and> token_scope (de_sha de) t' = token_scope (de_sha de) t
         \<and> canonical_library_path (de_urls de) raw' = canonical_library_path (de_urls de) raw))
    \<and> (\<forall>io r. fst (get_full (de_sha de) (de_dir de) io
             (photo_cache_key_for (de_sha de) (de_urls de) raw t) (ws_disk ws)) = Some r \<longrightarrow>
      (\<exists>raw' t'. Artwork raw' t' (cr_body r) \<in> L \<and> token_scope (de_sha de) t' = token_scope (de_sha de) t
         \<and> canonical_photo_key (de_urls de) raw' = canonical_photo_key (de_urls de) raw))
    \<and> (\<forall>img. map_of (ws_photos ws) (photo_cache_key_for (de_sha de) (de_urls de) raw t) = Some img \<longrightarrow>
      (\<exists>raw' t'. Artwork raw' t' (im_body img) \<in> L \<and> token_scope (de_sha de) t' = token_scope (de_sha de) t
         \<and> canonical_photo_key (de_urls de) raw' = canonical_photo_key (de_urls de) raw))
    \<and> (\<forall>path c. hs_payloads (ws_hub ws) (hub_cache_key (de_sha de) path t) = Some c \<longrightarrow>
      (\<exists>t'. Hub_reply path t' c \<in> L
         \<and> (global_hub path \<or> token_scope (de_sha de) t' = token_scope (de_sha de) t)))"
proof -
  have s: "sourced de (L, ws)" using assms(1,2) by (rule reachable_sourced)
  have inj: "inj_on (de_sha de) (insert k (known_keys de L))"
    if "k = library_cache_key_for (de_sha de) (de_urls de) raw t
      \<or> k = photo_cache_key_for (de_sha de) (de_urls de) raw t" for k
    using assms(4) by (rule inj_on_subset) (use that in auto)
  show ?thesis
    using sourced_page [OF s assms(3) inj] sourced_artwork [OF s assms(3) inj]
      sourced_photo [OF s assms(3)] sourced_hub [OF s assms(3)] by blast
qed

definition demo_digest :: "string \<Rightarrow> string" where
  "demo_digest k = replicate 64 (if starts_with k ''library'' then CHR ''c'' else CHR ''b'')"

lemma demo_digest_hex: "hex_digest demo_digest"
  by (auto simp: hex_digest_def demo_digest_def list_all_iff is_hexdigit_def)

definition demo_page_key :: string where
  "demo_page_key = library_cache_key_for demo_digest demo_urls demo_raw (Some ''alice'')"

lemma demo_page_stored:
  "fst (get_full demo_digest ''/data'' demo_io demo_page_key
     (snd (put_full demo_digest ''/data'' 1000 demo_io demo_page_key [1] None demo_empty)))
   = Some \<lparr>cr_content_type = None, cr_body = [1]\<rparr>"
proof -
  obtain enc where enc: "encode_record None [1] = Inr enc" "length enc = 15"
    by (auto simp: encode_record_def u64_max_def cache_magic_def)
  have hex: "list_all is_hexdigit (demo_digest demo_page_key)"
    using demo_digest_hex by (simp add: hex_digest_def)
  let ?path = "path_for_key demo_digest ''/data'' demo_page_key"
  let ?c = "commit_record demo_io ?path enc demo_empty"
  have io: "io_write demo_io" "io_rename demo_io" by (simp_all add: demo_io_def)
  have path: "is_cache_file ?path" using hex by (rule hex_name_cache)
  have small: "dk_size (snd ?c) < 1000"
    by (simp add: commit_size [OF io path] enc(2) sat_add64_def u64_max_def demo_empty_def)
  have put: "put_full demo_digest ''/data'' 1000 demo_io demo_page_key [1] None demo_empty = (Inr (), snd ?c)"
    using small commit_files(1) [OF io, of ?path enc demo_empty]
    by (cases ?c) (simp add: put_full_def enc ensure_capacity_def)
  have "fst (get_full demo_digest ''/data'' demo_io demo_page_key (snd ?c)) =
      Some \<lparr>cr_content_type = (if unwrap_or None [] = ([] :: bytes) then None else None), cr_body = [1]\<rparr>"
    by (rule put_get [OF put io hex small]) (use small in \<open>simp_all add: enc u64_max_def\<close>)
  then show ?thesis by (simp add: put)
qed

text \<open>The run that stores that page for the account.\<close>

definition demo_stored :: web_state where
  "demo_stored = (fresh_web demo_empty)\<lparr>ws_disk :=
     put_entry (demo_site\<lparr>de_sha := demo_digest\<rparr>) demo_io demo_page_key [1] None demo_empty\<rparr>"

lemma demo_stored_run:
  "web_run (demo_site\<lparr>de_sha := demo_digest\<rparr>) ({}, fresh_web demo_empty)
     ({Page demo_raw (Some ''alice'') [1]}, demo_stored)"
proof -
  have "disk_entry (demo_site\<lparr>de_sha := demo_digest\<rparr>) (Page demo_raw (Some ''alice'') [1])
      = Some (demo_page_key, [1])"
    by (simp add: demo_site_def demo_page_key_def)
  from run_put [OF this, of "{}" "fresh_web demo_empty" demo_io None] show ?thesis
    by (simp add: demo_stored_def) (simp add: fresh_web_def)
qed

lemma demo_stored_page:
  "fst (get_full demo_digest ''/data'' demo_io demo_page_key (ws_disk demo_stored))
     = Some \<lparr>cr_content_type = None, cr_body = [1]\<rparr>"
  using demo_page_stored by (simp add: demo_stored_def put_entry_def demo_site_def)

lemma demo_known: "known_keys (demo_site\<lparr>de_sha := demo_digest\<rparr>) {Page demo_raw (Some ''alice'') [1]} = {demo_page_key}"
  by (auto simp: known_keys_def demo_page_key_def demo_site_def)

theorem cached_data_stays_with_its_account_witness:
  "\<exists>L ws raw t. web_run (demo_site\<lparr>de_sha := demo_digest\<rparr>) ({}, fresh_web demo_empty) (L, ws)
     \<and> fst (get_full demo_digest ''/data'' demo_io demo_page_key (ws_disk ws)) \<noteq> None
     \<and> Page raw t [1] \<in> L \<and> token_scope demo_digest t = token_scope demo_digest (Some ''alice'')"
proof -
  let ?de = "demo_site\<lparr>de_sha := demo_digest\<rparr>" and ?x = "Page demo_raw (Some ''alice'') [1]"
  have inj: "inj_on demo_digest (insert demo_page_key
      {demo_page_key, photo_cache_key_for demo_digest demo_urls demo_raw (Some ''alice'')})"
    by (auto simp: inj_on_def demo_digest_def demo_page_key_def library_cache_key_for_def
        photo_cache_key_for_def starts_with_code)
  have sha: "hex_digest (de_sha ?de)" by (simp add: demo_digest_hex)
  note stays = cached_data_stays_with_its_account [OF demo_stored_run demo_nothing sha, of demo_raw "Some ''alice''"]
  have "\<exists>raw' t'. Page raw' t' [1] \<in> {?x} \<and> token_scope demo_digest t' = token_scope demo_digest (Some ''alice'')"
    using stays demo_stored_page inj by (fastforce simp: demo_known demo_site_def demo_page_key_def)
  with demo_stored_run demo_stored_page show ?thesis by blast
qed

text \<open>C12. The handlers are such runs, and add only what their upstream answered: the library pages, the
  routes whose responses are transformed, the artwork, the bare proxy, the hubs, the recording of part
  facts by the playback enforcement, and the cycles of the warmer.\<close>

theorem handlers_store_only_what_plex_delivered:
  assumes "web_run de ({}, fresh_web d) (L, ws)" and "contents d = {}" and "hex_digest (de_sha de)"
    and "on_site de ev" and "he_sha he = de_sha de" and "warm_site de wm"
  shows "(\<exists>D \<subseteq> {page_answer ev r raw, page_answer ev (normalized_request ev raw r) (normalized ev raw)}.
        web_run de (L, ws) (L \<union> D, snd (library_cache_lookup ev r raw ws)))
    \<and> web_run de (L, ws) (insert (page_answer ev r raw) L, snd (transformed_route ev r raw ws))
    \<and> (\<exists>D \<subseteq> {image_answer ev r raw}. web_run de (L, ws) (L \<union> D, snd (photo_route ev rewrite r raw ws)))
    \<and> web_run de (L, ws) (L, snd (proxy_request ev r raw ws))
    \<and> (\<exists>D \<subseteq> hub_answer he r. web_run de (L, ws) (L \<union> D, snd (hubs_route he r ws)))
    \<and> web_run de (L, ws) (L \<union> {Versions ms |p ms. enforced_media pe r = Some (p, ms)}, playback_effects pe r ws)
    \<and> (\<exists>D \<subseteq> warm_delivered wm. web_run de (L, ws) (L \<union> D, warm_cycle wm ws))"
proof -
  have s: "sourced de (L, ws)" using assms(1,2) by (rule reachable_sourced)
  have "\<exists>D \<subseteq> warm_delivered wm. web_run de (L, ws) (L \<union> D, warm_cycle wm ws)"
    using warm_sourced.cycle [of de wm ws] assms(6) unfolding warm_progress_def by blast
  then show ?thesis
    using library_lookup_run [OF assms(4,3) s, of r raw] transformed_route_run [OF assms(4)]
      photo_route_run [OF assms(4), of r raw L ws rewrite] proxy_run playback_run
      hubs_route_run [OF assms(5), of r L ws]
    by (intro conjI) blast+
qed

theorem handlers_store_only_what_plex_delivered_witness:
  "\<exists>D \<subseteq> {page_answer demo_route demo_page demo_raw,
        page_answer demo_route (normalized_request demo_route demo_raw demo_page) (normalized demo_route demo_raw)}.
     web_run demo_site ({}, fresh_web demo_empty)
       ({} \<union> D, snd (library_cache_lookup demo_route demo_page demo_raw (fresh_web demo_empty)))"
proof -
  have site: "on_site demo_site demo_route" "he_sha demo_hub_env = de_sha demo_site" "warm_site demo_site demo_warm"
    by (simp_all add: on_site_def warm_site_def demo_site_def demo_route_def demo_hub_env_def demo_warm_def)
  have "web_run demo_site ({}, fresh_web demo_empty) ({}, fresh_web demo_empty)" by simp
  from conjunct1 [OF handlers_store_only_what_plex_delivered [OF this demo_nothing demo_site_sha site]]
  show ?thesis .
qed



text \<open>C14. The page cache cannot be seen: in every run of the server in which Plex answers each canonical
  page of an account in one way, a library request is answered with the content type and the bytes
  that fetching and transforming the page would give, or fails as that would, whatever the caches
  hold, lost or evicted before.\<close>

theorem library_cache_is_transparent:
  assumes "web_run de ({}, fresh_web d) (L, ws)" and "contents d = {}" and "hex_digest (de_sha de)"
    and "on_site de ev" and "inj_on (de_sha de) (insert (page_key ev raw r) (known_keys de L))"
    and "plex_is_stable de plex L"
    and "take_bytes (an_body (live_page ev r raw)) = Some (plex (page_key ev raw r))"
    and "unwrap_or (an_status (live_page ev r raw)) 200 = 200"
    and "starts_with (rq_path r) library_prefix"
  shows "outcome_shown (fst (library_cache_lookup ev r raw ws)) = outcome_shown (uncached_page ev r raw ws)"
  using cache_unobservable [OF reachable_sourced [OF assms(1,2)] assms(3,6,4,5,9,7,8)] .

theorem library_cache_is_transparent_witness:
  "web_run (demo_site\<lparr>de_sha := demo_digest\<rparr>) ({}, fresh_web demo_empty)
     ({Page demo_raw (Some ''alice'') [1]}, demo_stored)
   \<and> outcome_shown (fst (library_cache_lookup (demo_route\<lparr>re_sha := demo_digest\<rparr>) demo_page demo_raw demo_stored))
     = outcome_shown (uncached_page (demo_route\<lparr>re_sha := demo_digest\<rparr>) demo_page demo_raw demo_stored)"
proof -
  let ?de = "demo_site\<lparr>de_sha := demo_digest\<rparr>" and ?ev = "demo_route\<lparr>re_sha := demo_digest\<rparr>"
  have site: "on_site ?de ?ev" by (simp add: on_site_def demo_site_def demo_route_def)
  have "request_token demo_page = Some ''alice''" by code_simp
  then have key: "page_key ?ev demo_raw demo_page = demo_page_key"
    by (simp add: page_key_def library_cache_key_def demo_page_key_def demo_route_def)
  have inj: "inj_on (de_sha ?de) (insert (page_key ?ev demo_raw demo_page)
      (known_keys ?de {Page demo_raw (Some ''alice'') [1]}))"
    by (simp add: key demo_known)
  have stable: "plex_is_stable ?de (\<lambda>_. [1]) {Page demo_raw (Some ''alice'') [1]}"
    by (simp add: plex_is_stable_def)
  have live: "take_bytes (an_body (live_page ?ev demo_page demo_raw)) = Some [1]"
    "unwrap_or (an_status (live_page ?ev demo_page demo_raw)) 200 = 200"
    by (simp_all add: live_page_def proxy_for_transform_def demo_route_def take_bytes_def)
  have path: "starts_with (rq_path demo_page) library_prefix"
    by (simp add: demo_page_def library_prefix_def starts_with_code)
  have sha: "hex_digest (de_sha ?de)" by (simp add: demo_digest_hex)
  from library_cache_is_transparent [OF demo_stored_run demo_nothing sha site inj stable live path]
    demo_stored_run show ?thesis by simp
qed

end
